(* ===== verification/Prelude.thy ===== *)
theory Prelude
  imports Main "HOL-Library.Sublist"
begin

text \<open>
  What every component of the development shares: the exceptions the Python code raises
  (\<open>exc\<close>), results \<open>exc + 'a\<close> with their sequencing \<open>bindE\<close>, instants, and the
  generic facts on lists that the table operations of the store rest on. The collections
  \<open>txn\<close> (equations that unfold one transaction), \<open>tables\<close> (equations of the table
  operations) and \<open>guards\<close> (equations of the guard predicates) carry the component
  proofs.
\<close>

named_theorems txn "equations that unfold a transaction step by step"
named_theorems tables "equations of the table operations"
named_theorems guards "definitions of guards and validation predicates"

section \<open>Exceptions and results\<close>

text \<open>
  The exceptions the modelled code raises or lets through. A message is kept where the
  code reads it back (\<open>str(exc)\<close>). \<open>SequenceCollisionError\<close>, \<open>TrainingError\<close>,
  \<open>ArtifactError\<close> and pydantic's \<open>ValidationError\<close> are subclasses of
  \<open>ValueError\<close>; \<open>is_value_error\<close> is what \<open>except ValueError\<close> catches.
\<close>

datatype exc =
    ValueError string
  | ValidationError nat
  | SequenceCollisionError string
  | TrainingError string
  | ArtifactError string
  | TypeError
  | KeyError
  | IndexError
  | AttributeError
  | ZeroDivisionError
  | IntegrityError
  | DataError
  | HTTPException nat string
  | UnicodeDecodeError
  | JSONDecodeError
  | RecursionError
  | OSError
  | OtherException string

fun is_value_error :: "exc \<Rightarrow> bool" where
  "is_value_error (ValueError _) = True"
| "is_value_error (ValidationError _) = True"
| "is_value_error (SequenceCollisionError _) = True"
| "is_value_error (TrainingError _) = True"
| "is_value_error (ArtifactError _) = True"
| "is_value_error UnicodeDecodeError = True"
| "is_value_error JSONDecodeError = True"
| "is_value_error _ = False"

text \<open>\<open>type(exc).__name__\<close>; \<open>OtherException n\<close> stands for a class named \<open>n\<close> that is none of these.\<close>

fun exc_name :: "exc \<Rightarrow> string" where
  "exc_name (ValueError _) = ''ValueError''"
| "exc_name (ValidationError _) = ''ValidationError''"
| "exc_name (SequenceCollisionError _) = ''SequenceCollisionError''"
| "exc_name (TrainingError _) = ''TrainingError''"
| "exc_name (ArtifactError _) = ''ArtifactError''"
| "exc_name TypeError = ''TypeError''"
| "exc_name KeyError = ''KeyError''"
| "exc_name IndexError = ''IndexError''"
| "exc_name AttributeError = ''AttributeError''"
| "exc_name ZeroDivisionError = ''ZeroDivisionError''"
| "exc_name IntegrityError = ''IntegrityError''"
| "exc_name DataError = ''DataError''"
| "exc_name (HTTPException _ _) = ''HTTPException''"
| "exc_name UnicodeDecodeError = ''UnicodeDecodeError''"
| "exc_name JSONDecodeError = ''JSONDecodeError''"
| "exc_name RecursionError = ''RecursionError''"
| "exc_name OSError = ''OSError''"
| "exc_name (OtherException n) = n"

type_synonym 'a res = "exc + 'a"

definition bindE :: "'a res \<Rightarrow> ('a \<Rightarrow> 'b res) \<Rightarrow> 'b res" where
  "bindE m f = (case m of Inl e \<Rightarrow> Inl e | Inr a \<Rightarrow> f a)"

lemma bindE_simps [simp]:
  "bindE (Inl e) f = Inl e"
  "bindE (Inr a) f = f a"
  by (simp_all add: bindE_def)

lemma bindE_eq_Inr [simp]: "bindE m f = Inr b \<longleftrightarrow> (\<exists>a. m = Inr a \<and> f a = Inr b)"
  by (cases m) auto

lemma bindE_InrE:
  assumes "bindE m f = Inr b"
  obtains a where "m = Inr a" "f a = Inr b"
  using assms by auto

lemma bindE_eq_Inl: "bindE m f = Inl e \<longleftrightarrow> m = Inl e \<or> (\<exists>a. m = Inr a \<and> f a = Inl e)"
  by (cases m) auto

lemma bindE_assoc: "bindE (bindE m f) g = bindE m (\<lambda>a. bindE (f a) g)"
  by (cases m) auto

text \<open>A loop whose body may raise, collecting what it returns.\<close>

fun mapE :: "('a \<Rightarrow> 'b res) \<Rightarrow> 'a list \<Rightarrow> 'b list res" where
  "mapE f [] = Inr []"
| "mapE f (x # xs) = bindE (f x) (\<lambda>y. bindE (mapE f xs) (\<lambda>ys. Inr (y # ys)))"

lemma mapE_total: "(\<And>x. x \<in> set xs \<Longrightarrow> \<exists>y. f x = Inr y) \<Longrightarrow> \<exists>ys. mapE f xs = Inr ys"
  by (induction xs) fastforce+

lemma mapE_all: "mapE f xs = Inr ys \<Longrightarrow> list_all2 (\<lambda>x y. f x = Inr y) xs ys"
  by (induction xs arbitrary: ys) auto

lemma mapE_pure: "(\<And>x. x \<in> set xs \<Longrightarrow> f x = Inr (g x)) \<Longrightarrow> mapE f xs = Inr (map g xs)"
  by (induction xs) auto

text \<open>Raising when a guard holds, the shape of \<open>if cond: raise exc\<close>.\<close>

definition raise_if :: "bool \<Rightarrow> exc \<Rightarrow> unit res" where
  "raise_if c e = (if c then Inl e else Inr ())"

lemma raise_if_simps [simp]:
  "raise_if True e = Inl e"
  "raise_if False e = Inr ()"
  "raise_if c e = Inr u \<longleftrightarrow> \<not> c"
  "raise_if c e = Inl e' \<longleftrightarrow> c \<and> e' = e"
  by (auto simp: raise_if_def)

section \<open>Time\<close>

text \<open>
  An instant is a number of microseconds since the epoch (the resolution of Python's
  \<open>datetime\<close>); a \<open>timedelta\<close> is a difference of instants. A \<open>datetime\<close> is aware
  (an instant in UTC) or naive (a wall-clock reading without an offset): ordering an
  aware against a naive one raises \<open>TypeError\<close>.
\<close>

datatype pydatetime = Aware int | Naive int

fun dt_less :: "pydatetime \<Rightarrow> pydatetime \<Rightarrow> bool res" where
  "dt_less (Aware a) (Aware b) = Inr (a < b)"
| "dt_less (Naive a) (Naive b) = Inr (a < b)"
| "dt_less _ _ = Inl TypeError"

fun dt_le :: "pydatetime \<Rightarrow> pydatetime \<Rightarrow> bool res" where
  "dt_le (Aware a) (Aware b) = Inr (a \<le> b)"
| "dt_le (Naive a) (Naive b) = Inr (a \<le> b)"
| "dt_le _ _ = Inl TypeError"

fun dt_diff :: "pydatetime \<Rightarrow> pydatetime \<Rightarrow> int res" where
  "dt_diff (Aware a) (Aware b) = Inr (a - b)"
| "dt_diff (Naive a) (Naive b) = Inr (a - b)"
| "dt_diff _ _ = Inl TypeError"

fun dt_shift :: "pydatetime \<Rightarrow> int \<Rightarrow> pydatetime" where
  "dt_shift (Aware a) d = Aware (a + d)"
| "dt_shift (Naive a) d = Naive (a + d)"

fun dt_us :: "pydatetime \<Rightarrow> int" where
  "dt_us (Aware a) = a"
| "dt_us (Naive a) = a"

abbreviation microseconds_per_second :: int where
  "microseconds_per_second \<equiv> 1000000"

definition seconds :: "int \<Rightarrow> int" where
  "seconds n = n * microseconds_per_second"

definition days :: "int \<Rightarrow> int" where
  "days n = seconds (86400 * n)"

definition hours :: "int \<Rightarrow> int" where
  "hours n = seconds (3600 * n)"

section \<open>Lists as tables\<close>

text \<open>
  A table is the list of its rows in the order they were inserted. \<open>row_get\<close> is a lookup
  by key (\<open>session.get\<close>), \<open>row_put\<close> an update of the row with a key, \<open>row_fresh\<close> the
  next value of an integer primary key.
\<close>

definition row_get :: "('r \<Rightarrow> 'k) \<Rightarrow> 'k \<Rightarrow> 'r list \<Rightarrow> 'r option" where
  "row_get key k rs = find (\<lambda>r. key r = k) rs"

definition row_put :: "('r \<Rightarrow> 'k) \<Rightarrow> 'k \<Rightarrow> ('r \<Rightarrow> 'r) \<Rightarrow> 'r list \<Rightarrow> 'r list" where
  "row_put key k f rs = map (\<lambda>r. if key r = k then f r else r) rs"

definition row_fresh :: "('r \<Rightarrow> nat) \<Rightarrow> 'r list \<Rightarrow> nat" where
  "row_fresh key rs = Suc (foldr (\<lambda>r m. max (key r) m) rs 0)"

lemma row_get_Nil [simp]: "row_get key k [] = None"
  by (simp add: row_get_def)

lemma row_get_Cons [simp]:
  "row_get key k (r # rs) = (if key r = k then Some r else row_get key k rs)"
  by (simp add: row_get_def)

lemma row_get_None_iff: "row_get key k rs = None \<longleftrightarrow> k \<notin> key ` set rs"
  by (induction rs) auto

lemma row_get_SomeD: "row_get key k rs = Some r \<Longrightarrow> r \<in> set rs \<and> key r = k"
  by (induction rs) (auto split: if_splits)

lemma row_get_eq_Some_iff:
  "distinct (map key rs) \<Longrightarrow> row_get key k rs = Some r \<longleftrightarrow> r \<in> set rs \<and> key r = k"
  by (induction rs) (auto intro: rev_image_eqI)

lemma row_get_append:
  "row_get key k (rs @ ss) = (case row_get key k rs of Some r \<Rightarrow> Some r | None \<Rightarrow> row_get key k ss)"
  by (induction rs) auto

lemma row_get_put_same:
  "(\<And>r. key (f r) = key r) \<Longrightarrow> row_get key k (row_put key k f rs) = map_option f (row_get key k rs)"
  by (induction rs) (auto simp: row_put_def)

lemma row_get_put_other:
  "(\<And>r. key (f r) = key r) \<Longrightarrow> k \<noteq> k' \<Longrightarrow> row_get key k' (row_put key k f rs) = row_get key k' rs"
  by (induction rs) (auto simp: row_put_def)

lemma map_row_put:
  "(\<And>r. g (f r) = g r) \<Longrightarrow> map g (row_put key k f rs) = map g rs"
  by (simp add: row_put_def)

lemma set_row_put: "set (row_put key k f rs) = (\<lambda>r. if key r = k then f r else r) ` set rs"
  by (simp add: row_put_def)

lemma length_row_put [simp]: "length (row_put key k f rs) = length rs"
  by (simp add: row_put_def)

lemma row_put_id: "k \<notin> key ` set rs \<Longrightarrow> row_put key k f rs = rs"
  by (induction rs) (auto simp: row_put_def)

lemma row_fresh_gt: "r \<in> set rs \<Longrightarrow> key r < row_fresh key rs"
  by (induction rs) (auto simp: row_fresh_def less_Suc_eq_le le_max_iff_disj)

lemma row_fresh_notin: "row_fresh key rs \<notin> key ` set rs"
  using row_fresh_gt [of _ rs key] by fastforce

lemma filter_le_one_append:
  "length (filter P xs) \<le> 1 \<Longrightarrow> filter P xs = [] \<or> \<not> P y \<Longrightarrow> length (filter P (xs @ [y])) \<le> 1"
  by auto

lemma find_None_filter: "find P xs = None \<longleftrightarrow> filter P xs = []"
  by (induction xs) auto

lemma find_SomeD: "find P xs = Some x \<Longrightarrow> x \<in> set xs \<and> P x"
  by (induction xs) (auto split: if_splits)

end
