(* ===== verification/Texts.thy ===== *)
theory Texts
  imports Prelude "HOL-Library.Char_ord"
begin

text \<open>
  The string operations of Python that the code uses, on \<open>string\<close> read as a list of
  code points below 256 (the literals of the source are ASCII or Latin-1): \<open>split\<close> on
  one character, \<open>join\<close>, \<open>strip\<close>, \<open>lower\<close>, \<open>capitalize\<close>, \<open>replace\<close> of one
  character, \<open>startswith\<close>, \<open>str\<close> of an integer, and the identifier pattern of the
  message contracts.
\<close>

section \<open>split and join\<close>

fun split_on :: "char \<Rightarrow> string \<Rightarrow> string list" where
  "split_on c [] = [[]]"
| "split_on c (x # xs) =
     (if x = c then [] # split_on c xs
      else (case split_on c xs of [] \<Rightarrow> [[x]] | p # ps \<Rightarrow> (x # p) # ps))"

fun join_with :: "string \<Rightarrow> string list \<Rightarrow> string" where
  "join_with sep [] = []"
| "join_with sep [p] = p"
| "join_with sep (p # q # ps) = p @ sep @ join_with sep (q # ps)"

lemma split_on_nonempty [simp]: "split_on c xs \<noteq> []"
  by (induction xs) (auto split: list.splits)

lemma split_on_no_sep: "c \<notin> set xs \<Longrightarrow> split_on c xs = [xs]"
  by (induction xs) auto

lemma split_on_append_sep:
  "c \<notin> set p \<Longrightarrow> split_on c (p @ c # xs) = p # split_on c xs"
  by (induction p) auto

lemma split_on_join:
  "ps \<noteq> [] \<Longrightarrow> \<forall>p \<in> set ps. c \<notin> set p \<Longrightarrow> split_on c (join_with [c] ps) = ps"
proof (induction "[c]" ps rule: join_with.induct)
  case (3 p q ps)
  then show ?case by (simp add: split_on_append_sep)
qed (auto simp: split_on_no_sep)

lemma join_Cons: "ps \<noteq> [] \<Longrightarrow> join_with sep (p # ps) = p @ sep @ join_with sep ps"
  by (cases ps) auto

lemma join_split_on: "join_with [c] (split_on c xs) = xs"
proof (induction xs)
  case (Cons x xs)
  obtain p ps where sp: "split_on c xs = p # ps"
    by (cases "split_on c xs") auto
  show ?case
  proof (cases "x = c")
    case True
    then show ?thesis using Cons.IH by (simp add: join_Cons)
  next
    case False
    have "join_with [c] ((x # p) # ps) = x # join_with [c] (p # ps)"
      by (cases ps) auto
    then show ?thesis using False Cons.IH sp by simp
  qed
qed simp

lemma split_on_parts_no_sep: "p \<in> set (split_on c xs) \<Longrightarrow> c \<notin> set p"
  by (induction xs arbitrary: p) (auto split: if_splits list.splits)

section \<open>Case, trimming, replacing\<close>

definition upper_ascii :: "char \<Rightarrow> bool" where
  "upper_ascii c = (CHR ''A'' \<le> c \<and> c \<le> CHR ''Z'')"

definition lower_ascii :: "char \<Rightarrow> bool" where
  "lower_ascii c = (CHR ''a'' \<le> c \<and> c \<le> CHR ''z'')"

definition digit_ascii :: "char \<Rightarrow> bool" where
  "digit_ascii c = (CHR ''0'' \<le> c \<and> c \<le> CHR ''9'')"

definition lower_char :: "char \<Rightarrow> char" where
  "lower_char c = (if upper_ascii c then char_of (of_char c + 32 :: nat) else c)"

definition upper_char :: "char \<Rightarrow> char" where
  "upper_char c = (if lower_ascii c then char_of (of_char c - 32 :: nat) else c)"

definition str_lower :: "string \<Rightarrow> string" where
  "str_lower s = map lower_char s"

fun str_capitalize :: "string \<Rightarrow> string" where
  "str_capitalize [] = []"
| "str_capitalize (c # cs) = upper_char c # str_lower cs"

definition replace_char :: "char \<Rightarrow> char \<Rightarrow> string \<Rightarrow> string" where
  "replace_char a b s = map (\<lambda>c. if c = a then b else c) s"

text \<open>The characters \<open>str.strip()\<close> removes, below code point 256.\<close>

definition is_space :: "char \<Rightarrow> bool" where
  "is_space c = ((of_char c :: nat) \<in> {9, 10, 11, 12, 13, 28, 29, 30, 31, 32, 133, 160})"

definition str_strip :: "string \<Rightarrow> string" where
  "str_strip s = rev (dropWhile is_space (rev (dropWhile is_space s)))"

definition starts_with :: "string \<Rightarrow> string \<Rightarrow> bool" where
  "starts_with p s = (take (length p) s = p)"

lemma starts_with_append [simp]: "starts_with p (p @ s)"
  by (simp add: starts_with_def)

lemma str_strip_id: "\<forall>c \<in> set s. \<not> is_space c \<Longrightarrow> str_strip s = s"
proof -
  assume "\<forall>c \<in> set s. \<not> is_space c"
  then have "dropWhile is_space s = s" and "dropWhile is_space (rev s) = rev s"
    by (auto simp: dropWhile_eq_self_iff) (metis hd_in_set set_rev rev_is_Nil_conv)
  then show ?thesis by (simp add: str_strip_def)
qed

section \<open>Integers as text\<close>

fun digits_of :: "nat \<Rightarrow> string" where
  "digits_of n =
     (if n < 10 then [char_of (48 + n)] else digits_of (n div 10) @ [char_of (48 + n mod 10)])"

declare digits_of.simps [simp del]

definition str_of_int :: "int \<Rightarrow> string" where
  "str_of_int i = (if i < 0 then CHR ''-'' # digits_of (nat (- i)) else digits_of (nat i))"

section \<open>The identifier pattern\<close>

text \<open>
  \<open>^[a-z0-9][a-z0-9-]{0,62}$\<close>, matched against the whole string, as
  \<open>IDENTIFIER_PATTERN.fullmatch\<close> and the \<open>Field(pattern=...)\<close> of the contract models do.
\<close>

definition ident_head :: "char \<Rightarrow> bool" where
  "ident_head c = (lower_ascii c \<or> digit_ascii c)"

definition ident_tail :: "char \<Rightarrow> bool" where
  "ident_tail c = (ident_head c \<or> c = CHR ''-'')"

fun identifier_ok :: "string \<Rightarrow> bool" where
  "identifier_ok [] = False"
| "identifier_ok (c # cs) = (ident_head c \<and> list_all ident_tail cs \<and> length cs \<le> 62)"

lemma identifier_chars: "identifier_ok s \<Longrightarrow> c \<in> set s \<Longrightarrow> ident_tail c"
  by (cases s) (auto simp: ident_tail_def list_all_iff)

lemma ident_tail_no_slash: "\<not> ident_tail (CHR ''/'')"
  by (simp add: ident_tail_def ident_head_def lower_ascii_def digit_ascii_def less_eq_char_def)

lemma identifier_no_slash: "identifier_ok s \<Longrightarrow> CHR ''/'' \<notin> set s"
  using identifier_chars ident_tail_no_slash by blast

lemma identifier_nonempty: "identifier_ok s \<Longrightarrow> s \<noteq> []"
  by auto

lemma identifier_length: "identifier_ok s \<Longrightarrow> length s \<le> 63"
  by (cases s) auto

end
