(* ===== verification/Topics.thy ===== *)
theory Topics
  imports Texts
begin

text \<open>
  \<open>contracts/mqtt_topics.py\<close> and the topic parser of \<open>services/mqtt_ingestor/main.py\<close>:
  the kinds of message, the construction of a version-1 topic, the subscriptions, and
  \<open>parse_topic\<close>, which the ingestor runs on every message it receives.
\<close>

section \<open>Topic kinds\<close>

datatype topic_kind = TELEMETRY | HEALTH | EVENTS | COMMANDS | COMMAND_ACKS | AVAILABILITY

fun kind_value :: "topic_kind \<Rightarrow> string" where
  "kind_value TELEMETRY = ''telemetry''"
| "kind_value HEALTH = ''health''"
| "kind_value EVENTS = ''events''"
| "kind_value COMMANDS = ''commands''"
| "kind_value COMMAND_ACKS = ''command-acks''"
| "kind_value AVAILABILITY = ''availability''"

definition topic_kinds :: "topic_kind list" where
  "topic_kinds = [TELEMETRY, HEALTH, EVENTS, COMMANDS, COMMAND_ACKS, AVAILABILITY]"

text \<open>\<open>TopicKind(value)\<close>: the member with that value, or \<open>ValueError\<close>.\<close>

definition kind_of_value :: "string \<Rightarrow> topic_kind option" where
  "kind_of_value s = find (\<lambda>k. kind_value k = s) topic_kinds"

lemma kind_of_value_value [simp]: "kind_of_value (kind_value k) = Some k"
  by (cases k) (simp_all add: kind_of_value_def topic_kinds_def)

lemma kind_of_value_SomeD: "kind_of_value s = Some k \<Longrightarrow> s = kind_value k"
  unfolding kind_of_value_def using find_SomeD [of "\<lambda>k. kind_value k = s"] by auto

lemma kind_value_inj: "kind_value k = kind_value k' \<Longrightarrow> k = k'"
  by (metis kind_of_value_value option.inject)

lemma kind_value_no_slash: "CHR ''/'' \<notin> set (kind_value k)"
  by (cases k) simp_all

section \<open>Building topics\<close>

definition TOPIC_VERSION :: string where "TOPIC_VERSION = ''v1''"
definition TOPIC_ROOT :: string where "TOPIC_ROOT = ''iiot''"
definition MAX_PAYLOAD_BYTES :: nat where "MAX_PAYLOAD_BYTES = 16 * 1024"

definition topic :: "string \<Rightarrow> string \<Rightarrow> topic_kind \<Rightarrow> string res" where
  "topic site_id device_id kind =
     bindE (raise_if (\<not> identifier_ok site_id) (ValueError ''invalid site_id'')) (\<lambda>_.
     bindE (raise_if (\<not> identifier_ok device_id) (ValueError ''invalid device_id'')) (\<lambda>_.
     Inr (TOPIC_ROOT @ ''/'' @ TOPIC_VERSION @ ''/'' @ site_id @ ''/'' @ device_id @ ''/''
          @ kind_value kind)))"

definition subscription :: "topic_kind \<Rightarrow> string" where
  "subscription kind = TOPIC_ROOT @ ''/'' @ TOPIC_VERSION @ ''/+/+/'' @ kind_value kind"

definition telemetry_subscription :: string where
  "telemetry_subscription = subscription TELEMETRY"

section \<open>Parsing topics\<close>

record parsed_topic =
  pt_site_id :: string
  pt_device_id :: string
  pt_kind :: topic_kind

definition parse_topic :: "string \<Rightarrow> parsed_topic res" where
  "parse_topic value =
     (let parts = split_on (CHR ''/'') value in
      bindE (raise_if (length parts \<noteq> 5 \<or> take 2 parts \<noteq> [''iiot'', ''v1''])
               (ValueError ''topic is not a version-1 application topic'')) (\<lambda>_.
      case kind_of_value (parts ! 4) of
        None \<Rightarrow> Inl (ValueError ''topic kind is not supported'')
      | Some kind \<Rightarrow>
          Inr \<lparr>pt_site_id = parts ! 2, pt_device_id = parts ! 3, pt_kind = kind\<rparr>))"

definition parse_telemetry_topic :: "string \<Rightarrow> parsed_topic res" where
  "parse_telemetry_topic value =
     bindE (parse_topic value) (\<lambda>parsed.
     bindE (raise_if (pt_kind parsed \<noteq> TELEMETRY)
              (ValueError ''topic is not a version-1 telemetry topic'')) (\<lambda>_.
     Inr parsed))"

text \<open>
  The MQTT broker's matching of one topic against a subscription filter with
  single-level wildcards: level by level, \<open>+\<close> matching any one level.
\<close>

definition matches_filter :: "string \<Rightarrow> string \<Rightarrow> bool" where
  "matches_filter flt t =
     list_all2 (\<lambda>f l. f = ''+'' \<or> f = l) (split_on (CHR ''/'') flt) (split_on (CHR ''/'') t)"

section \<open>Properties\<close>

lemma topic_join:
  "topic s d k = Inr t \<longleftrightarrow>
     identifier_ok s \<and> identifier_ok d \<and>
     t = join_with [CHR ''/''] [''iiot'', ''v1'', s, d, kind_value k]"
  by (auto simp: topic_def TOPIC_ROOT_def TOPIC_VERSION_def)

lemma split_topic:
  assumes "topic s d k = Inr t"
  shows "split_on (CHR ''/'') t = [''iiot'', ''v1'', s, d, kind_value k]"
proof -
  have "\<forall>p \<in> set [''iiot'', ''v1'', s, d, kind_value k]. CHR ''/'' \<notin> set p"
    using assms identifier_no_slash kind_value_no_slash by (auto simp: topic_join)
  with assms show ?thesis
    by (metis split_on_join topic_join list.distinct(1))
qed

lemma parse_topic_shape:
  assumes "parse_topic t = Inr p"
  shows "split_on (CHR ''/'') t =
           [''iiot'', ''v1'', pt_site_id p, pt_device_id p, kind_value (pt_kind p)]"
proof -
  let ?parts = "split_on (CHR ''/'') t"
  from assms have len: "length ?parts = 5" and pre: "take 2 ?parts = [''iiot'', ''v1'']"
    and p: "?parts ! 2 = pt_site_id p" "?parts ! 3 = pt_device_id p"
           "kind_of_value (?parts ! 4) = Some (pt_kind p)"
    by (auto simp: parse_topic_def Let_def split: option.splits)
  then obtain a b c d e where "?parts = [a, b, c, d, e]"
    by (auto simp: numeral_eq_Suc length_Suc_conv)
  with pre p kind_of_value_SomeD show ?thesis
    by (auto simp: numeral_eq_Suc)
qed

text \<open>A topic that the code builds is parsed back to the identities and the kind it was built from.\<close>

theorem parse_topic_topic:
  assumes "topic s d k = Inr t"
  shows "parse_topic t = Inr \<lparr>pt_site_id = s, pt_device_id = d, pt_kind = k\<rparr>"
  by (simp add: parse_topic_def Let_def split_topic [OF assms])

theorem parse_topic_topic_witness:
  "parse_topic ''iiot/v1/workshop-demo/motor-01/health'' =
     Inr \<lparr>pt_site_id = ''workshop-demo'', pt_device_id = ''motor-01'', pt_kind = HEALTH\<rparr>"
proof (rule parse_topic_topic)
  show "topic ''workshop-demo'' ''motor-01'' HEALTH = Inr ''iiot/v1/workshop-demo/motor-01/health''"
    by code_simp
qed

end
