(* ===== verification/PyFloat.thy ===== *)
theory PyFloat
  imports Texts "HOL-Library.Log_Nat" Complex_Main
begin

text \<open>
  Python's \<open>float\<close> is an IEEE 754 binary64 number. A finite float is the rational number
  it stands for; every arithmetic operation is the exact rational operation followed by
  \<open>rnd\<close>, rounding to nearest with ties to even at 53 bits and least exponent \<open>-1074\<close>.
  The sign of a zero is not kept: no modelled operation divides by a zero or reads a
  zero's sign. \<open>rnd\<close> is executable; it is monotone, odd, idempotent, and the identity on
  \<open>m * 2 ^ e\<close> with \<open>m\<close> of at most 53 bits, which is what the proofs use.
\<close>

section \<open>Rounding to binary64\<close>

text \<open>The binary exponent: \<open>2 ^ bexp x \<le> \<bar>x\<bar> < 2 ^ (bexp x + 1)\<close>.\<close>

definition bexp :: "rat \<Rightarrow> int" where
  "bexp x = (let (n, d) = quotient_of \<bar>x\<bar>; e = bitlen n - bitlen d
             in if 2 powi e \<le> \<bar>x\<bar> then e else e - 1)"

definition qexp :: "rat \<Rightarrow> int" where
  "qexp x = max (bexp x - 52) (- 1074)"

definition round_even :: "rat \<Rightarrow> int" where
  "round_even y = (let f = \<lfloor>y\<rfloor>; r = y - of_int f
                   in if r < 1/2 \<or> (r = 1/2 \<and> even f) then f else f + 1)"

definition rnd :: "rat \<Rightarrow> rat" where
  "rnd x = (if x = 0 then 0 else of_int (round_even (x / 2 powi qexp x)) * 2 powi qexp x)"

lemma two_powi_pos [simp]: "0 < (2::rat) powi e"
  by simp

lemma bexp_bounds:
  assumes "x \<noteq> 0"
  shows "2 powi bexp x \<le> \<bar>x\<bar>" and "\<bar>x\<bar> < 2 powi (bexp x + 1)"
proof -
  obtain n d where nd: "quotient_of \<bar>x\<bar> = (n, d)" by (cases "quotient_of \<bar>x\<bar>")
  then have d: "d > 0" and xe: "\<bar>x\<bar> = of_int n / of_int d"
    using quotient_of_denom_pos quotient_of_div by blast+
  with assms have n: "n > 0"
    by (metis divide_le_0_iff less_le_not_le linorder_not_le of_int_0_less_iff
        of_int_le_0_iff zero_less_abs_iff)
  define e where "e = bitlen n - bitlen d"
  have nb: "2 ^ nat (bitlen n - 1) \<le> n" "n < 2 ^ nat (bitlen n)"
    and db: "2 ^ nat (bitlen d - 1) \<le> d" "d < 2 ^ nat (bitlen d)"
    using bitlen_bounds n d by auto
  have pos: "bitlen n > 0" "bitlen d > 0"
    using n d bitlen_eq_zero_iff bitlen_nonneg by (smt (verit))+
  have pw: "(2::rat) powi k = of_int (2 ^ nat k)" if "k \<ge> 0" for k :: int
    using that by (simp add: power_int_def)
  have nr: "(2::rat) powi (bitlen n - 1) \<le> of_int n" "of_int n < (2::rat) powi bitlen n"
    using nb pos by (simp_all only: pw of_int_le_iff of_int_less_iff)
  have dr: "(2::rat) powi (bitlen d - 1) \<le> of_int d" "of_int d < (2::rat) powi bitlen d"
    using db pos by (simp_all only: pw of_int_le_iff of_int_less_iff)
  have up: "\<bar>x\<bar> < 2 powi (e + 1)"
  proof -
    have "\<bar>x\<bar> < 2 powi bitlen n / 2 powi (bitlen d - 1)"
      unfolding xe using nr dr d n by (intro frac_less) auto
    also have "\<dots> = 2 powi (e + 1)"
      by (simp add: e_def power_int_diff [symmetric] algebra_simps)
    finally show ?thesis .
  qed
  have lo: "2 powi (e - 1) \<le> \<bar>x\<bar>"
  proof -
    have "2 powi (e - 1) = (2::rat) powi (bitlen n - 1) / 2 powi bitlen d"
      by (simp add: e_def power_int_diff [symmetric] algebra_simps)
    also have "\<dots> \<le> \<bar>x\<bar>"
      unfolding xe using nr dr d n by (intro frac_le) auto
    finally show ?thesis .
  qed
  have be: "bexp x = (if 2 powi e \<le> \<bar>x\<bar> then e else e - 1)"
    by (simp add: bexp_def nd e_def)
  show "2 powi bexp x \<le> \<bar>x\<bar>" using be lo by auto
  show "\<bar>x\<bar> < 2 powi (bexp x + 1)" using be up by auto
qed

lemma powi_less_iff [simp]: "(2::rat) powi a < 2 powi b \<longleftrightarrow> a < b"
  by (metis less_le_not_le linorder_not_le one_less_numeral_iff order_less_imp_le power_int_increasing
      power_int_strict_increasing semiring_norm(76) one_le_numeral)

lemma powi_le_iff [simp]: "(2::rat) powi a \<le> 2 powi b \<longleftrightarrow> a \<le> b"
  using powi_less_iff [of b a] by linarith

lemma bexp_unique:
  assumes "2 powi e \<le> \<bar>x\<bar>" "\<bar>x\<bar> < 2 powi (e + 1)"
  shows "bexp x = e"
proof -
  have "x \<noteq> 0" using assms two_powi_pos [of e] by fastforce
  from bexp_bounds [OF this] assms have "2 powi bexp x < (2::rat) powi (e + 1)"
    "2 powi e < (2::rat) powi (bexp x + 1)" by linarith+
  then show ?thesis by simp
qed

lemma bexp_mono: "x \<noteq> 0 \<Longrightarrow> \<bar>x\<bar> \<le> \<bar>y\<bar> \<Longrightarrow> bexp x \<le> bexp y"
  using bexp_bounds [of x] bexp_bounds [of y] powi_less_iff [of "bexp x" "bexp y + 1"]
  by fastforce

lemma bexp_minus [simp]: "bexp (- x) = bexp x"
  by (simp add: bexp_def)

lemma qexp_minus [simp]: "qexp (- x) = qexp x"
  by (simp add: qexp_def)

lemma round_even_of_int [simp]: "round_even (of_int i) = i"
  by (simp add: round_even_def)

lemma round_even_bounds: "of_int (round_even y) - 1/2 \<le> y \<and> y \<le> of_int (round_even y) + 1/2"
proof -
  define r where "r = y - of_int \<lfloor>y\<rfloor>"
  have "0 \<le> r" "r < 1" "y = of_int \<lfloor>y\<rfloor> + r"
    unfolding r_def using floor_correct [of y] by linarith+
  moreover have "round_even y = (if r < 1/2 \<or> (r = 1/2 \<and> even \<lfloor>y\<rfloor>) then \<lfloor>y\<rfloor> else \<lfloor>y\<rfloor> + 1)"
    by (simp add: round_even_def Let_def r_def)
  ultimately show ?thesis by (simp split: if_splits)
qed

lemma round_even_mono: "x \<le> y \<Longrightarrow> round_even x \<le> round_even y"
proof (cases "\<lfloor>x\<rfloor> = \<lfloor>y\<rfloor>")
  case True
  then show "x \<le> y \<Longrightarrow> ?thesis" by (auto simp: round_even_def Let_def)
next
  case False
  assume "x \<le> y"
  with False have "\<lfloor>x\<rfloor> + 1 \<le> \<lfloor>y\<rfloor>" using floor_mono [of x y] by linarith
  then show ?thesis by (auto simp: round_even_def Let_def)
qed

lemma round_even_minus: "round_even (- y) = - round_even y"
proof (cases "y \<in> \<int>")
  case True
  then obtain i where "y = of_int i" by (auto elim: Ints_cases)
  then show ?thesis by (metis of_int_minus round_even_of_int)
next
  case False
  then have "y \<noteq> of_int \<lfloor>y\<rfloor>" by (metis Ints_of_int)
  then have "\<lfloor>- y\<rfloor> = - \<lfloor>y\<rfloor> - 1"
    using floor_correct [of y] by (intro floor_unique) (simp_all, linarith+)
  moreover define r where "r = y - of_int \<lfloor>y\<rfloor>"
  ultimately have "- y - of_int \<lfloor>- y\<rfloor> = 1 - r" by simp
  then show ?thesis
    unfolding round_even_def Let_def r_def [symmetric] \<open>\<lfloor>- y\<rfloor> = - \<lfloor>y\<rfloor> - 1\<close> by auto
qed

lemma rnd_0 [simp]: "rnd 0 = 0"
  by (simp add: rnd_def)

lemma rnd_minus [simp]: "rnd (- x) = - rnd x"
  by (simp add: rnd_def round_even_minus)

lemma scaled_int:
  assumes "qexp x \<le> e" and "x = of_int m * 2 powi e"
  shows "rnd x = x"
proof (cases "x = 0")
  case False
  let ?k = "m * 2 ^ nat (e - qexp x)"
  have "(2::rat) powi e = 2 powi (e - qexp x) * 2 powi qexp x"
    by (simp add: power_int_add [symmetric])
  also have "(2::rat) powi (e - qexp x) = of_int (2 ^ nat (e - qexp x))"
    using assms(1) by (simp add: power_int_def)
  finally have x: "x = of_int ?k * 2 powi qexp x"
    using assms(2) by simp
  then have "x / 2 powi qexp x = of_int ?k"
    by (simp add: divide_eq_eq)
  then have "round_even (x / 2 powi qexp x) = ?k"
    by (metis round_even_of_int)
  with x False show ?thesis by (simp add: rnd_def)
qed simp

text \<open>Numbers of at most 53 significant bits are floats.\<close>

lemma rnd_exact:
  assumes "x = of_int m * 2 powi e" and "\<bar>m\<bar> \<le> 2 ^ 53" and "- 1074 \<le> e"
  shows "rnd x = x"
proof (cases "qexp x \<le> e")
  case True
  then show ?thesis using assms(1) by (rule scaled_int)
next
  case False
  show ?thesis
  proof (cases "x = 0")
    case x0: False
    from False assms(3) have q: "qexp x = bexp x - 52" and be: "e + 53 \<le> bexp x"
      by (auto simp: qexp_def)
    have ax: "\<bar>x\<bar> = of_int \<bar>m\<bar> * 2 powi e"
      using assms(1) by (simp add: abs_mult)
    have "(2::rat) powi (e + 53) \<le> 2 powi bexp x" using be by simp
    also have "\<dots> \<le> \<bar>x\<bar>" using bexp_bounds [OF x0] by simp
    finally have "of_int (2 ^ 53) * (2::rat) powi e \<le> of_int \<bar>m\<bar> * 2 powi e"
      using ax by (simp add: power_int_add mult.commute)
    then have "(2::int) ^ 53 \<le> \<bar>m\<bar>"
      by (simp only: mult_le_cancel_right_pos [OF two_powi_pos] of_int_le_iff)
    with assms(2) have am: "\<bar>m\<bar> = 2 ^ 53" by simp
    then obtain s where m: "m = s * 2 ^ 53" by (metis abs_mult_sgn mult.commute)
    have xe: "\<bar>x\<bar> = 2 powi (e + 53)"
      using ax am by (simp add: power_int_add)
    have "bexp x = e + 53"
      by (rule bexp_unique) (simp_all add: xe del: powi_le_iff)
    with q have "qexp x = e + 1" by simp
    moreover have "x = of_int (s * 2 ^ 52) * 2 powi (e + 1)"
      using assms(1) m by (simp add: power_int_add)
    ultimately show ?thesis using scaled_int [of x "e + 1" "s * 2 ^ 52"] by simp
  qed simp
qed

lemma rnd_of_int: "\<bar>i\<bar> \<le> 2 ^ 53 \<Longrightarrow> rnd (of_int i) = of_int i"
  by (rule rnd_exact [of _ i 0]) simp_all

lemma rnd_numeral: "(numeral n :: int) \<le> 2 ^ 53 \<Longrightarrow> rnd (numeral n) = numeral n"
  using rnd_of_int [of "numeral n"] by simp

lemma rnd_1 [simp]: "rnd 1 = 1"
  using rnd_of_int [of 1] by simp

lemma quotient_bound: "x \<noteq> 0 \<Longrightarrow> \<bar>x\<bar> < 2 powi (qexp x + 53)"
proof -
  assume "x \<noteq> 0"
  then have "\<bar>x\<bar> < 2 powi (bexp x + 1)" by (rule bexp_bounds)
  also have "\<dots> \<le> 2 powi (qexp x + 53)" by (simp add: qexp_def)
  finally show ?thesis .
qed

lemma rnd_idem [simp]: "rnd (rnd x) = rnd x"
proof (cases "x = 0")
  case False
  let ?y = "x / 2 powi qexp x"
  have "\<bar>?y\<bar> \<le> of_int (2 ^ 53)"
    using quotient_bound [OF False] by (simp add: abs_divide divide_le_eq power_int_add mult.commute)
  then have "- of_int (2 ^ 53) \<le> ?y" "?y \<le> of_int (2 ^ 53)" by linarith+
  then have "round_even (- of_int (2 ^ 53)) \<le> round_even ?y"
    "round_even ?y \<le> round_even (of_int (2 ^ 53))"
    using round_even_mono by blast+
  then have "\<bar>round_even ?y\<bar> \<le> 2 ^ 53"
    unfolding round_even_minus round_even_of_int by linarith
  moreover have "- 1074 \<le> qexp x" by (simp add: qexp_def)
  ultimately show ?thesis
    using False by (intro rnd_exact [of _ "round_even ?y" "qexp x"]) (simp_all add: rnd_def)
qed simp

lemma rnd_nonneg: "0 \<le> x \<Longrightarrow> 0 \<le> rnd x"
proof (cases "x = 0")
  case False
  assume "0 \<le> x"
  then have "round_even 0 \<le> round_even (x / 2 powi qexp x)"
    by (intro round_even_mono) simp
  moreover have "round_even 0 = 0" using round_even_of_int [of 0] by simp
  ultimately show ?thesis by (simp add: rnd_def)
qed simp

lemma powi_nat: "0 \<le> k \<Longrightarrow> (2::rat) powi k = of_int (2 ^ nat k)"
  by (simp add: power_int_def)

text \<open>Rounding never crosses a multiple of the unit in the last place.\<close>

lemma rnd_le_point:
  assumes "x \<le> p" and "p = of_int m * 2 powi qexp x"
  shows "rnd x \<le> p"
proof (cases "x = 0")
  case False
  have "x / 2 powi qexp x \<le> of_int m"
    using assms by (simp add: divide_le_eq)
  then have "round_even (x / 2 powi qexp x) \<le> m"
    using round_even_mono round_even_of_int by metis
  with False assms(2) show ?thesis by (simp add: rnd_def)
qed (use assms in simp)

lemma rnd_ge_point:
  assumes "p \<le> x" and "p = of_int m * 2 powi qexp x"
  shows "p \<le> rnd x"
  using rnd_le_point [of "- x" "- p" "- m"] assms by simp

lemma rnd_mono_pos:
  assumes "0 < x" and "x \<le> y"
  shows "rnd x \<le> rnd y"
proof -
  from assms have be: "bexp x \<le> bexp y" by (intro bexp_mono) auto
  then consider "qexp x = qexp y" | "qexp x < qexp y"
    by (force simp: qexp_def)
  then show ?thesis
  proof cases
    case 1
    have "round_even (x / 2 powi qexp x) \<le> round_even (y / 2 powi qexp x)"
      using assms by (intro round_even_mono divide_right_mono) auto
    with 1 assms show ?thesis by (simp add: rnd_def)
  next
    case 2
    then have q: "qexp y = bexp y - 52" and lt: "bexp x < bexp y" "qexp x \<le> bexp y"
      by (auto simp: qexp_def)
    let ?P = "(2::rat) powi bexp y"
    have "x < 2 powi (bexp x + 1)" using bexp_bounds [of x] assms by simp
    also have "\<dots> \<le> ?P" using lt by simp
    finally have "x \<le> ?P" by simp
    moreover have "?P = of_int (2 ^ nat (bexp y - qexp x)) * 2 powi qexp x"
      using powi_nat [of "bexp y - qexp x", symmetric] lt by (simp add: power_int_diff)
    ultimately have "rnd x \<le> ?P" by (rule rnd_le_point)
    also have "?P \<le> rnd y"
    proof (rule rnd_ge_point)
      show "?P \<le> y" using bexp_bounds [of y] assms by simp
      show "?P = of_int (2 ^ 52) * 2 powi qexp y"
        using powi_nat [of 52] by (simp add: q power_int_diff)
    qed
    finally show ?thesis .
  qed
qed

lemma rnd_mono: "x \<le> y \<Longrightarrow> rnd x \<le> rnd y"
proof (cases "0 < x")
  case False
  assume "x \<le> y"
  show ?thesis
  proof (cases "0 \<le> y")
    case True
    then show ?thesis using rnd_nonneg [of y] rnd_nonneg [of "- x"] False by simp
  next
    case neg: False
    with \<open>x \<le> y\<close> rnd_mono_pos [of "- y" "- x"] show ?thesis by simp
  qed
qed (rule rnd_mono_pos)

lemma rnd_le_float: "x \<le> y \<Longrightarrow> rnd y = y \<Longrightarrow> rnd x \<le> y"
  using rnd_mono [of x y] by simp

lemma rnd_ge_float: "y \<le> x \<Longrightarrow> rnd y = y \<Longrightarrow> y \<le> rnd x"
  using rnd_mono [of y x] by simp

section \<open>Floats\<close>

datatype flt = Fin rat | PInf | NInf | NaN

text \<open>Rounding of an exact result, with overflow to an infinity.\<close>

definition of_exact :: "rat \<Rightarrow> flt" where
  "of_exact x = (let r = rnd x in
     if 2 ^ 1024 \<le> r then PInf else if r \<le> - (2 ^ 1024) then NInf else Fin r)"

fun flt_less :: "flt \<Rightarrow> flt \<Rightarrow> bool" where
  "flt_less NaN _ = False"
| "flt_less _ NaN = False"
| "flt_less (Fin a) (Fin b) = (a < b)"
| "flt_less NInf b = (b \<noteq> NInf)"
| "flt_less a PInf = (a \<noteq> PInf)"
| "flt_less _ _ = False"

fun flt_le :: "flt \<Rightarrow> flt \<Rightarrow> bool" where
  "flt_le NaN _ = False"
| "flt_le _ NaN = False"
| "flt_le (Fin a) (Fin b) = (a \<le> b)"
| "flt_le NInf _ = True"
| "flt_le _ PInf = True"
| "flt_le _ _ = False"

fun flt_neg :: "flt \<Rightarrow> flt" where
  "flt_neg (Fin a) = Fin (- a)"
| "flt_neg PInf = NInf"
| "flt_neg NInf = PInf"
| "flt_neg NaN = NaN"

fun flt_abs :: "flt \<Rightarrow> flt" where
  "flt_abs (Fin a) = Fin \<bar>a\<bar>"
| "flt_abs NaN = NaN"
| "flt_abs _ = PInf"

fun flt_add :: "flt \<Rightarrow> flt \<Rightarrow> flt" where
  "flt_add (Fin a) (Fin b) = of_exact (a + b)"
| "flt_add NaN _ = NaN"
| "flt_add _ NaN = NaN"
| "flt_add PInf NInf = NaN"
| "flt_add NInf PInf = NaN"
| "flt_add PInf _ = PInf"
| "flt_add _ PInf = PInf"
| "flt_add _ _ = NInf"

definition flt_sub :: "flt \<Rightarrow> flt \<Rightarrow> flt" where
  "flt_sub a b = flt_add a (flt_neg b)"

fun flt_mul :: "flt \<Rightarrow> flt \<Rightarrow> flt" where
  "flt_mul (Fin a) (Fin b) = of_exact (a * b)"
| "flt_mul NaN _ = NaN"
| "flt_mul _ NaN = NaN"
| "flt_mul (Fin a) b = (if a = 0 then NaN else if 0 < a then b else flt_neg b)"
| "flt_mul a (Fin b) = (if b = 0 then NaN else if 0 < b then a else flt_neg a)"
| "flt_mul PInf b = b"
| "flt_mul NInf b = flt_neg b"

text \<open>Python's \<open>/\<close> raises on a zero divisor.\<close>

fun flt_div :: "flt \<Rightarrow> flt \<Rightarrow> flt res" where
  "flt_div a (Fin b) =
     (if b = 0 then Inl ZeroDivisionError
      else case a of
        Fin a \<Rightarrow> Inr (of_exact (a / b))
      | NaN \<Rightarrow> Inr NaN
      | _ \<Rightarrow> Inr (if 0 < b then a else flt_neg a))"
| "flt_div (Fin a) NaN = Inr NaN"
| "flt_div (Fin a) _ = Inr (Fin 0)"
| "flt_div _ _ = Inr NaN"

text \<open>A decimal literal of the source, and \<open>math.isfinite\<close>.\<close>

abbreviation lit :: "rat \<Rightarrow> flt" where
  "lit x \<equiv> of_exact x"

fun flt_finite :: "flt \<Rightarrow> bool" where
  "flt_finite (Fin _) = True"
| "flt_finite _ = False"

text \<open>Python's \<open>max(a, b)\<close> and \<open>max\<close>, \<open>min\<close> of a list: the first largest (smallest) wins.\<close>

definition flt_max :: "flt \<Rightarrow> flt \<Rightarrow> flt" where
  "flt_max a b = (if flt_less a b then b else a)"

definition flt_min :: "flt \<Rightarrow> flt \<Rightarrow> flt" where
  "flt_min a b = (if flt_less b a then b else a)"

lemma of_exact_small:
  assumes "\<bar>x\<bar> \<le> 2 ^ 53"
  shows "of_exact x = Fin (rnd x)"
proof -
  have f: "rnd (2 ^ 53) = 2 ^ 53" "rnd (- (2 ^ 53)) = - (2 ^ 53)"
    using rnd_of_int [of "2 ^ 53"] by simp_all
  from assms have "x \<le> 2 ^ 53" "- (2 ^ 53) \<le> x" by linarith+
  then have "rnd x \<le> 2 ^ 53" "- (2 ^ 53) \<le> rnd x"
    using rnd_le_float [OF _ f(1)] rnd_ge_float [OF _ f(2)] by blast+
  moreover have "(2::rat) ^ 53 < 2 ^ 1024" by (rule power_strict_increasing) simp_all
  ultimately have "rnd x < 2 ^ 1024" "- (2 ^ 1024) < rnd x" by linarith+
  then show ?thesis by (simp add: of_exact_def Let_def)
qed

text \<open>Division returns unless the divisor is zero, and a floor of a microsecond is not zero.\<close>

lemma flt_div_total: "b \<noteq> Fin 0 \<Longrightarrow> \<exists>q. flt_div a b = Inr q"
  by (cases "(a, b)" rule: flt_div.cases) (auto split: flt.splits)

lemma microsecond: "lit (1/10^6) = Fin (rnd (1/10^6))" and microsecond_pos: "0 < rnd (1/10^6)"
proof -
  show "lit (1/10^6) = Fin (rnd (1/10^6))" by (rule of_exact_small) simp
  have "rnd (1 / 2 ^ 20) = 1 / 2 ^ 20"
    by (rule rnd_exact [of _ 1 "- 20"]) (simp_all add: power_int_minus field_simps)
  then have "1 / 2 ^ 20 \<le> rnd (1/10^6)" by (intro rnd_ge_float) simp_all
  moreover have "(0::rat) < 1 / 2 ^ 20" by simp
  ultimately show "0 < rnd (1/10^6)" by (rule less_le_trans [rotated])
qed

lemma flt_max_microsecond: "flt_max t (lit (1/10^6)) \<noteq> Fin 0"
  unfolding microsecond using microsecond_pos by (cases t) (auto simp: flt_max_def)

end
