(* ===== verification/Formats.thy ===== *)
theory Formats
  imports PyFloat
begin

text \<open>
  The numeric formatting the code's messages use: the \<open>g\<close> and \<open>f\<close> presentation types of
  f-strings (\<open>value:.3g\<close>, \<open>gap:.1f\<close>), and the JSON values and their compact text
  (\<open>json.dumps(..., separators=(",", ":"))\<close> with \<open>ensure_ascii\<close>) that live events are
  built from. The shortest decimal text of a float (\<open>float.__repr__\<close>) is a parameter of
  \<open>json_dumps\<close>.
\<close>

section \<open>Presentation types\<close>

definition pow10 :: "int \<Rightarrow> rat" where
  "pow10 e = 10 powi e"

text \<open>The decimal exponent: \<open>10 ^ dexp x \<le> \<bar>x\<bar> < 10 ^ (dexp x + 1)\<close>.\<close>

definition dexp :: "rat \<Rightarrow> int" where
  "dexp x = (let (n, d) = quotient_of \<bar>x\<bar>;
                 e = int (length (digits_of (nat n))) - int (length (digits_of (nat d)))
             in if pow10 e \<le> \<bar>x\<bar> then e else e - 1)"

definition pad_left :: "nat \<Rightarrow> string \<Rightarrow> string" where
  "pad_left n s = replicate (n - length s) (CHR ''0'') @ s"

definition strip_zeros :: "string \<Rightarrow> string" where
  "strip_zeros s = rev (dropWhile (\<lambda>c. c = CHR ''0'') (rev s))"

text \<open>\<open>digits\<close> before and after the point, the point dropped when nothing follows it.\<close>

definition with_point :: "string \<Rightarrow> string \<Rightarrow> string" where
  "with_point a b = (let b = strip_zeros b in if b = [] then a else a @ ''.'' @ b)"

definition fmt_exponent :: "int \<Rightarrow> string" where
  "fmt_exponent e = ''e'' @ (if e < 0 then ''-'' else ''+'') @ pad_left 2 (digits_of (nat \<bar>e\<bar>))"

text \<open>\<open>format(x, ".pg")\<close>: \<open>p\<close> significant digits, trailing zeros removed.\<close>

definition fmt_g_abs :: "nat \<Rightarrow> rat \<Rightarrow> string" where
  "fmt_g_abs p x =
     (if x = 0 then ''0'' else
      let e0 = dexp x;
          m0 = round_even (\<bar>x\<bar> / pow10 (e0 - int p + 1));
          (m, e) = (if m0 = 10 ^ p then (10 ^ (p - 1), e0 + 1) else (m0, e0));
          ds = digits_of (nat m)
      in if - 4 \<le> e \<and> e < int p
         then (if 0 \<le> e then with_point (take (nat e + 1) ds) (drop (nat e + 1) ds)
               else with_point ''0'' (replicate (nat (- e) - 1) (CHR ''0'') @ ds))
         else with_point (take 1 ds) (drop 1 ds) @ fmt_exponent e)"

text \<open>\<open>format(x, ".kf")\<close>: \<open>k\<close> digits after the point (\<open>0 < k\<close>).\<close>

definition fmt_f_abs :: "nat \<Rightarrow> rat \<Rightarrow> string" where
  "fmt_f_abs k x =
     (let ds = pad_left (k + 1) (digits_of (nat (round_even (\<bar>x\<bar> * 10 ^ k))));
          n = length ds - k
      in take n ds @ ''.'' @ drop n ds)"

fun fmt_flt :: "(rat \<Rightarrow> string) \<Rightarrow> flt \<Rightarrow> string" where
  "fmt_flt f (Fin x) = (if x < 0 then ''-'' else []) @ f x"
| "fmt_flt f PInf = ''inf''"
| "fmt_flt f NInf = ''-inf''"
| "fmt_flt f NaN = ''nan''"

definition fmt_g :: "nat \<Rightarrow> flt \<Rightarrow> string" where
  "fmt_g p = fmt_flt (fmt_g_abs p)"

definition fmt_f :: "nat \<Rightarrow> flt \<Rightarrow> string" where
  "fmt_f k = fmt_flt (fmt_f_abs k)"

section \<open>JSON values\<close>

datatype json =
    JNull
  | JBool bool
  | JInt int
  | JNum flt
  | JStr string
  | JArr "json list"
  | JObj "(string \<times> json) list"

fun jopt :: "('a \<Rightarrow> json) \<Rightarrow> 'a option \<Rightarrow> json" where
  "jopt f None = JNull"
| "jopt f (Some a) = f a"

definition jstrs :: "string list \<Rightarrow> json" where
  "jstrs ss = JArr (map JStr ss)"

definition hex_digit :: "nat \<Rightarrow> char" where
  "hex_digit n = char_of (if n < 10 then 48 + n else 87 + n)"

definition json_char :: "char \<Rightarrow> string" where
  "json_char c =
     (if c = CHR 0x22 then [CHR 0x5C, CHR 0x22]
      else if c = CHR 0x5C then [CHR 0x5C, CHR 0x5C]
      else if c = CHR 0x0A then [CHR 0x5C, CHR ''n'']
      else if c = CHR 0x0D then [CHR 0x5C, CHR ''r'']
      else if c = CHR 0x09 then [CHR 0x5C, CHR ''t'']
      else if c = CHR 0x0C then [CHR 0x5C, CHR ''f'']
      else if c = CHR 0x08 then [CHR 0x5C, CHR ''b'']
      else let n = (of_char c :: nat) in
        if n < 32 \<or> 128 \<le> n
        then [CHR 0x5C, CHR ''u'', CHR ''0'', CHR ''0'', hex_digit (n div 16), hex_digit (n mod 16)]
        else [c])"

definition json_string :: "string \<Rightarrow> string" where
  "json_string s = [CHR 0x22] @ concat (map json_char s) @ [CHR 0x22]"

fun json_dumps :: "(flt \<Rightarrow> string) \<Rightarrow> json \<Rightarrow> string" where
  "json_dumps r JNull = ''null''"
| "json_dumps r (JBool b) = (if b then ''true'' else ''false'')"
| "json_dumps r (JInt i) = str_of_int i"
| "json_dumps r (JNum x) = r x"
| "json_dumps r (JStr s) = json_string s"
| "json_dumps r (JArr js) = ''['' @ join_with '','' (map (json_dumps r) js) @ '']''"
| "json_dumps r (JObj kvs) =
     ''{'' @ join_with '','' (map (\<lambda>(k, v). json_string k @ '':'' @ json_dumps r v) kvs) @ ''}''"

lemma json_string_length: "length s + 2 \<le> length (json_string s)"
proof -
  have "length s \<le> length (concat (map json_char s))"
    by (induction s) (auto simp: json_char_def Let_def)
  then show ?thesis by (simp add: json_string_def)
qed

lemma length_join: "(\<Sum>p\<leftarrow>ps. length p) \<le> length (join_with sep ps)"
proof (induction sep ps rule: join_with.induct)
  case (3 sep p q ps)
  then show ?case by simp
qed simp_all

end
