(* ===== verification/Schemas.thy ===== *)
theory Schemas
  imports Formats
begin

text \<open>
  The validated contract models of \<open>services/api/app/schemas.py\<close> and the settings of
  \<open>services/api/app/settings.py\<close>. A model class is a record, a \<open>Literal\<close> of strings a
  datatype with its text, and the constraints of the fields (\<open>Field(ge=..., pattern=...)\<close>)
  and of the model validators a predicate. Turning JSON into the declared field types is
  pydantic's and stays outside; what a class declares about the typed values is here.
\<close>

section \<open>Field constraints\<close>

definition ge_le :: "rat \<Rightarrow> rat \<Rightarrow> flt \<Rightarrow> bool" where
  "ge_le lo hi v = (flt_le (lit lo) v \<and> flt_le v (lit hi))"

definition opt_ge_le :: "rat \<Rightarrow> rat \<Rightarrow> flt option \<Rightarrow> bool" where
  "opt_ge_le lo hi v = (case v of None \<Rightarrow> True | Some x \<Rightarrow> ge_le lo hi x)"

definition opt_max_length :: "nat \<Rightarrow> string option \<Rightarrow> bool" where
  "opt_max_length n s = (case s of None \<Rightarrow> True | Some t \<Rightarrow> length t \<le> n)"

text \<open>\<open>^[A-Z][A-Z0-9_]{1,47}$\<close>\<close>

definition code_tail :: "char \<Rightarrow> bool" where
  "code_tail c = (upper_ascii c \<or> digit_ascii c \<or> c = CHR ''_'')"

fun result_code_ok :: "string \<Rightarrow> bool" where
  "result_code_ok [] = False"
| "result_code_ok (c # cs) =
     (upper_ascii c \<and> list_all code_tail cs \<and> 1 \<le> length cs \<and> length cs \<le> 47)"

section \<open>Telemetry\<close>

datatype sensor_status =
    SGood | SMissing | SStuck | SOutOfRange | SNoisy | SRateInvalid | SDriverError

fun sensor_status_str :: "sensor_status \<Rightarrow> string" where
  "sensor_status_str SGood = ''good''"
| "sensor_status_str SMissing = ''missing''"
| "sensor_status_str SStuck = ''stuck''"
| "sensor_status_str SOutOfRange = ''out_of_range''"
| "sensor_status_str SNoisy = ''noisy''"
| "sensor_status_str SRateInvalid = ''rate_invalid''"
| "sensor_status_str SDriverError = ''driver_error''"

record sensor_quality =
  sq_status :: sensor_status
  sq_valid_samples :: int
  sq_expected_samples :: int
  sq_error_code :: "string option"

definition sensor_quality_ok :: "sensor_quality \<Rightarrow> bool" where
  "sensor_quality_ok q =
     (0 \<le> sq_valid_samples q \<and> 1 \<le> sq_expected_samples q \<and> opt_max_length 48 (sq_error_code q))"

record sample_quality =
  spl_temperature :: sensor_quality
  spl_vibration :: sensor_quality
  spl_current :: sensor_quality

definition sample_quality_ok :: "sample_quality \<Rightarrow> bool" where
  "sample_quality_ok q =
     (sensor_quality_ok (spl_temperature q) \<and> sensor_quality_ok (spl_vibration q)
      \<and> sensor_quality_ok (spl_current q))"

record measurements =
  temperature_c :: "flt option"
  vibration_rms_mps2 :: "flt option"
  vibration_peak_mps2 :: "flt option"
  vibration_crest_factor :: "flt option"
  current_a :: "flt option"

definition measurements_ok :: "measurements \<Rightarrow> bool" where
  "measurements_ok m =
     (opt_ge_le (- 80) 200 (temperature_c m)
      \<and> opt_ge_le 0 2000 (vibration_rms_mps2 m)
      \<and> opt_ge_le 0 4000 (vibration_peak_mps2 m)
      \<and> opt_ge_le 0 100 (vibration_crest_factor m)
      \<and> opt_ge_le (- (1/10)) 10 (current_a m))"

datatype quality = Good | Degraded | Bad

fun quality_str :: "quality \<Rightarrow> string" where
  "quality_str Good = ''good''"
| "quality_str Degraded = ''degraded''"
| "quality_str Bad = ''bad''"

record telemetry_envelope =
  te_schema_version :: int
  te_message_id :: string
  te_site_id :: string
  te_device_id :: string
  te_sequence :: int
  te_device_time :: "pydatetime option"
  te_clock_synchronized :: bool
  te_uptime_ms :: int
  te_firmware_version :: string
  te_quality :: quality
  te_replayed :: bool
  te_measurements :: measurements
  te_sample_quality :: sample_quality
  te_fault_flags :: "string list"

text \<open>The model validator: a device time exactly when the clock is synchronized.\<close>

definition clock_state_is_consistent :: "telemetry_envelope \<Rightarrow> bool" where
  "clock_state_is_consistent e =
     (\<not> (\<not> te_clock_synchronized e \<and> te_device_time e \<noteq> None)
      \<and> \<not> (te_clock_synchronized e \<and> te_device_time e = None))"

definition telemetry_envelope_ok :: "telemetry_envelope \<Rightarrow> bool" where
  "telemetry_envelope_ok e =
     (te_schema_version e = 1
      \<and> identifier_ok (te_site_id e)
      \<and> identifier_ok (te_device_id e)
      \<and> 0 \<le> te_sequence e
      \<and> 0 \<le> te_uptime_ms e
      \<and> length (te_firmware_version e) \<le> 48
      \<and> measurements_ok (te_measurements e)
      \<and> sample_quality_ok (te_sample_quality e)
      \<and> length (te_fault_flags e) \<le> 32
      \<and> clock_state_is_consistent e)"

section \<open>Health and command acknowledgements\<close>

datatype health_status = HOnline | HDegraded | HOffline

fun health_status_str :: "health_status \<Rightarrow> string" where
  "health_status_str HOnline = ''online''"
| "health_status_str HDegraded = ''degraded''"
| "health_status_str HOffline = ''offline''"

datatype modbus_state = MOk | MTimeout | MCrcError | MException | MStale | MDisabled

fun modbus_state_str :: "modbus_state \<Rightarrow> string" where
  "modbus_state_str MOk = ''ok''"
| "modbus_state_str MTimeout = ''timeout''"
| "modbus_state_str MCrcError = ''crc_error''"
| "modbus_state_str MException = ''exception''"
| "modbus_state_str MStale = ''stale''"
| "modbus_state_str MDisabled = ''disabled''"

record health_envelope =
  he_schema_version :: int
  he_message_id :: string
  he_site_id :: string
  he_device_id :: string
  he_sequence :: int
  he_device_time :: "pydatetime option"
  he_uptime_ms :: int
  he_firmware_version :: string
  he_status :: health_status
  he_rssi_dbm :: "int option"
  he_reset_reason :: string
  he_reset_count :: int
  he_queue_depth :: int
  he_queue_capacity :: int
  he_dropped_message_count :: int
  he_modbus_status :: modbus_state
  he_active_faults :: "string list"

definition health_envelope_ok :: "health_envelope \<Rightarrow> bool" where
  "health_envelope_ok e =
     (he_schema_version e = 1
      \<and> identifier_ok (he_site_id e)
      \<and> identifier_ok (he_device_id e)
      \<and> 0 \<le> he_sequence e
      \<and> 0 \<le> he_uptime_ms e
      \<and> length (he_firmware_version e) \<le> 48
      \<and> (case he_rssi_dbm e of None \<Rightarrow> True | Some r \<Rightarrow> - 127 \<le> r \<and> r \<le> 0)
      \<and> length (he_reset_reason e) \<le> 48
      \<and> 0 \<le> he_reset_count e
      \<and> 0 \<le> he_queue_depth e
      \<and> 1 \<le> he_queue_capacity e
      \<and> 0 \<le> he_dropped_message_count e
      \<and> length (he_active_faults e) \<le> 32)"

datatype ack_status = Accepted | Completed | Rejected | Expired | Failed

fun ack_status_str :: "ack_status \<Rightarrow> string" where
  "ack_status_str Accepted = ''accepted''"
| "ack_status_str Completed = ''completed''"
| "ack_status_str Rejected = ''rejected''"
| "ack_status_str Expired = ''expired''"
| "ack_status_str Failed = ''failed''"

record command_ack_envelope =
  ca_schema_version :: int
  ca_message_id :: string
  ca_command_id :: string
  ca_site_id :: string
  ca_device_id :: string
  ca_device_time :: "pydatetime option"
  ca_status :: ack_status
  ca_result_code :: string
  ca_detail :: "string option"
  ca_relay_on :: bool

definition command_ack_envelope_ok :: "command_ack_envelope \<Rightarrow> bool" where
  "command_ack_envelope_ok e =
     (ca_schema_version e = 1
      \<and> identifier_ok (ca_site_id e)
      \<and> identifier_ok (ca_device_id e)
      \<and> result_code_ok (ca_result_code e)
      \<and> opt_max_length 240 (ca_detail e))"

section \<open>API requests\<close>

datatype sensor = STemperature | SVibration | SCurrent

fun sensor_str :: "sensor \<Rightarrow> string" where
  "sensor_str STemperature = ''temperature''"
| "sensor_str SVibration = ''vibration''"
| "sensor_str SCurrent = ''current''"

text \<open>A \<open>dict[str, float]\<close>: its items in insertion order, keys distinct.\<close>

type_synonym coefficients = "(string \<times> flt) list"

record calibration_create =
  cc_sensor :: sensor
  cc_new_coefficients :: coefficients
  cc_reason :: string

definition coefficients_are_bounded :: "coefficients \<Rightarrow> bool" where
  "coefficients_are_bounded cs =
     (list_all (\<lambda>(k, _). k = ''scale'' \<or> k = ''offset'') cs
      \<and> (case map_of cs ''scale'' of None \<Rightarrow> True | Some v \<Rightarrow> ge_le (1/10) 10 v)
      \<and> (case map_of cs ''offset'' of None \<Rightarrow> True | Some v \<Rightarrow> ge_le (- 100) 100 v))"

definition calibration_create_ok :: "calibration_create \<Rightarrow> bool" where
  "calibration_create_ok r =
     (distinct (map fst (cc_new_coefficients r))
      \<and> 1 \<le> length (cc_new_coefficients r) \<and> length (cc_new_coefficients r) \<le> 8
      \<and> 4 \<le> length (cc_reason r) \<and> length (cc_reason r) \<le> 240
      \<and> coefficients_are_bounded (cc_new_coefficients r))"

datatype maintenance_status = Scheduled | MCompleted | Deferred

fun maintenance_status_str :: "maintenance_status \<Rightarrow> string" where
  "maintenance_status_str Scheduled = ''scheduled''"
| "maintenance_status_str MCompleted = ''completed''"
| "maintenance_status_str Deferred = ''deferred''"

record maintenance_create =
  mc_status :: maintenance_status
  mc_notes :: string
  mc_performed_at :: pydatetime
  mc_next_due_at :: "pydatetime option"

text \<open>
  \<open>due_date_is_after_work\<close> compares two request timestamps; an aware and a naive one
  make the comparison raise \<open>TypeError\<close>, which pydantic does not turn into a validation error.
\<close>

definition maintenance_create_check :: "maintenance_create \<Rightarrow> bool res" where
  "maintenance_create_check r =
     bindE (case mc_next_due_at r of
              None \<Rightarrow> Inr False
            | Some due \<Rightarrow> dt_le due (mc_performed_at r)) (\<lambda>late.
     Inr (3 \<le> length (mc_notes r) \<and> length (mc_notes r) \<le> 4000 \<and> \<not> late))"

text \<open>
  An update carries the fields the client sent: \<open>mu_next_due_at = None\<close> when the field is
  absent from \<open>model_fields_set\<close>, \<open>Some None\<close> when the client sent null.
\<close>

record maintenance_update =
  mu_status :: "maintenance_status option"
  mu_notes :: "string option"
  mu_next_due_at :: "pydatetime option option"

definition maintenance_update_ok :: "maintenance_update \<Rightarrow> bool" where
  "maintenance_update_ok r =
     (case mu_notes r of None \<Rightarrow> True | Some n \<Rightarrow> 3 \<le> length n \<and> length n \<le> 4000)"

record relay_command_create =
  rc_relay_on :: bool
  rc_timeout_s :: int

definition relay_command_create_ok :: "relay_command_create \<Rightarrow> bool" where
  "relay_command_create_ok r = (1 \<le> rc_timeout_s r \<and> rc_timeout_s r \<le> 30)"

record threshold_config_update =
  tu_temperature_warning_c :: flt
  tu_temperature_critical_c :: flt
  tu_vibration_warning_mps2 :: flt
  tu_vibration_critical_mps2 :: flt
  tu_current_warning_a :: flt
  tu_current_critical_a :: flt
  tu_hysteresis_percent :: flt

definition warnings_are_below_critical :: "threshold_config_update \<Rightarrow> bool" where
  "warnings_are_below_critical r =
     (\<not> list_ex (\<lambda>(warning, critical). flt_le critical warning)
        [(tu_temperature_warning_c r, tu_temperature_critical_c r),
         (tu_vibration_warning_mps2 r, tu_vibration_critical_mps2 r),
         (tu_current_warning_a r, tu_current_critical_a r)])"

definition threshold_config_update_ok :: "threshold_config_update \<Rightarrow> bool" where
  "threshold_config_update_ok r =
     (ge_le 0 150 (tu_temperature_warning_c r)
      \<and> ge_le 0 180 (tu_temperature_critical_c r)
      \<and> ge_le 0 200 (tu_vibration_warning_mps2 r)
      \<and> ge_le 0 400 (tu_vibration_critical_mps2 r)
      \<and> ge_le 0 8 (tu_current_warning_a r)
      \<and> ge_le 0 10 (tu_current_critical_a r)
      \<and> ge_le 1 25 (tu_hysteresis_percent r)
      \<and> warnings_are_below_critical r)"

fun normalized_utc :: "pydatetime \<Rightarrow> pydatetime" where
  "normalized_utc (Naive t) = Aware t"
| "normalized_utc (Aware t) = Aware t"

section \<open>Settings\<close>

record settings =
  environment :: string
  database_url :: string
  jwt_secret :: string
  jwt_algorithm :: string
  access_token_minutes :: int
  ingest_token :: string
  demo_admin_username :: string
  demo_admin_password :: string
  mqtt_host :: string
  mqtt_port :: int
  mqtt_username :: "string option"
  mqtt_password :: "string option"
  cors_origins :: string
  offline_after_s :: int
  max_query_days :: int
  model_root :: string
  model_stale_after_days :: int
  anomaly_poll_interval_s :: flt
  anomaly_minimum_feature_rows :: int

definition settings_ok :: "settings \<Rightarrow> bool" where
  "settings_ok s =
     (5 \<le> access_token_minutes s \<and> access_token_minutes s \<le> 1440
      \<and> 1 \<le> mqtt_port s \<and> mqtt_port s \<le> 65535
      \<and> 10 \<le> offline_after_s s \<and> offline_after_s s \<le> 3600
      \<and> 1 \<le> max_query_days s \<and> max_query_days s \<le> 366
      \<and> 1 \<le> model_stale_after_days s \<and> model_stale_after_days s \<le> 3650
      \<and> ge_le (1/5) 300 (anomaly_poll_interval_s s)
      \<and> 50 \<le> anomaly_minimum_feature_rows s \<and> anomaly_minimum_feature_rows s \<le> 1000000
      \<and> 32 \<le> length (jwt_secret s) \<and> 32 \<le> length (ingest_token s)
      \<and> 12 \<le> length (demo_admin_password s))"

definition allowed_origins :: "settings \<Rightarrow> string list" where
  "allowed_origins s =
     [str_strip origin. origin \<leftarrow> split_on (CHR '','') (cors_origins s), str_strip origin \<noteq> []]"

section \<open>What validation gives\<close>

lemma lit_of_int: "\<bar>i\<bar> \<le> 2 ^ 53 \<Longrightarrow> lit (of_int i) = Fin (of_int i)"
proof -
  assume i: "\<bar>i\<bar> \<le> 2 ^ 53"
  then have "\<bar>of_int i :: rat\<bar> \<le> 2 ^ 53"
    by (metis of_int_abs of_int_le_iff of_int_numeral of_int_power)
  with i show ?thesis by (simp add: of_exact_small rnd_of_int)
qed

lemma lit_0 [simp]: "lit 0 = Fin 0"
  using lit_of_int [of 0] by simp

lemma lit_1 [simp]: "lit 1 = Fin 1"
  using lit_of_int [of 1] by simp

lemma lit_numeral [simp]: "(numeral n :: int) \<le> 2 ^ 53 \<Longrightarrow> lit (numeral n) = Fin (numeral n)"
  using lit_of_int [of "numeral n"] by simp

lemma lit_neg_numeral [simp]: "(numeral n :: int) \<le> 2 ^ 53 \<Longrightarrow> lit (- numeral n) = Fin (- numeral n)"
  using lit_of_int [of "- numeral n"] by simp

lemma flt_le_FinD: "flt_le (Fin a) v \<Longrightarrow> flt_le v (Fin b) \<Longrightarrow> \<exists>x. v = Fin x \<and> a \<le> x \<and> x \<le> b"
  by (cases v) auto

text \<open>A bounded field is finite: the bounds reject \<open>nan\<close> and the infinities.\<close>

lemma ge_le_Fin:
  assumes "ge_le lo hi v" and "\<bar>lo\<bar> \<le> 2 ^ 53" and "\<bar>hi\<bar> \<le> 2 ^ 53"
  obtains x where "v = Fin x" and "rnd lo \<le> x" and "x \<le> rnd hi"
proof -
  from assms have "flt_le (Fin (rnd lo)) v" "flt_le v (Fin (rnd hi))"
    by (simp_all add: ge_le_def of_exact_small)
  then have "\<exists>x. v = Fin x \<and> rnd lo \<le> x \<and> x \<le> rnd hi" by (rule flt_le_FinD)
  with that show ?thesis by blast
qed

lemma opt_ge_le_finite:
  assumes "opt_ge_le lo hi v" and "\<bar>lo\<bar> \<le> 2 ^ 53" and "\<bar>hi\<bar> \<le> 2 ^ 53" and "v = Some x"
  shows "flt_finite x"
  using assms by (auto simp: opt_ge_le_def elim!: ge_le_Fin)

end
