(* ===== verification/Store.thy ===== *)
theory Store
  imports Schemas
begin

text \<open>
  The relational store of \<open>services/api/app/models.py\<close>: one record per mapped class with
  its columns, the column defaults as the constructors \<open>new_device\<close>, \<open>new_threshold_config\<close>
  and so on, and the database as a record of tables, each the list of its rows in
  insertion order. Sessions run with \<open>autoflush=False\<close>, so a query reads committed rows
  and what the session has flushed; the transactions say where they flush. The declared
  primary keys and unique constraints, and the ranges of the integer columns, are
  predicates that a flush checks.
\<close>

section \<open>Rows\<close>

record user_row =
  usr_id :: nat
  usr_username :: string
  usr_password_hash :: string
  usr_role :: string
  usr_active :: bool
  usr_created_at :: pydatetime

record device_row =
  dev_id :: string
  dev_site_id :: string
  dev_display_name :: string
  dev_asset_class :: string
  dev_simulated :: bool
  dev_firmware_version :: "string option"
  dev_reported_status :: string
  dev_last_seen_at :: "pydatetime option"
  dev_rssi_dbm :: "int option"
  dev_reset_reason :: "string option"
  dev_reset_count :: int
  dev_queue_depth :: int
  dev_queue_capacity :: int
  dev_dropped_message_count :: int
  dev_modbus_status :: string
  dev_active_faults :: "string list"
  dev_created_at :: pydatetime

record anomaly_model_row =
  mdl_id :: nat
  mdl_device_id :: string
  mdl_model_version :: string
  mdl_status :: string
  mdl_feature_schema :: json
  mdl_training_start :: pydatetime
  mdl_training_end :: pydatetime
  mdl_training_sample_count :: int
  mdl_validation_sample_count :: int
  mdl_contamination :: flt
  mdl_random_seed :: int
  mdl_sklearn_version :: string
  mdl_artifact_path :: string
  mdl_artifact_checksum :: string
  mdl_created_at :: pydatetime
  mdl_last_scored_at :: "pydatetime option"
  mdl_diagnostic :: "string option"

record threshold_config_row =
  thr_device_id :: string
  thr_temperature_warning_c :: flt
  thr_temperature_critical_c :: flt
  thr_vibration_warning_mps2 :: flt
  thr_vibration_critical_mps2 :: flt
  thr_current_warning_a :: flt
  thr_current_critical_a :: flt
  thr_hysteresis_percent :: flt
  thr_updated_by :: string
  thr_updated_at :: pydatetime

record telemetry_row =
  tel_id :: nat
  tel_message_id :: string
  tel_device_id :: string
  tel_site_id :: string
  tel_sequence :: int
  tel_device_time :: "pydatetime option"
  tel_received_at :: pydatetime
  tel_clock_synchronized :: bool
  tel_uptime_ms :: int
  tel_firmware_version :: string
  tel_quality :: string
  tel_replayed :: bool
  tel_temperature_c :: "flt option"
  tel_vibration_rms_mps2 :: "flt option"
  tel_vibration_peak_mps2 :: "flt option"
  tel_vibration_crest_factor :: "flt option"
  tel_current_a :: "flt option"
  tel_sample_quality :: json
  tel_fault_flags :: "string list"
  tel_anomaly_score :: "flt option"
  tel_anomaly_percentile :: "flt option"
  tel_anomaly_reason :: "string option"

record health_row =
  hs_id :: nat
  hs_message_id :: string
  hs_device_id :: string
  hs_received_at :: pydatetime
  hs_payload :: json

record alarm_row =
  alm_id :: nat
  alm_device_id :: string
  alm_code :: string
  alm_severity :: string
  alm_source :: string
  alm_state :: string
  alm_summary :: string
  alm_opened_at :: pydatetime
  alm_cleared_at :: "pydatetime option"
  alm_acknowledged_at :: "pydatetime option"
  alm_acknowledged_by :: "string option"

record calibration_row =
  cal_id :: nat
  cal_device_id :: string
  cal_sensor :: string
  cal_previous_coefficients :: coefficients
  cal_new_coefficients :: coefficients
  cal_reason :: string
  cal_operator :: string
  cal_performed_at :: pydatetime

record maintenance_row =
  mnt_id :: nat
  mnt_device_id :: string
  mnt_status :: string
  mnt_notes :: string
  mnt_performed_at :: pydatetime
  mnt_next_due_at :: "pydatetime option"
  mnt_created_by :: string
  mnt_updated_at :: pydatetime

record audit_row =
  aud_id :: nat
  aud_actor :: string
  aud_action :: string
  aud_target_type :: string
  aud_target_id :: string
  aud_details :: json
  aud_created_at :: pydatetime

record error_row =
  err_id :: nat
  err_component :: string
  err_error_code :: string
  err_severity :: string
  err_device_id :: "string option"
  err_detail :: string
  err_created_at :: pydatetime

record command_row =
  cmd_command_id :: string
  cmd_device_id :: string
  cmd_kind :: string
  cmd_parameters :: json
  cmd_status :: string
  cmd_result_code :: "string option"
  cmd_detail :: "string option"
  cmd_issued_by :: string
  cmd_issued_at :: pydatetime
  cmd_expires_at :: pydatetime
  cmd_acknowledged_at :: "pydatetime option"

section \<open>The database\<close>

text \<open>
  \<open>db_notified\<close> is what PostgreSQL delivered on the channel \<open>iiot_events\<close>: a \<open>NOTIFY\<close>
  queued in a transaction is delivered when the transaction commits.
\<close>

record db =
  db_users :: "user_row list"
  db_devices :: "device_row list"
  db_models :: "anomaly_model_row list"
  db_thresholds :: "threshold_config_row list"
  db_telemetry :: "telemetry_row list"
  db_health :: "health_row list"
  db_alarms :: "alarm_row list"
  db_calibrations :: "calibration_row list"
  db_maintenance :: "maintenance_row list"
  db_audits :: "audit_row list"
  db_errors :: "error_row list"
  db_commands :: "command_row list"
  db_notified :: "json list"

definition empty_db :: db where
  "empty_db = \<lparr>db_users = [], db_devices = [], db_models = [], db_thresholds = [],
     db_telemetry = [], db_health = [], db_alarms = [], db_calibrations = [],
     db_maintenance = [], db_audits = [], db_errors = [], db_commands = [], db_notified = []\<rparr>"

section \<open>Column defaults\<close>

definition new_device :: "string \<Rightarrow> string \<Rightarrow> string \<Rightarrow> pydatetime \<Rightarrow> device_row" where
  "new_device did site display_name now =
     \<lparr>dev_id = did, dev_site_id = site, dev_display_name = display_name,
      dev_asset_class = ''dc-motor'', dev_simulated = True, dev_firmware_version = None,
      dev_reported_status = ''offline'', dev_last_seen_at = None, dev_rssi_dbm = None,
      dev_reset_reason = None, dev_reset_count = 0, dev_queue_depth = 0,
      dev_queue_capacity = 512, dev_dropped_message_count = 0,
      dev_modbus_status = ''disabled'', dev_active_faults = [], dev_created_at = now\<rparr>"

definition new_threshold_config :: "string \<Rightarrow> pydatetime \<Rightarrow> threshold_config_row" where
  "new_threshold_config did now =
     \<lparr>thr_device_id = did,
      thr_temperature_warning_c = lit 65, thr_temperature_critical_c = lit 75,
      thr_vibration_warning_mps2 = lit (9/2), thr_vibration_critical_mps2 = lit 7,
      thr_current_warning_a = lit (7/5), thr_current_critical_a = lit (9/5),
      thr_hysteresis_percent = lit 5, thr_updated_by = ''system'', thr_updated_at = now\<rparr>"

definition new_alarm ::
  "string \<Rightarrow> string \<Rightarrow> string \<Rightarrow> string \<Rightarrow> string \<Rightarrow> pydatetime \<Rightarrow> alarm_row list \<Rightarrow> alarm_row" where
  "new_alarm did code severity source summary opened rows =
     \<lparr>alm_id = row_fresh alm_id rows, alm_device_id = did, alm_code = code,
      alm_severity = severity, alm_source = source, alm_state = ''active'',
      alm_summary = summary, alm_opened_at = opened, alm_cleared_at = None,
      alm_acknowledged_at = None, alm_acknowledged_by = None\<rparr>"

definition add_audit ::
  "string \<Rightarrow> string \<Rightarrow> string \<Rightarrow> string \<Rightarrow> json \<Rightarrow> pydatetime \<Rightarrow> db \<Rightarrow> db" where
  "add_audit actor action target_type target_id details now d =
     d\<lparr>db_audits := db_audits d @
        [\<lparr>aud_id = row_fresh aud_id (db_audits d), aud_actor = actor, aud_action = action,
          aud_target_type = target_type, aud_target_id = target_id, aud_details = details,
          aud_created_at = now\<rparr>]\<rparr>"

definition add_error_log ::
  "string \<Rightarrow> string \<Rightarrow> string \<Rightarrow> string option \<Rightarrow> string \<Rightarrow> pydatetime \<Rightarrow> db \<Rightarrow> db" where
  "add_error_log component code severity device detail now d =
     d\<lparr>db_errors := db_errors d @
        [\<lparr>err_id = row_fresh err_id (db_errors d), err_component = component,
          err_error_code = code, err_severity = severity, err_device_id = device,
          err_detail = detail, err_created_at = now\<rparr>]\<rparr>"

section \<open>Lookups by primary key\<close>

definition get_device :: "string \<Rightarrow> db \<Rightarrow> device_row option" where
  "get_device k d = row_get dev_id k (db_devices d)"

definition add_device :: "device_row \<Rightarrow> db \<Rightarrow> db" where
  "add_device r d = d\<lparr>db_devices := db_devices d @ [r]\<rparr>"

definition put_device :: "string \<Rightarrow> (device_row \<Rightarrow> device_row) \<Rightarrow> db \<Rightarrow> db" where
  "put_device k f d = d\<lparr>db_devices := row_put dev_id k f (db_devices d)\<rparr>"

definition get_threshold_config :: "string \<Rightarrow> db \<Rightarrow> threshold_config_row option" where
  "get_threshold_config k d = row_get thr_device_id k (db_thresholds d)"

definition add_threshold_config :: "threshold_config_row \<Rightarrow> db \<Rightarrow> db" where
  "add_threshold_config r d = d\<lparr>db_thresholds := db_thresholds d @ [r]\<rparr>"

definition put_threshold_config ::
  "string \<Rightarrow> (threshold_config_row \<Rightarrow> threshold_config_row) \<Rightarrow> db \<Rightarrow> db" where
  "put_threshold_config k f d = d\<lparr>db_thresholds := row_put thr_device_id k f (db_thresholds d)\<rparr>"

definition get_command :: "string \<Rightarrow> db \<Rightarrow> command_row option" where
  "get_command k d = row_get cmd_command_id k (db_commands d)"

definition add_command :: "command_row \<Rightarrow> db \<Rightarrow> db" where
  "add_command r d = d\<lparr>db_commands := db_commands d @ [r]\<rparr>"

definition put_command :: "string \<Rightarrow> (command_row \<Rightarrow> command_row) \<Rightarrow> db \<Rightarrow> db" where
  "put_command k f d = d\<lparr>db_commands := row_put cmd_command_id k f (db_commands d)\<rparr>"

definition get_telemetry :: "string \<Rightarrow> db \<Rightarrow> telemetry_row option" where
  "get_telemetry m d = row_get tel_message_id m (db_telemetry d)"

definition sequence_owner :: "string \<Rightarrow> int \<Rightarrow> db \<Rightarrow> telemetry_row option" where
  "sequence_owner did n d =
     find (\<lambda>r. tel_device_id r = did \<and> tel_sequence r = n) (db_telemetry d)"

definition get_health :: "string \<Rightarrow> db \<Rightarrow> health_row option" where
  "get_health m d = row_get hs_message_id m (db_health d)"

text \<open>
  The interface the transactions use: a lookup sees an added row under its key, and an
  update of one key (which never writes the key column) is seen there and nowhere else.
\<close>

locale keyed_store =
  fixes key :: "'r \<Rightarrow> 'k"
    and get :: "'k \<Rightarrow> 'd \<Rightarrow> 'r option"
    and add :: "'r \<Rightarrow> 'd \<Rightarrow> 'd"
    and put :: "'k \<Rightarrow> ('r \<Rightarrow> 'r) \<Rightarrow> 'd \<Rightarrow> 'd"
  assumes get_add: "get k (add r d) =
        (case get k d of Some r' \<Rightarrow> Some r' | None \<Rightarrow> if key r = k then Some r else None)"
    and get_put: "(\<And>r. key (f r) = key r) \<Longrightarrow>
        get k (put k' f d) = (if k = k' then map_option f (get k d) else get k d)"
    and get_key: "get k d = Some r \<Longrightarrow> key r = k"
begin

lemma get_add_new: "get (key r) d = None \<Longrightarrow> get (key r) (add r d) = Some r"
  by (simp add: get_add)

lemma get_add_other: "key r \<noteq> k \<Longrightarrow> get k (add r d) = get k d"
  by (simp add: get_add split: option.splits)

lemma get_add_keep: "get k d = Some r' \<Longrightarrow> get k (add r d) = Some r'"
  by (simp add: get_add)

lemma get_put_add:
  "(\<And>r. key (f r) = key r) \<Longrightarrow> get (key r) d = None \<Longrightarrow> get (key r) (put (key r) f (add r d)) = Some (f r)"
  by (simp add: get_put get_add_new)

lemma present_add: "get k d \<noteq> None \<Longrightarrow> get k (add r d) \<noteq> None"
  by (auto simp: get_add)

lemma present_put: "(\<And>r. key (f r) = key r) \<Longrightarrow> get k (put k' f d) = None \<longleftrightarrow> get k d = None"
  by (simp add: get_put)

end

interpretation devices: keyed_store dev_id get_device add_device put_device
  by unfold_locales
     (auto simp: get_device_def add_device_def put_device_def row_get_append row_get_put_same
        row_get_put_other dest: row_get_SomeD split: option.splits)

interpretation configs: keyed_store thr_device_id get_threshold_config add_threshold_config
    put_threshold_config
  by unfold_locales
     (auto simp: get_threshold_config_def add_threshold_config_def put_threshold_config_def
        row_get_append row_get_put_same row_get_put_other dest: row_get_SomeD split: option.splits)

interpretation commands: keyed_store cmd_command_id get_command add_command put_command
  by unfold_locales
     (auto simp: get_command_def add_command_def put_command_def row_get_append row_get_put_same
        row_get_put_other dest: row_get_SomeD split: option.splits)

section \<open>Integer columns\<close>

text \<open>
  \<open>Integer\<close> is a 32-bit and \<open>BigInteger\<close> a 64-bit signed column: a value outside the range
  is refused by the database when the row is flushed (\<open>DataError\<close>).
\<close>

definition int32_ok :: "int \<Rightarrow> bool" where
  "int32_ok i = (- (2 ^ 31) \<le> i \<and> i < 2 ^ 31)"

definition int64_ok :: "int \<Rightarrow> bool" where
  "int64_ok i = (- (2 ^ 63) \<le> i \<and> i < 2 ^ 63)"

definition telemetry_fits :: "telemetry_row \<Rightarrow> bool" where
  "telemetry_fits r = (int64_ok (tel_sequence r) \<and> int64_ok (tel_uptime_ms r))"

definition device_fits :: "device_row \<Rightarrow> bool" where
  "device_fits r =
     ((case dev_rssi_dbm r of None \<Rightarrow> True | Some i \<Rightarrow> int32_ok i)
      \<and> int32_ok (dev_reset_count r) \<and> int32_ok (dev_queue_depth r)
      \<and> int32_ok (dev_queue_capacity r) \<and> int32_ok (dev_dropped_message_count r))"

section \<open>The schema's constraints as an invariant\<close>

abbreviation active_alarm :: "string \<Rightarrow> string \<Rightarrow> alarm_row \<Rightarrow> bool" where
  "active_alarm did code a \<equiv> alm_device_id a = did \<and> alm_code a = code \<and> alm_state a = ''active''"

definition active_alarms :: "string \<Rightarrow> string \<Rightarrow> alarm_row list \<Rightarrow> alarm_row list" where
  "active_alarms did code rows = filter (active_alarm did code) rows"

definition one_active :: "alarm_row list \<Rightarrow> bool" where
  "one_active rows = (\<forall>did code. length (active_alarms did code rows) \<le> 1)"

definition alarms_ok :: "alarm_row list \<Rightarrow> bool" where
  "alarms_ok rows = (distinct (map alm_id rows) \<and> one_active rows)"

definition keys_ok :: "db \<Rightarrow> bool" where
  "keys_ok d =
     (distinct (map dev_id (db_devices d))
      \<and> distinct (map thr_device_id (db_thresholds d))
      \<and> distinct (map tel_message_id (db_telemetry d))
      \<and> distinct (map (\<lambda>r. (tel_device_id r, tel_sequence r)) (db_telemetry d))
      \<and> distinct (map hs_message_id (db_health d))
      \<and> distinct (map cmd_command_id (db_commands d)))"

definition refs_ok :: "db \<Rightarrow> bool" where
  "refs_ok d =
     ((\<forall>r \<in> set (db_telemetry d). \<exists>v. get_device (tel_device_id r) d = Some v
          \<and> dev_site_id v = tel_site_id r)
      \<and> (\<forall>r \<in> set (db_health d). get_device (hs_device_id r) d \<noteq> None))"

definition store_ok :: "db \<Rightarrow> bool" where
  "store_ok d = (keys_ok d \<and> refs_ok d \<and> alarms_ok (db_alarms d))"

lemma store_ok_empty: "store_ok empty_db"
  by (simp add: store_ok_def keys_ok_def refs_ok_def alarms_ok_def one_active_def
        active_alarms_def empty_db_def)

lemma get_telemetry_None: "get_telemetry m d = None \<longleftrightarrow> m \<notin> tel_message_id ` set (db_telemetry d)"
  by (simp add: get_telemetry_def row_get_None_iff)

lemma get_health_None: "get_health m d = None \<longleftrightarrow> m \<notin> hs_message_id ` set (db_health d)"
  by (simp add: get_health_def row_get_None_iff)

lemma get_device_None: "get_device k d = None \<longleftrightarrow> k \<notin> dev_id ` set (db_devices d)"
  by (simp add: get_device_def row_get_None_iff)

lemma get_config_None: "get_threshold_config k d = None \<longleftrightarrow> k \<notin> thr_device_id ` set (db_thresholds d)"
  by (simp add: get_threshold_config_def row_get_None_iff)

lemma sequence_owner_None:
  "sequence_owner did n d = None \<longleftrightarrow>
     (did, n) \<notin> (\<lambda>r. (tel_device_id r, tel_sequence r)) ` set (db_telemetry d)"
  by (auto simp: sequence_owner_def find_None_iff)

lemma store_ok_add_device:
  assumes "store_ok d" and "get_device (dev_id v) d = None"
  shows "store_ok (add_device v d)"
proof -
  have "refs_ok (add_device v d)"
    using assms(1) devices.get_add_keep unfolding store_ok_def refs_ok_def add_device_def
    by (auto simp: get_device_def row_get_append)
  moreover have "keys_ok (add_device v d)"
    using assms by (auto simp: store_ok_def keys_ok_def add_device_def get_device_None)
  ultimately show ?thesis using assms(1) by (simp add: store_ok_def add_device_def)
qed

lemma store_ok_add_config:
  "store_ok d \<Longrightarrow> get_threshold_config (thr_device_id c) d = None \<Longrightarrow> store_ok (add_threshold_config c d)"
  by (auto simp: store_ok_def keys_ok_def refs_ok_def add_threshold_config_def get_device_def get_config_None)

lemma store_ok_put_config:
  "store_ok d \<Longrightarrow> (\<And>r. thr_device_id (f r) = thr_device_id r) \<Longrightarrow> store_ok (put_threshold_config k f d)"
  by (simp add: store_ok_def keys_ok_def refs_ok_def put_threshold_config_def get_device_def map_row_put)

lemma store_ok_add_command:
  "store_ok d \<Longrightarrow> get_command (cmd_command_id c) d = None \<Longrightarrow> store_ok (add_command c d)"
  by (auto simp: store_ok_def keys_ok_def refs_ok_def add_command_def get_device_def get_command_def row_get_None_iff)

lemma store_ok_put_command:
  "store_ok d \<Longrightarrow> (\<And>r. cmd_command_id (f r) = cmd_command_id r) \<Longrightarrow> store_ok (put_command k f d)"
  by (simp add: store_ok_def keys_ok_def refs_ok_def put_command_def get_device_def map_row_put)

lemma store_ok_frame [simp]:
  "store_ok (add_audit a b x y z t d) = store_ok d"
  "store_ok (add_error_log a b x v w t d) = store_ok d"
  "store_ok (d\<lparr>db_users := us\<rparr>) = store_ok d" "store_ok (d\<lparr>db_models := ms\<rparr>) = store_ok d"
  "store_ok (d\<lparr>db_calibrations := cs\<rparr>) = store_ok d" "store_ok (d\<lparr>db_maintenance := rs\<rparr>) = store_ok d"
  "store_ok (d\<lparr>db_notified := ns\<rparr>) = store_ok d"
  by (simp_all add: store_ok_def keys_ok_def refs_ok_def add_audit_def add_error_log_def get_device_def)

lemma store_ok_set_alarms:
  "store_ok d \<Longrightarrow> alarms_ok rows \<Longrightarrow> store_ok (d\<lparr>db_alarms := rows\<rparr>)"
  by (simp add: store_ok_def keys_ok_def refs_ok_def get_device_def)

end
