(* ===== verification/Alarms.thy ===== *)
theory Alarms
  imports Store
begin

text \<open>
  The threshold alarms of \<open>services/api/app/ingestion.py\<close>: one metric of a reading opens,
  escalates, keeps or clears the active alarm of its device and code. The interface
  \<open>alarm_latch\<close> is what every alarm writer promises (one active alarm per device and code,
  closed alarms never touched, other alarms left alone); the abstract machine
  \<open>latch_next\<close> is the hysteresis that \<open>apply_metric_alarm\<close> refines.
\<close>

section \<open>One metric\<close>

definition threshold_summary :: "string \<Rightarrow> flt \<Rightarrow> string \<Rightarrow> string \<Rightarrow> string" where
  "threshold_summary metric value severity unit =
     (let label = replace_char (CHR ''_'') (CHR '' '') metric
      in str_capitalize label @ '' is '' @ fmt_g 3 value @ '' '' @ unit @ ''; '' @ severity
         @ '' threshold is active.'')"

definition desired_severity :: "flt \<Rightarrow> flt \<Rightarrow> flt \<Rightarrow> string option" where
  "desired_severity value warning critical =
     (if flt_le critical value then Some ''critical''
      else if flt_le warning value then Some ''warning''
      else None)"

text \<open>\<open>warning * (1 - hysteresis_percent / 100)\<close>; the divisor is a nonzero literal.\<close>

definition clear_below :: "flt \<Rightarrow> flt \<Rightarrow> flt" where
  "clear_below warning hysteresis_percent =
     (case flt_div hysteresis_percent (lit 100) of
        Inr q \<Rightarrow> flt_mul warning (flt_sub (lit 1) q)
      | Inl _ \<Rightarrow> NaN)"

definition apply_metric_alarm ::
  "string \<Rightarrow> string \<Rightarrow> string \<Rightarrow> string \<Rightarrow> flt option \<Rightarrow> flt \<Rightarrow> flt \<Rightarrow> flt \<Rightarrow> int
     \<Rightarrow> alarm_row list \<Rightarrow> alarm_row list" where
  "apply_metric_alarm device_id code metric unit value warning critical hysteresis_percent now rows =
     (case value of
        None \<Rightarrow> rows
      | Some v \<Rightarrow>
          let active = find (active_alarm device_id code) rows in
          case desired_severity v warning critical of
            Some desired \<Rightarrow>
              let summary = threshold_summary metric v desired unit in
              (case active of
                 None \<Rightarrow> rows @ [new_alarm device_id code desired ''threshold'' summary (Aware now) rows]
               | Some a \<Rightarrow>
                   row_put alm_id (alm_id a)
                     (\<lambda>r. r\<lparr>alm_severity := desired, alm_summary := summary\<rparr>) rows)
          | None \<Rightarrow>
              (case active of
                 Some a \<Rightarrow>
                   if flt_less v (clear_below warning hysteresis_percent)
                   then row_put alm_id (alm_id a)
                          (\<lambda>r. r\<lparr>alm_state := ''cleared'', alm_cleared_at := Some (Aware now)\<rparr>) rows
                   else rows
               | None \<Rightarrow> rows))"

section \<open>All metrics of a reading\<close>

definition threshold_alarms ::
  "threshold_config_row \<Rightarrow> string \<Rightarrow> measurements \<Rightarrow> (nat \<Rightarrow> int) \<Rightarrow> alarm_row list \<Rightarrow> alarm_row list" where
  "threshold_alarms config device_id vs clk rows =
     apply_metric_alarm device_id ''CURRENT_THRESHOLD'' ''current'' ''A'' (current_a vs)
       (thr_current_warning_a config) (thr_current_critical_a config)
       (thr_hysteresis_percent config) (clk 3)
    (apply_metric_alarm device_id ''VIBRATION_THRESHOLD'' ''vibration RMS'' ''m/s^2''
       (vibration_rms_mps2 vs)
       (thr_vibration_warning_mps2 config) (thr_vibration_critical_mps2 config)
       (thr_hysteresis_percent config) (clk 2)
    (apply_metric_alarm device_id ''TEMPERATURE_THRESHOLD'' ''temperature'' ''deg C''
       (temperature_c vs)
       (thr_temperature_warning_c config) (thr_temperature_critical_c config)
       (thr_hysteresis_percent config) (clk 1) rows))"

section \<open>Active alarms and updates\<close>

lemma active_alarms_simps [simp]:
  "active_alarms d c [] = []"
  "active_alarms d c (rs @ ss) = active_alarms d c rs @ active_alarms d c ss"
  "active_alarms d c [a] = (if active_alarm d c a then [a] else [])"
  by (simp_all add: active_alarms_def)

lemma find_active_None: "find (active_alarm d c) rows = None \<longleftrightarrow> active_alarms d c rows = []"
  by (simp add: active_alarms_def find_None_filter)

lemma find_active_Some:
  assumes "one_active rows"
  shows "find (active_alarm d c) rows = Some a \<longleftrightarrow> active_alarms d c rows = [a]"
proof -
  have "length (active_alarms d c rows) \<le> 1" using assms by (simp add: one_active_def)
  moreover have "find P xs = Some a \<longleftrightarrow> (\<exists>ys. filter P xs = a # ys)" for P and xs :: "alarm_row list"
    by (induction xs) auto
  ultimately show ?thesis by (auto simp: active_alarms_def)
qed

lemma active_in_rows: "active_alarms d c rows = [a] \<Longrightarrow> a \<in> set rows \<and> active_alarm d c a"
proof -
  assume "active_alarms d c rows = [a]"
  then have "a \<in> set (filter (active_alarm d c) rows)" by (simp add: active_alarms_def)
  then show ?thesis by simp
qed

lemma same_id_same_row:
  "distinct (map alm_id rows) \<Longrightarrow> a \<in> set rows \<Longrightarrow> b \<in> set rows \<Longrightarrow> alm_id a = alm_id b \<Longrightarrow> a = b"
  by (simp add: distinct_map inj_on_def)

lemma filter_change_one:
  "\<not> P a \<Longrightarrow> \<not> P b \<Longrightarrow> filter P (map (\<lambda>r. if r = a then b else r) rs) = filter P rs"
  "P a \<Longrightarrow> P b \<Longrightarrow> filter P (map (\<lambda>r. if r = a then b else r) rs) =
     map (\<lambda>r. if r = a then b else r) (filter P rs)"
  "\<not> P b \<Longrightarrow> filter P (map (\<lambda>r. if r = a then b else r) rs) = filter (\<lambda>r. r \<noteq> a) (filter P rs)"
  by (induction rs) auto

lemma row_put_one:
  assumes "distinct (map alm_id rows)" and "a \<in> set rows"
  shows "row_put alm_id (alm_id a) f rows = map (\<lambda>r. if r = a then f a else r) rows"
  unfolding row_put_def using same_id_same_row [OF assms(1) _ assms(2)] by (intro map_cong) auto

lemma active_put_other:
  assumes "distinct (map alm_id rows)" and "a \<in> set rows" and "\<not> active_alarm d c a"
    and "\<not> active_alarm d c (f a)"
  shows "active_alarms d c (row_put alm_id (alm_id a) f rows) = active_alarms d c rows"
  unfolding row_put_one [OF assms(1,2)] active_alarms_def
  by (rule filter_change_one(1) [of "active_alarm d c", OF assms(3,4)])

lemma active_put_same:
  assumes "active_alarms d c rows = [a]" and "active_alarm d c (f a)"
    and "distinct (map alm_id rows)"
  shows "active_alarms d c (row_put alm_id (alm_id a) f rows) = [f a]"
proof -
  from active_in_rows [OF assms(1)] have a: "a \<in> set rows" "active_alarm d c a" by auto
  show ?thesis
    unfolding row_put_one [OF assms(3) a(1)] active_alarms_def
      filter_change_one(2) [of "active_alarm d c", OF a(2) assms(2)]
    using assms(1) by (simp add: active_alarms_def)
qed

lemma active_put_clear:
  assumes "active_alarms d c rows = [a]" and "\<not> active_alarm d c (f a)"
    and "distinct (map alm_id rows)"
  shows "active_alarms d c (row_put alm_id (alm_id a) f rows) = []"
proof -
  from active_in_rows [OF assms(1)] have a: "a \<in> set rows" by simp
  show ?thesis
    unfolding row_put_one [OF assms(3) a] active_alarms_def
      filter_change_one(3) [of "active_alarm d c", OF assms(2)]
    using assms(1) by (simp add: active_alarms_def)
qed

lemma one_activeI:
  "(\<And>d c. length (active_alarms d c rows) \<le> 1) \<Longrightarrow> one_active rows"
  by (simp add: one_active_def)

section \<open>The three writes an alarm writer makes\<close>

lemma new_alarm_fields [simp]:
  "alm_device_id (new_alarm d c sev src sm t rows) = d"
  "alm_code (new_alarm d c sev src sm t rows) = c"
  "alm_severity (new_alarm d c sev src sm t rows) = sev"
  "alm_source (new_alarm d c sev src sm t rows) = src"
  "alm_state (new_alarm d c sev src sm t rows) = ''active''"
  "alm_summary (new_alarm d c sev src sm t rows) = sm"
  "alm_id (new_alarm d c sev src sm t rows) = row_fresh alm_id rows"
  "alm_cleared_at (new_alarm d c sev src sm t rows) = None"
  "alm_opened_at (new_alarm d c sev src sm t rows) = t"
  by (simp_all add: new_alarm_def)

lemma open_alarms_ok:
  assumes "alarms_ok rows" and "active_alarms d c rows = []"
  shows "alarms_ok (rows @ [new_alarm d c sev src sm t rows])"
proof -
  have "one_active (rows @ [new_alarm d c sev src sm t rows])"
  proof (rule one_activeI)
    fix d' c'
    show "length (active_alarms d' c' (rows @ [new_alarm d c sev src sm t rows])) \<le> 1"
      using assms by (cases "d' = d \<and> c' = c") (auto simp: alarms_ok_def one_active_def)
  qed
  then show ?thesis
    using assms row_fresh_notin [of alm_id rows] by (auto simp: alarms_ok_def)
qed

lemma put_alarms_ok:
  assumes ok: "alarms_ok rows" and act: "active_alarms d c rows = [a]"
    and f: "\<And>r. alm_id (f r) = alm_id r" "\<And>r. alm_device_id (f r) = alm_device_id r"
           "\<And>r. alm_code (f r) = alm_code r"
  shows "alarms_ok (row_put alm_id (alm_id a) f rows)"
proof -
  from ok have dist: "distinct (map alm_id rows)" by (simp add: alarms_ok_def)
  from active_in_rows [OF act] have a: "a \<in> set rows" "active_alarm d c a" by auto
  have "one_active (row_put alm_id (alm_id a) f rows)"
  proof (rule one_activeI)
    fix d' c'
    show "length (active_alarms d' c' (row_put alm_id (alm_id a) f rows)) \<le> 1"
    proof (cases "d' = d \<and> c' = c")
      case True
      then show ?thesis
        using active_put_same [where f = f, OF act _ dist] active_put_clear [where f = f, OF act _ dist]
        by (cases "active_alarm d c (f a)") auto
    next
      case False
      with a f have "active_alarms d' c' (row_put alm_id (alm_id a) f rows) = active_alarms d' c' rows"
        by (intro active_put_other [OF dist]) auto
      with ok show ?thesis by (simp add: alarms_ok_def one_active_def)
    qed
  qed
  then show ?thesis
    using dist f(1) by (simp add: alarms_ok_def map_row_put)
qed

text \<open>What a write may do to one device's alarms of one code: nothing, open one, update the open one.\<close>

inductive alarm_write :: "string \<Rightarrow> string \<Rightarrow> alarm_row list \<Rightarrow> alarm_row list \<Rightarrow> bool" where
  keep: "alarm_write d c rows rows"
| open_new: "active_alarms d c rows = [] \<Longrightarrow>
     alarm_write d c rows (rows @ [new_alarm d c sev src sm t rows])"
| update: "active_alarms d c rows = [a] \<Longrightarrow>
     (\<And>r. alm_id (f r) = alm_id r) \<Longrightarrow> (\<And>r. alm_device_id (f r) = alm_device_id r) \<Longrightarrow>
     (\<And>r. alm_code (f r) = alm_code r) \<Longrightarrow>
     alarm_write d c rows (row_put alm_id (alm_id a) f rows)"

lemma alarm_write_ok: "alarm_write d c rows rows' \<Longrightarrow> alarms_ok rows \<Longrightarrow> alarms_ok rows'"
  by (induction rule: alarm_write.induct) (auto intro: open_alarms_ok put_alarms_ok)

lemma alarm_write_frame:
  "alarm_write d c rows rows' \<Longrightarrow> alarms_ok rows \<Longrightarrow> (d', c') \<noteq> (d, c) \<Longrightarrow>
     active_alarms d' c' rows' = active_alarms d' c' rows"
proof (induction rule: alarm_write.induct)
  case (update d c rows a f)
  then show ?case
    using active_in_rows [OF update.hyps(1)]
    by (intro active_put_other) (auto simp: alarms_ok_def)
qed auto

lemma alarm_write_ids: "alarm_write d c rows rows' \<Longrightarrow> prefix (map alm_id rows) (map alm_id rows')"
  by (induction rule: alarm_write.induct) (auto simp: map_row_put)

lemma alarm_write_closed:
  "alarm_write d c rows rows' \<Longrightarrow> alarms_ok rows \<Longrightarrow> r \<in> set rows \<Longrightarrow> alm_state r \<noteq> ''active'' \<Longrightarrow>
     r \<in> set rows'"
proof (induction rule: alarm_write.induct)
  case (update d c rows a f)
  then have "a \<in> set rows" "alm_state a = ''active''" using active_in_rows [OF update.hyps(1)] by auto
  then have "alm_id r \<noteq> alm_id a"
    using update.prems same_id_same_row [of rows r a] by (auto simp: alarms_ok_def)
  then show ?case using update.prems by (force simp: set_row_put)
qed auto

section \<open>The interface of an alarm writer\<close>

locale alarm_latch =
  fixes device :: "'i \<Rightarrow> string"
    and code :: "'i \<Rightarrow> string"
    and step :: "'i \<Rightarrow> alarm_row list \<Rightarrow> alarm_row list"
    and inv :: "alarm_row list \<Rightarrow> bool"
  assumes inv_ok: "inv rows \<Longrightarrow> alarms_ok rows"
    and step_inv: "inv rows \<Longrightarrow> inv (step i rows)"
    and step_write: "inv rows \<Longrightarrow> alarm_write (device i) (code i) rows (step i rows)"
begin

lemma step_ok: "inv rows \<Longrightarrow> alarms_ok (step i rows)"
  using inv_ok step_inv by blast

lemma step_frame:
  "inv rows \<Longrightarrow> (d, c) \<noteq> (device i, code i) \<Longrightarrow> active_alarms d c (step i rows) = active_alarms d c rows"
  using step_write alarm_write_frame inv_ok by blast

lemma run_inv: "inv rows \<Longrightarrow> inv (fold step is rows)"
  by (induction "is" arbitrary: rows) (auto intro: step_inv)

lemma run_ok: "inv rows \<Longrightarrow> alarms_ok (fold step is rows)"
  using run_inv inv_ok by blast

lemma run_ids: "inv rows \<Longrightarrow> prefix (map alm_id rows) (map alm_id (fold step is rows))"
proof (induction "is" arbitrary: rows)
  case (Cons i "is")
  then have "prefix (map alm_id rows) (map alm_id (step i rows))"
    using step_write alarm_write_ids by blast
  moreover have "prefix (map alm_id (step i rows)) (map alm_id (fold step is (step i rows)))"
    using Cons step_inv by blast
  ultimately show ?case by (metis fold_simps(2) prefix_order.trans)
qed simp

lemma run_closed:
  "inv rows \<Longrightarrow> r \<in> set rows \<Longrightarrow> alm_state r \<noteq> ''active'' \<Longrightarrow> r \<in> set (fold step is rows)"
proof (induction "is" arbitrary: rows)
  case (Cons i "is")
  then have "r \<in> set (step i rows)" using step_write alarm_write_closed inv_ok by blast
  with Cons step_inv show ?case by simp
qed simp

lemma run_frame:
  "inv rows \<Longrightarrow> \<forall>i \<in> set is. (d, c) \<noteq> (device i, code i) \<Longrightarrow>
     active_alarms d c (fold step is rows) = active_alarms d c rows"
  by (induction "is" arbitrary: rows) (auto simp: step_frame step_inv)

end

section \<open>Threshold alarms are a latch\<close>

record threshold_input =
  ti_device_id :: string
  ti_code :: string
  ti_metric :: string
  ti_unit :: string
  ti_value :: "flt option"
  ti_warning :: flt
  ti_critical :: flt
  ti_hysteresis_percent :: flt
  ti_now :: int

definition threshold_step :: "threshold_input \<Rightarrow> alarm_row list \<Rightarrow> alarm_row list" where
  "threshold_step i = apply_metric_alarm (ti_device_id i) (ti_code i) (ti_metric i) (ti_unit i)
     (ti_value i) (ti_warning i) (ti_critical i) (ti_hysteresis_percent i) (ti_now i)"

lemma apply_metric_alarm_write:
  assumes ok: "alarms_ok rows"
  shows "alarm_write d c rows (apply_metric_alarm d c metric unit vo w cr h now rows)"
proof -
  from ok have one: "one_active rows" by (simp add: alarms_ok_def)
  show ?thesis
  proof (cases vo)
    case None
    then show ?thesis by (simp add: apply_metric_alarm_def alarm_write.keep)
  next
    case (Some v)
    show ?thesis
    proof (cases "find (active_alarm d c) rows")
      case None
      then have "active_alarms d c rows = []" using find_active_None by blast
      with Some None show ?thesis
        by (auto simp: apply_metric_alarm_def Let_def intro!: alarm_write.intros split: option.splits)
    next
      case (Some a)
      then have "active_alarms d c rows = [a]" using find_active_Some [OF one] by simp
      with Some \<open>vo = Some v\<close> show ?thesis
        by (auto simp: apply_metric_alarm_def Let_def intro!: alarm_write.intros split: option.splits)
    qed
  qed
qed

interpretation threshold: alarm_latch ti_device_id ti_code threshold_step alarms_ok
proof
  fix i rows
  assume ok: "alarms_ok rows"
  then show w: "alarm_write (ti_device_id i) (ti_code i) rows (threshold_step i rows)"
    by (simp add: threshold_step_def apply_metric_alarm_write)
  from alarm_write_ok [OF w ok] show "alarms_ok (threshold_step i rows)" .
qed

lemma threshold_alarms_run:
  "threshold_alarms config did vs clk rows =
     fold threshold_step
       [\<lparr>ti_device_id = did, ti_code = ''TEMPERATURE_THRESHOLD'', ti_metric = ''temperature'',
         ti_unit = ''deg C'', ti_value = temperature_c vs,
         ti_warning = thr_temperature_warning_c config, ti_critical = thr_temperature_critical_c config,
         ti_hysteresis_percent = thr_hysteresis_percent config, ti_now = clk 1\<rparr>,
        \<lparr>ti_device_id = did, ti_code = ''VIBRATION_THRESHOLD'', ti_metric = ''vibration RMS'',
         ti_unit = ''m/s^2'', ti_value = vibration_rms_mps2 vs,
         ti_warning = thr_vibration_warning_mps2 config, ti_critical = thr_vibration_critical_mps2 config,
         ti_hysteresis_percent = thr_hysteresis_percent config, ti_now = clk 2\<rparr>,
        \<lparr>ti_device_id = did, ti_code = ''CURRENT_THRESHOLD'', ti_metric = ''current'',
         ti_unit = ''A'', ti_value = current_a vs,
         ti_warning = thr_current_warning_a config, ti_critical = thr_current_critical_a config,
         ti_hysteresis_percent = thr_hysteresis_percent config, ti_now = clk 3\<rparr>] rows"
  by (simp add: threshold_alarms_def threshold_step_def)

lemma threshold_alarms_ok: "alarms_ok rows \<Longrightarrow> alarms_ok (threshold_alarms config did vs clk rows)"
  unfolding threshold_alarms_run by (rule threshold.run_ok)

section \<open>The abstract latch\<close>

text \<open>
  What the operator sees of one device and code: no active alarm, or an active alarm of a
  severity. A reading sets it, keeps it inside the hysteresis band, or clears it.
\<close>

definition latch_state :: "string \<Rightarrow> string \<Rightarrow> alarm_row list \<Rightarrow> string option" where
  "latch_state did code rows = map_option alm_severity (find (active_alarm did code) rows)"

definition latch_next :: "flt \<Rightarrow> flt \<Rightarrow> flt \<Rightarrow> flt option \<Rightarrow> string option \<Rightarrow> string option" where
  "latch_next warning critical hysteresis value s =
     (case value of
        None \<Rightarrow> s
      | Some v \<Rightarrow>
          (case desired_severity v warning critical of
             Some severity \<Rightarrow> Some severity
           | None \<Rightarrow> if flt_less v (clear_below warning hysteresis) then None else s))"

lemma latch_state_active:
  "alarms_ok rows \<Longrightarrow>
     latch_state d c rows = (case active_alarms d c rows of [] \<Rightarrow> None | a # _ \<Rightarrow> Some (alm_severity a))"
proof -
  assume ok: "alarms_ok rows"
  then have one: "one_active rows" by (simp add: alarms_ok_def)
  show ?thesis
  proof (cases "find (active_alarm d c) rows")
    case None
    then show ?thesis by (simp add: latch_state_def find_active_None)
  next
    case (Some a)
    then show ?thesis using find_active_Some [OF one] by (simp add: latch_state_def)
  qed
qed

lemma apply_metric_alarm_refines:
  assumes ok: "alarms_ok rows"
  shows "latch_state d c (apply_metric_alarm d c metric unit vo w cr h now rows) =
         latch_next w cr h vo (latch_state d c rows)"
proof -
  let ?rows' = "apply_metric_alarm d c metric unit vo w cr h now rows"
  from ok have one: "one_active rows" and dist: "distinct (map alm_id rows)"
    by (simp_all add: alarms_ok_def)
  have ok': "alarms_ok ?rows'"
    using apply_metric_alarm_write [OF ok] ok by (rule alarm_write_ok)
  consider "active_alarms d c rows = []" "find (active_alarm d c) rows = None"
    | a where "active_alarms d c rows = [a]" "find (active_alarm d c) rows = Some a"
  proof (cases "find (active_alarm d c) rows")
    case None
    then show ?thesis using that(1) find_active_None by blast
  next
    case (Some a)
    then show ?thesis using that(2) find_active_Some [OF one] by blast
  qed
  then show ?thesis
  proof cases
    case 1
    then show ?thesis
      unfolding latch_state_active [OF ok] latch_state_active [OF ok']
      by (auto simp: apply_metric_alarm_def latch_next_def Let_def split: option.splits)
  next
    case (2 a)
    note act = active_in_rows [OF 2(1)]
    show ?thesis
      unfolding latch_state_active [OF ok] latch_state_active [OF ok']
      using act
      by (auto simp: apply_metric_alarm_def latch_next_def Let_def 2 dist
            active_put_same [OF 2(1) _ dist] active_put_clear [OF 2(1) _ dist] split: option.splits)
  qed
qed



section \<open>The hysteresis band\<close>

lemma clear_below_Fin:
  assumes "0 \<le> w" "w \<le> 2 ^ 53" "rnd w = w" "1 \<le> h" "h \<le> 25"
  obtains cb where "clear_below (Fin w) (Fin h) = Fin cb" and "rnd (3/4 * w) \<le> cb" and "cb \<le> w"
proof -
  have quarter: "rnd (1/4) = 1/4"
    by (rule rnd_exact [of _ 1 "-2"]) (simp_all add: power_int_def power2_eq_square)
  have three: "rnd (3/4) = 3/4"
    by (rule rnd_exact [of _ 3 "-2"]) (simp_all add: power_int_def power2_eq_square)
  define q where "q = rnd (h / 100)"
  define r where "r = rnd (1 - q)"
  have q: "0 \<le> q" "q \<le> 1/4"
    unfolding q_def using assms rnd_nonneg [of "h / 100"] rnd_le_float [of "h / 100" "1/4"] quarter
    by simp_all
  have r: "3/4 \<le> r" "r \<le> 1"
    unfolding r_def using q rnd_le_float [of "1 - q" 1] rnd_ge_float [of "3/4" "1 - q"] three by simp_all
  have wr: "3/4 * w \<le> w * r" "w * r \<le> w" "w * r \<le> 2 ^ 53" "0 \<le> w * r"
    using assms(1,2) r mult_left_mono [of "3/4" r w] mult_left_mono [of r 1 w] by auto
  have "of_exact (h / 100) = Fin q" "of_exact (1 - q) = Fin r" "of_exact (w * r) = Fin (rnd (w * r))"
    using assms q wr unfolding q_def r_def by (simp_all add: of_exact_small)
  then have "clear_below (Fin w) (Fin h) = Fin (rnd (w * r))"
    by (simp add: clear_below_def flt_sub_def)
  moreover have "rnd (3/4 * w) \<le> rnd (w * r)" using wr(1) by (rule rnd_mono)
  moreover have "rnd (w * r) \<le> w" using wr(2) assms(3) by (rule rnd_le_float)
  ultimately show ?thesis using that by blast
qed

text \<open>With valid thresholds a reading at or above critical makes the alarm critical, one between warning and critical makes it a warning, one in the hysteresis band changes nothing, and one below the clearing level, which lies between three quarters of the warning threshold and the warning threshold itself, leaves no active alarm.\<close>

theorem metric_alarm_bands:
  assumes ok: "alarms_ok rows"
    and thresholds: "0 \<le> w" "w < cr" "w \<le> 2 ^ 53" "rnd w = w" "1 \<le> h" "h \<le> 25"
  shows "\<exists>cb. clear_below (Fin w) (Fin h) = Fin cb \<and> rnd (3/4 * w) \<le> cb \<and> cb \<le> w \<and>
    (let rows' = apply_metric_alarm d c metric unit (Some (Fin v)) (Fin w) (Fin cr) (Fin h) now rows
     in (cr \<le> v \<longrightarrow> latch_state d c rows' = Some ''critical'')
      \<and> (w \<le> v \<and> v < cr \<longrightarrow> latch_state d c rows' = Some ''warning'')
      \<and> (cb \<le> v \<and> v < w \<longrightarrow> rows' = rows)
      \<and> (v < cb \<longrightarrow> latch_state d c rows' = None))"
proof -
  obtain cb where cb: "clear_below (Fin w) (Fin h) = Fin cb" "rnd (3/4 * w) \<le> cb" "cb \<le> w"
    using clear_below_Fin [OF thresholds(1,3-6)] by blast
  let ?rows' = "apply_metric_alarm d c metric unit (Some (Fin v)) (Fin w) (Fin cr) (Fin h) now rows"
  have nxt: "latch_state d c ?rows' = latch_next (Fin w) (Fin cr) (Fin h) (Some (Fin v)) (latch_state d c rows)"
    using ok by (rule apply_metric_alarm_refines)
  have band: "cb \<le> v \<Longrightarrow> v < w \<Longrightarrow> ?rows' = rows"
    using thresholds(2) by (simp add: apply_metric_alarm_def desired_severity_def cb Let_def split: option.splits)
  show ?thesis
    using cb thresholds(2) band
    by (intro exI [of _ cb]) (simp add: nxt latch_next_def desired_severity_def Let_def)
qed

theorem metric_alarm_bands_witness:
  "latch_state ''motor-01'' ''CURRENT_THRESHOLD''
     (apply_metric_alarm ''motor-01'' ''CURRENT_THRESHOLD'' ''current'' ''A''
        (Some (Fin 9)) (Fin 2) (Fin 4) (Fin 5) 0 []) = Some ''critical''"
  using metric_alarm_bands [of "[]" 2 4 5 "''motor-01''" "''CURRENT_THRESHOLD''" "''current''" "''A''" 9 0]
  by (auto simp: alarms_ok_def one_active_def rnd_numeral Let_def)

text \<open>An active alarm stays active through any run of readings that never fall below its clearing level, missing readings included.\<close>

theorem alarm_survives_band:
  assumes "alarms_ok rows" and "latch_state d c rows \<noteq> None"
    and "\<forall>i \<in> set is. ti_device_id i = d \<and> ti_code i = c \<and>
           (\<forall>v. ti_value i = Some v \<longrightarrow> \<not> flt_less v (clear_below (ti_warning i) (ti_hysteresis_percent i)))"
  shows "latch_state d c (fold threshold_step is rows) \<noteq> None"
  using assms
proof (induction "is" arbitrary: rows)
  case (Cons i "is")
  from Cons.prems have "latch_state d c (threshold_step i rows) \<noteq> None"
    by (auto simp: threshold_step_def apply_metric_alarm_refines latch_next_def split: option.splits)
  with Cons.prems Cons.IH threshold.step_ok show ?case by simp
qed simp

theorem alarm_survives_band_witness:
  "latch_state ''motor-01'' ''CURRENT_THRESHOLD''
     (fold threshold_step
       [\<lparr>ti_device_id = ''motor-01'', ti_code = ''CURRENT_THRESHOLD'', ti_metric = ''current'',
         ti_unit = ''A'', ti_value = Some (Fin 2), ti_warning = Fin 2, ti_critical = Fin 4,
         ti_hysteresis_percent = Fin 5, ti_now = 7\<rparr>]
       [new_alarm ''motor-01'' ''CURRENT_THRESHOLD'' ''warning'' ''threshold'' ''s'' (Aware 0) []]) \<noteq> None"
proof (rule alarm_survives_band)
  obtain cb where cb: "clear_below (Fin 2) (Fin 5) = Fin cb" "cb \<le> 2"
    using clear_below_Fin [of 2 5] rnd_numeral by auto
  show "\<forall>i \<in> set [\<lparr>ti_device_id = ''motor-01'', ti_code = ''CURRENT_THRESHOLD'', ti_metric = ''current'',
         ti_unit = ''A'', ti_value = Some (Fin 2), ti_warning = Fin 2, ti_critical = Fin 4,
         ti_hysteresis_percent = Fin 5, ti_now = 7\<rparr>].
      ti_device_id i = ''motor-01'' \<and> ti_code i = ''CURRENT_THRESHOLD'' \<and>
      (\<forall>v. ti_value i = Some v \<longrightarrow> \<not> flt_less v (clear_below (ti_warning i) (ti_hysteresis_percent i)))"
    using cb by simp
  show "alarms_ok [new_alarm ''motor-01'' ''CURRENT_THRESHOLD'' ''warning'' ''threshold'' ''s'' (Aware 0) []]"
    using open_alarms_ok [of "[]"] by (simp add: alarms_ok_def one_active_def)
qed (simp add: latch_state_def new_alarm_def)

end
