(* ===== verification/Ingestion.thy ===== *)
theory Ingestion
  imports Alarms
begin

text \<open>
  \<open>services/api/app/ingestion.py\<close> and \<open>services/api/app/events.py\<close>: the transactions that
  persist a telemetry reading, a health report and a command acknowledgement, with the
  live event each queues. A transaction reads \<open>d0\<close>, the committed state when the session
  runs its queries, and writes into \<open>d1\<close>, the committed state when it flushes and commits;
  without a concurrent writer the two are the same (\<open>persist_telemetry\<close> and so on). The
  result \<open>Inl e\<close> is an exception that leaves the session, whose work is rolled back.
  \<open>clk k\<close> is the \<open>k\<close>-th reading of the clock in the transaction.
\<close>

section \<open>Live events\<close>

record runtime =
  rt_postgres :: bool
  rt_float_repr :: "flt \<Rightarrow> string"
  rt_datetime_json :: "pydatetime \<Rightarrow> string"
  rt_container_str :: "json \<Rightarrow> string"

definition EVENT_CHANNEL :: string where
  "EVENT_CHANNEL = ''iiot_events''"

definition event_too_large :: "runtime \<Rightarrow> json \<Rightarrow> bool" where
  "event_too_large rt event =
     (rt_postgres rt \<and> 7000 < length (json_dumps (rt_float_repr rt) event))"

text \<open>The payload is ASCII (\<open>ensure_ascii\<close>), so its encoded size is its length.\<close>

definition notify_after_commit :: "runtime \<Rightarrow> json \<Rightarrow> db \<Rightarrow> db res" where
  "notify_after_commit rt event d =
     (if \<not> rt_postgres rt then Inr d
      else bindE (raise_if (event_too_large rt event)
             (ValueError ''live event exceeds bounded PostgreSQL notification size'')) (\<lambda>_.
           Inr (d\<lparr>db_notified := db_notified d @ [event]\<rparr>)))"

section \<open>Telemetry\<close>

datatype persist_status = Inserted | Duplicate

fun persist_status_str :: "persist_status \<Rightarrow> string" where
  "persist_status_str Inserted = ''inserted''"
| "persist_status_str Duplicate = ''duplicate''"

record persist_result =
  pr_status :: persist_status
  pr_message_id :: string

definition sensor_quality_json :: "sensor_quality \<Rightarrow> json" where
  "sensor_quality_json q = JObj
     [(''status'', JStr (sensor_status_str (sq_status q))),
      (''valid_samples'', JInt (sq_valid_samples q)),
      (''expected_samples'', JInt (sq_expected_samples q)),
      (''error_code'', jopt JStr (sq_error_code q))]"

definition sample_quality_json :: "sample_quality \<Rightarrow> json" where
  "sample_quality_json q = JObj
     [(''temperature'', sensor_quality_json (spl_temperature q)),
      (''vibration'', sensor_quality_json (spl_vibration q)),
      (''current'', sensor_quality_json (spl_current q))]"

definition measurements_json :: "measurements \<Rightarrow> json" where
  "measurements_json m = JObj
     [(''temperature_c'', jopt JNum (temperature_c m)),
      (''vibration_rms_mps2'', jopt JNum (vibration_rms_mps2 m)),
      (''vibration_peak_mps2'', jopt JNum (vibration_peak_mps2 m)),
      (''vibration_crest_factor'', jopt JNum (vibration_crest_factor m)),
      (''current_a'', jopt JNum (current_a m))]"

definition telemetry_event :: "telemetry_envelope \<Rightarrow> json" where
  "telemetry_event e = JObj
     [(''type'', JStr ''telemetry''),
      (''device_id'', JStr (te_device_id e)),
      (''message_id'', JStr (te_message_id e)),
      (''sequence'', JInt (te_sequence e)),
      (''quality'', JStr (quality_str (te_quality e))),
      (''measurements'', measurements_json (te_measurements e)),
      (''fault_flags'', jstrs (te_fault_flags e))]"

definition telemetry_row_of :: "telemetry_envelope \<Rightarrow> pydatetime \<Rightarrow> telemetry_row list \<Rightarrow> telemetry_row" where
  "telemetry_row_of e now rows =
     \<lparr>tel_id = row_fresh tel_id rows, tel_message_id = te_message_id e,
      tel_device_id = te_device_id e, tel_site_id = te_site_id e, tel_sequence = te_sequence e,
      tel_device_time = te_device_time e, tel_received_at = now,
      tel_clock_synchronized = te_clock_synchronized e, tel_uptime_ms = te_uptime_ms e,
      tel_firmware_version = te_firmware_version e, tel_quality = quality_str (te_quality e),
      tel_replayed = te_replayed e,
      tel_temperature_c = temperature_c (te_measurements e),
      tel_vibration_rms_mps2 = vibration_rms_mps2 (te_measurements e),
      tel_vibration_peak_mps2 = vibration_peak_mps2 (te_measurements e),
      tel_vibration_crest_factor = vibration_crest_factor (te_measurements e),
      tel_current_a = current_a (te_measurements e),
      tel_sample_quality = sample_quality_json (te_sample_quality e),
      tel_fault_flags = te_fault_flags e,
      tel_anomaly_score = None, tel_anomaly_percentile = None, tel_anomaly_reason = None\<rparr>"

definition device_after_telemetry :: "telemetry_envelope \<Rightarrow> pydatetime \<Rightarrow> device_row \<Rightarrow> device_row" where
  "device_after_telemetry e now v =
     v\<lparr>dev_last_seen_at := Some now,
       dev_firmware_version := Some (te_firmware_version e),
       dev_reported_status := (if te_quality e \<noteq> Good then ''degraded'' else ''online''),
       dev_active_faults := te_fault_flags e\<rparr>"

text \<open>\<open>device = session.get(...)\<close>, registering an unknown device; \<open>None\<close> is the site check failing.\<close>

definition site_mismatch :: "string \<Rightarrow> string \<Rightarrow> db \<Rightarrow> bool" where
  "site_mismatch did site d =
     (case get_device did d of None \<Rightarrow> False | Some v \<Rightarrow> dev_site_id v \<noteq> site)"

definition upsert_device ::
  "bool \<Rightarrow> string \<Rightarrow> string \<Rightarrow> pydatetime \<Rightarrow> (device_row \<Rightarrow> device_row) \<Rightarrow> db \<Rightarrow> db" where
  "upsert_device is_new did site created f d =
     put_device did f (if is_new then add_device (new_device did site did created) d else d)"

text \<open>
  What a flush of the pending rows raises: a value that does not fit its column, or a
  row whose primary key or unique key is already committed.
\<close>

definition telemetry_conflict :: "telemetry_envelope \<Rightarrow> db \<Rightarrow> db \<Rightarrow> bool" where
  "telemetry_conflict e d0 d1 =
     (get_telemetry (te_message_id e) d1 \<noteq> None
      \<or> sequence_owner (te_device_id e) (te_sequence e) d1 \<noteq> None
      \<or> (get_device (te_device_id e) d0 = None \<and> get_device (te_device_id e) d1 \<noteq> None)
      \<or> (get_threshold_config (te_device_id e) d0 = None
          \<and> get_threshold_config (te_device_id e) d1 \<noteq> None))"

definition telemetry_flush_error :: "telemetry_envelope \<Rightarrow> db \<Rightarrow> db \<Rightarrow> exc option" where
  "telemetry_flush_error e d0 d1 =
     (if \<not> (int64_ok (te_sequence e) \<and> int64_ok (te_uptime_ms e)) then Some DataError
      else if telemetry_conflict e d0 d1 then Some IntegrityError
      else None)"

text \<open>The rows the transaction writes, on top of the state it commits into.\<close>

definition telemetry_writes :: "(nat \<Rightarrow> int) \<Rightarrow> telemetry_envelope \<Rightarrow> db \<Rightarrow> db \<Rightarrow> db" where
  "telemetry_writes clk e d0 d1 =
     (let did = te_device_id e;
          now = Aware (clk 0);
          d2 = upsert_device (get_device did d0 = None) did (te_site_id e) (Aware (clk 4))
                 (device_after_telemetry e now) d1;
          d3 = d2\<lparr>db_telemetry := db_telemetry d2 @ [telemetry_row_of e now (db_telemetry d2)]\<rparr>;
          (config, d4) = (case get_threshold_config did d0 of
             Some c \<Rightarrow> (c, d3)
           | None \<Rightarrow> (let c = new_threshold_config did (Aware (clk 5)) in (c, add_threshold_config c d3)))
      in d4\<lparr>db_alarms := threshold_alarms config did (te_measurements e) clk (db_alarms d4)\<rparr>)"

definition flush :: "exc option \<Rightarrow> unit res" where
  "flush err = (case err of None \<Rightarrow> Inr () | Some x \<Rightarrow> Inl x)"

definition telemetry_txn ::
  "runtime \<Rightarrow> (nat \<Rightarrow> int) \<Rightarrow> telemetry_envelope \<Rightarrow> db \<Rightarrow> db \<Rightarrow> (db \<times> persist_result) res" where
  "telemetry_txn rt clk e d0 d1 =
     (let mid = te_message_id e; did = te_device_id e;
          err = telemetry_flush_error e d0 d1 in
      if get_telemetry mid d0 \<noteq> None then Inr (d1, \<lparr>pr_status = Duplicate, pr_message_id = mid\<rparr>)
      else
        bindE (raise_if (sequence_owner did (te_sequence e) d0 \<noteq> None)
          (SequenceCollisionError (''sequence '' @ str_of_int (te_sequence e)
             @ '' already belongs to another message''))) (\<lambda>_.
        bindE (raise_if (site_mismatch did (te_site_id e) d0)
          (ValueError ''topic site does not match registered device site'')) (\<lambda>_.
        bindE (if get_threshold_config did d0 = None then flush err else Inr ()) (\<lambda>_.
        bindE (notify_after_commit rt (telemetry_event e) (telemetry_writes clk e d0 d1)) (\<lambda>d.
        (case err of
           None \<Rightarrow> Inr (d, \<lparr>pr_status = Inserted, pr_message_id = mid\<rparr>)
         | Some x \<Rightarrow>
             if x = IntegrityError \<and> get_telemetry mid d1 \<noteq> None
             then Inr (d1, \<lparr>pr_status = Duplicate, pr_message_id = mid\<rparr>)
             else Inl x))))))"

definition persist_telemetry ::
  "runtime \<Rightarrow> (nat \<Rightarrow> int) \<Rightarrow> telemetry_envelope \<Rightarrow> db \<Rightarrow> (db \<times> persist_result) res" where
  "persist_telemetry rt clk e d = telemetry_txn rt clk e d d"

section \<open>Health\<close>

definition health_payload :: "runtime \<Rightarrow> health_envelope \<Rightarrow> json" where
  "health_payload rt e = JObj
     [(''schema_version'', JInt (he_schema_version e)),
      (''message_id'', JStr (he_message_id e)),
      (''site_id'', JStr (he_site_id e)),
      (''device_id'', JStr (he_device_id e)),
      (''sequence'', JInt (he_sequence e)),
      (''device_time'', jopt (\<lambda>t. JStr (rt_datetime_json rt t)) (he_device_time e)),
      (''uptime_ms'', JInt (he_uptime_ms e)),
      (''firmware_version'', JStr (he_firmware_version e)),
      (''status'', JStr (health_status_str (he_status e))),
      (''rssi_dbm'', jopt JInt (he_rssi_dbm e)),
      (''reset_reason'', JStr (he_reset_reason e)),
      (''reset_count'', JInt (he_reset_count e)),
      (''queue_depth'', JInt (he_queue_depth e)),
      (''queue_capacity'', JInt (he_queue_capacity e)),
      (''dropped_message_count'', JInt (he_dropped_message_count e)),
      (''modbus_status'', JStr (modbus_state_str (he_modbus_status e))),
      (''active_faults'', jstrs (he_active_faults e))]"

definition health_event :: "health_envelope \<Rightarrow> json" where
  "health_event e = JObj
     [(''type'', JStr ''health''),
      (''device_id'', JStr (he_device_id e)),
      (''status'', JStr (health_status_str (he_status e))),
      (''queue_depth'', JInt (he_queue_depth e)),
      (''modbus_status'', JStr (modbus_state_str (he_modbus_status e))),
      (''active_faults'', jstrs (he_active_faults e))]"

definition device_after_health :: "health_envelope \<Rightarrow> pydatetime \<Rightarrow> device_row \<Rightarrow> device_row" where
  "device_after_health e now v =
     v\<lparr>dev_firmware_version := Some (he_firmware_version e),
       dev_reported_status := health_status_str (he_status e),
       dev_last_seen_at := Some now,
       dev_rssi_dbm := he_rssi_dbm e,
       dev_reset_reason := Some (he_reset_reason e),
       dev_reset_count := he_reset_count e,
       dev_queue_depth := he_queue_depth e,
       dev_queue_capacity := he_queue_capacity e,
       dev_dropped_message_count := he_dropped_message_count e,
       dev_modbus_status := modbus_state_str (he_modbus_status e),
       dev_active_faults := he_active_faults e\<rparr>"

definition health_fits :: "health_envelope \<Rightarrow> bool" where
  "health_fits e =
     ((case he_rssi_dbm e of None \<Rightarrow> True | Some i \<Rightarrow> int32_ok i)
      \<and> int32_ok (he_reset_count e) \<and> int32_ok (he_queue_depth e)
      \<and> int32_ok (he_queue_capacity e) \<and> int32_ok (he_dropped_message_count e))"

definition health_flush_error :: "health_envelope \<Rightarrow> db \<Rightarrow> db \<Rightarrow> exc option" where
  "health_flush_error e d0 d1 =
     (if \<not> health_fits e then Some DataError
      else if get_health (he_message_id e) d1 \<noteq> None
              \<or> (get_device (he_device_id e) d0 = None \<and> get_device (he_device_id e) d1 \<noteq> None)
      then Some IntegrityError
      else None)"

definition health_writes :: "runtime \<Rightarrow> (nat \<Rightarrow> int) \<Rightarrow> health_envelope \<Rightarrow> db \<Rightarrow> db \<Rightarrow> db" where
  "health_writes rt clk e d0 d1 =
     (let did = he_device_id e;
          d2 = upsert_device (get_device did d0 = None) did (he_site_id e) (Aware (clk 1))
                 (device_after_health e (Aware (clk 0))) d1
      in d2\<lparr>db_health := db_health d2 @
           [\<lparr>hs_id = row_fresh hs_id (db_health d2), hs_message_id = he_message_id e,
             hs_device_id = did, hs_received_at = Aware (clk 2), hs_payload = health_payload rt e\<rparr>]\<rparr>)"

definition health_txn ::
  "runtime \<Rightarrow> (nat \<Rightarrow> int) \<Rightarrow> health_envelope \<Rightarrow> db \<Rightarrow> db \<Rightarrow> (db \<times> persist_result) res" where
  "health_txn rt clk e d0 d1 =
     (let mid = he_message_id e; did = he_device_id e in
      if get_health mid d0 \<noteq> None then Inr (d1, \<lparr>pr_status = Duplicate, pr_message_id = mid\<rparr>)
      else
        bindE (raise_if (site_mismatch did (he_site_id e) d0)
          (ValueError ''topic site does not match registered device site'')) (\<lambda>_.
        bindE (notify_after_commit rt (health_event e) (health_writes rt clk e d0 d1)) (\<lambda>d.
        bindE (flush (health_flush_error e d0 d1)) (\<lambda>_.
        Inr (d, \<lparr>pr_status = Inserted, pr_message_id = mid\<rparr>)))))"

definition persist_health ::
  "runtime \<Rightarrow> (nat \<Rightarrow> int) \<Rightarrow> health_envelope \<Rightarrow> db \<Rightarrow> (db \<times> persist_result) res" where
  "persist_health rt clk e d = health_txn rt clk e d d"

section \<open>Command acknowledgements\<close>

definition ack_event :: "command_ack_envelope \<Rightarrow> command_row \<Rightarrow> json" where
  "ack_event e c = JObj
     [(''type'', JStr ''command_ack''),
      (''device_id'', JStr (ca_device_id e)),
      (''command_id'', JStr (cmd_command_id c)),
      (''status'', JStr (ack_status_str (ca_status e))),
      (''result_code'', JStr (ca_result_code e)),
      (''relay_on'', JBool (ca_relay_on e))]"

definition command_after_ack :: "command_ack_envelope \<Rightarrow> pydatetime \<Rightarrow> command_row \<Rightarrow> command_row" where
  "command_after_ack e now c =
     c\<lparr>cmd_status := ack_status_str (ca_status e),
       cmd_result_code := Some (ca_result_code e),
       cmd_detail := ca_detail e,
       cmd_acknowledged_at := Some now\<rparr>"

definition persist_command_ack ::
  "runtime \<Rightarrow> (nat \<Rightarrow> int) \<Rightarrow> command_ack_envelope \<Rightarrow> db \<Rightarrow> (db \<times> persist_result) res" where
  "persist_command_ack rt clk e d =
     (case get_command (ca_command_id e) d of
        None \<Rightarrow> Inl (ValueError ''acknowledgement references an unknown command'')
      | Some c \<Rightarrow>
          bindE (raise_if (cmd_device_id c \<noteq> ca_device_id e)
            (ValueError ''acknowledgement device does not match command'')) (\<lambda>_.
          if cmd_acknowledged_at c \<noteq> None \<and> cmd_status c = ack_status_str (ca_status e)
          then Inr (d, \<lparr>pr_status = Duplicate, pr_message_id = ca_message_id e\<rparr>)
          else
            bindE (notify_after_commit rt (ack_event e c)
              (add_audit (ca_device_id e) ''command_acknowledged'' ''device_command''
                 (cmd_command_id c)
                 (JObj [(''status'', JStr (ack_status_str (ca_status e))),
                        (''result_code'', JStr (ca_result_code e)),
                        (''relay_on'', JBool (ca_relay_on e))]) (Aware (clk 1))
                 (put_command (ca_command_id e) (command_after_ack e (Aware (clk 0))) d))) (\<lambda>d'.
            Inr (d', \<lparr>pr_status = Inserted, pr_message_id = ca_message_id e\<rparr>))))"

end
