(* ===== verification/IngestionLaws.thy ===== *)
theory IngestionLaws
  imports Ingestion
begin

text \<open>
  What the persistence transactions guarantee: the constraints of the schema and the
  alarm invariant survive them, also against a concurrent writer; a message is persisted
  once however often it is delivered (the interface \<open>redelivery\<close>, interpreted on the
  telemetry and on the health transaction); rejections leave nothing behind.
\<close>

section \<open>The writes, table by table\<close>

lemma upsert_device_tables [simp]:
  "db_telemetry (upsert_device b did s t f d) = db_telemetry d"
  "db_thresholds (upsert_device b did s t f d) = db_thresholds d"
  "db_health (upsert_device b did s t f d) = db_health d"
  "db_alarms (upsert_device b did s t f d) = db_alarms d"
  "db_commands (upsert_device b did s t f d) = db_commands d"
  "db_users (upsert_device b did s t f d) = db_users d"
  "db_models (upsert_device b did s t f d) = db_models d"
  "db_calibrations (upsert_device b did s t f d) = db_calibrations d"
  "db_maintenance (upsert_device b did s t f d) = db_maintenance d"
  "db_audits (upsert_device b did s t f d) = db_audits d"
  "db_errors (upsert_device b did s t f d) = db_errors d"
  "db_notified (upsert_device b did s t f d) = db_notified d"
  by (simp_all add: upsert_device_def put_device_def add_device_def)

lemma telemetry_writes_tables [simp]:
  "db_telemetry (telemetry_writes clk e d0 d1) =
     db_telemetry d1 @ [telemetry_row_of e (Aware (clk 0)) (db_telemetry d1)]"
  "db_devices (telemetry_writes clk e d0 d1) =
     db_devices (upsert_device (get_device (te_device_id e) d0 = None) (te_device_id e) (te_site_id e)
       (Aware (clk 4)) (device_after_telemetry e (Aware (clk 0))) d1)"
  "db_thresholds (telemetry_writes clk e d0 d1) =
     db_thresholds d1 @ (if get_threshold_config (te_device_id e) d0 = None
                         then [new_threshold_config (te_device_id e) (Aware (clk 5))] else [])"
  "db_health (telemetry_writes clk e d0 d1) = db_health d1"
  "db_commands (telemetry_writes clk e d0 d1) = db_commands d1"
  "db_users (telemetry_writes clk e d0 d1) = db_users d1"
  "db_models (telemetry_writes clk e d0 d1) = db_models d1"
  "db_calibrations (telemetry_writes clk e d0 d1) = db_calibrations d1"
  "db_maintenance (telemetry_writes clk e d0 d1) = db_maintenance d1"
  "db_audits (telemetry_writes clk e d0 d1) = db_audits d1"
  "db_errors (telemetry_writes clk e d0 d1) = db_errors d1"
  "db_notified (telemetry_writes clk e d0 d1) = db_notified d1"
  by (auto simp: telemetry_writes_def Let_def add_threshold_config_def split: option.splits)

lemma telemetry_writes_alarms [simp]:
  "db_alarms (telemetry_writes clk e d0 d1) =
     threshold_alarms
       (case get_threshold_config (te_device_id e) d0 of
          Some c \<Rightarrow> c | None \<Rightarrow> new_threshold_config (te_device_id e) (Aware (clk 5)))
       (te_device_id e) (te_measurements e) clk (db_alarms d1)"
  by (auto simp: telemetry_writes_def Let_def add_threshold_config_def split: option.splits)

lemma health_writes_tables [simp]:
  "db_telemetry (health_writes rt clk e d0 d1) = db_telemetry d1"
  "db_devices (health_writes rt clk e d0 d1) =
     db_devices (upsert_device (get_device (he_device_id e) d0 = None) (he_device_id e) (he_site_id e)
       (Aware (clk 1)) (device_after_health e (Aware (clk 0))) d1)"
  "db_thresholds (health_writes rt clk e d0 d1) = db_thresholds d1"
  "map hs_message_id (db_health (health_writes rt clk e d0 d1)) =
     map hs_message_id (db_health d1) @ [he_message_id e]"
  "hs_device_id ` set (db_health (health_writes rt clk e d0 d1)) =
     insert (he_device_id e) (hs_device_id ` set (db_health d1))"
  "db_alarms (health_writes rt clk e d0 d1) = db_alarms d1"
  "db_commands (health_writes rt clk e d0 d1) = db_commands d1"
  by (auto simp: health_writes_def Let_def)

lemma device_after_keeps [simp]:
  "dev_id (device_after_telemetry e t v) = dev_id v"
  "dev_site_id (device_after_telemetry e t v) = dev_site_id v"
  "dev_id (device_after_health h t v) = dev_id v"
  "dev_site_id (device_after_health h t v) = dev_site_id v"
  "dev_id (new_device did s n t) = did"
  "dev_site_id (new_device did s n t) = s"
  by (simp_all add: device_after_telemetry_def device_after_health_def new_device_def)

lemma telemetry_row_keys [simp]:
  "tel_message_id (telemetry_row_of e t rows) = te_message_id e"
  "tel_device_id (telemetry_row_of e t rows) = te_device_id e"
  "tel_site_id (telemetry_row_of e t rows) = te_site_id e"
  "tel_sequence (telemetry_row_of e t rows) = te_sequence e"
  by (simp_all add: telemetry_row_of_def)

lemma get_device_cong: "db_devices d = db_devices d' \<Longrightarrow> get_device k d = get_device k d'"
  by (simp add: get_device_def)

lemma get_device_upsert:
  assumes f: "\<And>v. dev_id (f v) = dev_id v" and b: "b \<Longrightarrow> get_device did d = None"
  shows "get_device k (upsert_device b did s t f d) =
     (if k = did then (if b then Some (f (new_device did s did t)) else map_option f (get_device did d))
      else get_device k d)"
  using b by (auto simp: upsert_device_def devices.get_put [OF f] devices.get_add split: option.splits)

lemma device_keys_upsert:
  assumes f: "\<And>v. dev_id (f v) = dev_id v"
  shows "map dev_id (db_devices (upsert_device b did s t f d)) =
     map dev_id (db_devices d) @ (if b then [did] else [])"
  by (simp add: upsert_device_def put_device_def add_device_def map_row_put f)

section \<open>The invariant of the store\<close>

text \<open>
  What another transaction may have done between the reads and the commit: it keeps the
  devices with their sites and the threshold configurations, and it may add rows.
\<close>

definition keeps :: "db \<Rightarrow> db \<Rightarrow> bool" where
  "keeps d0 d1 =
     ((\<forall>k v. get_device k d0 = Some v \<longrightarrow> (\<exists>v'. get_device k d1 = Some v' \<and> dev_site_id v' = dev_site_id v))
      \<and> (\<forall>k. get_threshold_config k d0 \<noteq> None \<longrightarrow> get_threshold_config k d1 \<noteq> None)
      \<and> (\<forall>m. get_telemetry m d0 \<noteq> None \<longrightarrow> get_telemetry m d1 \<noteq> None)
      \<and> (\<forall>k n. sequence_owner k n d0 \<noteq> None \<longrightarrow> sequence_owner k n d1 \<noteq> None)
      \<and> (\<forall>m. get_health m d0 \<noteq> None \<longrightarrow> get_health m d1 \<noteq> None))"

lemma keeps_refl [simp]: "keeps d d"
  by (simp add: keeps_def)

lemma telemetry_writes_keys_ok:
  assumes "keys_ok d1" and "\<not> telemetry_conflict e d0 d1"
  shows "keys_ok (telemetry_writes clk e d0 d1)"
  using assms
  by (auto simp: keys_ok_def telemetry_conflict_def device_keys_upsert get_telemetry_None
      sequence_owner_None get_device_None get_config_None new_threshold_config_def)

lemma refs_okI:
  assumes "\<And>r. r \<in> set (db_telemetry d) \<Longrightarrow>
      \<exists>v. get_device (tel_device_id r) d = Some v \<and> dev_site_id v = tel_site_id r"
    and "\<And>k. k \<in> hs_device_id ` set (db_health d) \<Longrightarrow> get_device k d \<noteq> None"
  shows "refs_ok d"
  using assms by (auto simp: refs_ok_def)

lemma upsert_refs:
  fixes t :: pydatetime
  assumes refs: "refs_ok d1"
    and f: "\<And>v. dev_id (f v) = dev_id v" "\<And>v. dev_site_id (f v) = dev_site_id v"
    and dev: "if b then get_device did d1 = None
              else \<exists>v. get_device did d1 = Some v \<and> dev_site_id v = s"
  defines "d2 \<equiv> upsert_device b did s t f d1"
  shows "\<And>r. r \<in> set (db_telemetry d1) \<Longrightarrow>
      \<exists>v. get_device (tel_device_id r) d2 = Some v \<and> dev_site_id v = tel_site_id r"
    and "\<And>k. k \<in> hs_device_id ` set (db_health d1) \<Longrightarrow> get_device k d2 \<noteq> None"
    and "\<exists>v. get_device did d2 = Some v \<and> dev_site_id v = s"
proof -
  have b: "b \<Longrightarrow> get_device did d1 = None" using dev by simp
  note g = get_device_upsert [of f b did d1, OF f(1) b]
  show "\<exists>v. get_device did d2 = Some v \<and> dev_site_id v = s"
    using dev f by (auto simp: d2_def g)
  show "\<exists>v. get_device (tel_device_id r) d2 = Some v \<and> dev_site_id v = tel_site_id r"
    if "r \<in> set (db_telemetry d1)" for r
    using refs that dev f by (force simp: d2_def g refs_ok_def split: if_splits)
  show "get_device k d2 \<noteq> None" if "k \<in> hs_device_id ` set (db_health d1)" for k
    using refs that dev f by (force simp: d2_def g refs_ok_def split: if_splits)
qed

lemma device_at_commit:
  assumes "keeps d0 d1" and "\<not> site_mismatch did s d0"
    and "\<not> (get_device did d0 = None \<and> get_device did d1 \<noteq> None)"
  shows "if get_device did d0 = None then get_device did d1 = None
         else \<exists>v. get_device did d1 = Some v \<and> dev_site_id v = s"
proof (cases "get_device did d0")
  case None
  with assms(3) show ?thesis by auto
next
  case (Some v)
  with assms(1) obtain v' where "get_device did d1 = Some v'" "dev_site_id v' = dev_site_id v"
    unfolding keeps_def by blast
  with Some assms(2) show ?thesis by (auto simp: site_mismatch_def)
qed

lemma telemetry_writes_ok:
  assumes ok: "store_ok d1" and free: "\<not> telemetry_conflict e d0 d1" and ks: "keeps d0 d1"
    and site: "\<not> site_mismatch (te_device_id e) (te_site_id e) d0"
  shows "store_ok (telemetry_writes clk e d0 d1)"
proof -
  let ?d = "telemetry_writes clk e d0 d1"
  let ?u = "upsert_device (get_device (te_device_id e) d0 = None) (te_device_id e) (te_site_id e)
       (Aware (clk 4)) (device_after_telemetry e (Aware (clk 0))) d1"
  have dev: "get_device k ?d = get_device k ?u" for k by (rule get_device_cong) simp
  have at: "if get_device (te_device_id e) d0 = None then get_device (te_device_id e) d1 = None
            else \<exists>v. get_device (te_device_id e) d1 = Some v \<and> dev_site_id v = te_site_id e"
    using free by (intro device_at_commit [OF ks site]) (auto simp: telemetry_conflict_def)
  from ok have refs: "refs_ok d1" by (simp add: store_ok_def)
  note u = upsert_refs [where f = "device_after_telemetry e (Aware (clk 0))" and t = "Aware (clk 4)", OF refs _ _ at, simplified]
  have "refs_ok ?d"
    by (rule refs_okI) (use u in \<open>auto simp: dev\<close>)
  then show ?thesis
    using ok free by (simp add: store_ok_def telemetry_writes_keys_ok threshold_alarms_ok)
qed

text \<open>The transactions as one decision list.\<close>

abbreviation duplicate_of :: "string \<Rightarrow> persist_result" where
  "duplicate_of mid \<equiv> \<lparr>pr_status = Duplicate, pr_message_id = mid\<rparr>"

abbreviation inserted_of :: "string \<Rightarrow> persist_result" where
  "inserted_of mid \<equiv> \<lparr>pr_status = Inserted, pr_message_id = mid\<rparr>"

definition with_event :: "runtime \<Rightarrow> json \<Rightarrow> db \<Rightarrow> db" where
  "with_event rt ev d = d\<lparr>db_notified := db_notified d @ (if rt_postgres rt then [ev] else [])\<rparr>"

lemma notify_eq:
  "notify_after_commit rt ev d =
     (if event_too_large rt ev
      then Inl (ValueError ''live event exceeds bounded PostgreSQL notification size'')
      else Inr (with_event rt ev d))"
  by (simp add: notify_after_commit_def event_too_large_def with_event_def)

lemma with_event_tables [simp]:
  "db_users (with_event rt ev d) = db_users d" "db_devices (with_event rt ev d) = db_devices d"
  "db_models (with_event rt ev d) = db_models d" "db_thresholds (with_event rt ev d) = db_thresholds d"
  "db_telemetry (with_event rt ev d) = db_telemetry d" "db_health (with_event rt ev d) = db_health d"
  "db_alarms (with_event rt ev d) = db_alarms d"
  "db_calibrations (with_event rt ev d) = db_calibrations d"
  "db_maintenance (with_event rt ev d) = db_maintenance d"
  "db_audits (with_event rt ev d) = db_audits d" "db_errors (with_event rt ev d) = db_errors d"
  "db_commands (with_event rt ev d) = db_commands d"
  by (simp_all add: with_event_def)

lemma with_event_lookups [simp]:
  "get_device k (with_event rt ev d) = get_device k d"
  "get_threshold_config k (with_event rt ev d) = get_threshold_config k d"
  "get_telemetry m (with_event rt ev d) = get_telemetry m d"
  "sequence_owner k n (with_event rt ev d) = sequence_owner k n d"
  "get_health m (with_event rt ev d) = get_health m d"
  "get_command m (with_event rt ev d) = get_command m d"
  "store_ok (with_event rt ev d) = store_ok d"
  by (simp_all add: get_device_def get_threshold_config_def get_telemetry_def sequence_owner_def
      get_health_def get_command_def store_ok_def keys_ok_def refs_ok_def)

abbreviation collision_message :: "int \<Rightarrow> string" where
  "collision_message n \<equiv> ''sequence '' @ str_of_int n @ '' already belongs to another message''"

abbreviation site_message :: string where
  "site_message \<equiv> ''topic site does not match registered device site''"

abbreviation large_message :: string where
  "large_message \<equiv> ''live event exceeds bounded PostgreSQL notification size''"

lemma telemetry_txn_eq:
  "telemetry_txn rt clk e d0 d1 =
     (if get_telemetry (te_message_id e) d0 \<noteq> None then Inr (d1, duplicate_of (te_message_id e))
      else if sequence_owner (te_device_id e) (te_sequence e) d0 \<noteq> None
      then Inl (SequenceCollisionError (collision_message (te_sequence e)))
      else if site_mismatch (te_device_id e) (te_site_id e) d0 then Inl (ValueError site_message)
      else if get_threshold_config (te_device_id e) d0 = None \<and> telemetry_flush_error e d0 d1 \<noteq> None
      then Inl (the (telemetry_flush_error e d0 d1))
      else if event_too_large rt (telemetry_event e) then Inl (ValueError large_message)
      else case telemetry_flush_error e d0 d1 of
        None \<Rightarrow> Inr (with_event rt (telemetry_event e) (telemetry_writes clk e d0 d1), inserted_of (te_message_id e))
      | Some x \<Rightarrow> if x = IntegrityError \<and> get_telemetry (te_message_id e) d1 \<noteq> None
                  then Inr (d1, duplicate_of (te_message_id e)) else Inl x)"
  by (simp add: telemetry_txn_def Let_def raise_if_def flush_def notify_eq split: option.split)

lemma health_txn_eq:
  "health_txn rt clk e d0 d1 =
     (if get_health (he_message_id e) d0 \<noteq> None then Inr (d1, duplicate_of (he_message_id e))
      else if site_mismatch (he_device_id e) (he_site_id e) d0 then Inl (ValueError site_message)
      else if event_too_large rt (health_event e) then Inl (ValueError large_message)
      else case health_flush_error e d0 d1 of
        None \<Rightarrow> Inr (with_event rt (health_event e) (health_writes rt clk e d0 d1), inserted_of (he_message_id e))
      | Some x \<Rightarrow> Inl x)"
  by (simp add: health_txn_def Let_def raise_if_def flush_def notify_eq split: option.split)

lemma telemetry_flush_error_None:
  "telemetry_flush_error e d0 d1 = None \<longleftrightarrow>
     int64_ok (te_sequence e) \<and> int64_ok (te_uptime_ms e) \<and> \<not> telemetry_conflict e d0 d1"
  by (auto simp: telemetry_flush_error_def)

lemma health_flush_error_None:
  "health_flush_error e d0 d1 = None \<longleftrightarrow>
     health_fits e \<and> get_health (he_message_id e) d1 = None
     \<and> \<not> (get_device (he_device_id e) d0 = None \<and> get_device (he_device_id e) d1 \<noteq> None)"
  by (auto simp: health_flush_error_def)

lemma telemetry_txn_store_ok:
  assumes "store_ok d1" and "keeps d0 d1" and "telemetry_txn rt clk e d0 d1 = Inr (d', r)"
  shows "store_ok d'"
proof (cases "d' = d1")
  case False
  with assms(3) have d': "d' = with_event rt (telemetry_event e) (telemetry_writes clk e d0 d1)"
    and "telemetry_flush_error e d0 d1 = None"
    and "\<not> site_mismatch (te_device_id e) (te_site_id e) d0"
    by (auto simp: telemetry_txn_eq split: if_splits option.splits)
  with assms have "store_ok (telemetry_writes clk e d0 d1)"
    by (intro telemetry_writes_ok) (simp_all add: telemetry_flush_error_None)
  with d' show ?thesis by simp
qed (use assms in simp)

lemma health_writes_ok:
  assumes ok: "store_ok d1" and free: "health_flush_error e d0 d1 = None" and ks: "keeps d0 d1"
    and site: "\<not> site_mismatch (he_device_id e) (he_site_id e) d0"
  shows "store_ok (health_writes rt clk e d0 d1)"
proof -
  let ?d = "health_writes rt clk e d0 d1"
  let ?u = "upsert_device (get_device (he_device_id e) d0 = None) (he_device_id e) (he_site_id e)
       (Aware (clk 1)) (device_after_health e (Aware (clk 0))) d1"
  have at: "if get_device (he_device_id e) d0 = None then get_device (he_device_id e) d1 = None
            else \<exists>v. get_device (he_device_id e) d1 = Some v \<and> dev_site_id v = he_site_id e"
    using free by (intro device_at_commit [OF ks site]) (simp add: health_flush_error_None)
  from ok have refs: "refs_ok d1" by (simp add: store_ok_def)
  note u = upsert_refs [where f = "device_after_health e (Aware (clk 0))" and t = "Aware (clk 1)", OF refs _ _ at, simplified]
  have dev: "get_device k ?d = get_device k ?u" for k by (rule get_device_cong) simp
  have "refs_ok ?d"
    by (rule refs_okI) (use u in \<open>auto simp: dev\<close>)
  moreover have "keys_ok ?d"
    using ok free
    by (auto simp: store_ok_def keys_ok_def device_keys_upsert get_health_None get_device_None health_flush_error_None)
  ultimately show ?thesis using ok by (simp add: store_ok_def)
qed

lemma health_txn_store_ok:
  assumes "store_ok d1" and "keeps d0 d1" and "health_txn rt clk e d0 d1 = Inr (d', r)"
  shows "store_ok d'"
  using assms health_writes_ok [of d1 e d0 rt clk]
  by (auto simp: health_txn_eq split: if_splits option.splits)

lemma persist_command_ack_store_ok:
  assumes "store_ok d" and "persist_command_ack rt clk e d = Inr (d', r)"
  shows "store_ok d'"
proof (cases "d' = d")
  case False
  obtain c det where d': "d' = with_event rt (ack_event e c)
     (add_audit (ca_device_id e) ''command_acknowledged'' ''device_command'' (cmd_command_id c) det
        (Aware (clk 1)) (put_command (ca_command_id e) (command_after_ack e (Aware (clk 0))) d))"
    using assms(2) False
    by (auto simp: persist_command_ack_def notify_eq split: option.splits if_splits)
  have "map cmd_command_id (row_put cmd_command_id k (command_after_ack e t) cs) = map cmd_command_id cs"
    for k t cs by (rule map_row_put) (simp add: command_after_ack_def)
  then show ?thesis
    using assms(1)
    by (simp add: d' store_ok_def keys_ok_def refs_ok_def get_device_def add_audit_def put_command_def)
qed (use assms in simp)

section \<open>Redelivery\<close>

text \<open>
  MQTT at QoS 1 delivers a message at least once. A run delivers messages in order, each
  at its own clock; \<open>keep_first\<close> is the run with every repetition of a message left out.
\<close>

definition run_all :: "('c \<Rightarrow> 'm \<Rightarrow> 's \<Rightarrow> 's) \<Rightarrow> ('c \<times> 'm) list \<Rightarrow> 's \<Rightarrow> 's" where
  "run_all deliver xs s = fold (\<lambda>(c, m). deliver c m) xs s"

fun keep_first :: "'m list \<Rightarrow> ('c \<times> 'm) list \<Rightarrow> ('c \<times> 'm) list" where
  "keep_first seen [] = []"
| "keep_first seen ((c, m) # xs) =
     (if m \<in> set seen then keep_first seen xs else (c, m) # keep_first (m # seen) xs)"

lemma run_all_simps [simp]:
  "run_all f [] s = s"
  "run_all f ((c, m) # xs) s = run_all f xs (f c m s)"
  "run_all f (xs @ ys) s = run_all f ys (run_all f xs s)"
  by (simp_all add: run_all_def)

locale redelivery =
  fixes deliver :: "'c \<Rightarrow> 'm \<Rightarrow> 's \<Rightarrow> 's"
    and settled :: "'m \<Rightarrow> 's \<Rightarrow> bool"
  assumes settled_id: "settled m s \<Longrightarrow> deliver c m s = s"
    and settles: "settled m (deliver c m s)"
    and settled_keep: "settled m s \<Longrightarrow> settled m (deliver c m' s)"
begin

lemma settled_run: "settled m s \<Longrightarrow> settled m (run_all deliver xs s)"
  by (induction xs arbitrary: s) (auto simp: settled_keep)

lemma run_settles: "(c, m) \<in> set xs \<Longrightarrow> settled m (run_all deliver xs s)"
proof (induction xs arbitrary: s)
  case (Cons x xs)
  obtain c' m' where x: "x = (c', m')" by (cases x)
  from Cons.prems x consider "m = m'" | "(c, m) \<in> set xs" by auto
  then show ?case
  proof cases
    case 1
    then show ?thesis using settled_run [OF settles, of m' xs c' s] by (simp add: x)
  next
    case 2
    then show ?thesis using Cons.IH [of "deliver c' m' s"] by (simp add: x)
  qed
qed simp

lemma redeliver_id: "(c, m) \<in> set xs \<Longrightarrow> deliver c' m (run_all deliver xs s) = run_all deliver xs s"
  using run_settles settled_id by blast

lemma run_keep_first:
  "\<forall>m \<in> set seen. settled m s \<Longrightarrow> run_all deliver (keep_first seen xs) s = run_all deliver xs s"
proof (induction seen xs arbitrary: s rule: keep_first.induct)
  case (2 seen c m xs)
  show ?case
  proof (cases "m \<in> set seen")
    case True
    with "2.prems" have "deliver c m s = s" by (simp add: settled_id)
    with True 2 show ?thesis by simp
  next
    case False
    have "\<forall>m' \<in> set (m # seen). settled m' (deliver c m s)"
      using "2.prems" settles settled_keep by simp
    with False 2 show ?thesis by simp
  qed
qed simp

lemma run_exactly_once: "run_all deliver xs s = run_all deliver (keep_first [] xs) s"
  using run_keep_first [of "[]" s xs] by simp

end

section \<open>Telemetry and health are redelivery-safe\<close>

definition deliver_telemetry :: "runtime \<Rightarrow> (nat \<Rightarrow> int) \<Rightarrow> telemetry_envelope \<Rightarrow> db \<Rightarrow> db" where
  "deliver_telemetry rt clk e d = (case persist_telemetry rt clk e d of Inl _ \<Rightarrow> d | Inr (d', _) \<Rightarrow> d')"

definition deliver_health :: "runtime \<Rightarrow> (nat \<Rightarrow> int) \<Rightarrow> health_envelope \<Rightarrow> db \<Rightarrow> db" where
  "deliver_health rt clk e d = (case persist_health rt clk e d of Inl _ \<Rightarrow> d | Inr (d', _) \<Rightarrow> d')"

text \<open>A message is settled when it is persisted, or is refused for a reason that stays.\<close>

definition telemetry_settled :: "runtime \<Rightarrow> telemetry_envelope \<Rightarrow> db \<Rightarrow> bool" where
  "telemetry_settled rt e d =
     (get_telemetry (te_message_id e) d \<noteq> None
      \<or> sequence_owner (te_device_id e) (te_sequence e) d \<noteq> None
      \<or> site_mismatch (te_device_id e) (te_site_id e) d
      \<or> \<not> (int64_ok (te_sequence e) \<and> int64_ok (te_uptime_ms e))
      \<or> event_too_large rt (telemetry_event e))"

definition health_settled :: "runtime \<Rightarrow> health_envelope \<Rightarrow> db \<Rightarrow> bool" where
  "health_settled rt e d =
     (get_health (he_message_id e) d \<noteq> None
      \<or> site_mismatch (he_device_id e) (he_site_id e) d
      \<or> \<not> health_fits e
      \<or> event_too_large rt (health_event e))"

lemma telemetry_conflict_same:
  "telemetry_conflict e d d \<longleftrightarrow>
     get_telemetry (te_message_id e) d \<noteq> None \<or> sequence_owner (te_device_id e) (te_sequence e) d \<noteq> None"
  by (auto simp: telemetry_conflict_def)

lemma deliver_telemetry_eq:
  "deliver_telemetry rt clk e d =
     (if telemetry_settled rt e d then d
      else with_event rt (telemetry_event e) (telemetry_writes clk e d d))"
  by (auto simp: deliver_telemetry_def persist_telemetry_def telemetry_txn_eq telemetry_settled_def
      telemetry_flush_error_def telemetry_conflict_same)

lemma deliver_health_eq:
  "deliver_health rt clk e d =
     (if health_settled rt e d then d
      else with_event rt (health_event e) (health_writes rt clk e d d))"
  by (auto simp: deliver_health_def persist_health_def health_txn_eq health_settled_def
      health_flush_error_def)

lemma get_telemetry_append:
  "db_telemetry d' = db_telemetry d @ rs \<Longrightarrow>
     get_telemetry m d \<noteq> None \<Longrightarrow> get_telemetry m d' \<noteq> None"
  "db_telemetry d' = db_telemetry d @ rs \<Longrightarrow>
     sequence_owner k n d \<noteq> None \<Longrightarrow> sequence_owner k n d' \<noteq> None"
  by (auto simp: get_telemetry_None sequence_owner_None simp flip: not_None_eq)

lemma site_keeps:
  "keeps d d' \<Longrightarrow> site_mismatch did s d \<Longrightarrow> site_mismatch did s d'"
  by (fastforce simp: site_mismatch_def keeps_def split: option.splits)

lemma keeps_upsert:
  assumes f: "\<And>v. dev_id (f v) = dev_id v" "\<And>v. dev_site_id (f v) = dev_site_id v"
    and b: "b = (get_device did d = None)"
    and dev: "db_devices d' = db_devices (upsert_device b did s t f d)"
    and thr: "\<And>k. get_threshold_config k d \<noteq> None \<Longrightarrow> get_threshold_config k d' \<noteq> None"
    and tel: "\<And>m. get_telemetry m d \<noteq> None \<Longrightarrow> get_telemetry m d' \<noteq> None"
             "\<And>k n. sequence_owner k n d \<noteq> None \<Longrightarrow> sequence_owner k n d' \<noteq> None"
    and hs: "\<And>m. get_health m d \<noteq> None \<Longrightarrow> get_health m d' \<noteq> None"
  shows "keeps d d'"
proof -
  have "get_device k d' = get_device k (upsert_device b did s t f d)" for k
    by (rule get_device_cong [OF dev])
  moreover have "get_device k (upsert_device b did s t f d) =
     (if k = did then (if b then Some (f (new_device did s did t)) else map_option f (get_device did d))
      else get_device k d)" for k
    using b by (intro get_device_upsert f) auto
  ultimately show ?thesis
    using b thr tel hs f(2) by (auto simp: keeps_def)
qed

lemma keeps_telemetry_writes: "keeps d (with_event rt ev (telemetry_writes clk e d d))"
proof (rule keeps_upsert [where did = "te_device_id e" and s = "te_site_id e"])
  let ?d = "with_event rt ev (telemetry_writes clk e d d)"
  show "db_devices ?d = db_devices (upsert_device (get_device (te_device_id e) d = None) (te_device_id e)
          (te_site_id e) (Aware (clk 4)) (device_after_telemetry e (Aware (clk 0))) d)"
    by simp
  show "get_telemetry m d \<noteq> None \<Longrightarrow> get_telemetry m ?d \<noteq> None" for m
    by (erule get_telemetry_append(1) [rotated]) simp
  show "sequence_owner k n d \<noteq> None \<Longrightarrow> sequence_owner k n ?d \<noteq> None" for k n
    by (erule get_telemetry_append(2) [rotated]) simp
  show "get_threshold_config k d \<noteq> None \<Longrightarrow> get_threshold_config k ?d \<noteq> None" for k
    by (auto simp: get_threshold_config_def row_get_None_iff simp flip: not_None_eq)
  show "get_health m d \<noteq> None \<Longrightarrow> get_health m ?d \<noteq> None" for m
    by (auto simp: get_health_def)
qed simp_all

lemma keeps_health_writes: "keeps d (with_event rt ev (health_writes rt clk e d d))"
proof (rule keeps_upsert [where did = "he_device_id e" and s = "he_site_id e"])
  let ?d = "with_event rt ev (health_writes rt clk e d d)"
  show "db_devices ?d = db_devices (upsert_device (get_device (he_device_id e) d = None) (he_device_id e)
          (he_site_id e) (Aware (clk 1)) (device_after_health e (Aware (clk 0))) d)"
    by simp
  show "get_health m d \<noteq> None \<Longrightarrow> get_health m ?d \<noteq> None" for m
    using health_writes_tables(4) [of rt clk e d d]
    by (simp add: get_health_None flip: set_map)
qed (simp_all add: get_threshold_config_def get_telemetry_def sequence_owner_def)

lemma keeps_deliver:
  "keeps d (deliver_telemetry rt clk e d)"
  "keeps d (deliver_health rt clk h d)"
  by (simp_all add: deliver_telemetry_eq deliver_health_eq keeps_telemetry_writes keeps_health_writes)

lemma telemetry_settled_keeps: "keeps d d' \<Longrightarrow> telemetry_settled rt e d \<Longrightarrow> telemetry_settled rt e d'"
  using site_keeps [of d d'] by (auto simp: telemetry_settled_def keeps_def)

lemma health_settled_keeps: "keeps d d' \<Longrightarrow> health_settled rt e d \<Longrightarrow> health_settled rt e d'"
  using site_keeps [of d d'] by (auto simp: health_settled_def keeps_def)

lemma telemetry_writes_get: "get_telemetry (te_message_id e) (telemetry_writes clk e d0 d1) \<noteq> None"
  by (simp add: get_telemetry_None)

lemma health_writes_get: "get_health (he_message_id e) (health_writes rt clk e d0 d1) \<noteq> None"
  using health_writes_tables(4) [of rt clk e d0 d1] by (simp add: get_health_None flip: set_map)

interpretation telemetry: redelivery "deliver_telemetry rt" "telemetry_settled rt" for rt
proof unfold_locales
  fix c m m' d
  show "telemetry_settled rt m d \<Longrightarrow> deliver_telemetry rt c m d = d"
    by (simp add: deliver_telemetry_eq)
  show "telemetry_settled rt m (deliver_telemetry rt c m d)"
    by (auto simp: deliver_telemetry_eq telemetry_settled_def [of rt m "with_event _ _ _"] telemetry_writes_get)
  show "telemetry_settled rt m d \<Longrightarrow> telemetry_settled rt m (deliver_telemetry rt c m' d)"
    using telemetry_settled_keeps keeps_deliver(1) by blast
qed

interpretation health: redelivery "deliver_health rt" "health_settled rt" for rt
proof unfold_locales
  fix c m m' d
  show "health_settled rt m d \<Longrightarrow> deliver_health rt c m d = d"
    by (simp add: deliver_health_eq)
  show "health_settled rt m (deliver_health rt c m d)"
    by (auto simp: deliver_health_eq health_settled_def [of rt m "with_event _ _ _"] health_writes_get)
  show "health_settled rt m d \<Longrightarrow> health_settled rt m (deliver_health rt c m' d)"
    using health_settled_keeps keeps_deliver(2) by blast
qed

section \<open>Properties\<close>

text \<open>C20: Telemetry at least once is telemetry exactly once: however often, in whatever order and at whatever times messages are delivered again, the store ends as if every repetition had been left out.\<close>

theorem telemetry_exactly_once:
  "run_all (deliver_telemetry rt) xs d = run_all (deliver_telemetry rt) (keep_first [] xs) d"
  by (rule telemetry.run_exactly_once)

text \<open>Health reports are persisted exactly once under redelivery.\<close>

theorem health_exactly_once:
  "run_all (deliver_health rt) xs d = run_all (deliver_health rt) (keep_first [] xs) d"
  by (rule health.run_exactly_once)

text \<open>Every persistence transaction keeps the store's constraints (unique devices, configurations, message ids, device sequences and commands; readings of registered devices at the registered site; at most one active alarm per device and code), whatever a concurrent session committed between its reads and its commit.\<close>

theorem persistence_keeps_store_ok:
  assumes "store_ok d1" and "keeps d0 d1"
    and "telemetry_txn rt clk e d0 d1 = Inr (d', r) \<or> health_txn rt clk h d0 d1 = Inr (d', r)
         \<or> persist_command_ack rt clk a d1 = Inr (d', r)"
  shows "store_ok d'"
  using assms telemetry_txn_store_ok health_txn_store_ok persist_command_ack_store_ok by blast

text \<open>The readings and reports of the examples.\<close>

definition sample_sensor :: sensor_quality where
  "sample_sensor = \<lparr>sq_status = SGood, sq_valid_samples = 10, sq_expected_samples = 10, sq_error_code = None\<rparr>"

definition sample_envelope :: "string \<Rightarrow> int \<Rightarrow> flt \<Rightarrow> telemetry_envelope" where
  "sample_envelope mid n temperature =
     \<lparr>te_schema_version = 1, te_message_id = mid, te_site_id = ''workshop-demo'', te_device_id = ''motor-01'',
      te_sequence = n, te_device_time = Some (Aware 5), te_clock_synchronized = True, te_uptime_ms = 10,
      te_firmware_version = ''0.1.0'', te_quality = Good, te_replayed = False,
      te_measurements = \<lparr>temperature_c = Some temperature, vibration_rms_mps2 = Some (Fin 1),
        vibration_peak_mps2 = Some (Fin 2), vibration_crest_factor = Some (Fin 2), current_a = None\<rparr>,
      te_sample_quality = \<lparr>spl_temperature = sample_sensor, spl_vibration = sample_sensor, spl_current = sample_sensor\<rparr>,
      te_fault_flags = []\<rparr>"

definition sample_runtime :: runtime where
  "sample_runtime = \<lparr>rt_postgres = False, rt_float_repr = (\<lambda>_. ''0.0''), rt_datetime_json = (\<lambda>_. []), rt_container_str = (\<lambda>_. [])\<rparr>"

lemma sample_envelope_fields [simp]:
  "te_message_id (sample_envelope m n t) = m" "te_sequence (sample_envelope m n t) = n"
  "te_device_id (sample_envelope m n t) = ''motor-01''"
  "te_site_id (sample_envelope m n t) = ''workshop-demo''"
  "te_uptime_ms (sample_envelope m n t) = 10"
  by (simp_all add: sample_envelope_def)

lemma sample_envelope_valid: "0 \<le> n \<Longrightarrow> telemetry_envelope_ok (sample_envelope m n (Fin 41))"
  by (simp add: telemetry_envelope_ok_def sample_envelope_def measurements_ok_def sample_quality_ok_def
      sensor_quality_ok_def sample_sensor_def clock_state_is_consistent_def opt_ge_le_def ge_le_def
      opt_max_length_def ident_head_def ident_tail_def upper_ascii_def lower_ascii_def digit_ascii_def)

lemma empty_lookups [simp]:
  "get_telemetry m empty_db = None" "sequence_owner k n empty_db = None"
  "get_device k empty_db = None" "get_threshold_config k empty_db = None"
  "get_health m empty_db = None" "get_command m empty_db = None"
  by (simp_all add: empty_db_def get_telemetry_def sequence_owner_def get_device_def
      get_threshold_config_def get_health_def get_command_def)

lemma sample_runtime_small [simp]: "event_too_large sample_runtime ev = False"
  by (simp add: event_too_large_def sample_runtime_def)

lemma sample_persist:
  "n \<in> {0..<2 ^ 63} \<Longrightarrow>
     persist_telemetry sample_runtime clk (sample_envelope m n t) empty_db =
       Inr (with_event sample_runtime (telemetry_event (sample_envelope m n t))
              (telemetry_writes clk (sample_envelope m n t) empty_db empty_db), inserted_of m)"
  by (simp add: persist_telemetry_def telemetry_txn_eq site_mismatch_def telemetry_flush_error_def
      telemetry_conflict_same int64_ok_def)

theorem persistence_keeps_store_ok_witness:
  "store_ok (with_event sample_runtime (telemetry_event (sample_envelope ''m1'' 1 (Fin 41)))
     (telemetry_writes (\<lambda>_. 0) (sample_envelope ''m1'' 1 (Fin 41)) empty_db empty_db))"
proof (rule persistence_keeps_store_ok [OF store_ok_empty keeps_refl, OF disjI1])
  show "telemetry_txn sample_runtime (\<lambda>_. 0) (sample_envelope ''m1'' 1 (Fin 41)) empty_db empty_db =
      Inr (with_event sample_runtime (telemetry_event (sample_envelope ''m1'' 1 (Fin 41)))
         (telemetry_writes (\<lambda>_. 0) (sample_envelope ''m1'' 1 (Fin 41)) empty_db empty_db), inserted_of ''m1'')"
    using sample_persist [of 1 "\<lambda>_. 0" "''m1''" "Fin 41"] by (simp add: persist_telemetry_def)
qed

lemma inserted_state:
  assumes "persist_telemetry rt clk e d = Inr (d', r)" and "pr_status r = Inserted"
  shows "d' = with_event rt (telemetry_event e) (telemetry_writes clk e d d)
    \<and> \<not> site_mismatch (te_device_id e) (te_site_id e) d"
  using assms unfolding persist_telemetry_def telemetry_txn_eq by (auto split: if_splits option.splits)

lemma persisted_devices:
  assumes ok: "persist_telemetry rt clk e d = Inr (d', r)" and ins: "pr_status r = Inserted"
  defines "did \<equiv> te_device_id e" and "f \<equiv> device_after_telemetry e (Aware (clk 0))"
  shows "get_device k d' =
     (if k = did then (if get_device did d = None then Some (f (new_device did (te_site_id e) did (Aware (clk 4))))
                       else map_option f (get_device did d)) else get_device k d)"
proof -
  have "get_device k d' = get_device k (upsert_device (get_device did d = None) did (te_site_id e) (Aware (clk 4)) f d)"
    by (rule get_device_cong) (simp add: inserted_state [OF ok ins] did_def f_def)
  then show ?thesis by (simp add: get_device_upsert f_def)
qed

lemma persisted_device:
  assumes ok: "persist_telemetry rt clk e d = Inr (d', r)" and ins: "pr_status r = Inserted"
  shows "\<exists>v. get_device (te_device_id e) d' = Some v \<and> dev_site_id v = te_site_id e
           \<and> dev_last_seen_at v = Some (Aware (clk 0))
           \<and> dev_firmware_version v = Some (te_firmware_version e)
           \<and> dev_reported_status v = (if te_quality e = Good then ''online'' else ''degraded'')
           \<and> dev_active_faults v = te_fault_flags e"
  using inserted_state [OF ok ins, THEN conjunct2]
  by (auto simp: persisted_devices [OF ok ins] site_mismatch_def device_after_telemetry_def new_device_def
      split: option.splits)

text \<open>An inserted reading is recorded in full: one new row with its identity, the device seen now with its firmware, faults and a status that follows the quality, other devices untouched, the alarms moved by the device's thresholds (the defaults for a new device), and one live event on PostgreSQL.\<close>

theorem persist_telemetry_inserted:
  assumes ok: "persist_telemetry rt clk e d = Inr (d', r)" and ins: "pr_status r = Inserted"
  defines "now \<equiv> Aware (clk 0)" and "did \<equiv> te_device_id e"
  shows "db_telemetry d' = db_telemetry d @ [telemetry_row_of e now (db_telemetry d)]
    \<and> (\<exists>v. get_device did d' = Some v \<and> dev_site_id v = te_site_id e \<and> dev_last_seen_at v = Some now
           \<and> dev_firmware_version v = Some (te_firmware_version e)
           \<and> dev_reported_status v = (if te_quality e = Good then ''online'' else ''degraded'')
           \<and> dev_active_faults v = te_fault_flags e)
    \<and> (\<forall>k. k \<noteq> did \<longrightarrow> get_device k d' = get_device k d)
    \<and> db_alarms d' = threshold_alarms
           (case get_threshold_config did d of Some c \<Rightarrow> c | None \<Rightarrow> new_threshold_config did (Aware (clk 5)))
           did (te_measurements e) clk (db_alarms d)
    \<and> db_notified d' = db_notified d @ (if rt_postgres rt then [telemetry_event e] else [])
    \<and> get_threshold_config did d' \<noteq> None"
proof -
  note d' = inserted_state [OF ok ins, THEN conjunct1]
  have "\<exists>v. get_device did d' = Some v \<and> dev_site_id v = te_site_id e \<and> dev_last_seen_at v = Some now
           \<and> dev_firmware_version v = Some (te_firmware_version e)
           \<and> dev_reported_status v = (if te_quality e = Good then ''online'' else ''degraded'')
           \<and> dev_active_faults v = te_fault_flags e"
    using persisted_device [OF ok ins] unfolding did_def now_def .
  moreover have "get_threshold_config did d' \<noteq> None"
    by (cases "get_threshold_config did d")
       (auto simp: d' did_def new_threshold_config_def get_threshold_config_def row_get_append)
  moreover have "db_notified d' = db_notified d @ (if rt_postgres rt then [telemetry_event e] else [])"
    by (simp add: d' with_event_def)
  moreover have "\<forall>k. k \<noteq> did \<longrightarrow> get_device k d' = get_device k d"
    by (simp add: persisted_devices [OF ok ins] did_def)
  ultimately show ?thesis unfolding now_def did_def by (simp add: d')
qed

theorem persist_telemetry_inserted_witness:
  "get_threshold_config ''motor-01''
     (with_event sample_runtime (telemetry_event (sample_envelope ''m1'' 1 (Fin 41)))
        (telemetry_writes (\<lambda>_. 0) (sample_envelope ''m1'' 1 (Fin 41)) empty_db empty_db)) \<noteq> None"
  using persist_telemetry_inserted [OF sample_persist [of 1 "\<lambda>_. 0" "''m1''" "Fin 41"]] by simp

lemma persist_inserted_guards:
  assumes "persist_telemetry rt clk e d0 = Inr (d1, inserted_of (te_message_id e))"
  shows "d1 = with_event rt (telemetry_event e) (telemetry_writes clk e d0 d0)
    \<and> get_telemetry (te_message_id e) d0 = None
    \<and> sequence_owner (te_device_id e) (te_sequence e) d0 = None
    \<and> \<not> site_mismatch (te_device_id e) (te_site_id e) d0 \<and> \<not> event_too_large rt (telemetry_event e)
    \<and> telemetry_flush_error e d0 d1 = Some IntegrityError"
proof -
  from assms have d1: "d1 = with_event rt (telemetry_event e) (telemetry_writes clk e d0 d0)"
    and "get_telemetry (te_message_id e) d0 = None"
    and "sequence_owner (te_device_id e) (te_sequence e) d0 = None"
    and "\<not> site_mismatch (te_device_id e) (te_site_id e) d0" and "\<not> event_too_large rt (telemetry_event e)"
    and fits: "int64_ok (te_sequence e)" "int64_ok (te_uptime_ms e)"
    by (auto simp: persist_telemetry_def telemetry_txn_eq telemetry_flush_error_def
        split: if_splits option.splits)
  moreover have "telemetry_conflict e d0 d1"
    using telemetry_writes_get [of e clk d0 d0] by (simp add: telemetry_conflict_def d1)
  ultimately show ?thesis by (simp add: telemetry_flush_error_def)
qed

text \<open>Two sessions that receive the same reading of a configured device at once: the one that commits second finds the row, reports a duplicate and changes nothing.\<close>

theorem concurrent_duplicate_is_reported:
  assumes first: "persist_telemetry rt clk' e d0 = Inr (d1, inserted_of (te_message_id e))"
    and config: "get_threshold_config (te_device_id e) d0 \<noteq> None"
  shows "telemetry_txn rt clk e d0 d1 = Inr (d1, duplicate_of (te_message_id e))"
proof -
  note g = persist_inserted_guards [OF first, THEN conjunct2]
  have "get_telemetry (te_message_id e) d1 \<noteq> None"
    using persist_inserted_guards [OF first] telemetry_writes_get [of e clk' d0 d0] by simp
  with g config show ?thesis by (simp add: telemetry_txn_eq)
qed

definition configured_db :: db where
  "configured_db = empty_db\<lparr>db_devices := [new_device ''motor-01'' ''workshop-demo'' ''Motor'' (Aware 0)],
     db_thresholds := [new_threshold_config ''motor-01'' (Aware 0)]\<rparr>"

lemma configured_lookups [simp]:
  "get_telemetry m configured_db = None" "sequence_owner k n configured_db = None"
  "get_threshold_config ''motor-01'' configured_db = Some (new_threshold_config ''motor-01'' (Aware 0))"
  "get_device ''motor-01'' configured_db = Some (new_device ''motor-01'' ''workshop-demo'' ''Motor'' (Aware 0))"
  by (simp_all add: configured_db_def empty_db_def get_telemetry_def sequence_owner_def get_device_def
      get_threshold_config_def new_threshold_config_def new_device_def)

theorem concurrent_duplicate_is_reported_witness:
  "\<exists>d1. telemetry_txn sample_runtime (\<lambda>_. 1) (sample_envelope ''m1'' 1 (Fin 41)) configured_db d1
     = Inr (d1, duplicate_of ''m1'')"
proof -
  let ?e = "sample_envelope ''m1'' 1 (Fin 41)"
  have "\<exists>d1. persist_telemetry sample_runtime (\<lambda>_. 0) ?e configured_db = Inr (d1, inserted_of (te_message_id ?e))"
    by (simp add: persist_telemetry_def telemetry_txn_eq site_mismatch_def telemetry_flush_error_def
        telemetry_conflict_same int64_ok_def)
  then obtain d1 where "persist_telemetry sample_runtime (\<lambda>_. 0) ?e configured_db = Inr (d1, inserted_of (te_message_id ?e))" ..
  from concurrent_duplicate_is_reported [OF this, of "\<lambda>_. 1"] show ?thesis by auto
qed

text \<open>C22: The same race on the first reading of a device that has no threshold configuration yet is not handled: the early flush of the second session raises IntegrityError, which is not a ValueError and is raised outside the handler that turns it into a duplicate.\<close>

theorem concurrent_first_reading_escapes:
  assumes first: "persist_telemetry rt clk' e d0 = Inr (d1, inserted_of (te_message_id e))"
    and config: "get_threshold_config (te_device_id e) d0 = None"
  shows "telemetry_txn rt clk e d0 d1 = Inl IntegrityError \<and> \<not> is_value_error IntegrityError"
  using persist_inserted_guards [OF first, THEN conjunct2] config by (simp add: telemetry_txn_eq)

theorem concurrent_first_reading_escapes_witness:
  "\<exists>d1. telemetry_txn sample_runtime (\<lambda>_. 1) (sample_envelope ''m1'' 1 (Fin 41)) empty_db d1 = Inl IntegrityError"
  using concurrent_first_reading_escapes [of sample_runtime "\<lambda>_. 0" "sample_envelope ''m1'' 1 (Fin 41)" empty_db _ "\<lambda>_. 1"]
    sample_persist [of 1 "\<lambda>_. 0" "''m1''" "Fin 41"]
  by auto

lemma ack_status_str_inj: "ack_status_str a = ack_status_str b \<longleftrightarrow> a = b"
  by (cases a; cases b) simp_all

lemma command_after_ack_id [simp]: "cmd_command_id (command_after_ack e t x) = cmd_command_id x"
  "cmd_device_id (command_after_ack e t x) = cmd_device_id x"
  "cmd_status (command_after_ack e t x) = ack_status_str (ca_status e)"
  "cmd_acknowledged_at (command_after_ack e t x) = Some t"
  by (simp_all add: command_after_ack_def)

lemma get_command_add_audit [simp]: "get_command k (add_audit a b x y z t d) = get_command k d"
  by (simp add: get_command_def add_audit_def)

lemma get_command_after_ack:
  "get_command k (put_command cid (command_after_ack e t) d) =
     (if k = cid then map_option (command_after_ack e t) (get_command k d) else get_command k d)"
  by (simp add: commands.get_put)

text \<open>Acknowledgements are not deduplicated by message id: once two acknowledgements with different states were applied, a redelivery of the first is applied again and moves the command back to the first state.\<close>

theorem ack_redelivery_regresses:
  assumes cmd: "get_command cid d = Some c" "cmd_device_id c = did" "cmd_acknowledged_at c = None"
    and e1: "ca_command_id e1 = cid" "ca_device_id e1 = did"
    and e2: "ca_command_id e2 = cid" "ca_device_id e2 = did"
    and ne: "ca_status e1 \<noteq> ca_status e2"
    and sqlite: "\<not> rt_postgres rt"
  shows "\<exists>d1 d2 d3.
      persist_command_ack rt k1 e1 d = Inr (d1, inserted_of (ca_message_id e1))
    \<and> persist_command_ack rt k2 e2 d1 = Inr (d2, inserted_of (ca_message_id e2))
    \<and> persist_command_ack rt k3 e1 d2 = Inr (d3, inserted_of (ca_message_id e1))
    \<and> map_option cmd_status (get_command cid d2) = Some (ack_status_str (ca_status e2))
    \<and> map_option cmd_status (get_command cid d3) = Some (ack_status_str (ca_status e1))"
proof -
  have nt: "event_too_large rt ev = False" for ev using sqlite by (simp add: event_too_large_def)
  have step: "\<exists>d'. persist_command_ack rt k e s = Inr (d', inserted_of (ca_message_id e))
      \<and> get_command cid d' = Some (command_after_ack e (Aware (k 0)) x)"
    if "get_command cid s = Some x" "cmd_device_id x = did" "ca_command_id e = cid" "ca_device_id e = did"
      "\<not> (cmd_acknowledged_at x \<noteq> None \<and> cmd_status x = ack_status_str (ca_status e))" for k e s x
    using that by (simp add: persist_command_ack_def notify_eq nt get_command_after_ack)
  obtain d1 where 1: "persist_command_ack rt k1 e1 d = Inr (d1, inserted_of (ca_message_id e1))"
      "get_command cid d1 = Some (command_after_ack e1 (Aware (k1 0)) c)"
    using step [OF cmd(1,2) e1] cmd(3) by blast
  obtain d2 where 2: "persist_command_ack rt k2 e2 d1 = Inr (d2, inserted_of (ca_message_id e2))"
      "get_command cid d2 = Some (command_after_ack e2 (Aware (k2 0)) (command_after_ack e1 (Aware (k1 0)) c))"
    using step [OF 1(2) _ e2] cmd(2) ne by (auto simp: ack_status_str_inj)
  obtain d3 where 3: "persist_command_ack rt k3 e1 d2 = Inr (d3, inserted_of (ca_message_id e1))"
      "map_option cmd_status (get_command cid d3) = Some (ack_status_str (ca_status e1))"
    using step [OF 2(2) _ e1, of k3] cmd(2) ne by (auto simp: ack_status_str_inj)
  from 1 2 3 show ?thesis by auto
qed

definition sample_ack :: "string \<Rightarrow> ack_status \<Rightarrow> command_ack_envelope" where
  "sample_ack mid st = \<lparr>ca_schema_version = 1, ca_message_id = mid, ca_command_id = ''c1'',
     ca_site_id = ''workshop-demo'', ca_device_id = ''motor-01'', ca_device_time = None,
     ca_status = st, ca_result_code = ''RELAY_OFF'', ca_detail = None, ca_relay_on = False\<rparr>"

definition sample_command :: command_row where
  "sample_command = \<lparr>cmd_command_id = ''c1'', cmd_device_id = ''motor-01'', cmd_kind = ''set_demo_relay'',
     cmd_parameters = JNull, cmd_status = ''published'', cmd_result_code = None, cmd_detail = None,
     cmd_issued_by = ''admin'', cmd_issued_at = Aware 0, cmd_expires_at = Aware 10, cmd_acknowledged_at = None\<rparr>"

theorem ack_redelivery_regresses_witness:
  "\<exists>d1 d2 d3. persist_command_ack sample_runtime (\<lambda>_. 1) (sample_ack ''a1'' Accepted) (add_command sample_command empty_db)
      = Inr (d1, inserted_of ''a1'')
    \<and> persist_command_ack sample_runtime (\<lambda>_. 2) (sample_ack ''a2'' Completed) d1 = Inr (d2, inserted_of ''a2'')
    \<and> persist_command_ack sample_runtime (\<lambda>_. 3) (sample_ack ''a1'' Accepted) d2 = Inr (d3, inserted_of ''a1'')
    \<and> map_option cmd_status (get_command ''c1'' d3) = Some ''accepted''"
proof -
  have "get_command ''c1'' (add_command sample_command empty_db) = Some sample_command"
    by (simp add: commands.get_add sample_command_def)
  from ack_redelivery_regresses [OF this, of "''motor-01''" "sample_ack ''a1'' Accepted" "sample_ack ''a2'' Completed"
      sample_runtime "\<lambda>_. 1" "\<lambda>_. 2" "\<lambda>_. 3"]
  show ?thesis by (auto simp: sample_command_def sample_ack_def sample_runtime_def)
qed

end
