(* ===== verification/Ingestor.thy ===== *)
theory Ingestor
  imports Topics IngestionLaws "HOL-Library.Word"
begin

text \<open>
  The MQTT ingestor, \<open>services/mqtt_ingestor/main.py\<close>: the decoders of the three message
  kinds, \<open>handle_message\<close> with its error log, and the client's callbacks as a step relation
  over the subscriptions, the readiness file and the store. \<open>decoder\<close> holds what is not this
  repository's code: \<open>json.loads\<close> on bytes and pydantic's reading of a JSON value into the
  fields of a model (\<open>None\<close> when a field is missing, extra or of the wrong type); the
  constraints that the models declare are those of theory \<open>Schemas\<close>. An exception that
  leaves \<open>handle_message\<close> leaves the network loop, so the worker stops.
\<close>

section \<open>Decoding\<close>

type_synonym bytes = "8 word list"

record decoder =
  json_loads :: "bytes \<Rightarrow> json res"
  read_telemetry :: "json \<Rightarrow> telemetry_envelope option"
  read_health :: "bytes \<Rightarrow> health_envelope option"
  read_command_ack :: "bytes \<Rightarrow> command_ack_envelope option"
  json_error_count :: "json \<Rightarrow> nat"
  bytes_error_count :: "bytes \<Rightarrow> nat"

definition validated :: "('a \<Rightarrow> bool) \<Rightarrow> nat \<Rightarrow> 'a option \<Rightarrow> 'a res" where
  "validated ok errors value =
     (case value of
        None \<Rightarrow> Inl (ValidationError errors)
      | Some v \<Rightarrow> if ok v then Inr v else Inl (ValidationError errors))"

text \<open>
  \<open>except (UnicodeDecodeError, json.JSONDecodeError)\<close> around \<open>json.loads\<close>; any other
  exception passes.
\<close>

fun loaded :: "json res \<Rightarrow> json res" where
  "loaded (Inl UnicodeDecodeError) = Inl (ValueError ''payload is not valid UTF-8 JSON'')"
| "loaded (Inl JSONDecodeError) = Inl (ValueError ''payload is not valid UTF-8 JSON'')"
| "loaded r = r"

definition same_identity :: "parsed_topic \<Rightarrow> string \<Rightarrow> string \<Rightarrow> unit res" where
  "same_identity p site_id device_id =
     raise_if (site_id \<noteq> pt_site_id p \<or> device_id \<noteq> pt_device_id p)
       (ValueError ''topic and payload identities do not match'')"

definition decode_payload :: "decoder \<Rightarrow> string \<Rightarrow> bytes \<Rightarrow> telemetry_envelope res" where
  "decode_payload dec t payload =
     bindE (raise_if (MAX_PAYLOAD_BYTES < length payload)
              (ValueError ''payload exceeds 16 KiB contract limit'')) (\<lambda>_.
     bindE (parse_telemetry_topic t) (\<lambda>p.
     bindE (loaded (json_loads dec payload)) (\<lambda>raw.
     bindE (validated telemetry_envelope_ok (json_error_count dec raw) (read_telemetry dec raw)) (\<lambda>e.
     bindE (same_identity p (te_site_id e) (te_device_id e)) (\<lambda>_.
     Inr e)))))"

definition decode_health :: "decoder \<Rightarrow> string \<Rightarrow> bytes \<Rightarrow> health_envelope res" where
  "decode_health dec t payload =
     bindE (parse_topic t) (\<lambda>p.
     bindE (raise_if (pt_kind p \<noteq> HEALTH) (ValueError ''topic is not a health topic'')) (\<lambda>_.
     bindE (raise_if (MAX_PAYLOAD_BYTES < length payload)
              (ValueError ''payload exceeds 16 KiB contract limit'')) (\<lambda>_.
     bindE (validated health_envelope_ok (bytes_error_count dec payload) (read_health dec payload)) (\<lambda>e.
     bindE (same_identity p (he_site_id e) (he_device_id e)) (\<lambda>_.
     Inr e)))))"

definition decode_command_ack :: "decoder \<Rightarrow> string \<Rightarrow> bytes \<Rightarrow> command_ack_envelope res" where
  "decode_command_ack dec t payload =
     bindE (parse_topic t) (\<lambda>p.
     bindE (raise_if (pt_kind p \<noteq> COMMAND_ACKS)
              (ValueError ''topic is not a command acknowledgement topic'')) (\<lambda>_.
     bindE (raise_if (MAX_PAYLOAD_BYTES < length payload)
              (ValueError ''payload exceeds 16 KiB contract limit'')) (\<lambda>_.
     bindE (validated command_ack_envelope_ok (bytes_error_count dec payload) (read_command_ack dec payload)) (\<lambda>e.
     bindE (same_identity p (ca_site_id e) (ca_device_id e)) (\<lambda>_.
     Inr e)))))"

section \<open>Handling a message\<close>

definition record_error :: "string \<Rightarrow> string \<Rightarrow> string option \<Rightarrow> int \<Rightarrow> db \<Rightarrow> db" where
  "record_error code detail device_id now d =
     add_error_log ''mqtt-ingestor'' code ''warning'' device_id (take 300 detail) (Aware now) d"

definition persist_message ::
  "runtime \<Rightarrow> decoder \<Rightarrow> (nat \<Rightarrow> int) \<Rightarrow> string \<Rightarrow> bytes \<Rightarrow> db \<Rightarrow> (db \<times> persist_result) res" where
  "persist_message rt dec clk t payload d =
     bindE (parse_topic t) (\<lambda>p.
       (case pt_kind p of
          TELEMETRY \<Rightarrow> bindE (decode_payload dec t payload) (\<lambda>e. persist_telemetry rt clk e d)
        | HEALTH \<Rightarrow> bindE (decode_health dec t payload) (\<lambda>e. persist_health rt clk e d)
        | COMMAND_ACKS \<Rightarrow> bindE (decode_command_ack dec t payload) (\<lambda>e. persist_command_ack rt clk e d)
        | _ \<Rightarrow> Inl (ValueError ''worker does not consume this topic kind'')))"

text \<open>
  \<open>str(exc)\<close> of an exception. The library's own subclasses of \<open>ValueError\<close> are replaced
  before they reach the error log (\<open>loaded\<close>), so their texts are not modelled.
\<close>

fun exc_str :: "exc \<Rightarrow> string" where
  "exc_str (ValueError s) = s"
| "exc_str (SequenceCollisionError s) = s"
| "exc_str (TrainingError s) = s"
| "exc_str (ArtifactError s) = s"
| "exc_str (OtherException s) = s"
| "exc_str e = exc_name e"

definition handle_message ::
  "runtime \<Rightarrow> decoder \<Rightarrow> (nat \<Rightarrow> int) \<Rightarrow> string \<Rightarrow> bytes \<Rightarrow> db \<Rightarrow> (db \<times> string) res" where
  "handle_message rt dec clk t payload d =
     (case persist_message rt dec clk t payload d of
        Inr (d', r) \<Rightarrow> Inr (d', persist_status_str (pr_status r))
      | Inl (ValidationError n) \<Rightarrow>
          Inr (record_error ''CONTRACT_VALIDATION''
                 (''validation failed with '' @ str_of_int (int n) @ '' errors'') None (clk 6) d,
               ''rejected'')
      | Inl (SequenceCollisionError s) \<Rightarrow>
          Inr (record_error ''SEQUENCE_COLLISION'' s None (clk 6) d, ''rejected'')
      | Inl e \<Rightarrow>
          if is_value_error e
          then Inr (record_error ''INVALID_MESSAGE'' (exc_str e) None (clk 6) d, ''rejected'')
          else Inl e)"

section \<open>The client\<close>

text \<open>
  \<open>in_subscriptions\<close> are those made on the current connection (the client's session is
  clean, so the broker forgets them when it ends); \<open>in_ready\<close> is the file at
  \<open>READY_PATH\<close>; \<open>in_running\<close> is the network loop.
\<close>

record ingestor =
  in_db :: db
  in_subscriptions :: "(string \<times> nat) list"
  in_ready :: bool
  in_running :: bool

definition consumed_kinds :: "topic_kind list" where
  "consumed_kinds = [TELEMETRY, HEALTH, COMMAND_ACKS]"

definition on_connect :: "bool \<Rightarrow> ingestor \<Rightarrow> ingestor" where
  "on_connect is_failure s =
     (if is_failure then s
      else s\<lparr>in_subscriptions := in_subscriptions s @ map (\<lambda>k. (subscription k, 1)) consumed_kinds,
             in_ready := True\<rparr>)"

definition on_disconnect :: "ingestor \<Rightarrow> ingestor" where
  "on_disconnect s = s\<lparr>in_ready := False\<rparr>"

definition on_message ::
  "runtime \<Rightarrow> decoder \<Rightarrow> (nat \<Rightarrow> int) \<Rightarrow> string \<Rightarrow> bytes \<Rightarrow> ingestor \<Rightarrow> ingestor" where
  "on_message rt dec clk t payload s =
     (case handle_message rt dec clk t payload (in_db s) of
        Inr (d, _) \<Rightarrow> s\<lparr>in_db := d\<rparr>
      | Inl _ \<Rightarrow> s\<lparr>in_running := False\<rparr>)"

inductive ingestor_step :: "runtime \<Rightarrow> decoder \<Rightarrow> ingestor \<Rightarrow> ingestor \<Rightarrow> bool" for rt dec where
  connect: "in_running s \<Longrightarrow> ingestor_step rt dec s (on_connect is_failure s)"
| disconnect: "in_running s \<Longrightarrow>
    ingestor_step rt dec s (on_disconnect s\<lparr>in_subscriptions := []\<rparr>)"
| message: "in_running s \<Longrightarrow> (f, q) \<in> set (in_subscriptions s) \<Longrightarrow> matches_filter f t \<Longrightarrow>
    ingestor_step rt dec s (on_message rt dec clk t payload s)"

inductive_cases ingestor_stepE: "ingestor_step rt dec s s'"

definition fresh_ingestor :: "db \<Rightarrow> ingestor" where
  "fresh_ingestor d = \<lparr>in_db = d, in_subscriptions = [], in_ready = False, in_running = True\<rparr>"

section \<open>Accepted messages\<close>

lemma loaded_Inr: "loaded r = Inr v \<longleftrightarrow> r = Inr v"
  by (cases r rule: loaded.cases) simp_all

lemma validated_Inr: "validated ok n v = Inr e \<longleftrightarrow> v = Some e \<and> ok e"
  by (auto simp: validated_def split: option.splits if_splits)

lemma same_identity_Inr: "same_identity p s d = Inr u \<longleftrightarrow> s = pt_site_id p \<and> d = pt_device_id p"
  by (auto simp: same_identity_def)

lemma parse_telemetry_Inr: "parse_telemetry_topic t = Inr p \<longleftrightarrow> parse_topic t = Inr p \<and> pt_kind p = TELEMETRY"
  by (auto simp: parse_telemetry_topic_def)

lemmas decoders = decode_payload_def decode_health_def decode_command_ack_def loaded_Inr
  validated_Inr same_identity_Inr parse_telemetry_Inr

lemma topic_of_parsed:
  assumes "parse_topic t = Inr p" and "identifier_ok (pt_site_id p)" and "identifier_ok (pt_device_id p)"
  shows "topic (pt_site_id p) (pt_device_id p) (pt_kind p) = Inr t"
proof -
  have "t = join_with [CHR ''/''] (split_on (CHR ''/'') t)" by (simp add: join_split_on)
  with assms(2,3) parse_topic_shape [OF assms(1)] show ?thesis by (simp add: topic_join)
qed

text \<open>A decoder accepts a message only within the size limit, only with values that satisfy the declared constraints of its model, and only on the very topic that the publisher's \<open>topic\<close> builds for the identities in the payload.\<close>

theorem decoded_message_is_authentic:
  "(decode_payload dec t payload = Inr e \<longrightarrow>
     length payload \<le> MAX_PAYLOAD_BYTES \<and> telemetry_envelope_ok e
     \<and> topic (te_site_id e) (te_device_id e) TELEMETRY = Inr t)
   \<and> (decode_health dec t payload = Inr h \<longrightarrow>
     length payload \<le> MAX_PAYLOAD_BYTES \<and> health_envelope_ok h
     \<and> topic (he_site_id h) (he_device_id h) HEALTH = Inr t)
   \<and> (decode_command_ack dec t payload = Inr a \<longrightarrow>
     length payload \<le> MAX_PAYLOAD_BYTES \<and> command_ack_envelope_ok a
     \<and> topic (ca_site_id a) (ca_device_id a) COMMAND_ACKS = Inr t)"
  using topic_of_parsed
  by (fastforce simp: decoders telemetry_envelope_ok_def health_envelope_ok_def command_ack_envelope_ok_def)

text \<open>The readers of the examples: one fixed value of each kind.\<close>

definition sample_health :: "string \<Rightarrow> int \<Rightarrow> health_envelope" where
  "sample_health mid depth =
     \<lparr>he_schema_version = 1, he_message_id = mid, he_site_id = ''workshop-demo'', he_device_id = ''motor-01'',
      he_sequence = 1, he_device_time = None, he_uptime_ms = 10, he_firmware_version = ''0.1.0'',
      he_status = HOnline, he_rssi_dbm = Some (- 60), he_reset_reason = ''power_on'', he_reset_count = 1,
      he_queue_depth = depth, he_queue_capacity = 512, he_dropped_message_count = 0,
      he_modbus_status = MOk, he_active_faults = []\<rparr>"

definition sample_decoder :: "int \<Rightarrow> decoder" where
  "sample_decoder n =
     \<lparr>json_loads = (\<lambda>_. Inr JNull),
      read_telemetry = (\<lambda>_. Some (sample_envelope ''m1'' n (Fin 41))),
      read_health = (\<lambda>_. Some (sample_health ''h1'' 0)),
      read_command_ack = (\<lambda>_. Some (sample_ack ''a1'' Completed)),
      json_error_count = (\<lambda>_. 1), bytes_error_count = (\<lambda>_. 1)\<rparr>"

lemma sample_topic: "parse_topic ''iiot/v1/workshop-demo/motor-01/telemetry'' =
    Inr \<lparr>pt_site_id = ''workshop-demo'', pt_device_id = ''motor-01'', pt_kind = TELEMETRY\<rparr>"
  by code_simp

lemma sample_decode:
  "0 \<le> n \<Longrightarrow> decode_payload (sample_decoder n) ''iiot/v1/workshop-demo/motor-01/telemetry'' [] =
     Inr (sample_envelope ''m1'' n (Fin 41))"
  by (simp add: decode_payload_def MAX_PAYLOAD_BYTES_def parse_telemetry_topic_def sample_topic
      sample_decoder_def validated_def sample_envelope_valid same_identity_def)

theorem decoded_message_is_authentic_witness:
  "topic ''workshop-demo'' ''motor-01'' TELEMETRY = Inr ''iiot/v1/workshop-demo/motor-01/telemetry''"
  using decoded_message_is_authentic [of "sample_decoder 1" "''iiot/v1/workshop-demo/motor-01/telemetry''"
      "[]" "sample_envelope ''m1'' 1 (Fin 41)"]
  by (simp add: sample_decode)

section \<open>Outcomes\<close>

definition error_codes :: "string set" where
  "error_codes = {''CONTRACT_VALIDATION'', ''SEQUENCE_COLLISION'', ''INVALID_MESSAGE''}"

lemma error_codes_mem:
  "''CONTRACT_VALIDATION'' \<in> error_codes" "''SEQUENCE_COLLISION'' \<in> error_codes"
  "''INVALID_MESSAGE'' \<in> error_codes"
  by (simp_all add: error_codes_def)

definition error_logged :: "string \<Rightarrow> string \<Rightarrow> int \<Rightarrow> db \<Rightarrow> db \<Rightarrow> bool" where
  "error_logged code detail now d d' =
     (\<exists>i. d' = d\<lparr>db_errors := db_errors d @
        [\<lparr>err_id = i, err_component = ''mqtt-ingestor'', err_error_code = code, err_severity = ''warning'',
          err_device_id = None, err_detail = detail, err_created_at = Aware now\<rparr>]\<rparr>)"

lemma record_error_logged: "error_logged code (take 300 detail) now d (record_error code detail None now d)"
  by (auto simp: error_logged_def record_error_def add_error_log_def)

lemma handle_message_cases:
  "handle_message rt dec clk t payload d = Inr (d', s) \<longleftrightarrow>
     (\<exists>r. persist_message rt dec clk t payload d = Inr (d', r) \<and> s = persist_status_str (pr_status r))
     \<or> s = ''rejected'' \<and> (\<exists>e. persist_message rt dec clk t payload d = Inl e \<and> is_value_error e
         \<and> (case e of
              ValidationError n \<Rightarrow> d' = record_error ''CONTRACT_VALIDATION''
                 (''validation failed with '' @ str_of_int (int n) @ '' errors'') None (clk 6) d
            | SequenceCollisionError m \<Rightarrow> d' = record_error ''SEQUENCE_COLLISION'' m None (clk 6) d
            | _ \<Rightarrow> d' = record_error ''INVALID_MESSAGE'' (exc_str e) None (clk 6) d))"
  by (auto simp: handle_message_def split: sum.splits prod.splits exc.splits if_splits)

lemma handle_message_rejected:
  assumes "persist_message rt dec clk t payload d = Inl e"
    and "handle_message rt dec clk t payload d = Inr (d', s)"
  shows "s = ''rejected'' \<and> (\<exists>code \<in> error_codes. \<exists>m. d' = record_error code m None (clk 6) d)"
proof -
  have "\<exists>code m. code \<in> error_codes \<and> (d', s) = (record_error code m None (clk 6) d, ''rejected'')"
    using assms error_codes_mem
    by (cases e) (simp_all add: handle_message_def, (metis)+)
  then show ?thesis by blast
qed

lemma handle_message_Inl:
  "handle_message rt dec clk t payload d = Inl e \<longleftrightarrow>
     persist_message rt dec clk t payload d = Inl e \<and> \<not> is_value_error e"
  by (auto simp: handle_message_def split: sum.splits prod.splits exc.splits if_splits)

lemma persist_duplicate:
  "persist_telemetry rt clk e d = Inr (d', r) \<Longrightarrow> pr_status r = Duplicate \<Longrightarrow> d' = d"
  "persist_health rt clk h d = Inr (d', r) \<Longrightarrow> pr_status r = Duplicate \<Longrightarrow> d' = d"
  "persist_command_ack rt clk a d = Inr (d', r) \<Longrightarrow> pr_status r = Duplicate \<Longrightarrow> d' = d"
  by (auto simp: persist_telemetry_def telemetry_txn_eq persist_health_def health_txn_eq
      persist_command_ack_def notify_eq split: if_splits option.splits)

lemma persist_keeps_errors:
  "persist_telemetry rt clk e d = Inr (d', r) \<Longrightarrow> db_errors d' = db_errors d"
  "persist_health rt clk h d = Inr (d', r) \<Longrightarrow> db_errors d' = db_errors d"
  "persist_command_ack rt clk a d = Inr (d', r) \<Longrightarrow> db_errors d' = db_errors d"
  by (auto simp: persist_telemetry_def telemetry_txn_eq persist_health_def health_txn_eq
      persist_command_ack_def notify_eq add_audit_def put_command_def health_writes_def upsert_device_def
      put_device_def add_device_def Let_def split: if_splits option.splits)

lemma persist_message_Inr:
  assumes "persist_message rt dec clk t payload d = Inr (d', r)"
  obtains (telemetry) e where "decode_payload dec t payload = Inr e" "persist_telemetry rt clk e d = Inr (d', r)"
  | (health) h where "decode_health dec t payload = Inr h" "persist_health rt clk h d = Inr (d', r)"
  | (ack) a where "decode_command_ack dec t payload = Inr a" "persist_command_ack rt clk a d = Inr (d', r)"
proof -
  from assms obtain p where p: "parse_topic t = Inr p" by (auto simp: persist_message_def)
  with assms that show ?thesis by (cases "pt_kind p") (auto simp: persist_message_def)
qed

lemma persist_message_effect:
  assumes "persist_message rt dec clk t payload d = Inr (d', r)"
  shows "db_errors d' = db_errors d \<and> (pr_status r = Duplicate \<longrightarrow> d' = d)"
  using assms
proof (cases rule: persist_message_Inr)
  case (telemetry e)
  then show ?thesis using persist_keeps_errors(1) persist_duplicate(1) by metis
next
  case (health h)
  then show ?thesis using persist_keeps_errors(2) persist_duplicate(2) by metis
next
  case (ack a)
  then show ?thesis using persist_keeps_errors(3) persist_duplicate(3) by metis
qed

text \<open>A handled message has one of three outcomes: it is inserted, leaving the error log alone; it is a duplicate and the store does not change; or it is rejected and the only change is one warning in the error log, with a detail of at most 300 characters.\<close>

theorem handle_message_outcomes:
  assumes "handle_message rt dec clk t payload d = Inr (d', s)"
  shows "(s = ''inserted'' \<and> db_errors d' = db_errors d)
    \<or> (s = ''duplicate'' \<and> d' = d)
    \<or> (s = ''rejected'' \<and> (\<exists>code detail. code \<in> error_codes
           \<and> length detail \<le> 300 \<and> error_logged code detail (clk 6) d d'))"
proof (cases "persist_message rt dec clk t payload d")
  case (Inr p)
  then obtain r where r: "persist_message rt dec clk t payload d = Inr (d', r)"
    and s: "s = persist_status_str (pr_status r)"
    using assms by (auto simp: handle_message_cases)
  with persist_message_effect [OF r] show ?thesis by (cases "pr_status r") simp_all
next
  case (Inl e)
  with assms handle_message_rejected obtain code m where code: "code \<in> error_codes"
    and s: "s = ''rejected''" and d': "d' = record_error code m None (clk 6) d" by blast
  have "length (take 300 m) \<le> 300" by simp
  moreover have "error_logged code (take 300 m) (clk 6) d d'"
    unfolding d' by (rule record_error_logged)
  ultimately show ?thesis using s code by blast
qed

theorem handle_message_outcomes_witness:
  "\<exists>d'. handle_message sample_runtime (sample_decoder 1) (\<lambda>_. 0) ''iiot/v1/a/b/events'' [] empty_db = Inr (d', ''rejected'')
     \<and> (\<exists>code detail. code \<in> error_codes
           \<and> length detail \<le> 300 \<and> error_logged code detail 0 empty_db d')"
proof -
  have "parse_topic ''iiot/v1/a/b/events'' = Inr \<lparr>pt_site_id = ''a'', pt_device_id = ''b'', pt_kind = EVENTS\<rparr>"
    by code_simp
  then have "\<exists>d'. handle_message sample_runtime (sample_decoder 1) (\<lambda>_. 0) ''iiot/v1/a/b/events'' [] empty_db = Inr (d', ''rejected'')"
    by (simp add: handle_message_def persist_message_def)
  with handle_message_outcomes show ?thesis by fastforce
qed

section \<open>Exceptions that stop the worker\<close>

definition values_fit :: "decoder \<Rightarrow> string \<Rightarrow> bytes \<Rightarrow> bool" where
  "values_fit dec t payload =
     ((case decode_payload dec t payload of
         Inr e \<Rightarrow> int64_ok (te_sequence e) \<and> int64_ok (te_uptime_ms e) | Inl _ \<Rightarrow> True)
      \<and> (case decode_health dec t payload of Inr h \<Rightarrow> health_fits h | Inl _ \<Rightarrow> True))"

lemmas raises = bindE_eq_Inl

lemma topic_errors:
  "parse_topic t = Inl x \<Longrightarrow> is_value_error x"
  "parse_telemetry_topic t = Inl x \<Longrightarrow> is_value_error x"
  by (auto simp: parse_topic_def parse_telemetry_topic_def Let_def raises split: option.splits)

lemma validated_error: "validated ok n v = Inl x \<Longrightarrow> is_value_error x"
  by (auto simp: validated_def split: option.splits if_splits)

lemma loaded_error: "loaded r = Inl x \<Longrightarrow> is_value_error x \<or> r = Inl x"
  by (cases r rule: loaded.cases) auto

lemmas decode_errors = topic_errors validated_error loaded_error

lemma decode_value_errors:
  "decode_payload dec t payload = Inl x \<Longrightarrow> json_loads dec payload = Inl x \<or> is_value_error x"
  "decode_health dec t payload = Inl x \<Longrightarrow> is_value_error x"
  "decode_command_ack dec t payload = Inl x \<Longrightarrow> is_value_error x"
  by (auto simp: decode_payload_def decode_health_def decode_command_ack_def same_identity_def raises
      dest: decode_errors)

lemma persist_value_errors:
  "persist_telemetry rt clk e d = Inl x \<Longrightarrow> int64_ok (te_sequence e) \<and> int64_ok (te_uptime_ms e) \<Longrightarrow> is_value_error x"
  "persist_health rt clk h d = Inl x \<Longrightarrow> health_fits h \<Longrightarrow> is_value_error x"
  "persist_command_ack rt clk a d = Inl x \<Longrightarrow> is_value_error x"
proof -
  assume "persist_telemetry rt clk e d = Inl x" and fits: "int64_ok (te_sequence e) \<and> int64_ok (te_uptime_ms e)"
  moreover have "telemetry_flush_error e d d = None"
    if "get_telemetry (te_message_id e) d = None" "sequence_owner (te_device_id e) (te_sequence e) d = None"
    using that fits by (simp add: telemetry_flush_error_None telemetry_conflict_same)
  ultimately show "is_value_error x"
    by (auto simp: persist_telemetry_def telemetry_txn_eq split: if_splits option.splits)
next
  assume "persist_health rt clk h d = Inl x" and fits: "health_fits h"
  moreover have "health_flush_error h d d = None" if "get_health (he_message_id h) d = None"
    using that fits by (auto simp: health_flush_error_None)
  ultimately show "is_value_error x"
    by (auto simp: persist_health_def health_txn_eq split: if_splits option.splits)
qed (auto simp: persist_command_ack_def notify_eq raises split: option.splits if_splits)

lemma persist_message_error:
  assumes "persist_message rt dec clk t payload d = Inl x" and "values_fit dec t payload"
  shows "json_loads dec payload = Inl x \<or> is_value_error x"
proof (cases "parse_topic t")
  case (Inr p)
  with assms show ?thesis
    using decode_value_errors persist_value_errors
    by (cases "pt_kind p") (fastforce simp: persist_message_def values_fit_def raises split: sum.splits)+
qed (use assms topic_errors in \<open>auto simp: persist_message_def\<close>)


lemma sample_values_fit: "values_fit (sample_decoder 1) ''iiot/v1/workshop-demo/motor-01/telemetry'' []"
  by (simp add: values_fit_def sample_decode int64_ok_def decode_health_def sample_topic)


text \<open>The contract has no upper bound on the counters, the columns have one: a reading that is valid but whose sequence (or uptime) does not fit a 64-bit column leaves the handler as a \<open>DataError\<close>, which nothing catches, whatever the store, unless it is rejected or already stored.\<close>

theorem oversized_counter_escapes:
  assumes dec: "decode_payload dec t payload = Inr e"
    and big: "2 ^ 63 \<le> te_sequence e \<or> 2 ^ 63 \<le> te_uptime_ms e"
    and new: "get_telemetry (te_message_id e) d = None" "sequence_owner (te_device_id e) (te_sequence e) d = None"
    and site: "\<not> site_mismatch (te_device_id e) (te_site_id e) d"
    and small: "\<not> event_too_large rt (telemetry_event e)"
  shows "handle_message rt dec clk t payload d = Inl DataError"
proof -
  obtain p where p: "parse_topic t = Inr p" "pt_kind p = TELEMETRY"
    using dec by (auto simp: decoders)
  have "telemetry_flush_error e d d = Some DataError"
    using big by (auto simp: telemetry_flush_error_def int64_ok_def)
  with new site small have "persist_telemetry rt clk e d = Inl DataError"
    by (simp add: persist_telemetry_def telemetry_txn_eq)
  then show ?thesis by (simp add: handle_message_Inl persist_message_def p dec)
qed

theorem oversized_counter_escapes_witness:
  "handle_message sample_runtime (sample_decoder (2 ^ 63)) (\<lambda>_. 0) ''iiot/v1/workshop-demo/motor-01/telemetry'' []
     empty_db = Inl DataError"
  by (rule oversized_counter_escapes [where e = "sample_envelope ''m1'' (2 ^ 63) (Fin 41)"])
    (simp_all add: sample_decode site_mismatch_def)

section \<open>Subscriptions\<close>

lemma kind_value_not_plus: "kind_value k \<noteq> ''+''"
  by (cases k) simp_all

lemma split_subscription:
  "split_on (CHR ''/'') (subscription k) = [''iiot'', ''v1'', ''+'', ''+'', kind_value k]"
proof -
  have eq: "subscription k = join_with [CHR ''/''] [''iiot'', ''v1'', ''+'', ''+'', kind_value k]"
    by (simp add: subscription_def TOPIC_ROOT_def TOPIC_VERSION_def)
  have "\<forall>p \<in> set [''iiot'', ''v1'', ''+'', ''+'', kind_value k]. CHR ''/'' \<notin> set p"
    using kind_value_no_slash by auto
  then show ?thesis by (metis eq split_on_join list.distinct(1))
qed

lemma subscription_parsed:
  "matches_filter (subscription k) t \<longleftrightarrow> (\<exists>p. parse_topic t = Inr p \<and> pt_kind p = k)"
proof
  assume "matches_filter (subscription k) t"
  then obtain a b where "split_on (CHR ''/'') t = [''iiot'', ''v1'', a, b, kind_value k]"
    by (auto simp: matches_filter_def split_subscription kind_value_not_plus list_all2_Cons1)
  then show "\<exists>p. parse_topic t = Inr p \<and> pt_kind p = k"
    by (simp add: parse_topic_def Let_def)
next
  assume "\<exists>p. parse_topic t = Inr p \<and> pt_kind p = k"
  then show "matches_filter (subscription k) t"
    using parse_topic_shape by (auto simp: matches_filter_def split_subscription)
qed

text \<open>What the broker delivers for a subscription is exactly what the parser accepts for its kind: a topic matches the filter of \<open>subscription k\<close> if and only if \<open>parse_topic\<close> reads it as a topic of kind \<open>k\<close>.\<close>

theorem subscription_matches_parser:
  "matches_filter (subscription k) t = (\<exists>p. parse_topic t = Inr p \<and> pt_kind p = k)"
  by (rule subscription_parsed)

section \<open>Reachable states\<close>

definition ingestor_ok :: "ingestor \<Rightarrow> bool" where
  "ingestor_ok s =
     (store_ok (in_db s)
      \<and> set (in_subscriptions s) \<subseteq> (\<lambda>k. (subscription k, 1)) ` set consumed_kinds
      \<and> (in_ready s \<longrightarrow> (\<lambda>k. (subscription k, 1)) ` set consumed_kinds \<subseteq> set (in_subscriptions s))
      \<and> (\<forall>r \<in> set (db_errors (in_db s)). length (err_detail r) \<le> 300))"

lemma persist_message_store_ok:
  assumes "store_ok d" and "persist_message rt dec clk t payload d = Inr (d', r)"
  shows "store_ok d'"
  using assms(2)
proof (cases rule: persist_message_Inr)
  case (telemetry e)
  with assms(1) show ?thesis
    unfolding persist_telemetry_def by (elim telemetry_txn_store_ok [OF _ keeps_refl])
next
  case (health h)
  with assms(1) show ?thesis
    unfolding persist_health_def by (elim health_txn_store_ok [OF _ keeps_refl])
next
  case (ack a)
  with assms(1) show ?thesis by (elim persist_command_ack_store_ok)
qed

lemma record_error_store_ok: "store_ok (record_error code detail dev now d) = store_ok d"
  by (simp add: record_error_def add_error_log_def store_ok_def keys_ok_def refs_ok_def get_device_def)

lemma handle_message_ok:
  assumes "store_ok d" and "handle_message rt dec clk t payload d = Inr (d', s)"
    and short: "\<forall>r \<in> set (db_errors d). length (err_detail r) \<le> 300"
  shows "store_ok d' \<and> (\<forall>r \<in> set (db_errors d'). length (err_detail r) \<le> 300)"
proof (cases "persist_message rt dec clk t payload d")
  case (Inr p)
  with assms(2) obtain r where "persist_message rt dec clk t payload d = Inr (d', r)"
    by (auto simp: handle_message_cases)
  with assms(1) short persist_message_store_ok persist_message_effect show ?thesis by metis
next
  case (Inl e)
  with assms handle_message_rejected obtain code m where "d' = record_error code m None (clk 6) d" by blast
  with assms(1) short show ?thesis
    by (auto simp: record_error_store_ok) (auto simp: record_error_def add_error_log_def)
qed

lemma ingestor_step_ok: "ingestor_step rt dec s s' \<Longrightarrow> ingestor_ok s \<Longrightarrow> ingestor_ok s'"
proof (induction rule: ingestor_step.induct)
  case (message s f q t clk payload)
  then show ?case
    using handle_message_ok [of "in_db s" rt dec clk t payload]
    by (cases "handle_message rt dec clk t payload (in_db s)")
      (auto simp: ingestor_ok_def on_message_def)
qed (auto simp: ingestor_ok_def on_connect_def on_disconnect_def)



end
