(* ===== verification/Features.thy ===== *)
theory Features
  imports Prelude PyFloat "HOL-Library.Product_Lexorder" "HOL-Library.Multiset"
begin

text \<open>
  Causal rolling features, \<open>services/anomaly_worker/features.py\<close>. Times are aware (the
  worker makes them so), so an instant is its microseconds. The numeric kernels of NumPy
  are the functions of \<open>numpy\<close>; elementwise differences and the final arithmetic are
  binary64 operations. \<open>generate_features\<close> is the loop of the code over the ordered samples,
  with the segment, the previous time and the rows as its state.
\<close>

section \<open>Samples\<close>

definition FEATURE_SCHEMA_VERSION :: int where "FEATURE_SCHEMA_VERSION = 1"

definition FEATURE_NAMES :: "string list" where
  "FEATURE_NAMES =
     [''temperature_level_c'', ''temperature_slope_c_per_min'', ''temperature_std_c'',
      ''current_mean_a'', ''current_std_a'', ''vibration_rms_mean_mps2'',
      ''vibration_peak_max_mps2'', ''vibration_crest_mean'', ''vibration_to_current_ratio'']"

record telemetry_sample =
  ts_sample_id :: int
  ts_timestamp :: int
  ts_temperature_c :: "flt option"
  ts_vibration_rms_mps2 :: "flt option"
  ts_vibration_peak_mps2 :: "flt option"
  ts_vibration_crest_factor :: "flt option"
  ts_current_a :: "flt option"
  ts_quality :: string
  ts_fault_flags :: "string list"
  ts_regime :: string

definition finite_value :: "flt option \<Rightarrow> bool" where
  "finite_value v = (case v of None \<Rightarrow> False | Some x \<Rightarrow> flt_finite x)"

definition measurements_are_finite :: "telemetry_sample \<Rightarrow> bool" where
  "measurements_are_finite s =
     list_all finite_value
       [ts_temperature_c s, ts_vibration_rms_mps2 s, ts_vibration_peak_mps2 s,
        ts_vibration_crest_factor s, ts_current_a s]"

definition is_healthy :: "telemetry_sample \<Rightarrow> bool" where
  "is_healthy s = (ts_quality s = ''good'' \<and> ts_fault_flags s = [] \<and> measurements_are_finite s)"

record feature_row =
  fr_sample_id :: int
  fr_timestamp :: int
  fr_regime :: string
  fr_values :: "flt list"

text \<open>\<open>sorted(samples, key=lambda item: (item.timestamp, item.sample_id))\<close>.\<close>

definition ordered_samples :: "telemetry_sample list \<Rightarrow> telemetry_sample list" where
  "ordered_samples samples = sort_key (\<lambda>s. (ts_timestamp s, ts_sample_id s)) samples"

text \<open>\<open>timedelta.total_seconds()\<close>: the correctly rounded quotient of the microseconds.\<close>

definition total_seconds :: "int \<Rightarrow> flt" where
  "total_seconds us = lit (of_int us / 1000000)"

section \<open>NumPy\<close>

record numpy =
  np_mean :: "flt list \<Rightarrow> flt"
  np_std :: "flt list \<Rightarrow> flt"
  np_max :: "flt list \<Rightarrow> flt"
  np_dot :: "flt list \<Rightarrow> flt list \<Rightarrow> flt"

text \<open>
  Division of NumPy scalars raises nothing; the divisors of the code are positive or NaN,
  so the value for a zero divisor is immaterial.
\<close>

definition np_divide :: "flt \<Rightarrow> flt \<Rightarrow> flt" where
  "np_divide a b = (case flt_div a b of Inr q \<Rightarrow> q | Inl _ \<Rightarrow> NaN)"

definition slope_per_minute :: "numpy \<Rightarrow> flt list \<Rightarrow> flt list \<Rightarrow> flt" where
  "slope_per_minute np moments values =
     (let centered = map (\<lambda>t. flt_sub t (np_mean np moments)) moments;
          denominator = np_dot np centered centered
      in if flt_le denominator (lit 0) then lit 0
         else flt_mul (np_divide (np_dot np centered (map (\<lambda>v. flt_sub v (np_mean np values)) values)) denominator)
                (lit 60))"

section \<open>Feature rows\<close>

definition column :: "(telemetry_sample \<Rightarrow> flt option) \<Rightarrow> telemetry_sample list \<Rightarrow> flt list" where
  "column f segment = map (\<lambda>s. case f s of None \<Rightarrow> NaN | Some x \<Rightarrow> x) segment"

definition segment_values :: "numpy \<Rightarrow> telemetry_sample list \<Rightarrow> flt list" where
  "segment_values np segment =
     (let moments = map (\<lambda>s. total_seconds (ts_timestamp s - ts_timestamp (hd segment))) segment;
          temperature = column ts_temperature_c segment;
          current = column ts_current_a segment;
          vibration_rms = column ts_vibration_rms_mps2 segment;
          vibration_peak = column ts_vibration_peak_mps2 segment;
          crest = column ts_vibration_crest_factor segment;
          current_mean = np_mean np current
      in [last temperature,
          slope_per_minute np moments temperature,
          np_std np temperature,
          current_mean,
          np_std np current,
          np_mean np vibration_rms,
          np_max np vibration_peak,
          np_mean np crest,
          np_divide (np_mean np vibration_rms) (flt_max (flt_abs current_mean) (lit (1/20)))])"

record window =
  win_segment :: "telemetry_sample list"
  win_previous :: "int option"
  win_rows :: "feature_row list"

text \<open>The segment after a sample: restarted after a gap, cut to the window from its old end.\<close>

definition next_segment :: "nat \<Rightarrow> flt \<Rightarrow> window \<Rightarrow> telemetry_sample \<Rightarrow> telemetry_sample list" where
  "next_segment window_size maximum_gap_s w s =
     (let gap = (case win_previous w of
                   None \<Rightarrow> False
                 | Some t \<Rightarrow> flt_less maximum_gap_s (total_seconds (ts_timestamp s - t)));
          segment = (if gap then [] else win_segment w) @ [s]
      in if window_size < length segment then tl segment else segment)"

definition feature_rows_of ::
  "numpy \<Rightarrow> nat \<Rightarrow> bool \<Rightarrow> telemetry_sample list \<Rightarrow> telemetry_sample \<Rightarrow> feature_row list" where
  "feature_rows_of np minimum_window healthy_windows_only segment s =
     (if length segment < minimum_window \<or> \<not> list_all measurements_are_finite segment then []
      else if healthy_windows_only \<and> \<not> list_all is_healthy segment then []
      else let values = segment_values np segment in
           if list_all flt_finite values
           then [\<lparr>fr_sample_id = ts_sample_id s, fr_timestamp = ts_timestamp s, fr_regime = ts_regime s,
                  fr_values = values\<rparr>]
           else [])"

definition feature_step ::
  "numpy \<Rightarrow> nat \<Rightarrow> nat \<Rightarrow> flt \<Rightarrow> bool \<Rightarrow> telemetry_sample \<Rightarrow> window \<Rightarrow> window" where
  "feature_step np window_size minimum_window maximum_gap_s healthy_windows_only s w =
     (let segment = next_segment window_size maximum_gap_s w s
      in \<lparr>win_segment = segment, win_previous = Some (ts_timestamp s),
          win_rows = win_rows w @ feature_rows_of np minimum_window healthy_windows_only segment s\<rparr>)"

definition fresh_window :: window where
  "fresh_window = \<lparr>win_segment = [], win_previous = None, win_rows = []\<rparr>"

definition generate_features ::
  "numpy \<Rightarrow> nat \<Rightarrow> nat \<Rightarrow> flt \<Rightarrow> bool \<Rightarrow> telemetry_sample list \<Rightarrow> feature_row list res" where
  "generate_features np window_size minimum_window maximum_gap_s healthy_windows_only samples =
     bindE (raise_if (window_size < minimum_window \<or> minimum_window < 2)
              (ValueError ''window_size must be at least minimum_window >= 2'')) (\<lambda>_.
     Inr (win_rows (fold (feature_step np window_size minimum_window maximum_gap_s healthy_windows_only)
                      (ordered_samples samples) fresh_window)))"

text \<open>The default window: 12 samples, at least 6, gaps of at most 30 seconds.\<close>

definition default_features :: "numpy \<Rightarrow> bool \<Rightarrow> telemetry_sample list \<Rightarrow> feature_row list res" where
  "default_features np healthy_windows_only samples =
     generate_features np 12 6 (lit 30) healthy_windows_only samples"

definition feature_matrix :: "feature_row list \<Rightarrow> flt list list" where
  "feature_matrix rows = map fr_values rows"

section \<open>What a feature row stands for\<close>

definition close_enough :: "flt \<Rightarrow> telemetry_sample \<Rightarrow> telemetry_sample \<Rightarrow> bool" where
  "close_enough maximum_gap_s a b = (\<not> flt_less maximum_gap_s (total_seconds (ts_timestamp b - ts_timestamp a)))"

text \<open>The row \<open>r\<close> describes the window \<open>segment\<close>, which ends at the sample it is named after.\<close>

definition describes ::
  "numpy \<Rightarrow> nat \<Rightarrow> nat \<Rightarrow> flt \<Rightarrow> bool \<Rightarrow> telemetry_sample list \<Rightarrow> feature_row \<Rightarrow> bool" where
  "describes np window_size minimum_window maximum_gap_s healthy segment r =
     (segment \<noteq> [] \<and> minimum_window \<le> length segment \<and> length segment \<le> window_size
      \<and> successively (close_enough maximum_gap_s) segment
      \<and> list_all measurements_are_finite segment \<and> (healthy \<longrightarrow> list_all is_healthy segment)
      \<and> fr_sample_id r = ts_sample_id (last segment) \<and> fr_timestamp r = ts_timestamp (last segment)
      \<and> fr_values r = segment_values np segment \<and> list_all flt_finite (fr_values r))"

definition window_ok ::
  "numpy \<Rightarrow> nat \<Rightarrow> nat \<Rightarrow> flt \<Rightarrow> bool \<Rightarrow> telemetry_sample list \<Rightarrow> window \<Rightarrow> bool" where
  "window_ok np ws mw gap healthy seen w =
     (suffix (win_segment w) seen \<and> length (win_segment w) \<le> ws
      \<and> successively (close_enough gap) (win_segment w)
      \<and> win_previous w = (if seen = [] then None else Some (ts_timestamp (last seen)))
      \<and> (seen \<noteq> [] \<longrightarrow> win_segment w \<noteq> [])
      \<and> (\<forall>r \<in> set (win_rows w). \<exists>segment. sublist segment seen \<and> describes np ws mw gap healthy segment r))"

lemma suffix_last: "suffix xs ys \<Longrightarrow> xs \<noteq> [] \<Longrightarrow> last xs = last ys"
  by (auto simp: suffix_def)

lemma next_segment_ok:
  fixes s :: telemetry_sample
  assumes "window_ok np ws mw gap healthy seen w" and "2 \<le> ws"
  defines "seg \<equiv> next_segment ws gap w s"
  shows "suffix seg (seen @ [s])" and "length seg \<le> ws" and "successively (close_enough gap) seg"
    and "seg \<noteq> []" and "last seg = s"
proof -
  let ?base = "if case win_previous w of None \<Rightarrow> False | Some t \<Rightarrow> flt_less gap (total_seconds (ts_timestamp s - t))
    then [] else win_segment w"
  let ?seg = "?base @ [s]"
  have seg: "seg = (if ws < length ?seg then tl ?seg else ?seg)"
    by (simp add: seg_def next_segment_def Let_def)
  have len: "length ?seg \<le> Suc ws" and suf: "suffix ?seg (seen @ [s])"
    using assms(1) by (auto simp: window_ok_def)
  have chain: "successively (close_enough gap) ?seg"
  proof (cases "?base = []")
    case False
    then have base: "?base = win_segment w" and ne: "win_segment w \<noteq> []" by (simp_all split: if_splits)
    with assms(1) have "seen \<noteq> []" and "last (win_segment w) = last seen"
      by (auto simp: window_ok_def suffix_last)
    with False base assms(1) have "close_enough gap (last (win_segment w)) s"
      by (auto simp: window_ok_def close_enough_def split: if_splits)
    with base ne assms(1) show ?thesis by (simp add: window_ok_def successively_append_iff)
  qed simp
  show "suffix seg (seen @ [s])"
  proof (cases "ws < length ?seg")
    case True
    then have "seg = tl ?seg" unfolding seg by (rule if_P)
    then show ?thesis using suffix_order.trans [OF suffix_tl suf] by (simp only:)
  next
    case False
    then have "seg = ?seg" unfolding seg by (rule if_not_P)
    then show ?thesis using suf by (simp only:)
  qed
  show "length seg \<le> ws" using len unfolding seg by simp
  show "successively (close_enough gap) seg"
    using chain unfolding seg by (cases ?seg) (auto simp: successively_Cons)
  show "seg \<noteq> []" and "last seg = s"
    using assms(2) unfolding seg by (cases ?base; simp)+
qed

lemma feature_step_ok:
  assumes "window_ok np ws mw gap healthy seen w" and "2 \<le> ws"
  shows "window_ok np ws mw gap healthy (seen @ [s]) (feature_step np ws mw gap healthy s w)"
proof -
  note seg = next_segment_ok [OF assms, of s]
  let ?seg = "next_segment ws gap w s"
  have new: "\<exists>segment. sublist segment (seen @ [s]) \<and> describes np ws mw gap healthy segment r"
    if "r \<in> set (feature_rows_of np mw healthy ?seg s)" for r
  proof -
    from that seg have "describes np ws mw gap healthy ?seg r"
      by (auto simp: feature_rows_of_def describes_def Let_def split: if_splits)
    with seg(1) show ?thesis by (meson suffix_imp_sublist)
  qed
  have old: "\<exists>segment. sublist segment (seen @ [s]) \<and> describes np ws mw gap healthy segment r"
    if "r \<in> set (win_rows w)" for r
    using that assms(1) unfolding window_ok_def by (meson sublist_append_rightI sublist_order.order.trans)
  from seg new old show ?thesis
    by (auto simp: window_ok_def feature_step_def Let_def)
qed

lemma fold_features_ok:
  "2 \<le> ws \<Longrightarrow> window_ok np ws mw gap healthy seen w \<Longrightarrow>
     window_ok np ws mw gap healthy (seen @ xs) (fold (feature_step np ws mw gap healthy) xs w)"
proof (induction xs arbitrary: seen w)
  case (Cons x xs)
  from Cons.IH [OF Cons.prems(1) feature_step_ok [OF Cons.prems(2,1)], of x] show ?case by simp
qed simp

lemma feature_windows:
  assumes "generate_features np ws mw gap healthy samples = Inr rows" and "r \<in> set rows"
  shows "\<exists>segment. sublist segment (ordered_samples samples) \<and> describes np ws mw gap healthy segment r"
proof -
  from assms(1) have ws: "2 \<le> ws"
    and rows: "rows = win_rows (fold (feature_step np ws mw gap healthy) (ordered_samples samples) fresh_window)"
    by (auto simp: generate_features_def)
  have "window_ok np ws mw gap healthy [] fresh_window" by (simp add: window_ok_def fresh_window_def)
  from fold_features_ok [OF ws this, of "ordered_samples samples"] assms(2) show ?thesis
    by (auto simp: window_ok_def rows)
qed

text \<open>Every feature row stands for one window of consecutive samples that ends at its own sample, with at least the minimum and at most the window size, no gap above the limit, only finite measurements (and only healthy samples when asked for), and finite feature values computed from exactly that window.\<close>

theorem feature_rows_have_windows:
  assumes "generate_features np ws mw gap healthy samples = Inr rows" and "r \<in> set rows"
  shows "\<exists>segment. sublist segment (ordered_samples samples) \<and> describes np ws mw gap healthy segment r"
  using assms by (rule feature_windows)

section \<open>Causality\<close>

lemma sort_key_append_ordered:
  assumes "\<And>x y. x \<in> set xs \<Longrightarrow> y \<in> set ys \<Longrightarrow> f x < f y"
  shows "sort_key f (xs @ ys) = sort_key f xs @ sort_key f ys"
proof (rule properties_for_sort_key)
  show "mset (sort_key f xs @ sort_key f ys) = mset (xs @ ys)" by simp
  show "filter (\<lambda>x. f k = f x) (sort_key f xs @ sort_key f ys) = filter (\<lambda>x. f k = f x) (xs @ ys)" for k
  proof -
    have "(\<lambda>x. f k = f x) = (\<lambda>x. f x = f k)" by auto
    then show ?thesis by (simp add: sort_key_stable)
  qed
  show "sorted (map f (sort_key f xs @ sort_key f ys))"
    using assms by (auto simp: sorted_append less_imp_le)
qed

lemma step_rows_prefix: "prefix (win_rows w) (win_rows (fold (feature_step np ws mw gap healthy) xs w))"
proof (induction xs arbitrary: w)
  case (Cons x xs)
  have "prefix (win_rows w) (win_rows (feature_step np ws mw gap healthy x w))"
    by (simp add: feature_step_def Let_def)
  with Cons show ?case by (simp add: prefix_order.trans)
qed simp

text \<open>C9: The features are causal: samples that come later, however many and whatever they hold, never change, remove or reorder the rows of the samples before them.\<close>

theorem features_are_causal:
  assumes "\<And>x y. x \<in> set earlier \<Longrightarrow> y \<in> set later \<Longrightarrow>
      (ts_timestamp x, ts_sample_id x) < (ts_timestamp y, ts_sample_id y)"
    and "generate_features np ws mw gap healthy earlier = Inr rows"
  shows "\<exists>more. generate_features np ws mw gap healthy (earlier @ later) = Inr (rows @ more)"
proof -
  have "ordered_samples (earlier @ later) = ordered_samples earlier @ ordered_samples later"
    unfolding ordered_samples_def by (rule sort_key_append_ordered) (rule assms(1))
  with assms(2) step_rows_prefix [of "fold (feature_step np ws mw gap healthy) (ordered_samples earlier) fresh_window"]
  show ?thesis by (auto simp: generate_features_def prefix_def)
qed

section \<open>An example\<close>

definition sample_numpy :: numpy where
  "sample_numpy =
     \<lparr>np_mean = (\<lambda>xs. np_divide (fold flt_add xs (Fin 0)) (lit (of_nat (length xs)))),
      np_std = (\<lambda>xs. Fin 0),
      np_max = (\<lambda>xs. fold flt_max xs NInf),
      np_dot = (\<lambda>xs ys. fold flt_add (map2 flt_mul xs ys) (Fin 0))\<rparr>"

definition steady :: "int \<Rightarrow> telemetry_sample" where
  "steady i = \<lparr>ts_sample_id = i, ts_timestamp = 10000000 * i, ts_temperature_c = Some (Fin 40),
     ts_vibration_rms_mps2 = Some (Fin 1), ts_vibration_peak_mps2 = Some (Fin 2),
     ts_vibration_crest_factor = Some (Fin 2), ts_current_a = Some (Fin 1), ts_quality = ''good'',
     ts_fault_flags = [], ts_regime = ''normal''\<rparr>"

definition steady_row :: feature_row where
  "steady_row = \<lparr>fr_sample_id = 2, fr_timestamp = 20000000, fr_regime = ''normal'',
     fr_values = map Fin [40, 0, 0, 1, 0, 1, 2, 2, 1]\<rparr>"

lemma steady_order: "ordered_samples [steady 2, steady 1] = [steady 1, steady 2]"
  by (simp add: ordered_samples_def steady_def less_eq_prod_def)

lemma ten_seconds: "total_seconds 10000000 = Fin 10" "total_seconds 0 = Fin 0"
  by (simp_all add: total_seconds_def of_exact_small rnd_numeral)

lemma rnd_twentieth: "\<not> 1 < rnd (1/20)"
  using rnd_mono [of "1/20" 1] by simp

lemma steady_healthy: "is_healthy (steady i)" "measurements_are_finite (steady i)"
  by (simp_all add: is_healthy_def measurements_are_finite_def finite_value_def steady_def)

lemma steady_values: "segment_values sample_numpy [steady 1, steady 2] = map Fin [40, 0, 0, 1, 0, 1, 2, 2, 1]"
  by (simp add: segment_values_def column_def slope_per_minute_def steady_def sample_numpy_def Let_def
      ten_seconds rnd_twentieth np_divide_def flt_max_def flt_sub_def of_exact_small rnd_numeral)

lemma steady_features:
  "generate_features sample_numpy 2 2 (Fin 30) True [steady 2, steady 1] = Inr [steady_row]"
  apply (simp add: generate_features_def steady_order feature_step_def next_segment_def fresh_window_def Let_def
      feature_rows_of_def steady_healthy steady_values steady_row_def)
  apply (simp add: steady_def ten_seconds)
  done

theorem feature_rows_have_windows_witness:
  "\<exists>segment. sublist segment (ordered_samples [steady 2, steady 1])
     \<and> describes sample_numpy 2 2 (Fin 30) True segment steady_row"
  by (rule feature_rows_have_windows [OF steady_features]) simp

theorem features_are_causal_witness:
  "\<exists>more. generate_features sample_numpy 2 2 (Fin 30) True ([steady 2, steady 1] @ [steady 3]) = Inr ([steady_row] @ more)"
  by (rule features_are_causal [OF _ steady_features]) (auto simp: steady_def less_prod_def)

end
