(* ===== verification/Calendar.thy ===== *)
theory Calendar
  imports Texts
begin

text \<open>
  The proleptic Gregorian calendar of Python's \<open>datetime\<close>, as far as the code uses it: the
  date of an instant (\<open>ord2ymd\<close>, the standard library's algorithm on day ordinals) and
  \<open>isoformat\<close> of an aware UTC time, with the \<open>+00:00\<close> that the code replaces by \<open>Z\<close>.
  \<open>ymd2ord_ord2ymd\<close> is the inverse law that justifies the algorithm.
\<close>

section \<open>Dates\<close>

definition is_leap :: "int \<Rightarrow> bool" where
  "is_leap y = (y mod 4 = 0 \<and> (y mod 100 \<noteq> 0 \<or> y mod 400 = 0))"

definition days_before_year :: "int \<Rightarrow> int" where
  "days_before_year y = (let p = y - 1 in 365 * p + p div 4 - p div 100 + p div 400)"

definition month_lengths :: "bool \<Rightarrow> int list" where
  "month_lengths leap = [31, if leap then 29 else 28, 31, 30, 31, 30, 31, 31, 30, 31, 30, 31]"

text \<open>Month and day of the \<open>n\<close>-th day (from 0) of a year, counting months from \<open>m\<close>.\<close>

fun month_day :: "int \<Rightarrow> int list \<Rightarrow> int \<Rightarrow> int \<times> int" where
  "month_day m (l # ls) n = (if n < l then (m, n + 1) else month_day (m + 1) ls (n - l))"
| "month_day m [] n = (m, n + 1)"

definition ord2ymd :: "int \<Rightarrow> int \<times> int \<times> int" where
  "ord2ymd ordinal =
     (let n = ordinal - 1;
          n400 = n div 146097; r400 = n mod 146097;
          n100 = r400 div 36524; r100 = r400 mod 36524;
          n4 = r100 div 1461; r4 = r100 mod 1461;
          n1 = r4 div 365; r = r4 mod 365;
          y = n400 * 400 + 1 + n100 * 100 + n4 * 4 + n1
      in if n1 = 4 \<or> n100 = 4 then (y - 1, 12, 31)
         else let leap = (n1 = 3 \<and> (n4 \<noteq> 24 \<or> n100 = 3));
                  (m, d) = month_day 1 (month_lengths leap) r
              in (y, m, d))"

definition ymd2ord :: "int \<Rightarrow> int \<Rightarrow> int \<Rightarrow> int" where
  "ymd2ord y m d =
     days_before_year y + sum_list (take (nat (m - 1)) (month_lengths (is_leap y))) + d"

lemma month_day_inverse:
  assumes "month_day m ls n = (m', d)" and "0 \<le> n" and "n < sum_list ls"
  shows "m \<le> m' \<and> sum_list (take (nat (m' - m)) ls) + d = n + 1"
  using assms
proof (induction m ls n rule: month_day.induct)
  case (1 m l ls n)
  show ?case
  proof (cases "n < l")
    case False
    with 1 have IH: "m + 1 \<le> m'" "sum_list (take (nat (m' - (m + 1))) ls) + d = n - l + 1"
      by simp_all
    then have "nat (m' - m) = Suc (nat (m' - (m + 1)))" by simp
    with IH show ?thesis by simp
  qed (use 1 in auto)
qed simp

lemma mod_zero_upto: "0 < x \<Longrightarrow> x \<le> k \<Longrightarrow> x mod k = 0 \<longleftrightarrow> x = k" for x k :: int
  by (cases "x = k") simp_all

lemma year_of_ordinal:
  fixes a b c e :: int
  assumes "0 \<le> b" "b < 4" "0 \<le> c" "c < 25" "0 \<le> e" "e < 4"
  defines "y \<equiv> a * 400 + 1 + b * 100 + c * 4 + e"
  shows "days_before_year y = a * 146097 + b * 36524 + c * 1461 + e * 365"
    and "is_leap y \<longleftrightarrow> e = 3 \<and> (c \<noteq> 24 \<or> b = 3)"
proof -
  have p: "y - 1 = a * 400 + b * 100 + c * 4 + e" by (simp add: y_def)
  have "(y - 1) div 4 = a * 100 + b * 25 + c"
    by (rule int_div_pos_eq [where r = e]) (use assms(1-6) p in simp_all)
  moreover have "(y - 1) div 100 = a * 4 + b"
    by (rule int_div_pos_eq [where r = "c * 4 + e"]) (use assms(1-6) p in simp_all)
  moreover have "(y - 1) div 400 = a"
    by (rule int_div_pos_eq [where r = "b * 100 + c * 4 + e"]) (use assms(1-6) p in simp_all)
  ultimately show "days_before_year y = a * 146097 + b * 36524 + c * 1461 + e * 365"
    by (simp add: days_before_year_def Let_def p)
  show "is_leap y \<longleftrightarrow> e = 3 \<and> (c \<noteq> 24 \<or> b = 3)"
  proof -
    have "y = (1 + e) + 4 * (a * 100 + b * 25 + c)" by (simp add: y_def)
    then have "y mod 4 = (1 + e) mod 4" by (simp only: mod_mult_self2)
    then have m4: "y mod 4 = 0 \<longleftrightarrow> e = 3" using assms(5,6) by presburger
    have "y = (1 + c * 4 + e) + 100 * (a * 4 + b)" by (simp add: y_def)
    then have "y mod 100 = (1 + c * 4 + e) mod 100" by (simp only: mod_mult_self2)
    then have m100: "y mod 100 = 0 \<longleftrightarrow> c * 4 + e = 99"
      using mod_zero_upto [of "1 + c * 4 + e" 100] assms(3-6) by auto
    have "y = (1 + b * 100 + c * 4 + e) + 400 * a" by (simp add: y_def)
    then have "y mod 400 = (1 + b * 100 + c * 4 + e) mod 400" by (simp only: mod_mult_self2)
    then have m400: "y mod 400 = 0 \<longleftrightarrow> b * 100 + c * 4 + e = 399"
      using mod_zero_upto [of "1 + b * 100 + c * 4 + e" 400] assms(1-6) by auto
    have "c = 24 \<and> e = 3" if "c * 4 + e = 99"
    proof -
      have "c = 24" using assms(3-6) that by linarith
      with that show ?thesis by simp
    qed
    moreover have "b = 3 \<and> c * 4 + e = 99" if "b * 100 + c * 4 + e = 399"
    proof -
      have "b = 3" using assms(1-6) that by linarith
      with that show ?thesis by simp
    qed
    ultimately have "c * 4 + e = 99 \<longleftrightarrow> c = 24 \<and> e = 3" "b * 100 + c * 4 + e = 399 \<longleftrightarrow> b = 3 \<and> c = 24 \<and> e = 3"
      by auto
    then show ?thesis unfolding is_leap_def m4 m100 m400 by auto
  qed
qed

lemma days_in_year: "sum_list (month_lengths leap) = (if leap then 366 else 365)"
  by (simp add: month_lengths_def)

lemma div_pred:
  fixes y k :: int
  assumes "0 < k"
  shows "y div k = (y - 1) div k + (if y mod k = 0 then 1 else 0)"
proof -
  have y: "y = k * (y div k) + y mod k" by simp
  have r: "0 \<le> y mod k" "y mod k < k" using assms by simp_all
  show ?thesis
  proof (cases "y mod k = 0")
    case True
    then have "y - 1 = k * (y div k - 1) + (k - 1)" using y by (simp add: algebra_simps)
    then have "(y - 1) div k = y div k - 1" by (rule int_div_pos_eq) (use assms in simp_all)
    with True show ?thesis by simp
  next
    case False
    then have "y - 1 = k * (y div k) + (y mod k - 1)" using y by simp
    then have "(y - 1) div k = y div k" by (rule int_div_pos_eq) (use False r in simp_all)
    with False show ?thesis by simp
  qed
qed

lemma ymd2ord_december: "ymd2ord y 12 31 = days_before_year (y + 1)"
proof -
  have sub: "y mod 100 = 0 \<Longrightarrow> y mod 4 = 0" "y mod 400 = 0 \<Longrightarrow> y mod 100 = 0"
    by (auto simp: mod_eq_0_iff_dvd elim: dvd_trans [rotated])
  have "sum_list (take 11 (month_lengths leap)) = (if leap then 335 else 334)" for leap
    by (simp add: month_lengths_def numeral_eq_Suc)
  then have "ymd2ord y 12 31 = days_before_year y + (if is_leap y then 366 else 365)"
    by (simp add: ymd2ord_def)
  also have "\<dots> = days_before_year (y + 1)"
  proof -
    have "(if is_leap y then 1 else 0 :: int) = (if y mod 4 = 0 then 1 else 0) - (if y mod 100 = 0 then 1 else 0)
        + (if y mod 400 = 0 then 1 else 0)"
    proof -
      have bools: "(if A \<and> (\<not> B \<or> C) then 1 else 0 :: int) = (if A then 1 else 0) - (if B then 1 else 0) + (if C then 1 else 0)"
        if "B \<Longrightarrow> A" "C \<Longrightarrow> B" for A B C
        using that by (cases A; cases B; cases C) simp_all
      show ?thesis unfolding is_leap_def by (rule bools) (fact sub)+
    qed
    moreover have "(if is_leap y then 366 else 365 :: int) = 365 + (if is_leap y then 1 else 0)"
      by (cases "is_leap y") simp_all
    ultimately have leap: "(if is_leap y then 366 else 365 :: int) = 365 + ((if y mod 4 = 0 then 1 else 0)
        - (if y mod 100 = 0 then 1 else 0) + (if y mod 400 = 0 then 1 else 0))" by (simp only:)
    have step: "a' = a + i \<Longrightarrow> b' = b + j \<Longrightarrow> c' = c + k \<Longrightarrow>
        365 * (y - 1) + a - b + c + (365 + (i - j + k)) = 365 * y + a' - b' + c'" for a a' b b' c c' i j k
      by simp
    have y: "y + 1 - 1 = y" by simp
    show ?thesis
      unfolding days_before_year_def Let_def leap y by (rule step; rule div_pred; simp)
  qed
  finally show ?thesis .
qed

lemma ymd2ord_ord2ymd:
  assumes "ord2ymd n = (y, m, d)"
  shows "ymd2ord y m d = n \<and> 1 \<le> m"
proof -
  define n400 r400 where "n400 = (n - 1) div 146097" and "r400 = (n - 1) mod 146097"
  define n100 r100 where "n100 = r400 div 36524" and "r100 = r400 mod 36524"
  define n4 r4 where "n4 = r100 div 1461" and "r4 = r100 mod 1461"
  define n1 r where "n1 = r4 div 365" and "r = r4 mod 365"
  note defs = n400_def r400_def n100_def r100_def n4_def r4_def n1_def r_def
  have n: "n - 1 = n400 * 146097 + n100 * 36524 + n4 * 1461 + n1 * 365 + r"
    by (simp add: defs)
  have r400: "0 \<le> r400" "r400 < 146097" and r100: "0 \<le> r100" "r100 < 36524" "r400 = n100 * 36524 + r100"
    and r4: "0 \<le> r4" "r4 < 1461" "r100 = n4 * 1461 + r4" and r: "0 \<le> r" "r < 365" "r4 = n1 * 365 + r"
    by (simp_all add: defs)
  have b100: "0 \<le> n100" "n100 \<le> 4" using r400 r100 by linarith+
  have b4: "0 \<le> n4" "n4 < 25" using r100 r4 by linarith+
  have b1: "0 \<le> n1" "n1 \<le> 4" using r4 r by linarith+
  let ?y = "n400 * 400 + 1 + n100 * 100 + n4 * 4 + n1"
  have eq: "ord2ymd n = (if n1 = 4 \<or> n100 = 4 then (?y - 1, 12, 31)
      else let (m, d) = month_day 1 (month_lengths (n1 = 3 \<and> (n4 \<noteq> 24 \<or> n100 = 3))) r in (?y, m, d))"
    by (simp add: ord2ymd_def Let_def defs)
  show ?thesis
  proof (cases "n1 = 4 \<or> n100 = 4")
    case True
    have "days_before_year ?y = n"
    proof (cases "n100 = 4")
      case 4: True
      with r400 r100 have "r100 = 0" by simp
      then have "n4 = 0" and "r4 = 0" by (simp_all add: n4_def r4_def)
      from \<open>r4 = 0\<close> have "n1 = 0" and "r = 0" by (simp_all add: n1_def r_def)
      with 4 \<open>n4 = 0\<close> n year_of_ordinal(1) [of 0 0 0 "n400 + 1"] show ?thesis by simp
    next
      case False
      with True have "n1 = 4" by simp
      with r r4 have "r = 0" "r4 = 1460" by simp_all
      with r4 r100 have "n4 \<le> 23" by simp
      with False b100 b4 year_of_ordinal(1) [of n100 "n4 + 1" 0 n400] n \<open>n1 = 4\<close> \<open>r = 0\<close> show ?thesis
        by simp
    qed
    moreover have "(y, m, d) = (?y - 1, 12, 31)" using assms True unfolding eq by simp
    moreover have "?y - 1 + 1 = ?y" by simp
    ultimately show ?thesis using ymd2ord_december [of "?y - 1"] by (metis prod.inject one_le_numeral)
  next
    case False
    with b100 b1 have b: "n100 < 4" "n1 < 4" by auto
    note yo = year_of_ordinal [OF b100(1) b(1) b4 b1(1) b(2), of n400]
    let ?leap = "n1 = 3 \<and> (n4 \<noteq> 24 \<or> n100 = 3)"
    have md: "month_day 1 (month_lengths ?leap) r = (m, d)" and y: "y = ?y"
      using assms False unfolding eq by (auto split: prod.splits)
    have "r < sum_list (month_lengths ?leap)" using r by (simp add: days_in_year)
    from month_day_inverse [OF md r(1) this] yo n show ?thesis
      by (simp add: ymd2ord_def y)
  qed
qed

section \<open>ISO 8601 text\<close>

definition zero_padded :: "nat \<Rightarrow> int \<Rightarrow> string" where
  "zero_padded w n = (let s = digits_of (nat n) in replicate (w - length s) (CHR ''0'') @ s)"

text \<open>The ordinal of 1970-01-01 is 719163; a day is 86 400 000 000 microseconds.\<close>

definition iso_utc :: "int \<Rightarrow> string" where
  "iso_utc t =
     (let (y, m, d) = ord2ymd (t div 86400000000 + 719163);
          us = t mod 86400000000; s = us div 1000000; micro = us mod 1000000
      in zero_padded 4 y @ ''-'' @ zero_padded 2 m @ ''-'' @ zero_padded 2 d @ ''T''
         @ zero_padded 2 (s div 3600) @ '':'' @ zero_padded 2 (s div 60 mod 60) @ '':''
         @ zero_padded 2 (s mod 60) @ (if micro = 0 then [] else ''.'' @ zero_padded 6 micro))"

text \<open>\<open>value.isoformat()\<close>, and with \<open>.replace("+00:00", "Z")\<close>, of an instant in UTC.\<close>

definition isoformat :: "int \<Rightarrow> string" where
  "isoformat t = iso_utc t @ ''+00:00''"

definition isoformat_z :: "int \<Rightarrow> string" where
  "isoformat_z t = iso_utc t @ ''Z''"

lemma iso_examples:
  "isoformat_z 0 = ''1970-01-01T00:00:00Z''"
  "isoformat_z 1786406400000001 = ''2026-08-11T00:00:00.000001Z''"
  "isoformat 951782399000000 = ''2000-02-28T23:59:59+00:00''"
  by code_simp+

end
