(* ===== verification/Modeling.thy ===== *)
theory Modeling
  imports Features Formats Calendar Store
begin

text \<open>
  Training and scoring of \<open>services/anomaly_worker/modeling.py\<close>. The Isolation Forest of
  scikit-learn and the array functions of NumPy are the functions of \<open>ml\<close> (an estimator is
  a value of a type parameter), SHA-256 is its function \<open>ml_sha256\<close>. \<open>train_model\<close>,
  \<open>score_rows\<close> and the reasons are the whole functions of the code, with every training gate
  and every lookup that can raise.
\<close>

section \<open>Parameters\<close>

record 'e ml =
  ml_numpy :: numpy
  ml_quantile :: "flt list \<Rightarrow> flt list \<Rightarrow> flt list"
  ml_sort :: "flt list \<Rightarrow> flt list"
  ml_searchsorted_right :: "flt list \<Rightarrow> flt \<Rightarrow> nat"
  ml_fit :: "int \<Rightarrow> flt \<Rightarrow> int \<Rightarrow> flt list list \<Rightarrow> 'e res"
  ml_score_samples :: "'e \<Rightarrow> flt list list \<Rightarrow> flt list res"
  ml_predict :: "'e \<Rightarrow> flt list list \<Rightarrow> int list res"
  ml_version :: string
  ml_sha256 :: "string \<Rightarrow> string"

section \<open>Bundles\<close>

record model_metadata =
  md_device_id :: string
  md_asset_class :: string
  md_model_version :: string
  md_feature_schema_version :: int
  md_feature_names :: "string list"
  md_training_start :: string
  md_training_end :: string
  md_training_sample_count :: int
  md_validation_sample_count :: int
  md_contamination :: flt
  md_random_seed :: int
  md_sklearn_version :: string
  md_created_at :: string
  md_score_direction :: string
  md_baseline_policy :: string
  md_artifact_checksum :: string

record 'e model_bundle =
  mb_estimator :: 'e
  mb_reference_scores :: "flt list"
  mb_feature_quantiles :: "(string \<times> flt \<times> flt \<times> flt) list"
  mb_metadata :: model_metadata

record score_result =
  sr_sample_id :: int
  sr_raw_anomaly_score :: flt
  sr_empirical_percentile :: flt
  sr_anomalous :: bool
  sr_reason :: string

definition DEFAULT_RANDOM_SEED :: int where
  "DEFAULT_RANDOM_SEED = 20260811"

section \<open>Training\<close>

text \<open>\<open>_isoformat\<close>: the time in UTC with the offset written \<open>Z\<close>; a naive time is refused.\<close>

fun isoformat_utc :: "pydatetime \<Rightarrow> string res" where
  "isoformat_utc (Naive t) = Inl (TrainingError ''TRAINING_WINDOW_MUST_BE_TIMEZONE_AWARE'')"
| "isoformat_utc (Aware t) = Inr (isoformat_z t)"

definition model_version_text :: "string \<Rightarrow> string \<Rightarrow> string \<Rightarrow> flt \<Rightarrow> int \<Rightarrow> string" where
  "model_version_text device_id start end' contamination random_seed =
     device_id @ ''|'' @ start @ ''|'' @ end' @ ''|'' @ str_of_int FEATURE_SCHEMA_VERSION @ ''|''
     @ fmt_g 8 contamination @ ''|'' @ str_of_int random_seed"

definition model_version ::
  "'e ml \<Rightarrow> string \<Rightarrow> pydatetime \<Rightarrow> pydatetime \<Rightarrow> flt \<Rightarrow> int \<Rightarrow> string res" where
  "model_version lib device_id start end' contamination random_seed =
     bindE (isoformat_utc start) (\<lambda>s.
     bindE (isoformat_utc end') (\<lambda>e.
     Inr (''iforest-v1-'' @ take 12 (ml_sha256 lib (model_version_text device_id s e contamination random_seed)))))"

definition contamination_ok :: "flt \<Rightarrow> bool" where
  "contamination_ok c = (flt_le (lit (1/1000)) c \<and> flt_le c (lit (2/10)))"

text \<open>\<open>[item for item in samples if baseline_start <= item.timestamp <= baseline_end]\<close>.\<close>

fun selected_samples ::
  "pydatetime \<Rightarrow> pydatetime \<Rightarrow> telemetry_sample list \<Rightarrow> telemetry_sample list res" where
  "selected_samples start end' [] = Inr []"
| "selected_samples start end' (s # ss) =
     bindE (dt_le start (Aware (ts_timestamp s))) (\<lambda>after.
     bindE (if after then dt_le (Aware (ts_timestamp s)) end' else Inr False) (\<lambda>inside.
     bindE (selected_samples start end' ss) (\<lambda>rest.
     Inr (if inside then s # rest else rest))))"

text \<open>\<open>int(x)\<close> of a float that is not negative.\<close>

fun int_of_flt :: "flt \<Rightarrow> int res" where
  "int_of_flt (Fin x) = Inr (if 0 \<le> x then \<lfloor>x\<rfloor> else - \<lfloor>- x\<rfloor>)"
| "int_of_flt NaN = Inl (ValueError ''cannot convert float NaN to integer'')"
| "int_of_flt _ = Inl (OtherException ''OverflowError'')"

definition training_split :: "int \<Rightarrow> int \<Rightarrow> int res" where
  "training_split n minimum_feature_rows =
     bindE (int_of_flt (flt_mul (lit (of_int n)) (lit (8/10)))) (\<lambda>k.
     Inr (max k (minimum_feature_rows * 3 div 4)))"

fun feature_quantiles ::
  "'e ml \<Rightarrow> flt list list \<Rightarrow> nat \<Rightarrow> string list \<Rightarrow> (string \<times> flt \<times> flt \<times> flt) list res" where
  "feature_quantiles lib matrix index [] = Inr []"
| "feature_quantiles lib matrix index (name # names) =
     (case ml_quantile lib (map (\<lambda>r. r ! index) matrix) [lit (1/100), lit (5/10), lit (99/100)] of
        [low, median, high] \<Rightarrow>
          bindE (feature_quantiles lib matrix (index + 1) names) (\<lambda>rest.
          Inr ((name, low, median, high) # rest))
      | _ \<Rightarrow> Inl (ValueError ''unpack''))"

definition train_model ::
  "'e ml \<Rightarrow> telemetry_sample list \<Rightarrow> string \<Rightarrow> string \<Rightarrow> pydatetime \<Rightarrow> pydatetime \<Rightarrow> int \<Rightarrow> flt \<Rightarrow> int
     \<Rightarrow> pydatetime \<Rightarrow> 'e model_bundle res" where
  "train_model lib samples device_id asset_class baseline_start baseline_end minimum_feature_rows
       contamination random_seed now =
     bindE (dt_le baseline_end baseline_start) (\<lambda>invalid.
     bindE (raise_if invalid (TrainingError ''TRAINING_WINDOW_INVALID'')) (\<lambda>_.
     bindE (raise_if (\<not> contamination_ok contamination) (TrainingError ''CONTAMINATION_OUT_OF_RANGE'')) (\<lambda>_.
     bindE (selected_samples baseline_start baseline_end samples) (\<lambda>selected.
     bindE (default_features (ml_numpy lib) True selected) (\<lambda>rows.
     let n = int (length rows) in
     bindE (raise_if (n < minimum_feature_rows)
       (TrainingError (''MODEL_NOT_READY: '' @ str_of_int n @ '' healthy feature rows; minimum is ''
          @ str_of_int minimum_feature_rows))) (\<lambda>_.
     bindE (training_split n minimum_feature_rows) (\<lambda>split.
     bindE (raise_if (n - split < max 20 (minimum_feature_rows div 10))
       (TrainingError ''MODEL_NOT_READY: healthy validation split is too small'')) (\<lambda>_.
     let training_matrix = feature_matrix (take (nat split) rows);
         validation_matrix = feature_matrix (drop (nat split) rows) in
     bindE (ml_fit lib 200 contamination random_seed training_matrix) (\<lambda>estimator.
     bindE (ml_score_samples lib estimator validation_matrix) (\<lambda>scores.
     bindE (feature_quantiles lib training_matrix 0 FEATURE_NAMES) (\<lambda>quantiles.
     bindE (model_version lib device_id baseline_start baseline_end contamination random_seed) (\<lambda>version.
     bindE (isoformat_utc baseline_start) (\<lambda>start_text.
     bindE (isoformat_utc baseline_end) (\<lambda>end_text.
     bindE (isoformat_utc now) (\<lambda>now_text.
     Inr \<lparr>mb_estimator = estimator, mb_reference_scores = map flt_neg scores,
          mb_feature_quantiles = quantiles,
          mb_metadata =
            \<lparr>md_device_id = device_id, md_asset_class = asset_class, md_model_version = version,
             md_feature_schema_version = FEATURE_SCHEMA_VERSION, md_feature_names = FEATURE_NAMES,
             md_training_start = start_text, md_training_end = end_text,
             md_training_sample_count = int (length training_matrix),
             md_validation_sample_count = int (length validation_matrix),
             md_contamination = contamination, md_random_seed = random_seed,
             md_sklearn_version = ml_version lib, md_created_at = now_text,
             md_score_direction = ''higher_is_more_anomalous; not a probability'',
             md_baseline_policy = ''quality=good, no fault flags, causal healthy-only rolling windows'',
             md_artifact_checksum = ''''\<rparr>\<rparr>)))))))))))))))"

section \<open>Reasons\<close>

definition FEATURE_LABELS :: "(string \<times> string \<times> string) list" where
  "FEATURE_LABELS =
     [(''temperature_level_c'', ''temperature level'', [CHR 0xB0] @ ''C''),
      (''temperature_slope_c_per_min'', ''temperature slope'', [CHR 0xB0] @ ''C/min''),
      (''temperature_std_c'', ''temperature variation'', [CHR 0xB0] @ ''C''),
      (''current_mean_a'', ''current mean'', ''A''),
      (''current_std_a'', ''current variation'', ''A''),
      (''vibration_rms_mean_mps2'', ''vibration RMS'', ''m/s'' @ [CHR 0xB2]),
      (''vibration_peak_max_mps2'', ''vibration peak'', ''m/s'' @ [CHR 0xB2]),
      (''vibration_crest_mean'', ''crest factor'', ''ratio''),
      (''vibration_to_current_ratio'', ''vibration/current ratio'', ''m/s'' @ [CHR 0xB2] @ ''/A'')]"

text \<open>Python's order on the pairs \<open>(float, str)\<close>.\<close>

fun str_less :: "string \<Rightarrow> string \<Rightarrow> bool" where
  "str_less [] [] = False"
| "str_less [] (_ # _) = True"
| "str_less (_ # _) [] = False"
| "str_less (a # as) (b # bs) = (if a = b then str_less as bs else (of_char a :: nat) < of_char b)"

fun evidence_less :: "flt \<times> string \<Rightarrow> flt \<times> string \<Rightarrow> bool" where
  "evidence_less (a, s) (b, t) = (if a = b \<and> a \<noteq> NaN then str_less s t else flt_less a b)"

fun insert_descending :: "flt \<times> string \<Rightarrow> (flt \<times> string) list \<Rightarrow> (flt \<times> string) list" where
  "insert_descending x [] = [x]"
| "insert_descending x (y # ys) = (if evidence_less y x then x # y # ys else y # insert_descending x ys)"

text \<open>\<open>sorted(evidence, reverse=True)\<close>; the comparisons are total unless a score is NaN.\<close>

definition sorted_descending :: "(flt \<times> string) list \<Rightarrow> (flt \<times> string) list" where
  "sorted_descending xs = fold insert_descending xs []"

text \<open>The evidence one feature gives: how far it lies outside its quantiles, in spans.\<close>

definition feature_evidence ::
  "flt \<Rightarrow> flt \<times> flt \<times> flt \<Rightarrow> string \<times> string \<Rightarrow> (flt \<times> string) list res" where
  "feature_evidence v quantiles label_unit =
     (case (quantiles, label_unit) of ((low, median, high), (label, unit)) \<Rightarrow>
        let span = flt_max (flt_max (flt_sub high low) (flt_mul (flt_abs median) (lit (5/100)))) (lit (1/10^6))
        in if flt_less high v
           then bindE (flt_div (flt_sub v high) span) (\<lambda>score.
             Inr [(score, label @ '' '' @ fmt_g 3 v @ '' '' @ unit
                          @ '' is above its healthy 99th percentile '' @ fmt_g 3 high @ '' '' @ unit)])
           else if flt_less v low
           then bindE (flt_div (flt_sub low v) span) (\<lambda>score.
             Inr [(score, label @ '' '' @ fmt_g 3 v @ '' '' @ unit
                          @ '' is below its healthy 1st percentile '' @ fmt_g 3 low @ '' '' @ unit)])
           else Inr [])"

definition lookup :: "('k \<times> 'a) list \<Rightarrow> 'k \<Rightarrow> 'a res" where
  "lookup members k = (case map_of members k of None \<Rightarrow> Inl KeyError | Some v \<Rightarrow> Inr v)"

definition nth_value :: "'a list \<Rightarrow> nat \<Rightarrow> 'a res" where
  "nth_value xs i = (if i < length xs then Inr (xs ! i) else Inl IndexError)"

fun reason_evidence ::
  "flt list \<Rightarrow> (string \<times> flt \<times> flt \<times> flt) list \<Rightarrow> nat \<Rightarrow> string list \<Rightarrow> (flt \<times> string) list res" where
  "reason_evidence values quantiles index [] = Inr []"
| "reason_evidence values quantiles index (name # names) =
     bindE (nth_value values index) (\<lambda>v.
     bindE (lookup quantiles name) (\<lambda>q.
     bindE (lookup FEATURE_LABELS name) (\<lambda>l.
     bindE (feature_evidence v q l) (\<lambda>here.
     bindE (reason_evidence values quantiles (index + 1) names) (\<lambda>rest.
     Inr (here @ rest))))))"

definition reason_text :: "feature_row \<Rightarrow> 'e model_bundle \<Rightarrow> bool \<Rightarrow> string res" where
  "reason_text row bundle anomalous =
     bindE (reason_evidence (fr_values row) (mb_feature_quantiles bundle) 0 FEATURE_NAMES) (\<lambda>evidence.
     Inr (if evidence \<noteq> []
          then take 300 (join_with ''; '' (map snd (take 2 (sorted_descending evidence))))
          else if anomalous
          then ''multivariate feature combination is outside the healthy model region''
          else ''features remain within the healthy validation-score distribution''))"

section \<open>Scoring\<close>

definition percentile :: "'e ml \<Rightarrow> flt list \<Rightarrow> flt \<Rightarrow> flt" where
  "percentile lib reference score =
     (let ordered = ml_sort lib reference
      in flt_mul (np_divide (lit (of_nat (ml_searchsorted_right lib ordered score)))
                    (lit (of_nat (length ordered)))) (lit 100))"

definition score_one :: "'e ml \<Rightarrow> 'e model_bundle \<Rightarrow> feature_row \<Rightarrow> flt \<Rightarrow> int \<Rightarrow> score_result res" where
  "score_one lib bundle row score prediction =
     (let p = percentile lib (mb_reference_scores bundle) score;
          anomalous = (prediction = - 1 \<or> flt_le (lit 99) p)
      in bindE (reason_text row bundle anomalous) (\<lambda>reason.
         Inr \<lparr>sr_sample_id = fr_sample_id row, sr_raw_anomaly_score = score,
              sr_empirical_percentile = p, sr_anomalous = anomalous, sr_reason = reason\<rparr>))"

text \<open>The loop over \<open>zip(rows, raw_scores, predictions, strict=True)\<close>.\<close>

fun score_pairs ::
  "'e ml \<Rightarrow> 'e model_bundle \<Rightarrow> feature_row list \<Rightarrow> flt list \<Rightarrow> int list \<Rightarrow> score_result list res" where
  "score_pairs lib bundle [] [] [] = Inr []"
| "score_pairs lib bundle (row # rows) (score # scores) (prediction # predictions) =
     bindE (score_one lib bundle row score prediction) (\<lambda>result.
     bindE (score_pairs lib bundle rows scores predictions) (\<lambda>results.
     Inr (result # results)))"
| "score_pairs lib bundle _ _ _ = Inl (ValueError ''zip() arguments differ in length'')"

definition score_rows :: "'e ml \<Rightarrow> 'e model_bundle \<Rightarrow> feature_row list \<Rightarrow> score_result list res" where
  "score_rows lib bundle rows =
     bindE (raise_if (md_feature_schema_version (mb_metadata bundle) \<noteq> FEATURE_SCHEMA_VERSION
                      \<or> md_feature_names (mb_metadata bundle) \<noteq> FEATURE_NAMES)
              (ArtifactError ''MODEL_FEATURE_SCHEMA_MISMATCH'')) (\<lambda>_.
     let matrix = feature_matrix rows in
     if matrix = [] then Inr []
     else bindE (ml_score_samples lib (mb_estimator bundle) matrix) (\<lambda>scores.
          bindE (ml_predict lib (mb_estimator bundle) matrix) (\<lambda>predictions.
          score_pairs lib bundle rows (map flt_neg scores) predictions)))"

section \<open>Training gates\<close>

lemma selected_inside:
  "selected_samples (Aware a) (Aware b) ss = Inr (filter (\<lambda>s. a \<le> ts_timestamp s \<and> ts_timestamp s \<le> b) ss)"
  by (induction ss) auto

lemma isoformat_utc_aware: "isoformat_utc t = Inr s \<longleftrightarrow> (\<exists>u. t = Aware u \<and> s = isoformat_z u)"
  by (cases t) auto

lemma model_version_aware:
  "model_version lib did a b c seed = Inr v \<Longrightarrow> \<exists>u w. a = Aware u \<and> b = Aware w \<and> starts_with ''iforest-v1-'' v"
  by (auto simp: model_version_def isoformat_utc_aware starts_with_def)

lemma trained_gates:
  assumes "train_model lib samples did ac start end' minimum c seed now = Inr b"
  shows "\<exists>t u rows split. start = Aware t \<and> end' = Aware u \<and> t < u \<and> contamination_ok c
     \<and> default_features (ml_numpy lib) True (filter (\<lambda>s. t \<le> ts_timestamp s \<and> ts_timestamp s \<le> u) samples) = Inr rows
     \<and> minimum \<le> int (length rows) \<and> split + max 20 (minimum div 10) \<le> int (length rows)
     \<and> minimum * 3 div 4 \<le> split
     \<and> md_training_sample_count (mb_metadata b) = int (length (take (nat split) rows))
     \<and> md_validation_sample_count (mb_metadata b) = int (length (drop (nat split) rows))
     \<and> md_feature_names (mb_metadata b) = FEATURE_NAMES
     \<and> md_feature_schema_version (mb_metadata b) = FEATURE_SCHEMA_VERSION
     \<and> md_sklearn_version (mb_metadata b) = ml_version lib \<and> md_device_id (mb_metadata b) = did"
proof -
  from assms obtain selected rows split ver
    where order: "dt_le end' start = Inr False" and c: "contamination_ok c"
      and sel: "selected_samples start end' samples = Inr selected"
      and rows: "default_features (ml_numpy lib) True selected = Inr rows"
      and n: "\<not> int (length rows) < minimum"
      and split: "training_split (int (length rows)) minimum = Inr split"
      and val: "\<not> int (length rows) - split < max 20 (minimum div 10)"
      and ver: "model_version lib did start end' c seed = Inr ver"
      and md: "md_training_sample_count (mb_metadata b) = int (length (take (nat split) rows))
        \<and> md_validation_sample_count (mb_metadata b) = int (length (drop (nat split) rows))
        \<and> md_feature_names (mb_metadata b) = FEATURE_NAMES
        \<and> md_feature_schema_version (mb_metadata b) = FEATURE_SCHEMA_VERSION
        \<and> md_sklearn_version (mb_metadata b) = ml_version lib \<and> md_device_id (mb_metadata b) = did"
    by (auto simp: train_model_def Let_def feature_matrix_def)
  from model_version_aware [OF ver] obtain t u where tu: "start = Aware t" "end' = Aware u" by blast
  have "minimum * 3 div 4 \<le> split" using split by (auto simp: training_split_def)
  moreover have "split + max 20 (minimum div 10) \<le> int (length rows)" using val by linarith
  moreover have "t < u" using order tu by simp
  moreover have "default_features (ml_numpy lib) True (filter (\<lambda>s. t \<le> ts_timestamp s \<and> ts_timestamp s \<le> u) samples) = Inr rows"
    using sel rows by (simp add: tu selected_inside)
  moreover have "minimum \<le> int (length rows)" using n by simp
  ultimately show ?thesis using tu c md by blast
qed

text \<open>A trained model rests on enough reviewed data: an ordered, timezone-aware window and an allowed contamination; it uses exactly the healthy windows of the samples inside the window, at least the configured number, of which the earlier ones train and at least twenty (and a tenth of the minimum) of the later ones validate; and it records those counts, the feature schema and the library version.\<close>

theorem training_gates:
  assumes "train_model lib samples did ac start end' minimum c seed now = Inr b"
  shows "\<exists>t u rows split. start = Aware t \<and> end' = Aware u \<and> t < u \<and> contamination_ok c
     \<and> default_features (ml_numpy lib) True (filter (\<lambda>s. t \<le> ts_timestamp s \<and> ts_timestamp s \<le> u) samples) = Inr rows
     \<and> minimum \<le> int (length rows) \<and> split + max 20 (minimum div 10) \<le> int (length rows)
     \<and> minimum * 3 div 4 \<le> split
     \<and> md_training_sample_count (mb_metadata b) = int (length (take (nat split) rows))
     \<and> md_validation_sample_count (mb_metadata b) = int (length (drop (nat split) rows))
     \<and> md_feature_names (mb_metadata b) = FEATURE_NAMES
     \<and> md_feature_schema_version (mb_metadata b) = FEATURE_SCHEMA_VERSION
     \<and> md_sklearn_version (mb_metadata b) = ml_version lib \<and> md_device_id (mb_metadata b) = did"
  using assms by (rule trained_gates)

section \<open>Percentiles\<close>

text \<open>What the code relies on: sorting keeps the values, and the right insertion point counts the values not above.\<close>

definition sorting_ok :: "'e ml \<Rightarrow> bool" where
  "sorting_ok lib = (\<forall>xs s. length (ml_sort lib xs) = length xs
     \<and> (list_all flt_finite xs \<longrightarrow> flt_finite s \<longrightarrow>
          ml_searchsorted_right lib (ml_sort lib xs) s = length (filter (\<lambda>x. flt_le x s) xs)))"

lemma rnd_nat: "n \<le> 2 ^ 53 \<Longrightarrow> rnd (of_nat n) = of_nat n"
  using rnd_of_int [of "int n"] by simp

lemma lit_nat: "n \<le> 2 ^ 53 \<Longrightarrow> lit (of_nat n) = Fin (of_nat n)"
proof -
  assume n: "n \<le> 2 ^ 53"
  then have "(of_nat n :: rat) \<le> of_nat (2 ^ 53)" by (simp only: of_nat_le_iff)
  then have "\<bar>of_nat n :: rat\<bar> \<le> 2 ^ 53" by simp
  then show ?thesis using rnd_nat [OF n] by (simp add: of_exact_small)
qed

lemma percentile_value:
  assumes "k \<le> n" and "0 < n" and "n \<le> 2 ^ 53"
  shows "flt_mul (np_divide (lit (of_nat k)) (lit (of_nat n))) (lit 100) = Fin (rnd (rnd (of_nat k / of_nat n) * 100))"
    and "0 \<le> rnd (rnd (of_nat k / of_nat n) * 100)" and "rnd (rnd (of_nat k / of_nat n) * 100) \<le> 100"
proof -
  let ?q = "of_nat k / of_nat n :: rat"
  have q: "0 \<le> ?q" "?q \<le> 1" using assms by (simp_all add: divide_le_eq)
  then have r: "0 \<le> rnd ?q" "rnd ?q \<le> 1" using rnd_mono [of ?q 1] by (simp_all add: rnd_nonneg)
  then have p: "0 \<le> rnd ?q * 100" "rnd ?q * 100 \<le> 100" by simp_all
  have hundred: "lit 100 = Fin 100" by (simp add: of_exact_small rnd_numeral)
  have k: "k \<le> 2 ^ 53" using assms by linarith
  have small: "\<bar>x\<bar> \<le> 2 ^ 53" if "0 \<le> x" "x \<le> 100" for x :: rat using that by simp
  have "\<bar>?q\<bar> \<le> 2 ^ 53" "\<bar>rnd ?q * 100\<bar> \<le> 2 ^ 53"
    by (rule small [OF q(1) order_trans [OF q(2)]], simp) (rule small [OF p])
  then show "flt_mul (np_divide (lit (of_nat k)) (lit (of_nat n))) (lit 100) = Fin (rnd (rnd ?q * 100))"
    using assms(2) by (simp add: hundred lit_nat [OF k] lit_nat [OF assms(3)] np_divide_def of_exact_small [of ?q]
        of_exact_small [of "rnd ?q * 100"])
  show "0 \<le> rnd (rnd ?q * 100)" using p by (simp add: rnd_nonneg)
  show "rnd (rnd ?q * 100) \<le> 100" using rnd_mono [OF p(2)] by (simp add: rnd_numeral)
qed

text \<open>The empirical percentile of a finite score is a number between 0 and 100 that grows with the score, and is 100 for a score that no reference score exceeds.\<close>

theorem percentile_bounds:
  assumes "sorting_ok lib" and "list_all flt_finite reference" and "reference \<noteq> []"
    and "length reference \<le> 2 ^ 53" and "flt_finite s" and "flt_finite s'" and "flt_le s s'"
  shows "\<exists>p p'. percentile lib reference s = Fin p \<and> percentile lib reference s' = Fin p'
     \<and> 0 \<le> p \<and> p \<le> p' \<and> p' \<le> 100
     \<and> (list_all (\<lambda>x. flt_le x s') reference \<longrightarrow> p' = 100)"
proof -
  define n where "n = length reference"
  define k where "k s = length (filter (\<lambda>x. flt_le x s) reference)" for s
  have kn: "k s \<le> n" for s by (simp add: k_def n_def)
  have n: "0 < n" "n \<le> 2 ^ 53" using assms(3,4) by (simp_all add: n_def)
  have val: "percentile lib reference t = Fin (rnd (rnd (of_nat (k t) / of_nat n) * 100))" if "flt_finite t" for t
    using assms(1,2) that percentile_value(1) [OF kn n]
    by (simp add: percentile_def Let_def sorting_ok_def k_def n_def)
  have "k s \<le> k s'"
  proof -
    have le: "flt_le x s'" if "flt_le x s" for x
      using that assms(5-7) by (cases x; cases s; cases s') auto
    have "length (filter P xs) \<le> length (filter Q xs)" if "\<And>x. P x \<Longrightarrow> Q x" for P Q and xs :: "flt list"
      using that by (induction xs) (auto intro: le_SucI)
    with le show ?thesis by (simp add: k_def)
  qed
  then have "(of_nat (k s) :: rat) / of_nat n \<le> of_nat (k s') / of_nat n" using n by (simp add: divide_right_mono)
  then have "rnd (of_nat (k s) / of_nat n) * 100 \<le> rnd (of_nat (k s') / of_nat n) * 100"
    by (intro mult_right_mono rnd_mono) simp_all
  then have "rnd (rnd (of_nat (k s) / of_nat n) * 100) \<le> rnd (rnd (of_nat (k s') / of_nat n) * 100)"
    by (rule rnd_mono)
  moreover have "rnd (rnd (of_nat (k s') / of_nat n) * 100) = 100" if "list_all (\<lambda>x. flt_le x s') reference"
  proof -
    have "k s' = n" using that by (simp add: k_def n_def list_all_iff)
    then show ?thesis using n by (simp add: rnd_numeral)
  qed
  ultimately show ?thesis
    using val [OF assms(5)] val [OF assms(6)] percentile_value(2,3) [OF kn n] by blast
qed

section \<open>Reasons and scores\<close>

lemma lookup_total: "k \<in> fst ` set xs \<Longrightarrow> \<exists>v. lookup xs k = Inr v"
  by (cases "map_of xs k") (auto simp: lookup_def map_of_eq_None_iff)

lemma labels_cover: "set FEATURE_NAMES \<subseteq> fst ` set FEATURE_LABELS"
  by (simp add: FEATURE_NAMES_def FEATURE_LABELS_def)

lemma feature_evidence_total: "\<exists>e. feature_evidence v q l = Inr e"
proof -
  obtain low median high where q: "q = (low, median, high)" by (cases q)
  obtain label unit where l: "l = (label, unit)" by (cases l)
  let ?span = "flt_max (flt_max (flt_sub high low) (flt_mul (flt_abs median) (lit (5/100)))) (lit (1/10^6))"
  obtain a b where "flt_div (flt_sub v high) ?span = Inr a" "flt_div (flt_sub low v) ?span = Inr b"
    using flt_div_total [OF flt_max_microsecond] by metis
  then show ?thesis by (simp add: feature_evidence_def q l Let_def)
qed

lemma reason_evidence_total:
  "set names \<subseteq> set FEATURE_NAMES \<Longrightarrow> set FEATURE_NAMES \<subseteq> fst ` set quantiles \<Longrightarrow>
     index + length names \<le> length values \<Longrightarrow> \<exists>e. reason_evidence values quantiles index names = Inr e"
proof (induction names arbitrary: index)
  case (Cons name names)
  then obtain rest where "reason_evidence values quantiles (index + 1) names = Inr rest" by fastforce
  moreover obtain q where "lookup quantiles name = Inr q"
    using lookup_total [of name quantiles] subsetD [OF Cons.prems(2), of name] Cons.prems(1) by auto
  moreover obtain l where "lookup FEATURE_LABELS name = Inr l"
    using Cons.prems(1) labels_cover lookup_total [of name FEATURE_LABELS] by auto
  moreover obtain here where "feature_evidence (values ! index) q l = Inr here"
    using feature_evidence_total by blast
  ultimately show ?case using Cons.prems(3) by (simp add: nth_value_def)
qed simp

definition scorable :: "'e model_bundle \<Rightarrow> bool" where
  "scorable b = (md_feature_schema_version (mb_metadata b) = FEATURE_SCHEMA_VERSION
     \<and> md_feature_names (mb_metadata b) = FEATURE_NAMES
     \<and> set FEATURE_NAMES \<subseteq> fst ` set (mb_feature_quantiles b))"

lemma reason_text_total:
  assumes "scorable b" and "length (fr_values row) = length FEATURE_NAMES"
  shows "\<exists>t. reason_text row b a = Inr t"
  using reason_evidence_total [of FEATURE_NAMES "mb_feature_quantiles b" 0 "fr_values row"] assms
  by (auto simp: scorable_def reason_text_def)

lemma generated_rows_complete:
  "default_features np healthy samples = Inr rows \<Longrightarrow> r \<in> set rows \<Longrightarrow>
     length (fr_values r) = length FEATURE_NAMES"
  using feature_windows [of np 12 6 "lit 30" healthy samples rows r]
  by (auto simp: default_features_def describes_def segment_values_def FEATURE_NAMES_def Let_def)

lemma reason_text_bounds:
  assumes "reason_text row b a = Inr t"
  shows "length t \<le> 300"
proof -
  obtain es where t: "t = (if es \<noteq> []
      then take 300 (join_with ''; '' (map snd (take 2 (sorted_descending es))))
      else if a then ''multivariate feature combination is outside the healthy model region''
      else ''features remain within the healthy validation-score distribution'')"
    using assms by (auto simp: reason_text_def)
  have "length (take 300 xs) \<le> 300" for xs :: string by simp
  with t show ?thesis by simp
qed

text \<open>The result the code gives for one row, its score and its prediction.\<close>

definition scored_as :: "'e ml \<Rightarrow> 'e model_bundle \<Rightarrow> feature_row \<Rightarrow> flt \<times> int \<Rightarrow> score_result \<Rightarrow> bool" where
  "scored_as lib b row sp r =
     (sr_sample_id r = fr_sample_id row \<and> sr_raw_anomaly_score r = fst sp
      \<and> sr_empirical_percentile r = percentile lib (mb_reference_scores b) (fst sp)
      \<and> (sr_anomalous r \<longleftrightarrow> snd sp = - 1 \<or> flt_le (lit 99) (sr_empirical_percentile r))
      \<and> reason_text row b (sr_anomalous r) = Inr (sr_reason r) \<and> length (sr_reason r) \<le> 300)"

lemma score_one_as: "score_one lib b row s p = Inr r \<Longrightarrow> scored_as lib b row (s, p) r"
  by (auto simp: score_one_def scored_as_def Let_def dest: reason_text_bounds)

lemma score_pairs_spec:
  "score_pairs lib b rows scores predictions = Inr results \<Longrightarrow>
     length rows = length results \<and> length scores = length results \<and> length predictions = length results
     \<and> (\<forall>i < length results. scored_as lib b (rows ! i) (scores ! i, predictions ! i) (results ! i))"
proof (induction lib b rows scores predictions arbitrary: results rule: score_pairs.induct)
  case (2 lib b row rows score scores prediction predictions)
  then obtain r rs where r: "score_one lib b row score prediction = Inr r"
    and rs: "score_pairs lib b rows scores predictions = Inr rs" and res: "results = r # rs" by auto
  from "2.IH" [OF rs] score_one_as [OF r] show ?case by (auto simp: res nth_Cons split: nat.splits)
qed auto

lemma score_pairs_total:
  "length scores = length rows \<Longrightarrow> length predictions = length rows \<Longrightarrow> scorable b \<Longrightarrow>
     (\<And>r. r \<in> set rows \<Longrightarrow> length (fr_values r) = length FEATURE_NAMES) \<Longrightarrow>
     \<exists>results. score_pairs lib b rows scores predictions = Inr results"
proof (induction lib b rows scores predictions rule: score_pairs.induct)
  case (2 lib b row rows score scores prediction predictions)
  obtain t where "reason_text row b
      (prediction = - 1 \<or> flt_le (lit 99) (percentile lib (mb_reference_scores b) score)) = Inr t"
    using reason_text_total "2.prems" by fastforce
  then obtain r where r: "score_one lib b row score prediction = Inr r" by (simp add: score_one_def Let_def)
  from "2.IH" "2.prems" obtain rs where "score_pairs lib b rows scores predictions = Inr rs" by auto
  with r show ?case by simp
qed auto

text \<open>Scoring answers for exactly the rows it is given, in their order: each result carries its sample, the negated score of the estimator and its empirical percentile, is anomalous exactly when the estimator says so or the percentile reaches 99, and has a reason of at most 300 characters.\<close>

theorem scores_match_rows:
  assumes "score_rows lib b rows = Inr results" and "rows \<noteq> []"
  shows "\<exists>scores predictions. ml_score_samples lib (mb_estimator b) (map fr_values rows) = Inr scores
     \<and> ml_predict lib (mb_estimator b) (map fr_values rows) = Inr predictions
     \<and> map sr_sample_id results = map fr_sample_id rows
     \<and> (\<forall>i < length results. scored_as lib b (rows ! i) (flt_neg (scores ! i), predictions ! i) (results ! i))"
proof -
  from assms obtain scores predictions
    where sc: "ml_score_samples lib (mb_estimator b) (map fr_values rows) = Inr scores"
      and pr: "ml_predict lib (mb_estimator b) (map fr_values rows) = Inr predictions"
      and res: "score_pairs lib b rows (map flt_neg scores) predictions = Inr results"
    by (auto simp: score_rows_def feature_matrix_def Let_def)
  from score_pairs_spec [OF res] have len: "length rows = length results" "length scores = length results"
    and each: "\<forall>i < length results.
      scored_as lib b (rows ! i) (map flt_neg scores ! i, predictions ! i) (results ! i)" by auto
  from len each have "map sr_sample_id results = map fr_sample_id rows"
    by (intro nth_equalityI) (auto simp: scored_as_def)
  with sc pr len each show ?thesis by auto
qed

text \<open>One score and one prediction per row, the contract of the estimator.\<close>

definition answers :: "'e ml \<Rightarrow> 'e \<Rightarrow> bool" where
  "answers lib e = (\<forall>m. \<exists>s p. ml_score_samples lib e m = Inr s \<and> ml_predict lib e m = Inr p
     \<and> length s = length m \<and> length p = length m)"

lemma default_features_total: "\<exists>rows. default_features np h samples = Inr rows"
  by (simp add: default_features_def generate_features_def)

lemma scores_exist:
  assumes "default_features np healthy samples = Inr rows" and "scorable b"
    and "\<And>m. \<exists>s p. ml_score_samples lib (mb_estimator b) m = Inr s \<and> ml_predict lib (mb_estimator b) m = Inr p
      \<and> length s = length m \<and> length p = length m"
  shows "\<exists>results. score_rows lib b rows = Inr results"
proof -
  from assms(3) [of "map fr_values rows"] obtain s p
    where sp: "ml_score_samples lib (mb_estimator b) (map fr_values rows) = Inr s"
      "ml_predict lib (mb_estimator b) (map fr_values rows) = Inr p"
      and len: "length s = length rows" "length p = length rows" by auto
  from len generated_rows_complete [OF assms(1)] assms(2)
  have "\<exists>results. score_pairs lib b rows (map flt_neg s) p = Inr results"
    by (intro score_pairs_total) auto
  with sp assms(2) show ?thesis by (auto simp: score_rows_def scorable_def feature_matrix_def Let_def)
qed

text \<open>Scoring the rows that feature generation makes, with a usable bundle and an estimator that returns one score and one prediction per row, always succeeds: no lookup of a value, quantile or label can fail and no division has a zero divisor.\<close>

theorem scoring_returns:
  assumes "default_features np healthy samples = Inr rows" and "scorable b"
    and "\<And>m. \<exists>s p. ml_score_samples lib (mb_estimator b) m = Inr s \<and> ml_predict lib (mb_estimator b) m = Inr p
      \<and> length s = length m \<and> length p = length m"
  shows "\<exists>results. score_rows lib b rows = Inr results"
  using assms by (rule scores_exist)

section \<open>Examples\<close>

text \<open>A motor at rest: every window is healthy and has the same features.\<close>

definition flat_numpy :: numpy where
  "flat_numpy = \<lparr>np_mean = (\<lambda>_. Fin 1), np_std = (\<lambda>_. Fin 0), np_max = (\<lambda>_. Fin 1), np_dot = (\<lambda>_ _. Fin 0)\<rparr>"

definition flat_ml :: "unit ml" where
  "flat_ml = \<lparr>ml_numpy = flat_numpy, ml_quantile = (\<lambda>_ _. [Fin 0, Fin 0, Fin 0]), ml_sort = (\<lambda>xs. xs),
     ml_searchsorted_right = (\<lambda>xs s. length (filter (\<lambda>x. flt_le x s) xs)),
     ml_fit = (\<lambda>_ _ _ _. Inr ()), ml_score_samples = (\<lambda>_ m. Inr (map (\<lambda>_. Fin 0) m)),
     ml_predict = (\<lambda>_ m. Inr (map (\<lambda>_. 1) m)), ml_version = ''1.7.2'', ml_sha256 = (\<lambda>_. ''0123456789abcdef'')\<rparr>"

lemma flat_values:
  assumes "seg \<noteq> []" and "\<forall>s \<in> set seg. ts_temperature_c s = Some (Fin 40)"
  shows "segment_values flat_numpy seg = map Fin [40, 0, 0, 1, 0, 1, 1, 1, 1]"
proof -
  have "last (column ts_temperature_c seg) = Fin 40"
    using assms by (simp add: column_def last_map)
  then show ?thesis
    by (simp add: segment_values_def slope_per_minute_def flat_numpy_def Let_def np_divide_def flt_max_def
        of_exact_small rnd_twentieth rnd_numeral)
qed

definition at_rest :: "nat \<Rightarrow> window \<Rightarrow> bool" where
  "at_rest k w = (length (win_segment w) = min 12 k \<and> set (win_segment w) \<subseteq> range steady
     \<and> win_previous w = (if k = 0 then None else Some (10000000 * int k)) \<and> length (win_rows w) = k - 5)"

lemma at_rest_step:
  assumes "at_rest k w"
  shows "at_rest (Suc k) (feature_step flat_numpy 12 6 (lit 30) True (steady (int (Suc k))) w)"
proof -
  let ?s = "steady (int (Suc k))"
  have thirty: "lit 30 = Fin 30" by (simp add: of_exact_small rnd_numeral)
  have gap: "\<not> flt_less (lit 30) (total_seconds (ts_timestamp ?s - 10000000 * int k))"
    by (simp add: steady_def thirty ten_seconds algebra_simps)
  define seg where "seg = next_segment 12 (lit 30) w ?s"
  have seg': "seg = (if 12 < length (win_segment w @ [?s]) then tl (win_segment w @ [?s]) else win_segment w @ [?s])"
    using assms gap by (simp add: seg_def next_segment_def at_rest_def Let_def)
  have sub: "set seg \<subseteq> range steady"
  proof -
    have "set seg \<subseteq> set (win_segment w @ [?s])" unfolding seg' by (cases "win_segment w @ [?s]") auto
    with assms show ?thesis by (auto simp: at_rest_def)
  qed
  have len: "length seg = min 12 (Suc k)" using assms unfolding seg' at_rest_def by auto
  have all: "list_all measurements_are_finite seg" "list_all is_healthy seg"
    using sub steady_healthy by (auto simp: list_all_iff)
  have "\<forall>s \<in> set seg. ts_temperature_c s = Some (Fin 40)" using sub by (auto simp: steady_def)
  moreover have "seg \<noteq> []" using len by auto
  ultimately have vals: "segment_values flat_numpy seg = map Fin [40, 0, 0, 1, 0, 1, 1, 1, 1]"
    using flat_values by blast
  have rows: "length (feature_rows_of flat_numpy 6 True seg ?s) = (if Suc k < 6 then 0 else 1)"
    using len all by (simp add: feature_rows_of_def vals Let_def min_def)
  show ?thesis
    using assms sub len rows unfolding at_rest_def feature_step_def Let_def seg_def [symmetric]
    by (auto simp: steady_def)
qed

lemma at_rest_fold:
  "at_rest k w \<Longrightarrow> at_rest (k + n)
     (fold (feature_step flat_numpy 12 6 (lit 30) True) (map (\<lambda>i. steady (int i)) [Suc k ..< Suc (k + n)]) w)"
proof (induction n)
  case (Suc n)
  then show ?case using at_rest_step [of "k + n"] by simp
qed simp

definition resting :: "nat \<Rightarrow> telemetry_sample list" where
  "resting n = map (\<lambda>i. steady (int i)) [1 ..< Suc n]"

lemma ordered_resting: "ordered_samples (resting n) = resting n"
  unfolding ordered_samples_def
proof (rule properties_for_sort_key)
  show "sorted (map (\<lambda>s. (ts_timestamp s, ts_sample_id s)) (resting n))"
    unfolding resting_def map_map by (rule sorted_map_mono, rule sorted_upt)
      (auto intro!: mono_onI simp: less_eq_prod_def steady_def)
qed simp_all

lemma resting_features: "\<exists>rows. default_features flat_numpy True (resting n) = Inr rows \<and> length rows = n - 5"
proof -
  have "at_rest 0 fresh_window" by (simp add: at_rest_def fresh_window_def)
  from at_rest_fold [OF this, of n] show ?thesis
    by (simp add: default_features_def generate_features_def ordered_resting at_rest_def)
      (simp add: resting_def)
qed

lemma a_64th_ok: "contamination_ok (Fin (1/64))"
proof -
  have "rnd (1/64) = 1/64" using rnd_exact [of "1/64" 1 "- 6"] by (simp add: power_int_minus)
  then show ?thesis
    using rnd_mono [of "1/1000" "1/64"] rnd_mono [of "1/64" "2/10"] by (simp add: contamination_ok_def of_exact_small)
qed

lemma training_split_136: "\<exists>k. training_split 136 136 = Inr k \<and> 102 \<le> k \<and> k \<le> 110"
proof -
  have f: "rnd (13/16) = 13/16" "rnd (221/2) = 221/2"
    using rnd_exact [of "13/16" 13 "- 4"] rnd_exact [of "221/2" 221 "- 1"] by (simp_all add: power_int_minus)
  have r: "0 \<le> rnd (8/10)" "rnd (8/10) \<le> 13/16"
    using rnd_mono [of "8/10" "13/16"] f by (simp_all add: rnd_nonneg)
  then have "136 * rnd (8/10) \<le> 221/2" by simp
  with f have p: "rnd (136 * rnd (8/10)) \<le> 221/2" using rnd_mono [of "136 * rnd (8/10)" "221/2"] by simp
  have nn: "0 \<le> rnd (136 * rnd (8/10))" using r(1) by (intro rnd_nonneg) simp
  have "flt_mul (lit 136) (lit (8/10)) = Fin (rnd (136 * rnd (8/10)))"
    using r by (simp add: of_exact_small rnd_numeral)
  moreover have "\<lfloor>rnd (136 * rnd (8/10))\<rfloor> \<le> 110" using p by (simp add: floor_le_iff)
  ultimately show ?thesis using nn by (simp add: training_split_def)
qed

lemma resting_trained:
  "\<exists>b. train_model flat_ml (resting 141) ''motor-01'' ''dc-motor'' (Aware 0) (Aware 10000000000) 136 (Fin (1/64)) 7
     (Aware 0) = Inr b"
proof -
  obtain rows where rows: "default_features flat_numpy True (resting 141) = Inr rows" "length rows = 136"
    using resting_features [of 141] by auto
  obtain k where k: "training_split 136 136 = Inr k" "102 \<le> k" "k \<le> 110" using training_split_136 by blast
  have sel: "selected_samples (Aware 0) (Aware 10000000000) (resting 141) = Inr (resting 141)"
    unfolding selected_inside by (auto simp: resting_def steady_def intro!: filter_True)
  have q: "\<exists>q. feature_quantiles flat_ml m i names = Inr q" for m i names
    by (induction names arbitrary: i) (simp_all add: flat_ml_def)
  then obtain qs where qs: "feature_quantiles flat_ml (feature_matrix (take (nat k) rows)) 0 FEATURE_NAMES = Inr qs" by blast
  have [simp]: "ml_numpy flat_ml = flat_numpy" "ml_fit flat_ml a b c d = Inr ()"
    "ml_score_samples flat_ml e m = Inr (map (\<lambda>_. Fin 0) m)" for a b c d e m by (simp_all add: flat_ml_def)
  from k rows(2) show ?thesis
    by (simp add: train_model_def Let_def a_64th_ok sel rows qs model_version_def)
qed

theorem training_gates_witness:
  "\<exists>b. train_model flat_ml (resting 141) ''motor-01'' ''dc-motor'' (Aware 0) (Aware 10000000000) 136 (Fin (1/64)) 7
     (Aware 0) = Inr b \<and> md_device_id (mb_metadata b) = ''motor-01''"
proof -
  obtain b where b: "train_model flat_ml (resting 141) ''motor-01'' ''dc-motor'' (Aware 0) (Aware 10000000000) 136
      (Fin (1/64)) 7 (Aware 0) = Inr b" using resting_trained by blast
  from training_gates [OF b] b show ?thesis by blast
qed

lemma flat_sorting_ok: "sorting_ok flat_ml"
  by (simp add: sorting_ok_def flat_ml_def)

theorem percentile_bounds_witness:
  "\<exists>p p'. percentile flat_ml [Fin 3, Fin 1] (Fin 2) = Fin p \<and> percentile flat_ml [Fin 3, Fin 1] (Fin 4) = Fin p'
     \<and> p \<le> p' \<and> p' = 100"
  using percentile_bounds [OF flat_sorting_ok, of "[Fin 3, Fin 1]" "Fin 2" "Fin 4"] by auto

definition flat_bundle :: "unit model_bundle" where
  "flat_bundle = \<lparr>mb_estimator = (), mb_reference_scores = [Fin 0],
     mb_feature_quantiles = map (\<lambda>n. (n, Fin 0, Fin 1, Fin 2)) FEATURE_NAMES,
     mb_metadata =
       \<lparr>md_device_id = ''motor-01'', md_asset_class = ''dc-motor'', md_model_version = ''iforest-v1-0'',
        md_feature_schema_version = FEATURE_SCHEMA_VERSION, md_feature_names = FEATURE_NAMES,
        md_training_start = '''', md_training_end = '''', md_training_sample_count = 102,
        md_validation_sample_count = 34, md_contamination = lit (2/100), md_random_seed = 7,
        md_sklearn_version = ''1.7.2'', md_created_at = isoformat_z 0, md_score_direction = '''',
        md_baseline_policy = '''', md_artifact_checksum = ''sha256:00''\<rparr>\<rparr>"

lemma flat_scorable: "scorable flat_bundle"
  by (simp add: scorable_def flat_bundle_def image_image)

lemma flat_estimator:
  "\<exists>s p. ml_score_samples flat_ml e m = Inr s \<and> ml_predict flat_ml e m = Inr p \<and> length s = length m \<and> length p = length m"
  by (simp add: flat_ml_def)

theorem scoring_returns_witness:
  "\<exists>rows results. default_features flat_numpy True (resting 12) = Inr rows \<and> score_rows flat_ml flat_bundle rows = Inr results"
proof -
  obtain rows where rows: "default_features flat_numpy True (resting 12) = Inr rows" using resting_features by blast
  from scoring_returns [OF rows flat_scorable flat_estimator] rows show ?thesis by blast
qed

theorem scores_match_rows_witness:
  "\<exists>rows results. score_rows flat_ml flat_bundle rows = Inr results \<and> map sr_sample_id results = map fr_sample_id rows
     \<and> length results = 7"
proof -
  obtain rows where rows: "default_features flat_numpy True (resting 12) = Inr rows" "length rows = 7"
    using resting_features [of 12] by auto
  obtain results where res: "score_rows flat_ml flat_bundle rows = Inr results"
    using scoring_returns [OF rows(1) flat_scorable flat_estimator] by blast
  have "rows \<noteq> []" using rows(2) by auto
  from scores_match_rows [OF res this] have "map sr_sample_id results = map fr_sample_id rows" by blast
  moreover from this have "length results = length rows" by (rule map_eq_imp_length_eq)
  ultimately show ?thesis using res rows(2) by auto
qed

end
