(* ===== verification/Commands.thy ===== *)
theory Commands
  imports Topics Calendar IngestionLaws
begin

text \<open>
  Issuing a relay command, \<open>services/api/app/command_service.py\<close>: the command and its audit
  record are committed as \<open>queued\<close>, then the message is handed to the broker, then the
  outcome is committed as \<open>published\<close> or \<open>failed\<close>. \<open>publish\<close> is \<open>mqtt_publish.single\<close>
  (the exception it raises, if any) and \<open>meanwhile\<close> what other sessions commit between the
  two commits, among them the acknowledgement of the device.
\<close>

section \<open>The message\<close>

record mqtt_auth =
  auth_username :: string
  auth_password :: string

record publication =
  pub_topic :: string
  pub_payload :: string
  pub_qos :: nat
  pub_retain :: bool
  pub_hostname :: string
  pub_port :: int
  pub_auth :: "mqtt_auth option"

definition relay_parameters :: "relay_command_create \<Rightarrow> (string \<times> json) list" where
  "relay_parameters r = [(''relay_on'', JBool (rc_relay_on r)), (''timeout_s'', JInt (rc_timeout_s r))]"

definition command_payload ::
  "string \<Rightarrow> device_row \<Rightarrow> string \<Rightarrow> relay_command_create \<Rightarrow> int \<Rightarrow> int \<Rightarrow> json" where
  "command_payload cid device actor r now expires_at = JObj
     [(''schema_version'', JInt 1),
      (''command_id'', JStr cid),
      (''site_id'', JStr (dev_site_id device)),
      (''device_id'', JStr (dev_id device)),
      (''issued_at'', JStr (isoformat_z now)),
      (''expires_at'', JStr (isoformat_z expires_at)),
      (''issued_by'', JStr actor),
      (''kind'', JStr ''set_demo_relay''),
      (''parameters'', JObj (relay_parameters r))]"

definition broker_auth :: "settings \<Rightarrow> mqtt_auth option" where
  "broker_auth cfg =
     (case (mqtt_username cfg, mqtt_password cfg) of
        (Some u, Some p) \<Rightarrow> if u \<noteq> [] \<and> p \<noteq> [] then Some \<lparr>auth_username = u, auth_password = p\<rparr> else None
      | _ \<Rightarrow> None)"

text \<open>The payload holds no float, so the text of floats is immaterial.\<close>

definition command_publication :: "settings \<Rightarrow> device_row \<Rightarrow> json \<Rightarrow> publication res" where
  "command_publication cfg device payload =
     bindE (topic (dev_site_id device) (dev_id device) COMMANDS) (\<lambda>t.
     Inr \<lparr>pub_topic = t, pub_payload = json_dumps (\<lambda>_. []) payload, pub_qos = 1, pub_retain = False,
          pub_hostname = mqtt_host cfg, pub_port = mqtt_port cfg, pub_auth = broker_auth cfg\<rparr>)"

section \<open>The two commits\<close>

definition queued_command ::
  "string \<Rightarrow> device_row \<Rightarrow> string \<Rightarrow> relay_command_create \<Rightarrow> int \<Rightarrow> command_row" where
  "queued_command cid device actor r now =
     \<lparr>cmd_command_id = cid, cmd_device_id = dev_id device, cmd_kind = ''set_demo_relay'',
      cmd_parameters = JObj (relay_parameters r), cmd_status = ''queued'', cmd_result_code = None,
      cmd_detail = None, cmd_issued_by = actor, cmd_issued_at = Aware now,
      cmd_expires_at = Aware (now + seconds (min (rc_timeout_s r) 10)), cmd_acknowledged_at = None\<rparr>"

definition queue_command ::
  "string \<Rightarrow> device_row \<Rightarrow> string \<Rightarrow> relay_command_create \<Rightarrow> (nat \<Rightarrow> int) \<Rightarrow> db \<Rightarrow> db res" where
  "queue_command cid device actor r clk d =
     bindE (raise_if (get_command cid d \<noteq> None \<or> get_device (dev_id device) d = None) IntegrityError) (\<lambda>_.
     Inr (add_audit actor ''relay_command_issued'' ''device_command'' cid
            (JObj ((''device_id'', JStr (dev_id device)) # relay_parameters r)) (Aware (clk 1))
            (add_command (queued_command cid device actor r (clk 0)) d)))"

fun publish_outcome :: "(publication \<Rightarrow> exc option) \<Rightarrow> publication res \<Rightarrow> exc option" where
  "publish_outcome publish (Inl e) = Some e"
| "publish_outcome publish (Inr p) = publish p"

fun command_after_publish :: "exc option \<Rightarrow> command_row \<Rightarrow> command_row" where
  "command_after_publish None c = c\<lparr>cmd_status := ''published''\<rparr>"
| "command_after_publish (Some e) c =
     c\<lparr>cmd_status := ''failed'', cmd_result_code := Some ''BROKER_PUBLISH_FAILED'',
       cmd_detail := Some (exc_name e)\<rparr>"

text \<open>
  The second commit writes the changed columns of the command's row, whatever the row has
  become; the caller's object is the queued command with the same changes.
\<close>

definition issue_relay_command ::
  "(publication \<Rightarrow> exc option) \<Rightarrow> (db \<Rightarrow> db) \<Rightarrow> (nat \<Rightarrow> int) \<Rightarrow> string \<Rightarrow> device_row \<Rightarrow> string
     \<Rightarrow> relay_command_create \<Rightarrow> settings \<Rightarrow> db \<Rightarrow> (db \<times> command_row) res" where
  "issue_relay_command publish meanwhile clk cid device actor r cfg d =
     bindE (queue_command cid device actor r clk d) (\<lambda>d1.
       (let now = clk 0;
            payload = command_payload cid device actor r now (now + seconds (min (rc_timeout_s r) 10));
            outcome = publish_outcome publish (command_publication cfg device payload);
            d2 = meanwhile d1
        in Inr (put_command cid (command_after_publish outcome) d2,
                command_after_publish outcome (queued_command cid device actor r now))))"

section \<open>What a command's row keeps\<close>

text \<open>
  A table whose rows satisfy an invariant, and what every change keeps of a row: the laws
  of \<open>keyed_store\<close> with the table itself, on which the lemmas for all rows rest.
\<close>

locale invariant_rows = keyed_store key get add put
  for key :: "'r \<Rightarrow> 'k" and get :: "'k \<Rightarrow> 'd \<Rightarrow> 'r option" and add :: "'r \<Rightarrow> 'd \<Rightarrow> 'd"
    and put :: "'k \<Rightarrow> ('r \<Rightarrow> 'r) \<Rightarrow> 'd \<Rightarrow> 'd" +
  fixes rows :: "'d \<Rightarrow> 'r list" and inv :: "'r \<Rightarrow> bool"
  assumes rows_add: "rows (add r d) = rows d @ [r]"
    and rows_put: "rows (put k f d) = row_put key k f (rows d)"
begin

lemma all_add: "list_all inv (rows d) \<Longrightarrow> inv r \<Longrightarrow> list_all inv (rows (add r d))"
  by (simp add: rows_add)

lemma all_put: "list_all inv (rows d) \<Longrightarrow> (\<And>r. inv r \<Longrightarrow> inv (f r)) \<Longrightarrow> list_all inv (rows (put k f d))"
  by (auto simp: rows_put list_all_iff set_row_put)

end

definition command_statuses :: "string list" where
  "command_statuses = [''queued'', ''published'', ''failed'', ''accepted'', ''completed'', ''rejected'', ''expired'']"

definition lives_at_most :: "int \<Rightarrow> command_row \<Rightarrow> bool" where
  "lives_at_most us c =
     (case (cmd_issued_at c, cmd_expires_at c) of
        (Aware a, Aware b) \<Rightarrow> a < b \<and> b - a \<le> us
      | _ \<Rightarrow> False)"

definition command_ok :: "command_row \<Rightarrow> bool" where
  "command_ok c =
     (cmd_kind c = ''set_demo_relay''
      \<and> cmd_status c \<in> set command_statuses
      \<and> lives_at_most (seconds 10) c
      \<and> (cmd_acknowledged_at c \<noteq> None \<longrightarrow> cmd_result_code c \<noteq> None)
      \<and> (cmd_status c = ''failed'' \<longrightarrow> cmd_result_code c \<noteq> None))"

interpretation command_rows: invariant_rows cmd_command_id get_command add_command put_command
    db_commands command_ok
  by unfold_locales (simp_all add: add_command_def put_command_def)

text \<open>What no later step changes of a command.\<close>

definition command_identity :: "command_row \<Rightarrow> string \<times> string \<times> string \<times> json \<times> string \<times> pydatetime \<times> pydatetime" where
  "command_identity c =
     (cmd_command_id c, cmd_device_id c, cmd_kind c, cmd_parameters c, cmd_issued_by c,
      cmd_issued_at c, cmd_expires_at c)"

lemma status_in_command_statuses:
  "ack_status_str st \<in> set command_statuses" "''queued'' \<in> set command_statuses"
  "''published'' \<in> set command_statuses" "''failed'' \<in> set command_statuses"
  by (cases st; simp add: command_statuses_def)+

lemma queued_command_ok: "relay_command_create_ok r \<Longrightarrow> command_ok (queued_command cid v actor r now)"
  by (simp add: command_ok_def queued_command_def status_in_command_statuses lives_at_most_def seconds_def
      relay_command_create_ok_def)

lemma command_after_publish_ok: "command_ok c \<Longrightarrow> command_ok (command_after_publish x c)"
  by (cases x) (simp_all add: command_ok_def lives_at_most_def status_in_command_statuses)

lemma command_after_ack_ok: "command_ok c \<Longrightarrow> command_ok (command_after_ack e t c)"
  by (simp add: command_ok_def command_after_ack_def lives_at_most_def status_in_command_statuses)

lemma command_identity_kept:
  "command_identity (command_after_publish x c) = command_identity c"
  "command_identity (command_after_ack e t c) = command_identity c"
  by (cases x; simp add: command_identity_def command_after_ack_def)+

lemma command_after_publish_id [simp]: "cmd_command_id (command_after_publish x c) = cmd_command_id c"
  by (cases x) simp_all

lemma add_audit_commands [simp]: "db_commands (add_audit a b x y z t d) = db_commands d"
  by (simp add: add_audit_def)

lemma queue_command_Inr:
  "queue_command cid v actor r clk d = Inr d1 \<longleftrightarrow>
     get_command cid d = None \<and> get_device (dev_id v) d \<noteq> None
     \<and> d1 = add_audit actor ''relay_command_issued'' ''device_command'' cid
            (JObj ((''device_id'', JStr (dev_id v)) # relay_parameters r)) (Aware (clk 1))
            (add_command (queued_command cid v actor r (clk 0)) d)"
  by (auto simp: queue_command_def)

lemma queued_command_id [simp]: "cmd_command_id (queued_command cid v actor r now) = cid"
  by (simp add: queued_command_def)

lemma get_queued: "get_command cid d = None \<Longrightarrow>
    get_command k (add_command (queued_command cid v actor r now) d) =
      (if k = cid then Some (queued_command cid v actor r now) else get_command k d)"
  by (auto simp: commands.get_add split: option.splits)

lemma queue_command_rows_ok:
  "list_all command_ok (db_commands d) \<Longrightarrow> relay_command_create_ok r \<Longrightarrow>
     queue_command cid v actor r clk d = Inr d1 \<Longrightarrow> list_all command_ok (db_commands d1)"
  using command_rows.all_add queued_command_ok by (auto simp: queue_command_Inr)

lemma ack_rows_ok:
  assumes "list_all command_ok (db_commands d)" and "persist_command_ack rt clk e d = Inr (d1, p)"
  shows "list_all command_ok (db_commands d1)"
  using assms command_rows.all_put [OF assms(1) command_after_ack_ok]
  by (auto simp: persist_command_ack_def notify_eq split: option.splits if_splits)

text \<open>C27: Issuing a command and acknowledging one keep every command of the store within its life cycle: the demo relay kind, a known status, a life of at most ten seconds, and a result code wherever the command failed or was acknowledged, whatever other sessions did between the two commits of the issue.\<close>

theorem command_life_cycle:
  assumes "list_all command_ok (db_commands d)" and "relay_command_create_ok r"
    and "\<And>s. list_all command_ok (db_commands s) \<Longrightarrow> list_all command_ok (db_commands (meanwhile s))"
    and "issue_relay_command publish meanwhile clk cid v actor r cfg d = Inr (d1, c)
         \<or> persist_command_ack rt clk e d = Inr (d1, p)"
  shows "list_all command_ok (db_commands d1)"
  using assms(4)
proof
  assume "issue_relay_command publish meanwhile clk cid v actor r cfg d = Inr (d1, c)"
  then obtain q x where "queue_command cid v actor r clk d = Inr q"
    and d1: "d1 = put_command cid (command_after_publish x) (meanwhile q)"
    by (auto simp: issue_relay_command_def Let_def)
  with queue_command_rows_ok assms(1-3) have "list_all command_ok (db_commands (meanwhile q))" by blast
  then show ?thesis unfolding d1 by (rule command_rows.all_put) (rule command_after_publish_ok)
qed (rule ack_rows_ok [OF assms(1)])

definition sample_device :: device_row where
  "sample_device = new_device ''motor-01'' ''workshop-demo'' ''Workshop demo motor'' (Aware 0)"

definition sample_settings :: settings where
  "sample_settings =
     \<lparr>environment = ''test'', database_url = '''', jwt_secret = replicate 32 (CHR ''s''), jwt_algorithm = ''HS256'',
      access_token_minutes = 30, ingest_token = replicate 32 (CHR ''t''), demo_admin_username = ''demo-admin'',
      demo_admin_password = ''demo-password'', mqtt_host = ''localhost'', mqtt_port = 1883, mqtt_username = None,
      mqtt_password = None, cors_origins = ''http://localhost:3000'', offline_after_s = 60, max_query_days = 31,
      model_root = ''data/models'', model_stale_after_days = 30, anomaly_poll_interval_s = Fin 5,
      anomaly_minimum_feature_rows = 200\<rparr>"

abbreviation sample_request :: relay_command_create where
  "sample_request \<equiv> \<lparr>rc_relay_on = True, rc_timeout_s = 30\<rparr>"

abbreviation sample_registered :: db where
  "sample_registered \<equiv> add_device sample_device empty_db"

abbreviation (input) sample_issue where
  "sample_issue publish meanwhile \<equiv>
     issue_relay_command publish meanwhile (\<lambda>_. 0) ''c1'' sample_device ''admin'' sample_request sample_settings sample_registered"

lemma sample_device_id: "dev_id sample_device = ''motor-01''" "dev_site_id sample_device = ''workshop-demo''"
  by (simp_all add: sample_device_def new_device_def)

lemma sample_device_registered [simp]: "get_device ''motor-01'' sample_registered = Some sample_device"
  by (simp add: devices.get_add sample_device_id)

lemma sample_no_command [simp]: "get_command k sample_registered = None" "db_commands sample_registered = []"
  by (simp_all add: get_command_def add_device_def empty_db_def)

theorem command_life_cycle_witness:
  "\<exists>d1 c. sample_issue (\<lambda>_. None) (\<lambda>s. s) = Inr (d1, c) \<and> list_all command_ok (db_commands d1)
     \<and> db_commands d1 \<noteq> []"
proof -
  obtain d1 c where ok: "sample_issue (\<lambda>_. None) (\<lambda>s. s) = Inr (d1, c)"
    and ne: "db_commands d1 \<noteq> []"
    by (simp add: issue_relay_command_def queue_command_def sample_device_id Let_def put_command_def
        add_command_def row_put_def)
  have "list_all command_ok (db_commands d1)"
    by (rule command_life_cycle [OF _ _ _ disjI1 [OF ok]]) (simp_all add: relay_command_create_ok_def)
  with ok ne show ?thesis by blast
qed

text \<open>What issuing a command does when no other session interferes: the command and one audit record are stored, no other command and no other table changes, and the status says what the broker did with the message on the device's command topic, at QoS 1 and not retained: published, or failed with the class of the exception.\<close>

theorem issue_relay_command_outcome:
  assumes "issue_relay_command publish (\<lambda>s. s) clk cid v actor r cfg d = Inr (d', c)"
  shows "get_command cid d = None \<and> get_command cid d' = Some c
    \<and> (\<forall>k. k \<noteq> cid \<longrightarrow> get_command k d' = get_command k d)
    \<and> (\<exists>a. db_audits d' = db_audits d @ [a] \<and> aud_actor a = actor \<and> aud_action a = ''relay_command_issued''
           \<and> aud_target_id a = cid)
    \<and> d'\<lparr>db_commands := db_commands d, db_audits := db_audits d\<rparr> = d
    \<and> (case topic (dev_site_id v) (dev_id v) COMMANDS of
         Inl e \<Rightarrow> cmd_status c = ''failed'' \<and> cmd_detail c = Some (exc_name e)
       | Inr t \<Rightarrow> \<exists>p expires_at. pub_topic p = t \<and> pub_qos p = 1 \<and> \<not> pub_retain p
           \<and> pub_payload p = json_dumps (\<lambda>_. []) (command_payload cid v actor r (clk 0) expires_at)
           \<and> cmd_expires_at c = Aware expires_at \<and> expires_at \<le> clk 0 + seconds 10
           \<and> (case publish p of
                None \<Rightarrow> cmd_status c = ''published'' \<and> cmd_result_code c = None
              | Some e \<Rightarrow> cmd_status c = ''failed'' \<and> cmd_result_code c = Some ''BROKER_PUBLISH_FAILED''
                  \<and> cmd_detail c = Some (exc_name e)))"
proof -
  let ?q = "queued_command cid v actor r (clk 0)"
  let ?e = "clk 0 + seconds (min (rc_timeout_s r) 10)"
  define payload where "payload = command_payload cid v actor r (clk 0) ?e"
  have new: "get_command cid d = None"
    and c: "c = command_after_publish (publish_outcome publish (command_publication cfg v payload)) ?q"
    and d': "d' = put_command cid (command_after_publish (publish_outcome publish (command_publication cfg v payload)))
      (add_audit actor ''relay_command_issued'' ''device_command'' cid
            (JObj ((''device_id'', JStr (dev_id v)) # relay_parameters r)) (Aware (clk 1)) (add_command ?q d))"
    using assms by (auto simp: issue_relay_command_def queue_command_Inr Let_def payload_def)
  have short: "?e \<le> clk 0 + seconds 10" by (simp add: seconds_def)
  have "get_command k d' = (if k = cid then Some c else get_command k d)" for k
    using new by (auto simp: d' c commands.get_put get_queued)
  moreover have "d'\<lparr>db_commands := db_commands d, db_audits := db_audits d\<rparr> = d"
    by (simp add: d' put_command_def add_audit_def add_command_def)
  moreover have "\<exists>a. db_audits d' = db_audits d @ [a] \<and> aud_actor a = actor
      \<and> aud_action a = ''relay_command_issued'' \<and> aud_target_id a = cid"
    by (simp add: d' put_command_def add_audit_def add_command_def)
  moreover have "case topic (dev_site_id v) (dev_id v) COMMANDS of
         Inl e \<Rightarrow> cmd_status c = ''failed'' \<and> cmd_detail c = Some (exc_name e)
       | Inr t \<Rightarrow> \<exists>p expires_at. pub_topic p = t \<and> pub_qos p = 1 \<and> \<not> pub_retain p
           \<and> pub_payload p = json_dumps (\<lambda>_. []) (command_payload cid v actor r (clk 0) expires_at)
           \<and> cmd_expires_at c = Aware expires_at \<and> expires_at \<le> clk 0 + seconds 10
           \<and> (case publish p of
                None \<Rightarrow> cmd_status c = ''published'' \<and> cmd_result_code c = None
              | Some e \<Rightarrow> cmd_status c = ''failed'' \<and> cmd_result_code c = Some ''BROKER_PUBLISH_FAILED''
                  \<and> cmd_detail c = Some (exc_name e))"
  proof (cases "topic (dev_site_id v) (dev_id v) COMMANDS")
    case (Inr t)
    then obtain p where p: "command_publication cfg v payload = Inr p" "pub_topic p = t" "pub_qos p = 1"
        "\<not> pub_retain p" "pub_payload p = json_dumps (\<lambda>_. []) payload"
      by (simp add: command_publication_def)
    with Inr short show ?thesis
      by (cases "publish p") (auto simp: c queued_command_def payload_def intro!: exI [of _ p] exI [of _ ?e])
  qed (simp add: c command_publication_def queued_command_def)
  ultimately show ?thesis using new by simp
qed

theorem issue_relay_command_outcome_witness:
  "\<exists>d' c. sample_issue (\<lambda>_. Some OSError) (\<lambda>s. s) = Inr (d', c)
     \<and> cmd_status c = ''failed'' \<and> cmd_detail c = Some ''OSError'' \<and> get_command ''c1'' d' = Some c"
proof -
  obtain d' c where ok: "sample_issue (\<lambda>_. Some OSError) (\<lambda>s. s) = Inr (d', c)"
    by (simp add: issue_relay_command_def queue_command_def sample_device_id Let_def)
  have "topic ''workshop-demo'' ''motor-01'' COMMANDS = Inr ''iiot/v1/workshop-demo/motor-01/commands''"
    by code_simp
  with issue_relay_command_outcome [OF ok] ok show ?thesis by (auto simp: sample_device_id)
qed

text \<open>The acknowledgement that the ingestor's session commits while the issuing session is between its commits.\<close>

definition ack_meanwhile :: "runtime \<Rightarrow> (nat \<Rightarrow> int) \<Rightarrow> command_ack_envelope \<Rightarrow> db \<Rightarrow> db" where
  "ack_meanwhile rt clk e s = (case persist_command_ack rt clk e s of Inr (s', _) \<Rightarrow> s' | Inl _ \<Rightarrow> s)"

text \<open>A device that acknowledges before the second commit of the issue loses its state: the command ends as published although it carries the acknowledgement's time and result, and the redelivery of that acknowledgement is not recognised as a duplicate.\<close>

theorem late_publish_overwrites_ack:
  assumes issue: "issue_relay_command publish (ack_meanwhile rt k e) clk cid v actor r cfg d = Inr (d', c)"
    and accepted: "\<And>p. publish p = None" and ids: "topic (dev_site_id v) (dev_id v) COMMANDS = Inr t"
    and ack: "ca_command_id e = cid" "ca_device_id e = dev_id v" and sqlite: "\<not> rt_postgres rt"
  shows "\<exists>c'. get_command cid d' = Some c' \<and> cmd_status c' = ''published''
      \<and> cmd_acknowledged_at c' = Some (Aware (k 0)) \<and> cmd_result_code c' = Some (ca_result_code e)
      \<and> (\<exists>d''. persist_command_ack rt k2 e d' = Inr (d'', inserted_of (ca_message_id e)))"
proof -
  have nt: "event_too_large rt ev = False" for ev using sqlite by (simp add: event_too_large_def)
  let ?q = "queued_command cid v actor r (clk 0)"
  obtain q payload where q: "queue_command cid v actor r clk d = Inr q"
    and d': "d' = put_command cid (command_after_publish (publish_outcome publish (command_publication cfg v payload)))
                    (ack_meanwhile rt k e q)"
    using issue by (auto simp: issue_relay_command_def Let_def)
  from q have "get_command cid q = Some ?q" by (auto simp: queue_command_Inr get_queued)
  moreover have "cmd_device_id ?q = ca_device_id e" "cmd_acknowledged_at ?q = None"
    by (simp_all add: queued_command_def ack)
  ultimately have "get_command cid (ack_meanwhile rt k e q) = Some (command_after_ack e (Aware (k 0)) ?q)"
    by (simp add: ack_meanwhile_def persist_command_ack_def ack notify_eq nt get_command_after_ack)
  moreover have "publish_outcome publish (command_publication cfg v payload) = None"
    using ids accepted by (simp add: command_publication_def)
  ultimately have c': "get_command cid d' = Some (command_after_publish None (command_after_ack e (Aware (k 0)) ?q))"
    by (simp add: d' commands.get_put)
  have "''published'' \<noteq> ack_status_str (ca_status e)" by (cases "ca_status e") simp_all
  then have "\<exists>d''. persist_command_ack rt k2 e d' = Inr (d'', inserted_of (ca_message_id e))"
    using c' by (simp add: persist_command_ack_def ack notify_eq nt command_after_ack_def queued_command_def)
  with c' show ?thesis by (simp add: command_after_ack_def)
qed

theorem late_publish_overwrites_ack_witness:
  "\<exists>d' c'. sample_issue (\<lambda>_. None) (ack_meanwhile sample_runtime (\<lambda>_. 5) (sample_ack ''a1'' Completed)) = Inr (d', c')
     \<and> map_option cmd_status (get_command ''c1'' d') = Some ''published''"
proof -
  obtain d' c' where ok: "sample_issue (\<lambda>_. None) (ack_meanwhile sample_runtime (\<lambda>_. 5) (sample_ack ''a1'' Completed)) = Inr (d', c')"
    by (simp add: issue_relay_command_def queue_command_def sample_device_id Let_def)
  have t: "topic (dev_site_id sample_device) (dev_id sample_device) COMMANDS = Inr ''iiot/v1/workshop-demo/motor-01/commands''"
    unfolding sample_device_id by code_simp
  from late_publish_overwrites_ack [OF ok _ t] ok show ?thesis
    by (auto simp: sample_ack_def sample_device_id sample_runtime_def)
qed

end
