(* ===== verification/Security.thy ===== *)
theory Security
  imports Commands
begin

text \<open>
  Identities: password checks, access tokens and the authenticated user of
  \<open>services/api/app/security.py\<close>, and the demonstration seed of \<open>services/api/app/seed.py\<close>.
  The password hasher (argon2) and the token codec (PyJWT) are not this repository's code:
  they are the functions of \<open>crypto\<close>, and what a property needs of them is a hypothesis.
\<close>

section \<open>The libraries\<close>

record claims =
  claim_sub :: string
  claim_iat :: int
  claim_exp :: int
  claim_aud :: string

text \<open>
  \<open>argon_verify\<close> is \<open>None\<close> for \<open>VerifyMismatchError\<close>. \<open>jwt_decode now token secret algorithm
  audience\<close> is the payload of a token that PyJWT accepts at the time \<open>now\<close>, \<open>None\<close> for an
  \<open>InvalidTokenError\<close>.
\<close>

record crypto =
  argon_hash :: "string \<Rightarrow> string"
  argon_verify :: "string \<Rightarrow> string \<Rightarrow> bool option"
  jwt_encode :: "claims \<Rightarrow> string \<Rightarrow> string \<Rightarrow> string"
  jwt_decode :: "int \<Rightarrow> string \<Rightarrow> string \<Rightarrow> string \<Rightarrow> string \<Rightarrow> (string \<times> json) list option"

section \<open>Passwords and tokens\<close>

definition hash_password :: "crypto \<Rightarrow> string \<Rightarrow> string" where
  "hash_password cr password = argon_hash cr password"

definition verify_password :: "crypto \<Rightarrow> string \<Rightarrow> string \<Rightarrow> bool" where
  "verify_password cr password password_hash =
     (case argon_verify cr password_hash password of None \<Rightarrow> False | Some ok \<Rightarrow> ok)"

abbreviation audience :: string where
  "audience \<equiv> ''iiot-dashboard''"

definition create_access_token :: "crypto \<Rightarrow> settings \<Rightarrow> int \<Rightarrow> string \<Rightarrow> string \<times> int" where
  "create_access_token cr cfg now user_name =
     (let expires = now + seconds (60 * access_token_minutes cfg);
          payload = \<lparr>claim_sub = user_name, claim_iat = now, claim_exp = expires, claim_aud = audience\<rparr>
      in (jwt_encode cr payload (jwt_secret cfg) (jwt_algorithm cfg), (expires - now) div 1000000))"

definition decode_access_token :: "crypto \<Rightarrow> settings \<Rightarrow> int \<Rightarrow> string \<Rightarrow> string res" where
  "decode_access_token cr cfg now token =
     (case jwt_decode cr now token (jwt_secret cfg) (jwt_algorithm cfg) audience of
        None \<Rightarrow> Inl (HTTPException 401 ''Invalid or expired access token'')
      | Some payload \<Rightarrow>
          (case map_of payload ''sub'' of
             Some (JStr user_name) \<Rightarrow>
               if user_name = [] then Inl (HTTPException 401 ''Invalid token subject'') else Inr user_name
           | _ \<Rightarrow> Inl (HTTPException 401 ''Invalid token subject'')))"

definition active_user :: "string \<Rightarrow> db \<Rightarrow> user_row option" where
  "active_user user_name d = find (\<lambda>u. usr_username u = user_name \<and> usr_active u) (db_users d)"

definition get_current_user :: "crypto \<Rightarrow> settings \<Rightarrow> int \<Rightarrow> string \<Rightarrow> db \<Rightarrow> user_row res" where
  "get_current_user cr cfg now token d =
     bindE (decode_access_token cr cfg now token) (\<lambda>user_name.
     (case active_user user_name d of
        None \<Rightarrow> Inl (HTTPException 401 ''User is inactive'')
      | Some u \<Rightarrow> Inr u))"

text \<open>The handler of \<open>POST /api/v1/auth/token\<close> in \<open>services/api/app/main.py\<close>.\<close>

definition login :: "crypto \<Rightarrow> settings \<Rightarrow> int \<Rightarrow> string \<Rightarrow> string \<Rightarrow> db \<Rightarrow> (string \<times> int) res" where
  "login cr cfg now form_username form_password d =
     (case active_user form_username d of
        None \<Rightarrow> Inl (HTTPException 401 ''Incorrect username or password'')
      | Some u \<Rightarrow>
          if \<not> verify_password cr form_password (usr_password_hash u)
          then Inl (HTTPException 401 ''Incorrect username or password'')
          else Inr (create_access_token cr cfg now (usr_username u)))"

section \<open>Seeding\<close>

definition new_user :: "string \<Rightarrow> string \<Rightarrow> string \<Rightarrow> pydatetime \<Rightarrow> user_row list \<Rightarrow> user_row" where
  "new_user user_name password_hash role now rows =
     \<lparr>usr_id = row_fresh usr_id rows, usr_username = user_name, usr_password_hash = password_hash,
      usr_role = role, usr_active = True, usr_created_at = now\<rparr>"

definition seed_user :: "crypto \<Rightarrow> settings \<Rightarrow> int \<Rightarrow> db \<Rightarrow> db" where
  "seed_user cr cfg now d =
     (if \<exists>u \<in> set (db_users d). usr_username u = demo_admin_username cfg then d
      else d\<lparr>db_users := db_users d @
             [new_user (demo_admin_username cfg) (hash_password cr (demo_admin_password cfg)) ''admin''
                (Aware now) (db_users d)]\<rparr>)"

definition seed_device :: "int \<Rightarrow> db \<Rightarrow> db" where
  "seed_device now d =
     (case get_device ''motor-01'' d of
        None \<Rightarrow> add_device (new_device ''motor-01'' ''workshop-demo'' ''Workshop demo motor'' (Aware now)) d
      | Some _ \<Rightarrow> d)"

definition seed_thresholds :: "int \<Rightarrow> db \<Rightarrow> db" where
  "seed_thresholds now d =
     (case get_threshold_config ''motor-01'' d of
        None \<Rightarrow> add_threshold_config (new_threshold_config ''motor-01'' (Aware now)) d
      | Some _ \<Rightarrow> d)"

text \<open>\<open>RuntimeError\<close> outside development and test; one commit at the end.\<close>

definition seed :: "crypto \<Rightarrow> settings \<Rightarrow> (nat \<Rightarrow> int) \<Rightarrow> db \<Rightarrow> db res" where
  "seed cr cfg clk d =
     bindE (raise_if (environment cfg \<notin> {''development'', ''test''}) (OtherException ''RuntimeError'')) (\<lambda>_.
     Inr (seed_thresholds (clk 2) (seed_device (clk 1) (seed_user cr cfg (clk 0) d))))"

section \<open>Who is authenticated\<close>

lemma active_userD: "active_user n d = Some u \<Longrightarrow> u \<in> set (db_users d) \<and> usr_username u = n \<and> usr_active u"
  unfolding active_user_def by (auto dest: find_SomeD)

text \<open>Whoever is authenticated is a stored user that is active now and that the token names: deactivating an account refuses its tokens at once, although they have not expired.\<close>

theorem authenticated_user_is_active:
  assumes "get_current_user cr cfg now token d = Inr u"
  shows "u \<in> set (db_users d) \<and> usr_active u \<and> usr_username u \<noteq> []
     \<and> decode_access_token cr cfg now token = Inr (usr_username u)"
proof -
  from assms obtain n where n: "decode_access_token cr cfg now token = Inr n"
    and u: "active_user n d = Some u"
    by (auto simp: get_current_user_def split: option.splits)
  from n have "n \<noteq> []"
    by (auto simp: decode_access_token_def split: option.splits json.splits if_splits)
  with n u active_userD [OF u] show ?thesis by simp
qed

text \<open>
  What the token library promises of one token that was issued at \<open>issued\<close>: it is accepted
  with its subject until the second in which it expires, and not after.
\<close>

definition jwt_accepts_until_expiry :: "crypto \<Rightarrow> settings \<Rightarrow> claims \<Rightarrow> bool" where
  "jwt_accepts_until_expiry cr cfg c =
     (\<forall>now. jwt_decode cr now (jwt_encode cr c (jwt_secret cfg) (jwt_algorithm cfg))
          (jwt_secret cfg) (jwt_algorithm cfg) (claim_aud c) =
        (if claim_iat c \<le> now \<and> now < claim_exp c div 1000000 * 1000000
         then Some [(''sub'', JStr (claim_sub c)), (''iat'', JInt (claim_iat c div 1000000)),
                    (''exp'', JInt (claim_exp c div 1000000)), (''aud'', JStr (claim_aud c))]
         else None))"


text \<open>A token library for the examples: the token spells its claims in seconds.\<close>

definition sample_token :: "claims \<Rightarrow> string" where
  "sample_token c = str_of_int (claim_iat c) @ ''.'' @ claim_sub c"

definition sample_claims :: claims where
  "sample_claims = \<lparr>claim_sub = ''demo-admin'', claim_iat = 0, claim_exp = seconds 1800, claim_aud = audience\<rparr>"

definition sample_crypto :: crypto where
  "sample_crypto =
     \<lparr>argon_hash = (\<lambda>p. ''argon:'' @ p),
      argon_verify = (\<lambda>h p. if h = ''argon:'' @ p then Some True else None),
      jwt_encode = (\<lambda>c s a. sample_token c),
      jwt_decode = (\<lambda>now t s a au.
         if t = sample_token sample_claims \<and> au = audience \<and> 0 \<le> now \<and> now < seconds 1800
         then Some [(''sub'', JStr ''demo-admin''), (''iat'', JInt 0), (''exp'', JInt 1800), (''aud'', JStr audience)]
         else None)\<rparr>"

definition sample_user :: "string \<Rightarrow> user_row" where
  "sample_user role = \<lparr>usr_id = 1, usr_username = ''demo-admin'', usr_password_hash = ''argon:demo-password'',
     usr_role = role, usr_active = True, usr_created_at = Aware 0\<rparr>"

definition sample_users :: db where
  "sample_users = sample_registered\<lparr>db_users := [sample_user ''admin'']\<rparr>"

lemma sample_active_user: "active_user ''demo-admin'' sample_users = Some (sample_user ''admin'')"
  by (simp add: active_user_def sample_users_def sample_user_def)

lemma sample_jwt: "jwt_accepts_until_expiry sample_crypto sample_settings sample_claims"
  by (simp add: jwt_accepts_until_expiry_def sample_crypto_def sample_claims_def seconds_def)

lemma sample_login:
  "login sample_crypto sample_settings 0 ''demo-admin'' ''demo-password'' sample_users =
     Inr (sample_token sample_claims, 1800)"
  by (simp add: login_def sample_active_user verify_password_def create_access_token_def Let_def
      sample_crypto_def sample_user_def sample_settings_def seconds_def sample_token_def sample_claims_def)


theorem authenticated_user_is_active_witness:
  "usr_active (sample_user ''admin'') \<and> sample_user ''admin'' \<in> set (db_users sample_users)"
proof -
  have "get_current_user sample_crypto sample_settings 5 (sample_token sample_claims) sample_users = Inr (sample_user ''admin'')"
    by (simp add: get_current_user_def decode_access_token_def sample_crypto_def seconds_def sample_active_user)
  from authenticated_user_is_active [OF this] show ?thesis by simp
qed

section \<open>Seeding once\<close>

lemma seed_tables [simp]:
  "db_devices (seed_user cr cfg t d) = db_devices d" "db_thresholds (seed_user cr cfg t d) = db_thresholds d"
  "db_users (seed_device t d) = db_users d" "db_thresholds (seed_device t d) = db_thresholds d"
  "db_users (seed_thresholds t d) = db_users d" "db_devices (seed_thresholds t d) = db_devices d"
  by (simp_all add: seed_user_def seed_device_def seed_thresholds_def add_device_def add_threshold_config_def
      split: option.split)

lemma seed_user_present: "\<exists>u \<in> set (db_users (seed_user cr cfg t d)). usr_username u = demo_admin_username cfg"
  by (auto simp: seed_user_def new_user_def)

lemma seed_device_present: "get_device ''motor-01'' (seed_device t d) \<noteq> None"
  by (cases "get_device ''motor-01'' d") (simp_all add: seed_device_def devices.get_add new_device_def)

lemma seed_thresholds_present: "get_threshold_config ''motor-01'' (seed_thresholds t d) \<noteq> None"
  by (cases "get_threshold_config ''motor-01'' d")
    (simp_all add: seed_thresholds_def configs.get_add new_threshold_config_def)

lemma seed_ids:
  "\<exists>u \<in> set (db_users d). usr_username u = demo_admin_username cfg \<Longrightarrow> seed_user cr cfg t d = d"
  "get_device ''motor-01'' d \<noteq> None \<Longrightarrow> seed_device t d = d"
  "get_threshold_config ''motor-01'' d \<noteq> None \<Longrightarrow> seed_thresholds t d = d"
  by (auto simp: seed_user_def seed_device_def seed_thresholds_def)

lemma seed_store_ok: "store_ok d \<Longrightarrow> store_ok (seed_thresholds t3 (seed_device t2 (seed_user cr cfg t1 d)))"
proof -
  assume "store_ok d"
  then have "store_ok (seed_user cr cfg t1 d)"
    by (simp add: seed_user_def)
  then have "store_ok (seed_device t2 (seed_user cr cfg t1 d))"
    by (simp add: seed_device_def store_ok_add_device new_device_def split: option.split)
  then show ?thesis
    by (simp add: seed_thresholds_def store_ok_add_config new_threshold_config_def split: option.split)
qed

text \<open>Seeding is idempotent and safe: outside development and test it refuses; there it leaves a consistent store with the administrator, the demonstration motor and its thresholds, and seeding again, at any time, changes nothing.\<close>

theorem seed_idempotent:
  "(environment cfg \<notin> {''development'', ''test''} \<longrightarrow> seed cr cfg clk d = Inl (OtherException ''RuntimeError''))
   \<and> (seed cr cfg clk d = Inr d1 \<longrightarrow>
        seed cr cfg clk' d1 = Inr d1 \<and> (store_ok d \<longrightarrow> store_ok d1)
        \<and> (\<exists>u \<in> set (db_users d1). usr_username u = demo_admin_username cfg)
        \<and> get_device ''motor-01'' d1 \<noteq> None \<and> get_threshold_config ''motor-01'' d1 \<noteq> None)"
proof -
  let ?s = "seed_thresholds (clk 2) (seed_device (clk 1) (seed_user cr cfg (clk 0) d))"
  have dev: "get_device ''motor-01'' ?s \<noteq> None"
    using seed_device_present [of "clk 1"] by (simp add: get_device_def)
  have usr: "\<exists>u \<in> set (db_users ?s). usr_username u = demo_admin_username cfg"
    using seed_user_present by simp
  note thr = seed_thresholds_present [of "clk 2" "seed_device (clk 1) (seed_user cr cfg (clk 0) d)"]
  have again: "seed_thresholds t3 (seed_device t2 (seed_user cr cfg t1 ?s)) = ?s" for t1 t2 t3
    by (simp only: seed_ids(1) [OF usr] seed_ids(2) [OF dev] seed_ids(3) [OF thr])
  show ?thesis
    using dev usr thr again seed_store_ok [of d] by (auto simp: seed_def)
qed

theorem seed_idempotent_witness:
  "\<exists>d1. seed sample_crypto sample_settings (\<lambda>_. 0) empty_db = Inr d1 \<and> store_ok d1
     \<and> seed sample_crypto sample_settings (\<lambda>_. 9) d1 = Inr d1 \<and> get_device ''motor-01'' d1 \<noteq> None"
proof -
  obtain d1 where ok: "seed sample_crypto sample_settings (\<lambda>_. 0) empty_db = Inr d1"
    by (simp add: seed_def sample_settings_def)
  with seed_idempotent [of sample_settings sample_crypto "\<lambda>_. 0" empty_db d1 "\<lambda>_. 9"] store_ok_empty show ?thesis by blast
qed

end
