(* ===== verification/Live.thy ===== *)
theory Live
  imports Security
begin

text \<open>
  The live updates of \<open>services/api/app/live.py\<close> and the WebSocket endpoint
  \<open>live_events\<close> of \<open>services/api/app/main.py\<close>: the connections and their fan-out, the
  credential in the subprotocol header, the admission of a connection, and the listener
  that forwards PostgreSQL notifications with its reconnection delay. A WebSocket is a
  value of \<open>'ws\<close>; what sending to it does, the database connection and \<open>json.loads\<close> are
  parameters.
\<close>

section \<open>Connections\<close>

definition connect :: "'ws \<Rightarrow> 'ws list \<Rightarrow> 'ws list" where
  "connect w connections = connections @ [w]"

text \<open>\<open>list.remove\<close> with its \<open>ValueError\<close> suppressed.\<close>

definition disconnect :: "'ws \<Rightarrow> 'ws list \<Rightarrow> 'ws list" where
  "disconnect w connections = remove1 w connections"

datatype sending = Sent | RuntimeFailure | Raises exc

text \<open>
  The loop over the snapshot of the connections: who received the event, who is stale, and
  the exception that left the loop, if one did.
\<close>

fun send_all :: "('ws \<Rightarrow> sending) \<Rightarrow> 'ws list \<Rightarrow> 'ws list \<times> 'ws list \<times> exc option" where
  "send_all send [] = ([], [], None)"
| "send_all send (w # ws) =
     (case send w of
        Raises e \<Rightarrow> ([], [], Some e)
      | s \<Rightarrow> (let (received, stale, err) = send_all send ws in
              case s of Sent \<Rightarrow> (w # received, stale, err) | _ \<Rightarrow> (received, w # stale, err)))"

text \<open>
  Sending suspends the task, so other tasks may connect and disconnect (\<open>meanwhile\<close>) before
  the stale connections are removed; an exception leaves them in place.
\<close>

definition broadcast ::
  "('ws \<Rightarrow> sending) \<Rightarrow> ('ws list \<Rightarrow> 'ws list) \<Rightarrow> 'ws list \<Rightarrow> 'ws list \<times> 'ws list \<times> exc option" where
  "broadcast send meanwhile connections =
     (let (received, stale, err) = send_all send connections;
          now_connected = meanwhile connections
      in case err of
           None \<Rightarrow> (fold disconnect stale now_connected, received, None)
         | Some e \<Rightarrow> (now_connected, received, Some e))"

section \<open>Credentials of a connection\<close>

definition bearer_subprotocol_token :: "string option \<Rightarrow> string option" where
  "bearer_subprotocol_token header =
     (case header of
        None \<Rightarrow> None
      | Some h \<Rightarrow>
          let protocols = map str_strip (split_on (CHR '','') h) in
          if length protocols \<noteq> 2 \<or> str_lower (protocols ! 0) \<noteq> ''bearer'' then None
          else let token = protocols ! 1 in
               if token = [] \<or> 4096 < length token then None else Some token)"

definition websocket_origin_is_allowed :: "string option \<Rightarrow> string list \<Rightarrow> bool" where
  "websocket_origin_is_allowed origin allowed =
     (case origin of None \<Rightarrow> True | Some o' \<Rightarrow> o' \<in> set allowed)"

datatype admission = Close nat string | Accept "string option" user_row

text \<open>\<open>session_cookie\<close> is the cookie \<open>iiot_session\<close>, used only with an allowed \<open>Origin\<close>.\<close>

definition live_events ::
  "crypto \<Rightarrow> settings \<Rightarrow> int \<Rightarrow> string option \<Rightarrow> string option \<Rightarrow> string option \<Rightarrow> db \<Rightarrow> admission" where
  "live_events cr cfg now origin protocol session_cookie d =
     (if \<not> websocket_origin_is_allowed origin (allowed_origins cfg)
      then Close 4403 ''Origin not allowed''
      else
        let bearer = bearer_subprotocol_token protocol;
            subprotocol = (if bearer \<noteq> None then Some ''bearer'' else None);
            same_origin = (case origin of None \<Rightarrow> False | Some o' \<Rightarrow> o' \<in> set (allowed_origins cfg));
            token = (if bearer = None \<and> same_origin then session_cookie else bearer) in
        case token of
          None \<Rightarrow> Close 4401 ''Missing WebSocket credential''
        | Some t \<Rightarrow>
            (case decode_access_token cr cfg now t of
               Inl _ \<Rightarrow> Close 4401 ''Invalid access token''
             | Inr user_name \<Rightarrow>
                 (case active_user user_name d of
                    None \<Rightarrow> Close 4403 ''Inactive user''
                  | Some u \<Rightarrow> Accept subprotocol u)))"

text \<open>What an accepted connection sends: the greeting, then an answer to every \<open>ping\<close>.\<close>

definition conversation :: "string \<Rightarrow> string list \<Rightarrow> json list" where
  "conversation user_name messages =
     JObj [(''type'', JStr ''connected''), (''username'', JStr user_name)]
     # map (\<lambda>_. JObj [(''type'', JStr ''pong'')]) (filter (\<lambda>m. m = ''ping'') messages)"

section \<open>The listener\<close>

text \<open>\<open>str.replace(old, new, 1)\<close>.\<close>

fun replace_first :: "string \<Rightarrow> string \<Rightarrow> string \<Rightarrow> string" where
  "replace_first old new [] = (if old = [] then new else [])"
| "replace_first old new (c # cs) =
     (if prefix old (c # cs) then new @ drop (length old) (c # cs)
      else c # replace_first old new cs)"

definition psycopg_url :: "string \<Rightarrow> string" where
  "psycopg_url url = replace_first ''postgresql+psycopg://'' ''postgresql://'' url"

text \<open>
  One round of the loop: connecting or \<open>LISTEN\<close> fails, or the notifications arrive until
  the iteration ends or raises.
\<close>

datatype listening = Refused exc | Listening "string list" "exc option"

record 'ws listener =
  ls_delay_s :: flt
  ls_connections :: "'ws list"
  ls_forwarded :: "json list"
  ls_waits :: "flt list"

definition forward ::
  "(string \<Rightarrow> json res) \<Rightarrow> ('ws \<Rightarrow> sending) \<Rightarrow> string \<Rightarrow> 'ws listener \<Rightarrow> 'ws listener \<times> exc option" where
  "forward loads send payload s =
     (case loads payload of
        Inl e \<Rightarrow> (s, Some e)
      | Inr (JObj members) \<Rightarrow>
          (let (connections, _, err) = broadcast send id (ls_connections s)
           in (s\<lparr>ls_connections := connections, ls_forwarded := ls_forwarded s @ [JObj members]\<rparr>, err))
      | Inr _ \<Rightarrow> (s, None))"

fun forward_all ::
  "(string \<Rightarrow> json res) \<Rightarrow> ('ws \<Rightarrow> sending) \<Rightarrow> string list \<Rightarrow> exc option \<Rightarrow> 'ws listener \<Rightarrow> 'ws listener \<times> exc option" where
  "forward_all loads send [] ending s = (s, ending)"
| "forward_all loads send (p # ps) ending s =
     (case forward loads send p s of
        (s', Some e) \<Rightarrow> (s', Some e)
      | (s', None) \<Rightarrow> forward_all loads send ps ending s')"

text \<open>The exception handler: wait for the delay, then double it up to half a minute.\<close>

definition back_off :: "'ws listener \<Rightarrow> 'ws listener" where
  "back_off s = s\<lparr>ls_waits := ls_waits s @ [ls_delay_s s],
                  ls_delay_s := flt_min (flt_mul (ls_delay_s s) (lit 2)) (lit 30)\<rparr>"

fun listen_round ::
  "(string \<Rightarrow> json res) \<Rightarrow> ('ws \<Rightarrow> sending) \<Rightarrow> listening \<Rightarrow> 'ws listener \<Rightarrow> 'ws listener" where
  "listen_round loads send (Refused e) s = back_off s"
| "listen_round loads send (Listening payloads ending) s =
     (case forward_all loads send payloads ending (s\<lparr>ls_delay_s := lit 1\<rparr>) of
        (s', None) \<Rightarrow> s'
      | (s', Some e) \<Rightarrow> back_off s')"

definition fresh_listener :: "'ws list \<Rightarrow> 'ws listener" where
  "fresh_listener connections = \<lparr>ls_delay_s = lit 1, ls_connections = connections, ls_forwarded = [], ls_waits = []\<rparr>"

text \<open>The rounds until the stop event is set; other databases than PostgreSQL are not listened to.\<close>

definition listen_for_events ::
  "settings \<Rightarrow> (string \<Rightarrow> json res) \<Rightarrow> ('ws \<Rightarrow> sending) \<Rightarrow> listening list \<Rightarrow> 'ws list \<Rightarrow> 'ws listener" where
  "listen_for_events cfg loads send rounds connections =
     (if \<not> starts_with ''postgresql'' (database_url cfg) then fresh_listener connections
      else fold (listen_round loads send) rounds (fresh_listener connections))"

section \<open>Fan-out\<close>

lemma send_all_spec:
  "send_all send ws = (received, stale, None) \<Longrightarrow>
     received = filter (\<lambda>w. send w = Sent) ws \<and> stale = filter (\<lambda>w. send w = RuntimeFailure) ws
     \<and> (\<forall>w \<in> set ws. \<forall>e. send w \<noteq> Raises e)"
  by (induction ws arbitrary: received stale) (auto split: sending.splits prod.splits)

lemma send_all_total: "(\<And>w e. w \<in> set ws \<Longrightarrow> send w \<noteq> Raises e) \<Longrightarrow> \<exists>r s. send_all send ws = (r, s, None)"
proof (induction ws)
  case (Cons w ws)
  then obtain r s where "send_all send ws = (r, s, None)" by fastforce
  with Cons.prems show ?case by (cases "send w") auto
qed simp

lemma fold_disconnect_count:
  "count_list (fold disconnect ws connections) w = count_list connections w - count_list ws w"
proof (induction ws arbitrary: connections)
  case (Cons v ws)
  have "count_list (remove1 v xs) w = count_list xs w - (if v = w then 1 else 0)" for xs
    by (induction xs) (auto simp: count_list_0_iff dest: gr0I)
  with Cons show ?case by (simp add: disconnect_def)
qed simp

lemma distinct_count: "distinct xs \<Longrightarrow> count_list xs w = (if w \<in> set xs then 1 else 0)"
  by (induction xs) auto

text \<open>A broadcast that no exception interrupts reaches every connection of the snapshot that takes messages, in order, and afterwards exactly the failing ones are gone: connections that joined or left meanwhile are as the other tasks left them.\<close>

theorem broadcast_reaches_live_connections:
  assumes "\<And>w e. w \<in> set connections \<Longrightarrow> send w \<noteq> Raises e" and "distinct (meanwhile connections)"
  shows "\<exists>left. broadcast send meanwhile connections =
      (left, filter (\<lambda>w. send w = Sent) connections, None)
    \<and> set left = {w \<in> set (meanwhile connections). \<not> (w \<in> set connections \<and> send w = RuntimeFailure)}"
proof -
  obtain r s where rs: "send_all send connections = (r, s, None)" using send_all_total assms(1) by blast
  note spec = send_all_spec [OF rs]
  let ?left = "fold disconnect s (meanwhile connections)"
  have "w \<in> set ?left \<longleftrightarrow> w \<in> set (meanwhile connections) \<and> w \<notin> set s" for w
  proof -
    have "w \<in> set ?left \<longleftrightarrow> count_list ?left w \<noteq> 0" by (simp add: count_list_0_iff)
    also have "\<dots> \<longleftrightarrow> w \<in> set (meanwhile connections) \<and> count_list s w = 0"
      by (auto simp: fold_disconnect_count distinct_count [OF assms(2)] not_less_eq_eq)
    finally show ?thesis by (simp add: count_list_0_iff)
  qed
  with rs spec show ?thesis by (auto simp: broadcast_def intro!: exI [of _ ?left])
qed

theorem broadcast_reaches_live_connections_witness:
  "\<exists>left. broadcast (\<lambda>w. if w = 2 then RuntimeFailure else Sent) (\<lambda>c. c @ [4]) [1, 2, 3 :: nat] = (left, [1, 3], None)
     \<and> set left = {1, 3, 4}"
proof -
  let ?send = "\<lambda>w :: nat. if w = 2 then RuntimeFailure else Sent"
  obtain left where "broadcast ?send (\<lambda>c. c @ [4]) [1, 2, 3] = (left, filter (\<lambda>w. ?send w = Sent) [1, 2, 3], None)"
    and "set left = {w \<in> set ([1, 2, 3] @ [4]). \<not> (w \<in> set [1, 2, 3] \<and> ?send w = RuntimeFailure)}"
  proof -
    have nr: "?send w \<noteq> Raises e" for w e by simp
    have dist: "distinct ([1, 2, 3 :: nat] @ [4])" by simp
    show thesis
      using that broadcast_reaches_live_connections [where send = ?send and meanwhile = "\<lambda>c. c @ [4]", OF nr dist] by blast
  qed
  moreover have "{w \<in> set ([1, 2, 3] @ [4]). \<not> (w \<in> set [1, 2, 3] \<and> ?send w = RuntimeFailure)} = {1, 3, 4}"
    by (auto split: if_splits)
  ultimately show ?thesis by (intro exI [of _ left]) simp
qed

section \<open>Admission\<close>

lemma bearer_token_Some:
  "bearer_subprotocol_token header = Some t \<longleftrightarrow>
     (\<exists>h a b. header = Some h \<and> split_on (CHR '','') h = [a, b] \<and> str_lower (str_strip a) = ''bearer''
        \<and> t = str_strip b \<and> t \<noteq> [] \<and> length t \<le> 4096)"
proof -
  have "length (map str_strip xs) = 2 \<longleftrightarrow> (\<exists>a b. xs = [a, b])" for xs
    by (auto simp: numeral_2_eq_2 length_Suc_conv)
  then show ?thesis
    by (cases header) (auto simp: bearer_subprotocol_token_def Let_def split: if_splits)
qed

text \<open>The subprotocol header carries a token faithfully: what a client sends as \<open>bearer, <token>\<close> is read back, for every token of at most 4096 visible characters without a comma.\<close>

theorem bearer_token_roundtrip:
  assumes "CHR '','' \<notin> set t" and "\<forall>c \<in> set t. \<not> is_space c" and "t \<noteq> []" and "length t \<le> 4096"
  shows "bearer_subprotocol_token (Some (''bearer, '' @ t)) = Some t"
proof -
  have "split_on (CHR '','') (''bearer'' @ CHR '','' # CHR '' '' # t) = [''bearer'', CHR '' '' # t]"
    using assms(1) by (subst split_on_append_sep) (auto simp: split_on_no_sep)
  moreover have "str_strip (CHR '' '' # t) = t"
    using str_strip_id [OF assms(2)] by (simp add: str_strip_def is_space_def)
  moreover have "str_lower (str_strip ''bearer'') = ''bearer''" by code_simp
  ultimately show ?thesis using assms(3,4) by (auto simp: bearer_token_Some)
qed

theorem bearer_token_roundtrip_witness:
  "bearer_subprotocol_token (Some ''bearer, eyJ0'') = Some ''eyJ0''"
  using bearer_token_roundtrip [of "''eyJ0''"] by (simp add: is_space_def)



section \<open>The reconnection delay\<close>

definition delay_at :: "nat \<Rightarrow> flt" where
  "delay_at k = Fin (of_int (min (2 ^ k) 30))"

lemma delay_doubles: "flt_min (flt_mul (delay_at k) (lit 2)) (lit 30) = delay_at (Suc k)"
proof -
  let ?d = "min (2 ^ k) 30 :: int"
  have "flt_mul (delay_at k) (lit 2) = lit (of_int (2 * ?d))"
    by (simp add: delay_at_def mult.commute)
  also have "\<dots> = Fin (of_int (2 * ?d))" by (rule lit_of_int) (simp add: min_def)
  finally show ?thesis by (auto simp: delay_at_def flt_min_def min_def)
qed

lemma delay_bounds: "\<exists>n. delay_at k = Fin n \<and> 1 \<le> n \<and> n \<le> 30"
proof -
  have "(1 :: int) \<le> 2 ^ k" by simp
  then have "(1 :: rat) \<le> of_int (min (2 ^ k) 30)" and "of_int (min (2 ^ k) 30) \<le> (30 :: rat)"
    by (auto simp: min_def simp flip: of_int_power)
  then show ?thesis by (simp add: delay_at_def)
qed

lemmas delay_doubles_Fin = delay_doubles [simplified lit_numeral, simplified]

definition delay_ok :: "'ws listener \<Rightarrow> bool" where
  "delay_ok s = ((\<exists>k. ls_delay_s s = delay_at k) \<and> (\<forall>w \<in> set (ls_waits s). \<exists>k. w = delay_at k))"

lemma delay_at_0: "Fin 1 = delay_at 0"
  by (simp add: delay_at_def)

lemma forward_delay: "forward loads send p s = (s', e) \<Longrightarrow> ls_delay_s s' = ls_delay_s s \<and> ls_waits s' = ls_waits s"
  by (auto simp: forward_def split: sum.splits json.splits prod.splits)

lemma forward_all_delay:
  "forward_all loads send ps ending s = (s', e) \<Longrightarrow> ls_delay_s s' = ls_delay_s s \<and> ls_waits s' = ls_waits s"
proof (induction ps arbitrary: s)
  case (Cons p ps)
  obtain s1 e1 where 1: "forward loads send p s = (s1, e1)" by fastforce
  with Cons forward_delay [OF 1] show ?case by (cases e1) auto
qed simp

lemma back_off_ok: "delay_ok s \<Longrightarrow> delay_ok (back_off s)"
  using delay_doubles_Fin by (auto simp: delay_ok_def back_off_def)

lemma listen_round_ok: "delay_ok s \<Longrightarrow> delay_ok (listen_round loads send r s)"
proof (cases r)
  case (Listening payloads ending)
  assume "delay_ok s"
  then have ok: "delay_ok (s\<lparr>ls_delay_s := lit 1\<rparr>)" using delay_at_0 by (auto simp: delay_ok_def)
  obtain s' e where s': "forward_all loads send payloads ending (s\<lparr>ls_delay_s := lit 1\<rparr>) = (s', e)" by fastforce
  with ok forward_all_delay [OF s'] have "delay_ok s'" by (simp add: delay_ok_def)
  with s' Listening show ?thesis by (cases e) (simp_all add: back_off_ok)
qed (simp add: back_off_ok)

lemma refused_rounds:
  "ls_delay_s s = delay_at k \<Longrightarrow>
     ls_waits (fold (listen_round loads send) (map Refused es) s) = ls_waits s @ map delay_at [k..<k + length es]"
proof (induction es arbitrary: s k)
  case (Cons e es)
  have "ls_delay_s (back_off s) = delay_at (Suc k)" using Cons.prems by (simp add: back_off_def delay_doubles_Fin)
  from Cons.IH [OF this] show ?case
    using Cons.prems by (simp add: back_off_def upt_conv_Cons del: upt_Suc)
qed simp

text \<open>The listener never waits less than a second nor more than half a minute between attempts, and while the database stays away the waits are 1, 2, 4, 8, 16, 30, 30 ... seconds.\<close>

theorem reconnection_delay:
  "(\<forall>w \<in> set (ls_waits (listen_for_events cfg loads send rounds connections)). \<exists>n. w = Fin n \<and> 1 \<le> n \<and> n \<le> 30)
   \<and> (starts_with ''postgresql'' (database_url cfg) \<longrightarrow>
        ls_waits (listen_for_events cfg loads send (map Refused es) connections)
          = map (\<lambda>k. Fin (of_int (min (2 ^ k) 30))) [0..<length es])"
proof -
  have "delay_ok (fold (listen_round loads send) rs (fresh_listener connections))" for rs
  proof (induction rs rule: rev_induct)
    case Nil
    show ?case using delay_at_0 by (auto simp: delay_ok_def fresh_listener_def)
  qed (simp add: listen_round_ok)
  then have "delay_ok (listen_for_events cfg loads send rounds connections)"
    using delay_at_0 by (auto simp: listen_for_events_def) (auto simp: delay_ok_def fresh_listener_def)
  then have "\<forall>w \<in> set (ls_waits (listen_for_events cfg loads send rounds connections)). \<exists>n. w = Fin n \<and> 1 \<le> n \<and> n \<le> 30"
    using delay_bounds by (auto simp: delay_ok_def)
  moreover have "ls_waits (fold (listen_round loads send) (map Refused es) (fresh_listener connections))
      = map delay_at [0..<length es]"
    using refused_rounds [of "fresh_listener connections" 0] by (simp add: fresh_listener_def delay_at_0)
  ultimately show ?thesis by (simp add: listen_for_events_def delay_at_def)
qed

theorem reconnection_delay_witness:
  "ls_waits (listen_for_events (sample_settings\<lparr>database_url := ''postgresql://db''\<rparr>) (\<lambda>_. Inr JNull) (\<lambda>_ :: nat. Sent)
     (map Refused (replicate 7 OSError)) []) = map Fin [1, 2, 4, 8, 16, 30, 30]"
proof -
  have "starts_with ''postgresql'' (database_url (sample_settings\<lparr>database_url := ''postgresql://db''\<rparr>))"
    by (simp add: starts_with_def)
  with reconnection_delay [of "sample_settings\<lparr>database_url := ''postgresql://db''\<rparr>" _ "\<lambda>_ :: nat. Sent" "[]" "[]" "replicate 7 OSError"]
  show ?thesis by (simp add: numeral_eq_Suc upt_rec [of _ "Suc _"])
qed

end
