(* ===== verification/ApiViews.thy ===== *)
theory ApiViews
  imports Live
begin

text \<open>
  What the API of \<open>services/api/app/main.py\<close> shows: the response models as JSON values, the
  derived status of a device and of its anomaly model, the bounded time range of a query,
  the queries with their order and limit, and the CSV export. Times in responses are
  rendered by pydantic (\<open>rt_datetime_json\<close>), floats by \<open>repr\<close> (\<open>rt_float_repr\<close>). A query
  orders rows that tie by insertion, which SQL leaves open; a naive bound is compared as
  UTC, the time zone of the database session.
\<close>

section \<open>Devices\<close>

definition device_status :: "settings \<Rightarrow> int \<Rightarrow> device_row \<Rightarrow> string" where
  "device_status cfg reference v =
     (case dev_last_seen_at v of
        None \<Rightarrow> ''offline''
      | Some seen \<Rightarrow>
          if seconds (offline_after_s cfg) < reference - dt_us (normalized_utc seen) then ''offline''
          else if dev_reported_status v \<noteq> ''online'' \<or> dev_active_faults v \<noteq> [] then ''degraded''
          else ''online'')"

abbreviation jtime :: "runtime \<Rightarrow> pydatetime \<Rightarrow> json" where
  "jtime rt t \<equiv> JStr (rt_datetime_json rt t)"

definition to_device_view :: "runtime \<Rightarrow> settings \<Rightarrow> int \<Rightarrow> device_row \<Rightarrow> json" where
  "to_device_view rt cfg now v = JObj
     [(''id'', JStr (dev_id v)),
      (''site_id'', JStr (dev_site_id v)),
      (''display_name'', JStr (dev_display_name v)),
      (''asset_class'', JStr (dev_asset_class v)),
      (''simulated'', JBool (dev_simulated v)),
      (''firmware_version'', jopt JStr (dev_firmware_version v)),
      (''status'', JStr (device_status cfg now v)),
      (''last_seen_at'', jopt (jtime rt) (dev_last_seen_at v)),
      (''rssi_dbm'', jopt JInt (dev_rssi_dbm v)),
      (''reset_reason'', jopt JStr (dev_reset_reason v)),
      (''reset_count'', JInt (dev_reset_count v)),
      (''queue_depth'', JInt (dev_queue_depth v)),
      (''queue_capacity'', JInt (dev_queue_capacity v)),
      (''dropped_message_count'', JInt (dev_dropped_message_count v)),
      (''modbus_status'', JStr (dev_modbus_status v)),
      (''active_faults'', jstrs (dev_active_faults v))]"

section \<open>Telemetry\<close>

definition to_telemetry_view :: "runtime \<Rightarrow> telemetry_row \<Rightarrow> json" where
  "to_telemetry_view rt r = JObj
     [(''message_id'', JStr (tel_message_id r)),
      (''sequence'', JInt (tel_sequence r)),
      (''device_time'', jopt (jtime rt) (tel_device_time r)),
      (''received_at'', jtime rt (tel_received_at r)),
      (''quality'', JStr (tel_quality r)),
      (''replayed'', JBool (tel_replayed r)),
      (''temperature_c'', jopt JNum (tel_temperature_c r)),
      (''vibration_rms_mps2'', jopt JNum (tel_vibration_rms_mps2 r)),
      (''vibration_peak_mps2'', jopt JNum (tel_vibration_peak_mps2 r)),
      (''vibration_crest_factor'', jopt JNum (tel_vibration_crest_factor r)),
      (''current_a'', jopt JNum (tel_current_a r)),
      (''fault_flags'', jstrs (tel_fault_flags r)),
      (''anomaly_score'', jopt JNum (tel_anomaly_score r)),
      (''anomaly_percentile'', jopt JNum (tel_anomaly_percentile r)),
      (''anomaly_reason'', jopt JStr (tel_anomaly_reason r))]"

section \<open>Anomaly models\<close>

text \<open>\<open>mapping.get(key)\<close> of a JSON object.\<close>

fun json_get :: "string \<Rightarrow> json \<Rightarrow> json option" where
  "json_get k (JObj members) = map_of members k"
| "json_get k _ = None"

fun json_str :: "runtime \<Rightarrow> json \<Rightarrow> string" where
  "json_str rt (JStr s) = s"
| "json_str rt (JInt i) = str_of_int i"
| "json_str rt (JNum x) = rt_float_repr rt x"
| "json_str rt JNull = ''None''"
| "json_str rt (JBool b) = (if b then ''True'' else ''False'')"
| "json_str rt v = rt_container_str rt v"

text \<open>\<open>int(version) if isinstance(version, int) else None\<close>: a \<open>bool\<close> is an \<open>int\<close>.\<close>

fun schema_version_view :: "json option \<Rightarrow> json" where
  "schema_version_view (Some (JInt i)) = JInt i"
| "schema_version_view (Some (JBool b)) = JInt (if b then 1 else 0)"
| "schema_version_view _ = JNull"

fun feature_names_view :: "runtime \<Rightarrow> json option \<Rightarrow> json" where
  "feature_names_view rt (Some (JArr names)) = jstrs (map (json_str rt) names)"
| "feature_names_view rt _ = JArr []"

definition model_status :: "settings \<Rightarrow> int \<Rightarrow> anomaly_model_row \<Rightarrow> string" where
  "model_status cfg now m =
     (let stale = days (model_stale_after_days cfg) < now - dt_us (normalized_utc (mdl_created_at m)) in
      if mdl_status m = ''error'' then ''error''
      else if mdl_status m = ''stale'' \<or> stale then ''stale''
      else ''ready'')"

definition default_diagnostic :: "string \<Rightarrow> string" where
  "default_diagnostic status =
     (if status = ''ready'' then ''model artifact passed registry checks and is available for scoring''
      else if status = ''stale'' then ''MODEL_STALE: retrain from a reviewed healthy baseline window''
      else ''MODEL_ERROR: deterministic rules remain active'')"

text \<open>\<open>first or second\<close> for an optional string.\<close>

definition str_or :: "string option \<Rightarrow> string \<Rightarrow> string" where
  "str_or s t = (case s of Some x \<Rightarrow> if x = [] then t else x | None \<Rightarrow> t)"

definition to_anomaly_model_view ::
  "runtime \<Rightarrow> settings \<Rightarrow> int \<Rightarrow> string \<Rightarrow> anomaly_model_row option \<Rightarrow> json" where
  "to_anomaly_model_view rt cfg now did model =
     (let closing =
        [(''score_interpretation'', JStr ''higher is more anomalous; percentile is empirical, not probability''),
         (''field_performance_claimed'', JBool False)] in
      case model of
        None \<Rightarrow> JObj
          ([(''device_id'', JStr did),
            (''status'', JStr ''model_not_ready''),
            (''ready'', JBool False),
            (''diagnostic'', JStr ''MODEL_NOT_READY: train from an explicitly selected healthy window''),
            (''model_version'', JNull), (''feature_schema_version'', JNull), (''feature_names'', JArr []),
            (''training_start'', JNull), (''training_end'', JNull),
            (''training_sample_count'', JInt 0), (''validation_sample_count'', JInt 0),
            (''contamination'', JNull), (''random_seed'', JNull), (''sklearn_version'', JNull),
            (''created_at'', JNull), (''last_scored_at'', JNull)] @ closing)
      | Some m \<Rightarrow> let status = model_status cfg now m in JObj
          ([(''device_id'', JStr did),
            (''status'', JStr status),
            (''ready'', JBool (status = ''ready'')),
            (''diagnostic'', JStr (str_or (mdl_diagnostic m) (default_diagnostic status))),
            (''model_version'', JStr (mdl_model_version m)),
            (''feature_schema_version'', schema_version_view (json_get ''version'' (mdl_feature_schema m))),
            (''feature_names'', feature_names_view rt (json_get ''names'' (mdl_feature_schema m))),
            (''training_start'', jtime rt (mdl_training_start m)),
            (''training_end'', jtime rt (mdl_training_end m)),
            (''training_sample_count'', JInt (mdl_training_sample_count m)),
            (''validation_sample_count'', JInt (mdl_validation_sample_count m)),
            (''contamination'', JNum (mdl_contamination m)),
            (''random_seed'', JInt (mdl_random_seed m)),
            (''sklearn_version'', JStr (mdl_sklearn_version m)),
            (''created_at'', jtime rt (mdl_created_at m)),
            (''last_scored_at'', jopt (jtime rt) (mdl_last_scored_at m))] @ closing))"

section \<open>Alarms, calibrations, maintenance, commands, thresholds\<close>

definition to_alarm_view :: "runtime \<Rightarrow> alarm_row \<Rightarrow> json" where
  "to_alarm_view rt a = JObj
     [(''id'', JInt (int (alm_id a))),
      (''device_id'', JStr (alm_device_id a)),
      (''code'', JStr (alm_code a)),
      (''severity'', JStr (alm_severity a)),
      (''source'', JStr (alm_source a)),
      (''state'', JStr (alm_state a)),
      (''summary'', JStr (alm_summary a)),
      (''opened_at'', jtime rt (alm_opened_at a)),
      (''cleared_at'', jopt (jtime rt) (alm_cleared_at a)),
      (''acknowledged_at'', jopt (jtime rt) (alm_acknowledged_at a)),
      (''acknowledged_by'', jopt JStr (alm_acknowledged_by a))]"

definition coefficients_json :: "coefficients \<Rightarrow> json" where
  "coefficients_json cs = JObj (map (\<lambda>(k, v). (k, JNum v)) cs)"

definition to_calibration_view :: "runtime \<Rightarrow> calibration_row \<Rightarrow> json" where
  "to_calibration_view rt c = JObj
     [(''id'', JInt (int (cal_id c))),
      (''device_id'', JStr (cal_device_id c)),
      (''sensor'', JStr (cal_sensor c)),
      (''previous_coefficients'', coefficients_json (cal_previous_coefficients c)),
      (''new_coefficients'', coefficients_json (cal_new_coefficients c)),
      (''reason'', JStr (cal_reason c)),
      (''operator'', JStr (cal_operator c)),
      (''performed_at'', jtime rt (cal_performed_at c))]"

definition to_maintenance_view :: "runtime \<Rightarrow> maintenance_row \<Rightarrow> json" where
  "to_maintenance_view rt m = JObj
     [(''id'', JInt (int (mnt_id m))),
      (''device_id'', JStr (mnt_device_id m)),
      (''status'', JStr (mnt_status m)),
      (''notes'', JStr (mnt_notes m)),
      (''performed_at'', jtime rt (mnt_performed_at m)),
      (''next_due_at'', jopt (jtime rt) (mnt_next_due_at m)),
      (''created_by'', JStr (mnt_created_by m)),
      (''updated_at'', jtime rt (mnt_updated_at m))]"

definition to_command_view :: "runtime \<Rightarrow> command_row \<Rightarrow> json" where
  "to_command_view rt c = JObj
     [(''command_id'', JStr (cmd_command_id c)),
      (''device_id'', JStr (cmd_device_id c)),
      (''kind'', JStr (cmd_kind c)),
      (''parameters'', cmd_parameters c),
      (''status'', JStr (cmd_status c)),
      (''result_code'', jopt JStr (cmd_result_code c)),
      (''detail'', jopt JStr (cmd_detail c)),
      (''issued_by'', JStr (cmd_issued_by c)),
      (''issued_at'', jtime rt (cmd_issued_at c)),
      (''expires_at'', jtime rt (cmd_expires_at c)),
      (''acknowledged_at'', jopt (jtime rt) (cmd_acknowledged_at c))]"

definition to_threshold_view :: "runtime \<Rightarrow> threshold_config_row \<Rightarrow> json" where
  "to_threshold_view rt c = JObj
     [(''temperature_warning_c'', JNum (thr_temperature_warning_c c)),
      (''temperature_critical_c'', JNum (thr_temperature_critical_c c)),
      (''vibration_warning_mps2'', JNum (thr_vibration_warning_mps2 c)),
      (''vibration_critical_mps2'', JNum (thr_vibration_critical_mps2 c)),
      (''current_warning_a'', JNum (thr_current_warning_a c)),
      (''current_critical_a'', JNum (thr_current_critical_a c)),
      (''hysteresis_percent'', JNum (thr_hysteresis_percent c)),
      (''device_id'', JStr (thr_device_id c)),
      (''updated_by'', JStr (thr_updated_by c)),
      (''updated_at'', jtime rt (thr_updated_at c))]"

section \<open>Queries\<close>

definition bounded_range ::
  "settings \<Rightarrow> int \<Rightarrow> pydatetime option \<Rightarrow> pydatetime option \<Rightarrow> (pydatetime \<times> pydatetime) res" where
  "bounded_range cfg now start end' =
     (let range_end = (case end' of Some t \<Rightarrow> t | None \<Rightarrow> Aware now);
          range_start = (case start of Some t \<Rightarrow> t | None \<Rightarrow> dt_shift range_end (- hours 24)) in
      bindE (dt_le range_end range_start) (\<lambda>empty.
      bindE (raise_if empty (HTTPException 422 ''end must be after start'')) (\<lambda>_.
      bindE (dt_diff range_end range_start) (\<lambda>width.
      bindE (raise_if (days (max_query_days cfg) < width)
               (HTTPException 422 ''requested time range is too large'')) (\<lambda>_.
      Inr (range_start, range_end))))))"

definition order_asc :: "('r \<Rightarrow> pydatetime) \<Rightarrow> 'r list \<Rightarrow> 'r list" where
  "order_asc key rows = sort_key (dt_us \<circ> key) rows"

definition order_desc :: "('r \<Rightarrow> pydatetime) \<Rightarrow> 'r list \<Rightarrow> 'r list" where
  "order_desc key rows = sort_key (\<lambda>r. - dt_us (key r)) rows"

definition telemetry_between :: "string \<Rightarrow> pydatetime \<Rightarrow> pydatetime \<Rightarrow> db \<Rightarrow> telemetry_row list" where
  "telemetry_between did range_start range_end d =
     filter (\<lambda>r. tel_device_id r = did \<and> dt_us range_start \<le> dt_us (tel_received_at r)
                 \<and> dt_us (tel_received_at r) \<le> dt_us range_end) (db_telemetry d)"

text \<open>The newest model of a device: latest creation, then highest key.\<close>

definition latest_model :: "string \<Rightarrow> db \<Rightarrow> anomaly_model_row option" where
  "latest_model did d =
     (case sort_key (\<lambda>m. - dt_us (mdl_created_at m))
             (sort_key (\<lambda>m. - int (mdl_id m)) (filter (\<lambda>m. mdl_device_id m = did) (db_models d))) of
        [] \<Rightarrow> None
      | m # _ \<Rightarrow> Some m)"

definition latest_calibration :: "string \<Rightarrow> sensor \<Rightarrow> db \<Rightarrow> calibration_row option" where
  "latest_calibration did s d =
     (case order_desc cal_performed_at
             (filter (\<lambda>c. cal_device_id c = did \<and> cal_sensor c = sensor_str s) (db_calibrations d)) of
        [] \<Rightarrow> None
      | c # _ \<Rightarrow> Some c)"

section \<open>CSV\<close>

definition formula_start :: "char \<Rightarrow> bool" where
  "formula_start c = (c \<in> {CHR ''='', CHR ''+'', CHR ''-'', CHR ''@'', CHR 0x09, CHR 0x0D})"

fun safe_csv_text :: "string \<Rightarrow> string" where
  "safe_csv_text [] = []"
| "safe_csv_text (c # cs) = (if formula_start c then CHR 0x27 # c # cs else c # cs)"

text \<open>\<open>csv.writer\<close> with its default dialect and \<open>lineterminator="\n"\<close>.\<close>

definition csv_special :: "char \<Rightarrow> bool" where
  "csv_special c = (c \<in> {CHR '','', CHR 0x22, CHR 0x0A, CHR 0x0D})"

definition csv_field :: "string \<Rightarrow> string" where
  "csv_field s =
     (if list_ex csv_special s
      then CHR 0x22 # concat (map (\<lambda>c. if c = CHR 0x22 then [c, c] else [c]) s) @ [CHR 0x22]
      else s)"

definition csv_row :: "string list \<Rightarrow> string" where
  "csv_row cells = join_with '','' (map csv_field cells) @ [CHR 0x0A]"

datatype metric = MTemperature | MVibrationRms | MVibrationPeak | MCurrent

fun metric_str :: "metric \<Rightarrow> string" where
  "metric_str MTemperature = ''temperature_c''"
| "metric_str MVibrationRms = ''vibration_rms_mps2''"
| "metric_str MVibrationPeak = ''vibration_peak_mps2''"
| "metric_str MCurrent = ''current_a''"

fun metric_value :: "metric \<Rightarrow> telemetry_row \<Rightarrow> flt option" where
  "metric_value MTemperature r = tel_temperature_c r"
| "metric_value MVibrationRms r = tel_vibration_rms_mps2 r"
| "metric_value MVibrationPeak r = tel_vibration_peak_mps2 r"
| "metric_value MCurrent r = tel_current_a r"

fun row_isoformat :: "pydatetime \<Rightarrow> string" where
  "row_isoformat (Aware t) = isoformat t"
| "row_isoformat (Naive t) = iso_utc t"

definition csv_cells :: "runtime \<Rightarrow> metric \<Rightarrow> telemetry_row \<Rightarrow> string list" where
  "csv_cells rt m r =
     [safe_csv_text (tel_device_id r),
      row_isoformat (tel_received_at r),
      metric_str m,
      (case metric_value m r of None \<Rightarrow> [] | Some x \<Rightarrow> rt_float_repr rt x),
      safe_csv_text (tel_quality r),
      safe_csv_text (join_with ''|'' (tel_fault_flags r))]"

definition csv_header :: "string list" where
  "csv_header = [''device_id'', ''received_at_utc'', ''metric'', ''value'', ''quality'', ''fault_flags'']"

definition csv_stream :: "runtime \<Rightarrow> metric \<Rightarrow> telemetry_row list \<Rightarrow> string list" where
  "csv_stream rt m rows = csv_row csv_header # map (\<lambda>r. csv_row (csv_cells rt m r)) rows"

section \<open>Reading the export back\<close>

text \<open>A CSV reader for the default dialect, character by character: the specification of the export.\<close>

datatype csv_mode = Start | Plain | Quoted | QuoteSeen

fun csv_scan :: "csv_mode \<Rightarrow> string \<Rightarrow> string list \<Rightarrow> string list list \<Rightarrow> string \<Rightarrow> string list list" where
  "csv_scan m f fs rows [] = rev rows"
| "csv_scan Quoted f fs rows (c # s) =
     (if c = CHR 0x22 then csv_scan QuoteSeen f fs rows s else csv_scan Quoted (c # f) fs rows s)"
| "csv_scan m f fs rows (c # s) =
     (if c = CHR 0x22 \<and> m = Start then csv_scan Quoted f fs rows s
      else if c = CHR 0x22 \<and> m = QuoteSeen then csv_scan Quoted (c # f) fs rows s
      else if c = CHR '','' then csv_scan Start [] (rev f # fs) rows s
      else if c = CHR 0x0A then csv_scan Start [] [] (rev (rev f # fs) # rows) s
      else csv_scan Plain (c # f) fs rows s)"

definition csv_read :: "string \<Rightarrow> string list list" where
  "csv_read s = csv_scan Start [] [] [] s"

lemma scan_quoted:
  "csv_scan Quoted f fs rows (concat (map (\<lambda>c. if c = CHR 0x22 then [c, c] else [c]) s) @ t)
     = csv_scan Quoted (rev s @ f) fs rows t"
  by (induction s arbitrary: f) auto

lemma scan_plain:
  "\<not> list_ex csv_special s \<Longrightarrow> m = Plain \<Longrightarrow> csv_scan m f fs rows (s @ t) = csv_scan m (rev s @ f) fs rows t"
  by (induction s arbitrary: f) (auto simp: csv_special_def)

lemma scan_plain_start:
  assumes "\<not> list_ex csv_special s"
  shows "csv_scan Start [] fs rows (s @ t) = csv_scan (if s = [] then Start else Plain) (rev s) fs rows t"
proof (cases s)
  case (Cons c cs)
  with assms have "csv_scan Start [] fs rows (s @ t) = csv_scan Plain [c] fs rows (cs @ t)"
    by (auto simp: csv_special_def)
  with assms Cons scan_plain [of cs Plain "[c]" fs rows t] show ?thesis by simp
qed simp

lemma scan_field:
  "csv_scan Start [] fs rows (csv_field s @ CHR '','' # t) = csv_scan Start [] (s # fs) rows t"
  "csv_scan Start [] fs rows (csv_field s @ CHR 0x0A # t) = csv_scan Start [] [] (rev (s # fs) # rows) t"
  by (auto simp: csv_field_def scan_quoted scan_plain_start)

lemma scan_cells:
  "cells \<noteq> [] \<Longrightarrow> csv_scan Start [] fs rows (join_with '','' (map csv_field cells) @ CHR 0x0A # t)
     = csv_scan Start [] [] ((rev fs @ cells) # rows) t"
proof (induction cells arbitrary: fs)
  case (Cons c cells)
  show ?case
  proof (cases "cells = []")
    case False
    then have "join_with '','' (map csv_field (c # cells)) = csv_field c @ CHR '','' # join_with '','' (map csv_field cells)"
      by (cases cells) auto
    with False Cons.IH [of "c # fs"] show ?thesis by (simp add: scan_field)
  qed (simp add: scan_field)
qed simp

lemma scan_rows:
  "(\<forall>cells \<in> set table. cells \<noteq> []) \<Longrightarrow>
     csv_scan Start [] [] rows (concat (map csv_row table)) = rev rows @ table"
proof (induction table arbitrary: rows)
  case (Cons cells table)
  then show ?case by (simp add: csv_row_def scan_cells)
qed simp

text \<open>The exported document is read back, cell by cell, to the header and one record per reading: quoting never lets a value break out of its cell or its line.\<close>

theorem csv_export_roundtrip:
  "csv_read (concat (csv_stream rt m rows)) = csv_header # map (csv_cells rt m) rows"
proof -
  have "concat (csv_stream rt m rows) = concat (map csv_row (csv_header # map (csv_cells rt m) rows))"
    by (simp add: csv_stream_def comp_def)
  then show ?thesis
    using scan_rows [of "csv_header # map (csv_cells rt m) rows" "[]"]
    by (simp add: csv_read_def csv_header_def csv_cells_def del: concat.simps)
qed

fun formula_text :: "string \<Rightarrow> bool" where
  "formula_text [] = False"
| "formula_text (c # cs) = formula_start c"

text \<open>No text cell of the export begins with a character that a spreadsheet reads as a formula, and a text that is already safe is exported unchanged.\<close>

theorem csv_text_is_not_a_formula:
  "\<not> formula_text (safe_csv_text s)
   \<and> safe_csv_text s = (if formula_text s then CHR 0x27 # s else s)
   \<and> \<not> formula_text (csv_cells rt m r ! 0) \<and> \<not> formula_text (csv_cells rt m r ! 4)
   \<and> \<not> formula_text (csv_cells rt m r ! 5)"
proof -
  have safe: "\<not> formula_text (safe_csv_text s)" for s
    by (cases s) (auto simp: formula_start_def)
  moreover have "safe_csv_text s = (if formula_text s then CHR 0x27 # s else s)"
    by (cases s) auto
  moreover have "\<not> formula_start (CHR 0x27)" by (simp add: formula_start_def)
  ultimately show ?thesis by (simp add: csv_cells_def)
qed

section \<open>Time ranges\<close>

text \<open>A range that is admitted is not empty, no longer than configured, and made of the bounds that were given; without bounds it is the last day, which is always admitted; and one naive bound beside an aware one is not rejected but fails with a \<open>TypeError\<close>.\<close>

theorem bounded_range_spec:
  "(bounded_range cfg now start end' = Inr (a, b) \<longrightarrow>
       dt_us a < dt_us b \<and> dt_us b - dt_us a \<le> days (max_query_days cfg)
       \<and> (start \<noteq> None \<longrightarrow> start = Some a) \<and> (end' \<noteq> None \<longrightarrow> end' = Some b))
   \<and> (settings_ok cfg \<longrightarrow> bounded_range cfg now None None = Inr (Aware (now - hours 24), Aware now))
   \<and> bounded_range cfg now (Some (Naive s)) (Some (Aware e)) = Inl TypeError
   \<and> bounded_range cfg now (Some (Naive s)) None = Inl TypeError"
proof (intro conjI impI)
  assume ok: "bounded_range cfg now start end' = Inr (a, b)"
  from ok obtain less width where "dt_le b a = Inr False" and "dt_diff b a = Inr width"
    and w: "width \<le> days (max_query_days cfg)"
    by (auto simp: bounded_range_def Let_def)
  then show "dt_us a < dt_us b" and "dt_us b - dt_us a \<le> days (max_query_days cfg)"
    by (cases a; cases b; simp)+
  from ok show "start = Some a" if "start \<noteq> None" using that by (auto simp: bounded_range_def Let_def)
  from ok show "end' = Some b" if "end' \<noteq> None" using that by (auto simp: bounded_range_def Let_def)
next
  assume "settings_ok cfg"
  then show "bounded_range cfg now None None = Inr (Aware (now - hours 24), Aware now)"
    by (simp add: bounded_range_def settings_ok_def hours_def days_def seconds_def)
qed (simp_all add: bounded_range_def)

theorem bounded_range_spec_witness:
  "bounded_range sample_settings 0 None None = Inr (Aware (- hours 24), Aware 0)"
proof -
  have "settings_ok sample_settings"
  proof -
    have "rnd (1 / 5) \<le> rnd 5" by (rule rnd_mono) simp
    then have "flt_le (lit (1 / 5)) (Fin 5)" by (simp add: of_exact_small rnd_numeral)
    then show ?thesis by (simp add: settings_ok_def sample_settings_def ge_le_def)
  qed
  then show ?thesis using bounded_range_spec [of sample_settings 0 None None] by simp
qed

section \<open>Status of a device\<close>

lemma device_status_cases:
  "device_status cfg now v \<in> {''online'', ''degraded'', ''offline''}"
  by (simp add: device_status_def split: option.split)

text \<open>What a reading says about its device: right after it is stored and for as long as the configured silence allows, the device is shown as online exactly when the reading was good and carried no fault, degraded otherwise; after that silence it is offline, and stays so until it is heard again.\<close>

theorem status_follows_reading:
  assumes ok: "persist_telemetry rt clk e d = Inr (d', r)" and ins: "pr_status r = Inserted"
    and now: "clk 0 \<le> now"
  shows "\<exists>v. get_device (te_device_id e) d' = Some v
    \<and> device_status cfg now v =
        (if clk 0 + seconds (offline_after_s cfg) < now then ''offline''
         else if te_quality e = Good \<and> te_fault_flags e = [] then ''online''
         else ''degraded'')"
proof -
  obtain v where v: "get_device (te_device_id e) d' = Some v" "dev_last_seen_at v = Some (Aware (clk 0))"
      "dev_reported_status v = (if te_quality e = Good then ''online'' else ''degraded'')"
      "dev_active_faults v = te_fault_flags e"
    using persisted_device [OF ok ins] by blast
  then show ?thesis by (intro exI [of _ v]) (auto simp: device_status_def)
qed

theorem status_follows_reading_witness:
  "\<exists>v. get_device ''motor-01'' (with_event sample_runtime (telemetry_event (sample_envelope ''m1'' 1 (Fin 41)))
       (telemetry_writes (\<lambda>_. 0) (sample_envelope ''m1'' 1 (Fin 41)) empty_db empty_db)) = Some v
     \<and> device_status sample_settings (seconds 60) v = ''online''
     \<and> device_status sample_settings (seconds 61) v = ''offline''"
proof -
  let ?e = "sample_envelope ''m1'' 1 (Fin 41)"
  let ?d = "with_event sample_runtime (telemetry_event ?e) (telemetry_writes (\<lambda>_. 0) ?e empty_db empty_db)"
  have off: "offline_after_s sample_settings = 60" by (simp add: sample_settings_def)
  have ok: "persist_telemetry sample_runtime (\<lambda>_. 0) ?e empty_db = Inr (?d, inserted_of ''m1'')"
    by (rule sample_persist) simp
  have q: "te_quality ?e = Good" "te_fault_flags ?e = []" by (simp_all add: sample_envelope_def)
  note st = status_follows_reading [OF ok, where cfg = sample_settings]
  from st [of "seconds 60"] st [of "seconds 61"] q off show ?thesis
    by (auto simp: seconds_def)
qed

end
