(* ===== verification/Artifacts.thy ===== *)
theory Artifacts
  imports Modeling ApiViews
begin

text \<open>
  The trusted model artifacts of \<open>services/anomaly_worker/modeling.py\<close>: the metadata parser,
  saving and loading a bundle, and staleness. A file system maps paths, lists of components,
  to directories and files; joblib's serialisation, JSON text and the number syntax of
  \<open>int\<close> and \<open>float\<close> are the functions of \<open>codec\<close>. What \<open>joblib.load\<close> gives is seen as far as
  the code looks at it: whether the estimator is an Isolation Forest, the scores as floats,
  and for each quantile the outcome of converting its values.
\<close>

section \<open>Parameters\<close>

datatype node = Dir | File string

type_synonym path = "string list"
type_synonym fs = "path \<Rightarrow> node option"

record 'e payload =
  pl_estimator :: "'e option"
  pl_reference_scores :: "flt list"
  pl_feature_quantiles :: "(string \<times> flt list res) list option"

record 'e codec =
  cd_runtime :: runtime
  cd_json_text :: "json \<Rightarrow> string"
  cd_json_loads :: "string \<Rightarrow> json res"
  cd_int_of_str :: "string \<Rightarrow> int option"
  cd_float_of_str :: "string \<Rightarrow> flt option"
  cd_dump :: "'e payload \<Rightarrow> string"
  cd_load :: "string \<Rightarrow> 'e payload res"
  cd_fromisoformat :: "string \<Rightarrow> pydatetime res"
  cd_local_to_utc :: "int \<Rightarrow> int"

definition ARTIFACT_FILENAME :: string where "ARTIFACT_FILENAME = ''model.joblib''"
definition METADATA_FILENAME :: string where "METADATA_FILENAME = ''metadata.json''"

section \<open>Metadata\<close>

text \<open>\<open>int(value)\<close> and \<open>float(value)\<close> of a JSON value.\<close>

fun py_int :: "'e codec \<Rightarrow> json \<Rightarrow> int res" where
  "py_int cd (JInt i) = Inr i"
| "py_int cd (JBool b) = Inr (if b then 1 else 0)"
| "py_int cd (JNum x) = int_of_flt x"
| "py_int cd (JStr s) =
     (case cd_int_of_str cd s of Some i \<Rightarrow> Inr i | None \<Rightarrow> Inl (ValueError ''invalid literal for int()''))"
| "py_int cd _ = Inl TypeError"

fun py_float :: "'e codec \<Rightarrow> json \<Rightarrow> flt res" where
  "py_float cd (JInt i) = (case lit (of_int i) of Fin x \<Rightarrow> Inr (Fin x) | _ \<Rightarrow> Inl (OtherException ''OverflowError''))"
| "py_float cd (JBool b) = Inr (if b then lit 1 else lit 0)"
| "py_float cd (JNum x) = Inr x"
| "py_float cd (JStr s) =
     (case cd_float_of_str cd s of Some x \<Rightarrow> Inr x | None \<Rightarrow> Inl (ValueError ''could not convert string to float''))"
| "py_float cd _ = Inl TypeError"

text \<open>\<open>tuple(str(item) for item in value)\<close>: the items of a list, the characters of a string, the keys of an object.\<close>

fun py_str_tuple :: "'e codec \<Rightarrow> json \<Rightarrow> string list res" where
  "py_str_tuple cd (JArr items) = Inr (map (json_str (cd_runtime cd)) items)"
| "py_str_tuple cd (JStr s) = Inr (map (\<lambda>c. [c]) s)"
| "py_str_tuple cd (JObj members) = Inr (map fst members)"
| "py_str_tuple cd _ = Inl TypeError"

definition item :: "(string \<times> json) list \<Rightarrow> string \<Rightarrow> json res" where
  "item members k = lookup members k"

definition str_item :: "'e codec \<Rightarrow> (string \<times> json) list \<Rightarrow> string \<Rightarrow> string res" where
  "str_item cd members k = bindE (item members k) (\<lambda>v. Inr (json_str (cd_runtime cd) v))"

definition int_item :: "'e codec \<Rightarrow> (string \<times> json) list \<Rightarrow> string \<Rightarrow> int res" where
  "int_item cd members k = bindE (item members k) (py_int cd)"

definition read_metadata :: "'e codec \<Rightarrow> (string \<times> json) list \<Rightarrow> model_metadata res" where
  "read_metadata cd m =
     bindE (str_item cd m ''device_id'') (\<lambda>device_id.
     bindE (str_item cd m ''asset_class'') (\<lambda>asset_class.
     bindE (str_item cd m ''model_version'') (\<lambda>version.
     bindE (int_item cd m ''feature_schema_version'') (\<lambda>schema_version.
     bindE (bindE (item m ''feature_names'') (py_str_tuple cd)) (\<lambda>names.
     bindE (str_item cd m ''training_start'') (\<lambda>start.
     bindE (str_item cd m ''training_end'') (\<lambda>end'.
     bindE (int_item cd m ''training_sample_count'') (\<lambda>training_count.
     bindE (int_item cd m ''validation_sample_count'') (\<lambda>validation_count.
     bindE (bindE (item m ''contamination'') (py_float cd)) (\<lambda>contamination.
     bindE (int_item cd m ''random_seed'') (\<lambda>seed.
     bindE (str_item cd m ''sklearn_version'') (\<lambda>sklearn_version.
     bindE (str_item cd m ''created_at'') (\<lambda>created_at.
     bindE (str_item cd m ''score_direction'') (\<lambda>direction.
     bindE (str_item cd m ''baseline_policy'') (\<lambda>policy.
     bindE (str_item cd m ''artifact_checksum'') (\<lambda>checksum.
     Inr \<lparr>md_device_id = device_id, md_asset_class = asset_class, md_model_version = version,
          md_feature_schema_version = schema_version, md_feature_names = names,
          md_training_start = start, md_training_end = end', md_training_sample_count = training_count,
          md_validation_sample_count = validation_count, md_contamination = contamination,
          md_random_seed = seed, md_sklearn_version = sklearn_version, md_created_at = created_at,
          md_score_direction = direction, md_baseline_policy = policy,
          md_artifact_checksum = checksum\<rparr>))))))))))))))))"

definition metadata_ok :: "model_metadata \<Rightarrow> bool" where
  "metadata_ok md =
     (md_device_id md \<noteq> [] \<and> md_model_version md \<noteq> [] \<and> 1 \<le> md_training_sample_count md
      \<and> 20 \<le> md_validation_sample_count md \<and> contamination_ok (md_contamination md)
      \<and> starts_with ''sha256:'' (md_artifact_checksum md))"

text \<open>\<open>except (KeyError, TypeError, ValueError)\<close>.\<close>

fun invalid_metadata_error :: "exc \<Rightarrow> bool" where
  "invalid_metadata_error KeyError = True"
| "invalid_metadata_error TypeError = True"
| "invalid_metadata_error e = is_value_error e"

definition metadata_from_dict :: "'e codec \<Rightarrow> (string \<times> json) list \<Rightarrow> model_metadata res" where
  "metadata_from_dict cd members =
     (case read_metadata cd members of
        Inl e \<Rightarrow> Inl (if invalid_metadata_error e then ArtifactError ''MODEL_METADATA_INVALID'' else e)
      | Inr md \<Rightarrow> if metadata_ok md then Inr md else Inl (ArtifactError ''MODEL_METADATA_INVALID''))"

text \<open>\<open>asdict(metadata)\<close> with \<open>sort_keys=True\<close>.\<close>

definition metadata_json :: "model_metadata \<Rightarrow> json" where
  "metadata_json md = JObj
     [(''artifact_checksum'', JStr (md_artifact_checksum md)),
      (''asset_class'', JStr (md_asset_class md)),
      (''baseline_policy'', JStr (md_baseline_policy md)),
      (''contamination'', JNum (md_contamination md)),
      (''created_at'', JStr (md_created_at md)),
      (''device_id'', JStr (md_device_id md)),
      (''feature_names'', jstrs (md_feature_names md)),
      (''feature_schema_version'', JInt (md_feature_schema_version md)),
      (''model_version'', JStr (md_model_version md)),
      (''random_seed'', JInt (md_random_seed md)),
      (''score_direction'', JStr (md_score_direction md)),
      (''sklearn_version'', JStr (md_sklearn_version md)),
      (''training_end'', JStr (md_training_end md)),
      (''training_sample_count'', JInt (md_training_sample_count md)),
      (''training_start'', JStr (md_training_start md)),
      (''validation_sample_count'', JInt (md_validation_sample_count md))]"

section \<open>Files\<close>

definition read_file :: "fs \<Rightarrow> path \<Rightarrow> string res" where
  "read_file files p = (case files p of Some (File s) \<Rightarrow> Inr s | _ \<Rightarrow> Inl OSError)"

text \<open>\<open>directory.mkdir(parents=True, exist_ok=False)\<close>.\<close>

definition is_file :: "fs \<Rightarrow> path \<Rightarrow> bool" where
  "is_file files p = (case files p of Some (File _) \<Rightarrow> True | _ \<Rightarrow> False)"

definition mkdir_parents :: "path \<Rightarrow> fs \<Rightarrow> fs res" where
  "mkdir_parents p files =
     bindE (raise_if (files p \<noteq> None) (OtherException ''FileExistsError'')) (\<lambda>_.
     bindE (raise_if (list_ex (is_file files) (prefixes p)) OSError) (\<lambda>_.
     Inr (\<lambda>q. if q \<in> set (prefixes p) then Some Dir else files q)))"

text \<open>Writing a temporary file and \<open>os.replace\<close>: afterwards only the final name exists.\<close>

definition write_file :: "path \<Rightarrow> string \<Rightarrow> fs \<Rightarrow> fs" where
  "write_file p s files = files(p \<mapsto> File s)"

definition file_checksum :: "'e ml \<Rightarrow> string \<Rightarrow> string" where
  "file_checksum lib content = ''sha256:'' @ ml_sha256 lib content"

section \<open>Saving\<close>

definition bundle_payload :: "'e model_bundle \<Rightarrow> 'e payload" where
  "bundle_payload b =
     \<lparr>pl_estimator = Some (mb_estimator b), pl_reference_scores = mb_reference_scores b,
      pl_feature_quantiles = Some (map (\<lambda>(k, l, m, h). (k, Inr [l, m, h])) (mb_feature_quantiles b))\<rparr>"

definition bundle_directory :: "path \<Rightarrow> string \<Rightarrow> string \<Rightarrow> path" where
  "bundle_directory models_dir device_id version = models_dir @ [device_id, version]"

definition save_bundle ::
  "'e ml \<Rightarrow> 'e codec \<Rightarrow> 'e model_bundle \<Rightarrow> path \<Rightarrow> fs \<Rightarrow> (fs \<times> path \<times> 'e model_bundle) res" where
  "save_bundle lib cd bundle models_dir files =
     (let directory = bundle_directory models_dir (md_device_id (mb_metadata bundle)) (md_model_version (mb_metadata bundle)) in
      bindE (mkdir_parents directory files) (\<lambda>made.
      let content = cd_dump cd (bundle_payload bundle);
          stored = write_file (directory @ [ARTIFACT_FILENAME]) content made;
          metadata = (mb_metadata bundle)\<lparr>md_artifact_checksum := file_checksum lib content\<rparr>
      in Inr (write_file (directory @ [METADATA_FILENAME]) (cd_json_text cd (metadata_json metadata)) stored,
              directory, bundle\<lparr>mb_metadata := metadata\<rparr>)))"

section \<open>Loading\<close>

text \<open>The exceptions around \<open>joblib.load\<close>, and around reading the metadata.\<close>

fun artifact_error :: "exc \<Rightarrow> bool" where
  "artifact_error OSError = True"
| "artifact_error KeyError = True"
| "artifact_error TypeError = True"
| "artifact_error AttributeError = True"
| "artifact_error (OtherException n) =
     (n \<in> set [''EOFError'', ''ImportError'', ''ModuleNotFoundError'', ''UnpicklingError'', ''FileExistsError''])"
| "artifact_error e = is_value_error e"

definition unreadable_metadata :: "exc \<Rightarrow> bool" where
  "unreadable_metadata e = (e = OSError \<or> e = JSONDecodeError)"

definition reraise :: "(exc \<Rightarrow> bool) \<Rightarrow> string \<Rightarrow> 'a res \<Rightarrow> 'a res" where
  "reraise caught code r = (case r of Inl e \<Rightarrow> Inl (if caught e then ArtifactError code else e) | Inr a \<Rightarrow> Inr a)"

fun parsed_quantiles :: "(string \<times> flt list res) list \<Rightarrow> (string \<times> flt \<times> flt \<times> flt) list res" where
  "parsed_quantiles [] = Inr []"
| "parsed_quantiles ((name, values) # rest) =
     bindE values (\<lambda>parsed.
     bindE (raise_if (length parsed \<noteq> 3 \<or> \<not> list_all flt_finite parsed) (ArtifactError ''MODEL_ARTIFACT_INVALID'')) (\<lambda>_.
     bindE (parsed_quantiles rest) (\<lambda>others.
     Inr ((name, parsed ! 0, parsed ! 1, parsed ! 2) # others))))"

definition checked_payload :: "'e payload \<Rightarrow> ('e \<times> flt list \<times> (string \<times> flt \<times> flt \<times> flt) list) res" where
  "checked_payload p =
     (case (pl_estimator p, pl_feature_quantiles p) of
        (Some estimator, Some quantiles) \<Rightarrow>
          bindE (raise_if (length (pl_reference_scores p) < 20) (ArtifactError ''MODEL_ARTIFACT_INVALID'')) (\<lambda>_.
          bindE (raise_if (\<not> list_all flt_finite (pl_reference_scores p)
                           \<or> set (map fst quantiles) \<noteq> set FEATURE_NAMES)
                   (ArtifactError ''MODEL_ARTIFACT_INVALID'')) (\<lambda>_.
          bindE (parsed_quantiles quantiles) (\<lambda>parsed.
          Inr (estimator, pl_reference_scores p, parsed))))
      | _ \<Rightarrow> Inl (ArtifactError ''MODEL_ARTIFACT_INVALID''))"

definition load_bundle :: "'e ml \<Rightarrow> 'e codec \<Rightarrow> fs \<Rightarrow> path \<Rightarrow> 'e model_bundle res" where
  "load_bundle lib cd files directory =
     bindE (reraise unreadable_metadata ''MODEL_METADATA_UNREADABLE''
              (bindE (read_file files (directory @ [METADATA_FILENAME])) (cd_json_loads cd))) (\<lambda>raw.
     case raw of
       JObj members \<Rightarrow>
         bindE (metadata_from_dict cd members) (\<lambda>metadata.
         bindE (raise_if (md_feature_schema_version metadata \<noteq> FEATURE_SCHEMA_VERSION
                          \<or> md_feature_names metadata \<noteq> FEATURE_NAMES)
                  (ArtifactError ''MODEL_FEATURE_SCHEMA_MISMATCH'')) (\<lambda>_.
         bindE (raise_if (md_sklearn_version metadata \<noteq> ml_version lib)
                  (ArtifactError ''MODEL_LIBRARY_VERSION_MISMATCH'')) (\<lambda>_.
         bindE (reraise (\<lambda>e. e = OSError) ''MODEL_ARTIFACT_UNREADABLE''
                  (read_file files (directory @ [ARTIFACT_FILENAME]))) (\<lambda>content.
         bindE (raise_if (file_checksum lib content \<noteq> md_artifact_checksum metadata)
                  (ArtifactError ''MODEL_ARTIFACT_CHECKSUM_MISMATCH'')) (\<lambda>_.
         bindE (reraise artifact_error ''MODEL_ARTIFACT_INVALID'' (cd_load cd content)) (\<lambda>p.
         bindE (checked_payload p) (\<lambda>(estimator, scores, quantiles).
         Inr \<lparr>mb_estimator = estimator, mb_reference_scores = scores,
              mb_feature_quantiles = quantiles, mb_metadata = metadata\<rparr>)))))))
     | _ \<Rightarrow> Inl (ArtifactError ''MODEL_METADATA_INVALID''))"

section \<open>Staleness\<close>

text \<open>
  \<open>value.replace("Z", "+00:00")\<close>, and the instant of a parsed time: \<open>astimezone(UTC)\<close>
  reads a naive time in the machine's zone.
\<close>

definition replace_z :: "string \<Rightarrow> string" where
  "replace_z s = concat (map (\<lambda>c. if c = CHR ''Z'' then ''+00:00'' else [c]) s)"

fun astimezone_utc :: "'e codec \<Rightarrow> pydatetime \<Rightarrow> int" where
  "astimezone_utc cd (Aware t) = t"
| "astimezone_utc cd (Naive t) = cd_local_to_utc cd t"

definition parse_utc :: "'e codec \<Rightarrow> string \<Rightarrow> int res" where
  "parse_utc cd s = bindE (cd_fromisoformat cd (replace_z s)) (\<lambda>t. Inr (astimezone_utc cd t))"

definition model_is_stale :: "'e codec \<Rightarrow> model_metadata \<Rightarrow> int \<Rightarrow> int \<Rightarrow> bool res" where
  "model_is_stale cd md now maximum_age_days =
     bindE (parse_utc cd (md_created_at md)) (\<lambda>created.
     Inr (days maximum_age_days < now - created))"

section \<open>What a loaded bundle guarantees\<close>

lemma reraise_Inr [simp]: "reraise c code r = Inr a \<longleftrightarrow> r = Inr a"
  by (cases r) (simp_all add: reraise_def)

lemma reraise_of_Inr [simp]: "reraise c code (Inr a) = Inr a"
  by (simp add: reraise_def)

definition sound_bundle :: "'e ml \<Rightarrow> 'e model_bundle \<Rightarrow> bool" where
  "sound_bundle lib b =
     (scorable b \<and> metadata_ok (mb_metadata b) \<and> md_sklearn_version (mb_metadata b) = ml_version lib
      \<and> 20 \<le> length (mb_reference_scores b) \<and> list_all flt_finite (mb_reference_scores b)
      \<and> fst ` set (mb_feature_quantiles b) = set FEATURE_NAMES
      \<and> (\<forall>(k, l, m, h) \<in> set (mb_feature_quantiles b). flt_finite l \<and> flt_finite m \<and> flt_finite h))"

lemma parsed_quantiles_sound:
  "parsed_quantiles qs = Inr ps \<Longrightarrow> map fst ps = map fst qs
     \<and> (\<forall>(k, l, m, h) \<in> set ps. flt_finite l \<and> flt_finite m \<and> flt_finite h)"
  by (induction qs arbitrary: ps rule: parsed_quantiles.induct)
     (auto simp: numeral_3_eq_3 length_Suc_conv)

lemma checked_payload_sound:
  assumes "checked_payload p = Inr (e, scores, qs)"
  shows "20 \<le> length scores" and "list_all flt_finite scores" and "fst ` set qs = set FEATURE_NAMES"
    and "\<forall>(k, l, m, h) \<in> set qs. flt_finite l \<and> flt_finite m \<and> flt_finite h"
proof -
  from assms obtain raw where raw: "parsed_quantiles raw = Inr qs" and keys: "set (map fst raw) = set FEATURE_NAMES"
    and "20 \<le> length scores" "list_all flt_finite scores"
    by (auto simp: checked_payload_def split: option.splits)
  then show "20 \<le> length scores" "list_all flt_finite scores" by blast+
  from parsed_quantiles_sound [OF raw] have same: "map fst qs = map fst raw" by (rule conjunct1)
  show "\<forall>(k, l, m, h) \<in> set qs. flt_finite l \<and> flt_finite m \<and> flt_finite h"
    using parsed_quantiles_sound [OF raw] by (rule conjunct2)
  show "fst ` set qs = set FEATURE_NAMES"
    unfolding set_map [symmetric] same by (rule keys)
qed

lemma load_bundle_steps:
  assumes "load_bundle lib cd files d = Inr b"
  obtains members md content p e scores qs where
    "bindE (read_file files (d @ [METADATA_FILENAME])) (cd_json_loads cd) = Inr (JObj members)"
    "metadata_from_dict cd members = Inr md" "md_feature_schema_version md = FEATURE_SCHEMA_VERSION"
    "md_feature_names md = FEATURE_NAMES" "md_sklearn_version md = ml_version lib"
    "read_file files (d @ [ARTIFACT_FILENAME]) = Inr content" "file_checksum lib content = md_artifact_checksum md"
    "cd_load cd content = Inr p" "checked_payload p = Inr (e, scores, qs)"
    "b = \<lparr>mb_estimator = e, mb_reference_scores = scores, mb_feature_quantiles = qs, mb_metadata = md\<rparr>"
proof -
  from assms obtain raw where raw: "reraise unreadable_metadata ''MODEL_METADATA_UNREADABLE''
      (bindE (read_file files (d @ [METADATA_FILENAME])) (cd_json_loads cd)) = Inr raw"
    unfolding load_bundle_def by (rule bindE_InrE)
  then obtain members where m: "raw = JObj members"
    using assms unfolding load_bundle_def raw by (cases raw) (simp_all only: bindE_simps json.case sum.distinct)
  show thesis
    using assms unfolding load_bundle_def raw m bindE_simps json.case
  proof (elim bindE_InrE)
    fix md u v content w p x
    assume "metadata_from_dict cd members = Inr md"
      and "raise_if (md_feature_schema_version md \<noteq> FEATURE_SCHEMA_VERSION \<or> md_feature_names md \<noteq> FEATURE_NAMES)
             (ArtifactError ''MODEL_FEATURE_SCHEMA_MISMATCH'') = Inr u"
      and "raise_if (md_sklearn_version md \<noteq> ml_version lib) (ArtifactError ''MODEL_LIBRARY_VERSION_MISMATCH'') = Inr v"
      and "reraise (\<lambda>e. e = OSError) ''MODEL_ARTIFACT_UNREADABLE'' (read_file files (d @ [ARTIFACT_FILENAME])) = Inr content"
      and "raise_if (file_checksum lib content \<noteq> md_artifact_checksum md)
             (ArtifactError ''MODEL_ARTIFACT_CHECKSUM_MISMATCH'') = Inr w"
      and "reraise artifact_error ''MODEL_ARTIFACT_INVALID'' (cd_load cd content) = Inr p"
      and "checked_payload p = Inr x"
      and "(case x of (estimator, scores, quantiles) \<Rightarrow> Inr \<lparr>mb_estimator = estimator, mb_reference_scores = scores,
              mb_feature_quantiles = quantiles, mb_metadata = md\<rparr>) = Inr b"
    then show thesis
      using that [of members md content p] raw m by (cases x) auto
  qed
qed

lemma metadata_from_dict_ok: "metadata_from_dict cd m = Inr md \<Longrightarrow> metadata_ok md"
  by (auto simp: metadata_from_dict_def split: sum.splits if_splits)

lemma loaded_bundle:
  assumes "load_bundle lib cd files d = Inr b"
  shows "sound_bundle lib b" and "\<exists>content. read_file files (d @ [ARTIFACT_FILENAME]) = Inr content
     \<and> file_checksum lib content = md_artifact_checksum (mb_metadata b)"
proof -
  from assms obtain members md content p e scores qs where
    md: "metadata_from_dict cd members = Inr md" "md_feature_schema_version md = FEATURE_SCHEMA_VERSION"
      "md_feature_names md = FEATURE_NAMES" "md_sklearn_version md = ml_version lib"
    and content: "read_file files (d @ [ARTIFACT_FILENAME]) = Inr content"
      "file_checksum lib content = md_artifact_checksum md"
    and p: "checked_payload p = Inr (e, scores, qs)"
    and b: "b = \<lparr>mb_estimator = e, mb_reference_scores = scores, mb_feature_quantiles = qs, mb_metadata = md\<rparr>"
    by (rule load_bundle_steps)
  show "sound_bundle lib b"
    using md metadata_from_dict_ok [OF md(1)] checked_payload_sound [OF p]
    by (simp add: sound_bundle_def scorable_def b)
  show "\<exists>content. read_file files (d @ [ARTIFACT_FILENAME]) = Inr content
     \<and> file_checksum lib content = md_artifact_checksum (mb_metadata b)"
    using content by (simp add: b)
qed

text \<open>C10: A bundle is only ever loaded from a file whose SHA-256 is the one its metadata records, and what is loaded is usable: the feature schema and library version are the running ones, there are at least twenty finite reference scores, and finite quantiles for exactly the features.\<close>

theorem loaded_bundle_is_trusted:
  assumes "load_bundle lib cd files d = Inr b"
  shows "sound_bundle lib b \<and> (\<exists>content. read_file files (d @ [ARTIFACT_FILENAME]) = Inr content
     \<and> file_checksum lib content = md_artifact_checksum (mb_metadata b))"
  using loaded_bundle [OF assms] by blast

text \<open>C11: A tampered artifact is never unpickled: when the file's checksum is not the recorded one, loading fails with an artifact error that does not depend on what \<open>joblib.load\<close> would do.\<close>

theorem unpickled_only_after_checksum:
  assumes "bindE (read_file files (d @ [METADATA_FILENAME])) (cd_json_loads cd) = Inr (JObj members)"
    and "metadata_from_dict cd members = Inr md"
    and "read_file files (d @ [ARTIFACT_FILENAME]) = Inr content"
    and "file_checksum lib content \<noteq> md_artifact_checksum md"
  shows "\<exists>code. \<forall>load. load_bundle lib (cd\<lparr>cd_load := load\<rparr>) files d = Inl (ArtifactError code)"
proof -
  have py: "py_int (cd\<lparr>cd_load := load\<rparr>) v = py_int cd v" "py_float (cd\<lparr>cd_load := load\<rparr>) v = py_float cd v"
    "py_str_tuple (cd\<lparr>cd_load := load\<rparr>) v = py_str_tuple cd v" for load v by (cases v; simp)+
  have md: "metadata_from_dict (cd\<lparr>cd_load := load\<rparr>) members = Inr md" for load
  proof -
    have "int_item (cd\<lparr>cd_load := load\<rparr>) members k = int_item cd members k" for k
      by (simp add: int_item_def py bindE_def split: sum.splits)
    moreover have "str_item (cd\<lparr>cd_load := load\<rparr>) members k = str_item cd members k" for k
      by (simp add: str_item_def)
    moreover have "bindE (item members k) (py_float (cd\<lparr>cd_load := load\<rparr>)) = bindE (item members k) (py_float cd)"
      "bindE (item members k) (py_str_tuple (cd\<lparr>cd_load := load\<rparr>)) = bindE (item members k) (py_str_tuple cd)" for k
      by (simp_all add: py bindE_def split: sum.splits)
    ultimately have "read_metadata (cd\<lparr>cd_load := load\<rparr>) members = read_metadata cd members"
      by (simp add: read_metadata_def)
    with assms(2) show ?thesis by (simp add: metadata_from_dict_def)
  qed
  show ?thesis
  proof (cases "md_feature_schema_version md \<noteq> FEATURE_SCHEMA_VERSION \<or> md_feature_names md \<noteq> FEATURE_NAMES")
    case True
    then show ?thesis using assms md
      by (intro exI [of _ "''MODEL_FEATURE_SCHEMA_MISMATCH''"]) (auto simp: load_bundle_def reraise_def)
  next
    case schema: False
    show ?thesis
    proof (cases "md_sklearn_version md = ml_version lib")
      case True
      then show ?thesis using assms md schema
        by (intro exI [of _ "''MODEL_ARTIFACT_CHECKSUM_MISMATCH''"]) (auto simp: load_bundle_def reraise_def)
    next
      case False
      then show ?thesis using assms md schema
        by (intro exI [of _ "''MODEL_LIBRARY_VERSION_MISMATCH''"]) (auto simp: load_bundle_def reraise_def)
    qed
  qed
qed

section \<open>Saving and loading\<close>

text \<open>What the code relies on: JSON text and joblib files are read back as they were written.\<close>

definition reads_back :: "'e codec \<Rightarrow> model_metadata \<Rightarrow> 'e payload \<Rightarrow> bool" where
  "reads_back cd md p =
     (cd_json_loads cd (cd_json_text cd (metadata_json md)) = Inr (metadata_json md)
      \<and> cd_load cd (cd_dump cd p) = Inr p)"

lemma read_back_metadata:
  "read_metadata cd (case metadata_json md of JObj m \<Rightarrow> m | _ \<Rightarrow> []) = Inr md"
proof -
  have "map (json_str rt \<circ> JStr) names = names" for rt names by (rule map_idI) simp
  then show ?thesis
    by (simp add: read_metadata_def metadata_json_def str_item_def int_item_def item_def lookup_def jstrs_def)
qed

lemma parsed_payload:
  assumes "\<forall>(k, l, m, h) \<in> set qs. flt_finite l \<and> flt_finite m \<and> flt_finite h"
  shows "parsed_quantiles (map (\<lambda>(k, l, m, h). (k, Inr [l, m, h])) qs) = Inr qs"
  using assms by (induction qs) auto

lemma checked_bundle_payload:
  assumes "20 \<le> length (mb_reference_scores b)" and "list_all flt_finite (mb_reference_scores b)"
    and "fst ` set (mb_feature_quantiles b) = set FEATURE_NAMES"
    and "\<forall>(k, l, m, h) \<in> set (mb_feature_quantiles b). flt_finite l \<and> flt_finite m \<and> flt_finite h"
  shows "checked_payload (bundle_payload b)
     = Inr (mb_estimator b, mb_reference_scores b, mb_feature_quantiles b)"
proof -
  have "map fst (map (\<lambda>(k, l, m, h). (k, Inr [l, m, h] :: flt list res)) (mb_feature_quantiles b)) = map fst (mb_feature_quantiles b)"
    by auto
  then have "set (map fst (map (\<lambda>(k, l, m, h). (k, Inr [l, m, h] :: flt list res)) (mb_feature_quantiles b))) = set FEATURE_NAMES"
    using assms(3) by (simp only: list.set_map)
  with assms parsed_payload [OF assms(4)] show ?thesis
    by (simp add: checked_payload_def bundle_payload_def del: map_map set_map)
qed

lemma save_bundle_files:
  assumes "save_bundle lib cd b dir files = Inr (files', d, b')"
  shows "read_file files' (d @ [ARTIFACT_FILENAME]) = Inr (cd_dump cd (bundle_payload b))"
    and "read_file files' (d @ [METADATA_FILENAME]) = Inr (cd_json_text cd (metadata_json (mb_metadata b')))"
    and "mb_metadata b' = (mb_metadata b)\<lparr>md_artifact_checksum := file_checksum lib (cd_dump cd (bundle_payload b))\<rparr>"
    and "b' = b\<lparr>mb_metadata := mb_metadata b'\<rparr>"
    and "d = bundle_directory dir (md_device_id (mb_metadata b)) (md_model_version (mb_metadata b))"
  using assms
  by (auto simp: save_bundle_def Let_def read_file_def write_file_def ARTIFACT_FILENAME_def METADATA_FILENAME_def)

lemma stored_bundle_loads:
  assumes "read_file files (dir @ [METADATA_FILENAME]) = Inr t" and "cd_json_loads cd t = Inr (metadata_json (mb_metadata b))"
    and "read_file files (dir @ [ARTIFACT_FILENAME]) = Inr content"
    and "file_checksum lib content = md_artifact_checksum (mb_metadata b)"
    and "cd_load cd content = Inr (bundle_payload b)" and "sound_bundle lib b"
  shows "load_bundle lib cd files dir = Inr b"
proof -
  obtain m where m: "metadata_json (mb_metadata b) = JObj m" by (simp add: metadata_json_def)
  have "metadata_from_dict cd m = Inr (mb_metadata b)"
    using assms(6) read_back_metadata [of cd "mb_metadata b"] by (simp add: m metadata_from_dict_def sound_bundle_def)
  moreover have "checked_payload (bundle_payload b) = Inr (mb_estimator b, mb_reference_scores b, mb_feature_quantiles b)"
    using assms(6) by (intro checked_bundle_payload) (simp_all add: sound_bundle_def)
  ultimately show ?thesis
    using assms m by (simp add: load_bundle_def sound_bundle_def scorable_def)
qed

lemma saved_bundle_loads:
  assumes "reads_back cd (mb_metadata b') (bundle_payload b)"
    and "save_bundle lib cd b dir files = Inr (files', d, b')" and "sound_bundle lib b'"
  shows "load_bundle lib cd files' d = Inr b'"
proof -
  note saved = save_bundle_files [OF assms(2)]
  have "bundle_payload b' = bundle_payload b" by (subst saved(4)) (simp add: bundle_payload_def)
  with assms(1,3) saved(1-3) show ?thesis
    by (intro stored_bundle_loads) (auto simp: reads_back_def)
qed

text \<open>Saving then loading gives back the same bundle, with the checksum recorded: nothing of the estimator, the reference scores, the quantiles or the metadata is lost or reordered.\<close>

theorem artifact_roundtrip:
  assumes "reads_back cd (mb_metadata b') (bundle_payload b)"
    and "save_bundle lib cd b dir files = Inr (files', d, b')" and "sound_bundle lib b'"
  shows "load_bundle lib cd files' d = Inr b'"
  using assms by (rule saved_bundle_loads)

lemma trained_bundle_shape:
  assumes "train_model lib samples did ac start end' minimum c rseed now = Inr b"
  shows "map fst (mb_feature_quantiles b) = FEATURE_NAMES" and "contamination_ok (md_contamination (mb_metadata b))"
    and "starts_with ''iforest-v1-'' (md_model_version (mb_metadata b))"
    and "\<exists>scores m. ml_score_samples lib (mb_estimator b) m = Inr scores \<and> mb_reference_scores b = map flt_neg scores
      \<and> int (length m) = md_validation_sample_count (mb_metadata b)"
proof -
  have names: "feature_quantiles lib m i ns = Inr q \<Longrightarrow> map fst q = ns" for m i ns q
    by (induction ns arbitrary: i q) (auto split: list.splits)
  show "map fst (mb_feature_quantiles b) = FEATURE_NAMES" "contamination_ok (md_contamination (mb_metadata b))"
    "starts_with ''iforest-v1-'' (md_model_version (mb_metadata b))"
    using assms by (auto simp: train_model_def Let_def dest!: names model_version_aware)
  from assms obtain scores rows where "ml_score_samples lib (mb_estimator b) (feature_matrix rows) = Inr scores"
    "mb_reference_scores b = map flt_neg scores"
    "int (length (feature_matrix rows)) = md_validation_sample_count (mb_metadata b)"
    by (auto simp: train_model_def Let_def)
  then show "\<exists>scores m. ml_score_samples lib (mb_estimator b) m = Inr scores \<and> mb_reference_scores b = map flt_neg scores
      \<and> int (length m) = md_validation_sample_count (mb_metadata b)" by blast
qed

text \<open>C12: What training produces can be used: when the library's scores and quantiles are finite and its files read back, a trained model, once saved, is loaded as it was saved and can score.\<close>

theorem trained_model_is_loadable:
  assumes "train_model lib samples did ac start end' minimum c rseed now = Inr b" and "2 \<le> minimum" and "did \<noteq> []"
    and "\<And>e m s. ml_score_samples lib e m = Inr s \<Longrightarrow> length s = length m \<and> list_all flt_finite s"
    and "\<forall>(k, l, m, h) \<in> set (mb_feature_quantiles b). flt_finite l \<and> flt_finite m \<and> flt_finite h"
    and "save_bundle lib cd b dir files = Inr (files', d, b')"
    and "reads_back cd (mb_metadata b') (bundle_payload b)"
  shows "load_bundle lib cd files' d = Inr b' \<and> scorable b'"
proof -
  note shape = trained_bundle_shape [OF assms(1)] and saved = save_bundle_files [OF assms(6)]
  obtain rows :: "feature_row list" and split where gates: "split + max 20 (minimum div 10) \<le> int (length rows)" "minimum * 3 div 4 \<le> split"
    "md_training_sample_count (mb_metadata b) = int (length (take (nat split) rows))"
    "md_validation_sample_count (mb_metadata b) = int (length (drop (nat split) rows))"
    "md_feature_names (mb_metadata b) = FEATURE_NAMES"
    "md_feature_schema_version (mb_metadata b) = FEATURE_SCHEMA_VERSION"
    "md_sklearn_version (mb_metadata b) = ml_version lib" "md_device_id (mb_metadata b) = did"
    using trained_gates [OF assms(1)] by blast
  from gates(1,2) assms(2) have counts: "1 \<le> split" "nat split \<le> length rows" "20 \<le> int (length rows) - split"
    by linarith+
  have ver: "md_model_version (mb_metadata b) \<noteq> []" using shape(3) by (auto simp: starts_with_def)
  have md: "metadata_ok (mb_metadata b')"
    using counts gates ver shape(2) assms(3) by (simp add: metadata_ok_def saved(3) file_checksum_def min_absorb2 starts_with_def)
  obtain scores m where sc: "ml_score_samples lib (mb_estimator b) m = Inr scores"
    "mb_reference_scores b = map flt_neg scores" "int (length m) = md_validation_sample_count (mb_metadata b)"
    using shape(4) by blast
  have "flt_finite (flt_neg x)" if "flt_finite x" for x using that by (cases x) auto
  with assms(4) [OF sc(1)] sc counts gates(4) have "20 \<le> length (mb_reference_scores b)"
    "list_all flt_finite (mb_reference_scores b)" by (auto simp: list_all_iff)
  moreover have b': "mb_reference_scores b' = mb_reference_scores b" "mb_feature_quantiles b' = mb_feature_quantiles b"
    "md_feature_names (mb_metadata b') = md_feature_names (mb_metadata b)"
    "md_feature_schema_version (mb_metadata b') = md_feature_schema_version (mb_metadata b)"
    "md_sklearn_version (mb_metadata b') = md_sklearn_version (mb_metadata b)"
    using saved(3,4) by (metis model_bundle.select_convs(2,3) model_bundle.surjective model_bundle.update_convs(4), 
      metis model_bundle.select_convs(2,3) model_bundle.surjective model_bundle.update_convs(4), simp_all)
  moreover have "fst ` set (mb_feature_quantiles b) = set FEATURE_NAMES"
    using arg_cong [OF shape(1), of set] by simp
  ultimately have "sound_bundle lib b'"
    using gates md assms(5) by (simp add: sound_bundle_def scorable_def)
  with saved_bundle_loads [OF assms(7,6)] show ?thesis by (simp add: sound_bundle_def)
qed

text \<open>A model is stale exactly when more than the allowed number of days lies between its creation time and now.\<close>

theorem staleness:
  assumes "parse_utc cd (md_created_at md) = Inr created"
  shows "model_is_stale cd md now k = Inr (created + days k < now)"
  using assms by (auto simp: model_is_stale_def)

section \<open>Examples\<close>

text \<open>A file system whose artifacts hold one bundle.\<close>

definition ready_bundle :: "unit model_bundle" where
  "ready_bundle = flat_bundle\<lparr>mb_reference_scores := replicate 20 (Fin 0),
     mb_metadata := (mb_metadata flat_bundle)\<lparr>md_contamination := Fin (1/64),
        md_artifact_checksum := ''sha256:0123456789abcdef''\<rparr>\<rparr>"

definition flat_runtime :: runtime where
  "flat_runtime = \<lparr>rt_postgres = False, rt_float_repr = (\<lambda>_. ''0.0''), rt_datetime_json = (\<lambda>_. ''''),
     rt_container_str = (\<lambda>_. '''')\<rparr>"

definition holding :: "'e model_bundle \<Rightarrow> 'e codec" where
  "holding b = \<lparr>cd_runtime = flat_runtime, cd_json_text = (\<lambda>_. ''metadata''),
     cd_json_loads = (\<lambda>s. Inr (metadata_json (mb_metadata b))),
     cd_int_of_str = (\<lambda>_. None), cd_float_of_str = (\<lambda>_. None), cd_dump = (\<lambda>_. ''payload''),
     cd_load = (\<lambda>_. Inr (bundle_payload b)), cd_fromisoformat = (\<lambda>_. Inr (Aware 0)), cd_local_to_utc = (\<lambda>t. t)\<rparr>"

definition no_files :: fs where "no_files = (\<lambda>_. None)"

lemma ready_sound: "sound_bundle flat_ml ready_bundle"
  using a_64th_ok
  by (simp add: sound_bundle_def scorable_def ready_bundle_def flat_bundle_def metadata_ok_def starts_with_def
      flat_ml_def image_image list_all_iff)

lemma ready_saved:
  "\<exists>files d. save_bundle flat_ml (holding ready_bundle) ready_bundle [''models''] no_files = Inr (files, d, ready_bundle)"
proof -
  have "ready_bundle\<lparr>mb_metadata := (mb_metadata ready_bundle)\<lparr>md_artifact_checksum := ''sha256:0123456789abcdef''\<rparr>\<rparr>
      = ready_bundle" by (simp add: ready_bundle_def)
  moreover have "\<exists>fs. mkdir_parents p no_files = Inr fs" for p
    by (simp add: mkdir_parents_def no_files_def is_file_def list_ex_iff)
  moreover have "file_checksum flat_ml c = ''sha256:0123456789abcdef''" for c
    by (simp add: file_checksum_def flat_ml_def)
  ultimately show ?thesis by (simp add: save_bundle_def Let_def)
qed

lemma holding_reads_back: "reads_back (holding b) (mb_metadata b) (bundle_payload b)"
  by (simp add: reads_back_def holding_def)

theorem artifact_roundtrip_witness:
  "\<exists>files d. load_bundle flat_ml (holding ready_bundle) files d = Inr ready_bundle"
proof -
  obtain files d where "save_bundle flat_ml (holding ready_bundle) ready_bundle [''models''] no_files = Inr (files, d, ready_bundle)"
    using ready_saved by blast
  from artifact_roundtrip [OF holding_reads_back this ready_sound] show ?thesis by blast
qed

theorem loaded_bundle_is_trusted_witness:
  "\<exists>files d. load_bundle flat_ml (holding ready_bundle) files d = Inr ready_bundle \<and> sound_bundle flat_ml ready_bundle"
proof -
  obtain files d where "save_bundle flat_ml (holding ready_bundle) ready_bundle [''models''] no_files = Inr (files, d, ready_bundle)"
    using ready_saved by blast
  from saved_bundle_loads [OF holding_reads_back this ready_sound]
  have "load_bundle flat_ml (holding ready_bundle) files d = Inr ready_bundle" .
  with loaded_bundle_is_trusted [OF this] show ?thesis by blast
qed

theorem unpickled_only_after_checksum_witness:
  "\<exists>code. \<forall>load. load_bundle (flat_ml\<lparr>ml_sha256 := (\<lambda>_. ''bad'')\<rparr>) ((holding ready_bundle)\<lparr>cd_load := load\<rparr>)
     (no_files([METADATA_FILENAME] \<mapsto> File ''m'', [ARTIFACT_FILENAME] \<mapsto> File ''a'')) [] = Inl (ArtifactError code)"
proof -
  let ?fs = "no_files([METADATA_FILENAME] \<mapsto> File ''m'', [ARTIFACT_FILENAME] \<mapsto> File ''a'')"
  obtain m where m: "metadata_json (mb_metadata ready_bundle) = JObj m" by (simp add: metadata_json_def)
  have "metadata_from_dict (holding ready_bundle) m = Inr (mb_metadata ready_bundle)"
    using read_back_metadata [of "holding ready_bundle" "mb_metadata ready_bundle"] ready_sound
    by (simp add: m metadata_from_dict_def sound_bundle_def)
  moreover have "bindE (read_file ?fs ([] @ [METADATA_FILENAME])) (cd_json_loads (holding ready_bundle)) = Inr (JObj m)"
    by (simp add: read_file_def holding_def m METADATA_FILENAME_def ARTIFACT_FILENAME_def)
  moreover have "read_file ?fs ([] @ [ARTIFACT_FILENAME]) = Inr ''a''" by (simp add: read_file_def)
  moreover have "file_checksum (flat_ml\<lparr>ml_sha256 := (\<lambda>_. ''bad'')\<rparr>) ''a'' \<noteq> md_artifact_checksum (mb_metadata ready_bundle)"
    by (simp add: file_checksum_def ready_bundle_def)
  ultimately show ?thesis using unpickled_only_after_checksum by blast
qed

theorem trained_model_is_loadable_witness:
  "\<exists>b files d b'. save_bundle flat_ml (holding b') b [''models''] no_files = Inr (files, d, b')
     \<and> load_bundle flat_ml (holding b') files d = Inr b' \<and> scorable b'"
proof -
  obtain b where b: "train_model flat_ml (resting 141) ''motor-01'' ''dc-motor'' (Aware 0) (Aware 10000000000) 136
      (Fin (1/64)) 7 (Aware 0) = Inr b" using resting_trained by blast
  define b' where "b' = b\<lparr>mb_metadata := (mb_metadata b)\<lparr>md_artifact_checksum := file_checksum flat_ml ''payload''\<rparr>\<rparr>"
  have "\<exists>fs. mkdir_parents p no_files = Inr fs" for p
    by (simp add: mkdir_parents_def no_files_def is_file_def list_ex_iff)
  then obtain files d where saved: "save_bundle flat_ml (holding b') b [''models''] no_files = Inr (files, d, b')"
    by (simp add: save_bundle_def Let_def b'_def holding_def) metis
  have finite: "length s = length m \<and> list_all flt_finite s" if "ml_score_samples flat_ml e m = Inr s" for e m s
    using that by (auto simp: flat_ml_def list_all_iff)
  have flat: "ml_quantile flat_ml x y = [Fin 0, Fin 0, Fin 0]" for x y by (simp add: flat_ml_def)
  have finite_q: "feature_quantiles flat_ml mm i ns = Inr q \<Longrightarrow>
      \<forall>(k, l, m, h) \<in> set q. flt_finite l \<and> flt_finite m \<and> flt_finite h" for mm i ns q
    by (induction ns arbitrary: i q) (fastforce simp: flat)+
  obtain mm where "feature_quantiles flat_ml mm 0 FEATURE_NAMES = Inr (mb_feature_quantiles b)"
    using b by (auto simp: train_model_def Let_def)
  note quant = finite_q [OF this]
  have "bundle_payload b' = bundle_payload b" by (simp add: b'_def bundle_payload_def)
  then have "reads_back (holding b') (mb_metadata b') (bundle_payload b)"
    using holding_reads_back [of b'] by simp
  from trained_model_is_loadable [OF b _ _ finite quant saved this] saved show ?thesis by auto
qed

theorem staleness_witness:
  "model_is_stale (holding ready_bundle) (mb_metadata ready_bundle) (days 31) 30 = Inr True"
  using staleness [of "holding ready_bundle" "mb_metadata ready_bundle" 0 "days 31" 30]
  by (simp add: parse_utc_def holding_def days_def seconds_def)

end
