(* ===== verification/SensorRules.thy ===== *)
theory SensorRules
  imports Features Formats
begin

text \<open>
  The authoritative sensor-failure rules, \<open>services/anomaly_worker/sensor_rules.py\<close>.
  \<open>detect_sensor_failures\<close> is the whole function, one definition per group of its rules;
  \<open>statistics.pstdev\<close> is modelled as the library computes it: the exact rational variance,
  and its square root rounded once, from an integer square root rounded to odd.
\<close>

section \<open>Standard deviation\<close>

text \<open>\<open>math.isqrt\<close>.\<close>

function isqrt :: "nat \<Rightarrow> nat" where
  "isqrt n = (if n = 0 then 0 else let r = 2 * isqrt (n div 4) in if (r + 1) * (r + 1) \<le> n then r + 1 else r)"
  by pat_completeness auto
termination by (relation "measure id") auto

declare isqrt.simps [simp del]

text \<open>\<open>statistics._integer_sqrt_of_frac_rto\<close> and \<open>_float_sqrt_of_frac\<close>.\<close>

definition sqrt_round_to_odd :: "int \<Rightarrow> int \<Rightarrow> int" where
  "sqrt_round_to_odd n m =
     (let a = int (isqrt (nat (n div m))) in if even a \<and> a * a * m \<noteq> n then a + 1 else a)"

definition float_sqrt_of_frac :: "int \<Rightarrow> int \<Rightarrow> flt" where
  "float_sqrt_of_frac n m =
     (let q = (bitlen n - bitlen m - 109) div 2
      in if 0 \<le> q then of_exact (of_int (sqrt_round_to_odd n (m * 2 ^ nat (2 * q)) * 2 ^ nat q))
         else of_exact (of_int (sqrt_round_to_odd (n * 2 ^ nat (- (2 * q))) m) / of_int (2 ^ nat (- q))))"

fun fin_value :: "flt \<Rightarrow> rat option" where
  "fin_value (Fin x) = Some x"
| "fin_value _ = None"

definition population_variance :: "rat list \<Rightarrow> rat" where
  "population_variance xs =
     (let n = of_nat (length xs); sx = sum_list xs; sxx = sum_list (map (\<lambda>x. x * x) xs)
      in (n * sxx - sx * sx) / n / n)"

text \<open>Infinities and NaN have no exact ratio: the sum is a float, which has no numerator.\<close>

definition pstdev :: "flt list \<Rightarrow> flt res" where
  "pstdev values =
     (if list_all flt_finite values
      then let (n, m) = quotient_of (population_variance (map (\<lambda>v. the (fin_value v)) values))
           in Inr (float_sqrt_of_frac n m)
      else Inl (OtherException ''AttributeError''))"

section \<open>The rules\<close>

record sensor_diagnostic =
  sd_code :: string
  sd_metric :: string
  sd_reason :: string

definition diagnostic :: "string \<Rightarrow> string \<Rightarrow> string \<Rightarrow> sensor_diagnostic" where
  "diagnostic code metric reason = \<lparr>sd_code = code, sd_metric = metric, sd_reason = reason\<rparr>"

definition elapsed :: "telemetry_sample \<Rightarrow> telemetry_sample \<Rightarrow> flt" where
  "elapsed a b = total_seconds (ts_timestamp b - ts_timestamp a)"

text \<open>The sample before the last one, \<open>ordered[-2]\<close>.\<close>

definition previous_sample :: "telemetry_sample list \<Rightarrow> telemetry_sample option" where
  "previous_sample ordered = (if 2 \<le> length ordered then Some (last (butlast ordered)) else None)"

definition gap_rule :: "flt \<Rightarrow> telemetry_sample list \<Rightarrow> sensor_diagnostic list" where
  "gap_rule maximum_gap_s ordered =
     (case previous_sample ordered of
        None \<Rightarrow> []
      | Some previous \<Rightarrow>
          let gap_s = elapsed previous (last ordered) in
          if flt_less maximum_gap_s gap_s
          then [diagnostic ''SAMPLES_MISSING'' ''all''
                  (''sample gap is '' @ fmt_f 1 gap_s @ '' s, above the '' @ fmt_f 1 maximum_gap_s @ '' s limit'')]
          else [])"

definition bounds_table :: "telemetry_sample \<Rightarrow> (string \<times> flt option \<times> flt \<times> flt \<times> string) list" where
  "bounds_table s =
     [(''temperature'', ts_temperature_c s, lit (- 80), lit 200, [CHR 0xB0, CHR ''C'']),
      (''current'', ts_current_a s, lit (- 1/10), lit 10, ''A''),
      (''vibration_rms'', ts_vibration_rms_mps2 s, lit 0, lit 2000, ''m/s'' @ [CHR 0xB2]),
      (''vibration_peak'', ts_vibration_peak_mps2 s, lit 0, lit 4000, ''m/s'' @ [CHR 0xB2]),
      (''crest_factor'', ts_vibration_crest_factor s, lit 0, lit 100, ''ratio'')]"

fun range_rule :: "string \<times> flt option \<times> flt \<times> flt \<times> string \<Rightarrow> sensor_diagnostic list" where
  "range_rule (metric, None, minimum, maximum, unit) =
     [diagnostic ''SENSOR_MISSING'' metric (metric @ '' sample is missing'')]"
| "range_rule (metric, Some v, minimum, maximum, unit) =
     (if flt_less v minimum \<or> flt_less maximum v
      then [diagnostic ''SENSOR_IMPOSSIBLE_RANGE'' metric
              (metric @ '' is '' @ fmt_g 3 v @ '' '' @ unit @ '', outside ['' @ fmt_g 6 minimum @ '', ''
               @ fmt_g 6 maximum @ '']'')]
      else [])"

definition relation_rule :: "telemetry_sample \<Rightarrow> sensor_diagnostic list" where
  "relation_rule s =
     (case (ts_vibration_peak_mps2 s, ts_vibration_rms_mps2 s) of
        (Some peak, Some rms) \<Rightarrow>
          if flt_less (flt_add peak (lit (1/10^9))) rms
          then [diagnostic ''SENSOR_RELATION_INVALID'' ''vibration''
                  ''vibration peak is below vibration RMS for the same aggregation window'']
          else []
      | _ \<Rightarrow> [])"

text \<open>A metric's \<open>(values, stuck tolerance, noise limit)\<close> over the recent samples.\<close>

definition sequences :: "telemetry_sample list \<Rightarrow> (string \<times> flt option list \<times> flt \<times> flt) list" where
  "sequences recent =
     [(''temperature'', map ts_temperature_c recent, lit (1/1000), lit 5),
      (''current'', map ts_current_a recent, lit (1/10000), lit (8/10)),
      (''vibration_rms'', map ts_vibration_rms_mps2 recent, lit (1/10000), lit 12)]"

definition max_of :: "flt list \<Rightarrow> flt" where
  "max_of xs = foldl flt_max (hd xs) (tl xs)"

definition min_of :: "flt list \<Rightarrow> flt" where
  "min_of xs = foldl flt_min (hd xs) (tl xs)"

fun variation_rule :: "string \<times> flt option list \<times> flt \<times> flt \<Rightarrow> sensor_diagnostic list res" where
  "variation_rule (metric, nullable_values, tolerance, noise_limit) =
     (if None \<in> set nullable_values then Inr []
      else let values = map the nullable_values in
        if flt_le (flt_sub (max_of values) (min_of values)) tolerance
        then Inr [diagnostic ''SENSOR_STUCK'' metric
                    (metric @ '' changed by no more than '' @ fmt_g 6 tolerance @ '' across ''
                     @ str_of_int (int (length values)) @ '' samples'')]
        else bindE (pstdev values) (\<lambda>deviation.
          Inr (if flt_less noise_limit deviation
               then [diagnostic ''SENSOR_EXCESSIVE_NOISE'' metric
                       (metric @ '' standard deviation is '' @ fmt_g 3 deviation @ '', above ''
                        @ fmt_g 6 noise_limit)]
               else [])))"

fun collect :: "('a \<Rightarrow> 'b list res) \<Rightarrow> 'a list \<Rightarrow> 'b list res" where
  "collect f [] = Inr []"
| "collect f (x # xs) = bindE (f x) (\<lambda>ys. bindE (collect f xs) (\<lambda>zs. Inr (ys @ zs)))"

definition variation_rules :: "telemetry_sample list \<Rightarrow> sensor_diagnostic list res" where
  "variation_rules ordered =
     (let recent = drop (length ordered - 12) ordered
      in if 8 \<le> length recent then collect variation_rule (sequences recent) else Inr [])"

definition rates :: "telemetry_sample \<Rightarrow> telemetry_sample \<Rightarrow> (string \<times> flt option \<times> flt option \<times> flt \<times> string) list" where
  "rates previous current =
     [(''temperature'', ts_temperature_c previous, ts_temperature_c current, lit 10, [CHR 0xB0] @ ''C/s''),
      (''current'', ts_current_a previous, ts_current_a current, lit 3, ''A/s''),
      (''vibration_rms'', ts_vibration_rms_mps2 previous, ts_vibration_rms_mps2 current, lit 100,
       ''m/s'' @ [CHR 0xB2] @ ''/s'')]"

fun rate_rule :: "flt \<Rightarrow> string \<times> flt option \<times> flt option \<times> flt \<times> string \<Rightarrow> sensor_diagnostic list res" where
  "rate_rule elapsed_s (metric, Some before, Some after, limit, unit) =
     bindE (flt_div (flt_abs (flt_sub after before)) elapsed_s) (\<lambda>rate.
     Inr (if flt_less limit rate
          then [diagnostic ''SENSOR_RATE_INVALID'' metric
                  (metric @ '' rate is '' @ fmt_g 3 rate @ '' '' @ unit @ '', above '' @ fmt_g 6 limit)]
          else []))"
| "rate_rule elapsed_s _ = Inr []"

definition rate_rules :: "telemetry_sample list \<Rightarrow> sensor_diagnostic list res" where
  "rate_rules ordered =
     (case previous_sample ordered of
        None \<Rightarrow> Inr []
      | Some previous \<Rightarrow>
          let elapsed_s = flt_max (elapsed previous (last ordered)) (lit (1/10^6))
          in collect (rate_rule elapsed_s) (rates previous (last ordered)))"

definition sd_key :: "sensor_diagnostic \<Rightarrow> string \<times> string" where
  "sd_key d = (sd_code d, sd_metric d)"

text \<open>\<open>unique.setdefault((item.code, item.metric), item)\<close> in order.\<close>

definition keep_first :: "sensor_diagnostic \<Rightarrow> sensor_diagnostic list \<Rightarrow> sensor_diagnostic list" where
  "keep_first d ds = (if sd_key d \<in> set (map sd_key ds) then ds else ds @ [d])"

definition unique_diagnostics :: "sensor_diagnostic list \<Rightarrow> sensor_diagnostic list" where
  "unique_diagnostics ds = fold keep_first ds []"

definition detect_sensor_failures :: "flt \<Rightarrow> telemetry_sample list \<Rightarrow> sensor_diagnostic list res" where
  "detect_sensor_failures maximum_gap_s history =
     (if history = []
      then Inr [diagnostic ''SAMPLES_MISSING'' ''all'' ''no telemetry samples are available'']
      else let ordered = ordered_samples history; current = last ordered in
        bindE (variation_rules ordered) (\<lambda>variations.
        bindE (rate_rules ordered) (\<lambda>rate_failures.
        Inr (unique_diagnostics
               (gap_rule maximum_gap_s ordered @ concat (map range_rule (bounds_table current))
                @ relation_rule current @ variations @ rate_failures)))))"

section \<open>Lists of findings\<close>

lemma keep_first_keys: "set (map sd_key (keep_first d ds)) = insert (sd_key d) (set (map sd_key ds))"
  by (auto simp: keep_first_def)

lemma fold_keep_first_keys:
  "set (map sd_key (fold keep_first ds acc)) = sd_key ` set ds \<union> set (map sd_key acc)"
  by (induction ds arbitrary: acc) (simp_all add: keep_first_keys del: set_map)

lemma unique_diagnostics_keys: "set (map sd_key (unique_diagnostics ds)) = sd_key ` set ds"
  unfolding unique_diagnostics_def fold_keep_first_keys by simp

lemma distinct_keep_first:
  "distinct (map sd_key acc) \<Longrightarrow> distinct (map sd_key (fold keep_first ds acc))"
  by (induction ds arbitrary: acc) (auto simp: keep_first_def)

lemma distinct_unique_diagnostics: "distinct (map sd_key (unique_diagnostics ds))"
  by (simp add: unique_diagnostics_def distinct_keep_first)

lemma subset_keep_first: "set (fold keep_first ds acc) \<subseteq> set ds \<union> set acc"
  by (induction ds arbitrary: acc) (fastforce simp: keep_first_def split: if_splits)+

lemma collect_codes:
  assumes "collect f xs = Inr ys" and "\<And>x zs. f x = Inr zs \<Longrightarrow> \<forall>z \<in> set zs. P z"
  shows "\<forall>y \<in> set ys. P y"
  using assms(1)
proof (induction xs arbitrary: ys)
  case (Cons x xs)
  then obtain us vs where "f x = Inr us" "collect f xs = Inr vs" "ys = us @ vs"
    by (auto)
  with Cons.IH assms(2) show ?case by auto
qed simp

lemma collect_total: "(\<And>x. x \<in> set xs \<Longrightarrow> \<exists>ys. f x = Inr ys) \<Longrightarrow> \<exists>ys. collect f xs = Inr ys"
proof (induction xs)
  case (Cons x xs)
  then obtain ys zs where "f x = Inr ys" "collect f xs = Inr zs" by (metis list.set_intros)
  then show ?case by simp
qed simp

section \<open>Which rule reports what\<close>

lemma variation_codes:
  assumes "variation_rules ordered = Inr ds" and "d \<in> set ds"
  shows "sd_code d \<in> {''SENSOR_STUCK'', ''SENSOR_EXCESSIVE_NOISE''}"
proof -
  have one: "\<forall>z \<in> set zs. sd_code z \<in> {''SENSOR_STUCK'', ''SENSOR_EXCESSIVE_NOISE''}"
    if "variation_rule x = Inr zs" for x zs
    using that by (cases x rule: variation_rule.cases)
      (auto simp: Let_def diagnostic_def split: if_splits)
  have all: "\<forall>y \<in> set ys. sd_code y \<in> {''SENSOR_STUCK'', ''SENSOR_EXCESSIVE_NOISE''}"
    if "collect variation_rule xs = Inr ys" for xs ys
    using that one by (rule collect_codes)
  show ?thesis
    using assms by (auto simp: variation_rules_def Let_def dest: all split: if_splits)
qed

lemma rate_codes:
  assumes "rate_rules ordered = Inr ds" and "d \<in> set ds"
  shows "sd_code d = ''SENSOR_RATE_INVALID''"
proof -
  have one: "\<forall>z \<in> set zs. sd_code z = ''SENSOR_RATE_INVALID''" if "rate_rule e x = Inr zs" for e x zs
    using that by (cases "(e, x)" rule: rate_rule.cases)
      (auto simp: diagnostic_def split: if_splits)
  have all: "\<forall>y \<in> set ys. sd_code y = ''SENSOR_RATE_INVALID''"
    if "collect (rate_rule e) xs = Inr ys" for e xs ys
    using that one by (rule collect_codes)
  show ?thesis
    using assms by (auto simp: rate_rules_def Let_def dest: all split: option.splits)
qed

lemma rate_rules_total: "\<exists>ds. rate_rules ordered = Inr ds"
proof -
  have one: "\<exists>ys. rate_rule e x = Inr ys" if "e \<noteq> Fin 0" for e x
    using flt_div_total [OF that] by (cases "(e, x)" rule: rate_rule.cases) fastforce+
  show ?thesis
  proof (cases "previous_sample ordered")
    case (Some p)
    have "\<exists>ds. collect (rate_rule (flt_max (elapsed p (last ordered)) (lit (1/10^6)))) (rates p (last ordered)) = Inr ds"
      by (intro collect_total one flt_max_microsecond)
    with Some show ?thesis by (simp add: rate_rules_def Let_def)
  qed (simp add: rate_rules_def)
qed

section \<open>What the rules promise\<close>

text \<open>The keys of the reported diagnostics are those of all rules together.\<close>

lemma detect_keys:
  assumes "detect_sensor_failures gap h = Inr ds" and "h \<noteq> []"
  obtains vs rs where "variation_rules (ordered_samples h) = Inr vs" "rate_rules (ordered_samples h) = Inr rs"
    "ds = unique_diagnostics (gap_rule gap (ordered_samples h)
            @ concat (map range_rule (bounds_table (last (ordered_samples h))))
            @ relation_rule (last (ordered_samples h)) @ vs @ rs)"
  using assms by (auto simp: detect_sensor_failures_def Let_def)

lemma gap_codes: "d \<in> set (gap_rule gap ordered) \<Longrightarrow> sd_code d = ''SAMPLES_MISSING''"
  by (auto simp: gap_rule_def diagnostic_def Let_def split: option.splits if_splits)

lemma relation_codes: "d \<in> set (relation_rule s) \<Longrightarrow> sd_code d = ''SENSOR_RELATION_INVALID''"
  by (auto simp: relation_rule_def diagnostic_def split: option.splits if_splits)

lemma range_rule_key:
  "d \<in> set (range_rule (metric, v, lo, hi, unit)) \<longleftrightarrow>
     (v = None \<and> d = diagnostic ''SENSOR_MISSING'' metric (metric @ '' sample is missing''))
     \<or> (\<exists>x. v = Some x \<and> (flt_less x lo \<or> flt_less hi x)
          \<and> d = diagnostic ''SENSOR_IMPOSSIBLE_RANGE'' metric
              (metric @ '' is '' @ fmt_g 3 x @ '' '' @ unit @ '', outside ['' @ fmt_g 6 lo @ '', ''
               @ fmt_g 6 hi @ '']''))"
  by (cases v) auto

lemma bounds_table_metrics: "distinct (map fst (bounds_table s))"
  by (simp add: bounds_table_def)

lemma bounds_table_unique:
  "(m, x) \<in> set (bounds_table s) \<Longrightarrow> (m, y) \<in> set (bounds_table s) \<Longrightarrow> x = y"
  using eq_key_imp_eq_value [OF bounds_table_metrics] .

lemma sd_key_image: "(c, m) \<in> sd_key ` S \<longleftrightarrow> (\<exists>d \<in> S. sd_code d = c \<and> sd_metric d = m)"
  by (auto simp: sd_key_def image_iff)

lemma range_rule_keys:
  assumes "(metric, v, lo, hi, unit) \<in> set (bounds_table s)"
  shows "(''SENSOR_MISSING'', metric) \<in> sd_key ` set (concat (map range_rule (bounds_table s))) \<longleftrightarrow> v = None"
    and "(''SENSOR_IMPOSSIBLE_RANGE'', metric) \<in> sd_key ` set (concat (map range_rule (bounds_table s)))
      \<longleftrightarrow> (\<exists>x. v = Some x \<and> (flt_less x lo \<or> flt_less hi x))"
proof -
  have hit: "d \<in> set (range_rule (metric, v, lo, hi, unit))"
    if "d \<in> set (concat (map range_rule (bounds_table s)))" "sd_metric d = metric" for d
  proof -
    from that(1) obtain m v' lo' hi' u' where r: "(m, v', lo', hi', u') \<in> set (bounds_table s)"
      and d: "d \<in> set (range_rule (m, v', lo', hi', u'))" by auto
    from d that(2) have "m = metric" by (auto simp: range_rule_key diagnostic_def)
    with r bounds_table_unique [OF assms] d show ?thesis by metis
  qed
  have here: "d \<in> set (concat (map range_rule (bounds_table s)))"
    if "d \<in> set (range_rule (metric, v, lo, hi, unit))" for d
    using that assms by auto
  show "(''SENSOR_MISSING'', metric) \<in> sd_key ` set (concat (map range_rule (bounds_table s))) \<longleftrightarrow> v = None"
  proof
    assume "(''SENSOR_MISSING'', metric) \<in> sd_key ` set (concat (map range_rule (bounds_table s)))"
    then obtain d where "d \<in> set (concat (map range_rule (bounds_table s)))" "sd_code d = ''SENSOR_MISSING''"
      "sd_metric d = metric" unfolding sd_key_image by blast
    with hit [of d] show "v = None" by (auto simp: range_rule_key diagnostic_def)
  next
    assume "v = None"
    with here [of "diagnostic ''SENSOR_MISSING'' metric (metric @ '' sample is missing'')"]
    show "(''SENSOR_MISSING'', metric) \<in> sd_key ` set (concat (map range_rule (bounds_table s)))"
      by (intro image_eqI) (simp_all add: sd_key_def diagnostic_def)
  qed
  show "(''SENSOR_IMPOSSIBLE_RANGE'', metric) \<in> sd_key ` set (concat (map range_rule (bounds_table s)))
      \<longleftrightarrow> (\<exists>x. v = Some x \<and> (flt_less x lo \<or> flt_less hi x))"
  proof
    assume "(''SENSOR_IMPOSSIBLE_RANGE'', metric) \<in> sd_key ` set (concat (map range_rule (bounds_table s)))"
    then obtain d where "d \<in> set (concat (map range_rule (bounds_table s)))"
      "sd_code d = ''SENSOR_IMPOSSIBLE_RANGE''" "sd_metric d = metric" unfolding sd_key_image by blast
    with hit [of d] show "\<exists>x. v = Some x \<and> (flt_less x lo \<or> flt_less hi x)"
      by (auto simp: range_rule_key diagnostic_def)
  next
    assume "\<exists>x. v = Some x \<and> (flt_less x lo \<or> flt_less hi x)"
    then obtain d where "d \<in> set (range_rule (metric, v, lo, hi, unit))"
      "sd_key d = (''SENSOR_IMPOSSIBLE_RANGE'', metric)"
      by (auto simp: diagnostic_def sd_key_def)
    with here show "(''SENSOR_IMPOSSIBLE_RANGE'', metric)
        \<in> sd_key ` set (concat (map range_rule (bounds_table s)))" by (metis image_eqI)
  qed
qed

text \<open>The diagnostics of a history are unique by code and metric, and its latest sample is reported missing on exactly the metrics it lacks and impossible on exactly the metrics outside their physical bounds; nothing older can add or hide these.\<close>

theorem latest_sample_is_checked:
  assumes "detect_sensor_failures gap h = Inr ds" and "h \<noteq> []"
    and "(metric, v, lo, hi, unit) \<in> set (bounds_table (last (ordered_samples h)))"
  shows "distinct (map sd_key ds)
    \<and> ((''SENSOR_MISSING'', metric) \<in> set (map sd_key ds) \<longleftrightarrow> v = None)
    \<and> ((''SENSOR_IMPOSSIBLE_RANGE'', metric) \<in> set (map sd_key ds)
           \<longleftrightarrow> (\<exists>x. v = Some x \<and> (flt_less x lo \<or> flt_less hi x)))"
proof (intro conjI)
  let ?o = "ordered_samples h"
  from assms(1,2) obtain vs rs where vs: "variation_rules ?o = Inr vs" and rs: "rate_rules ?o = Inr rs"
    and ds: "ds = unique_diagnostics (gap_rule gap ?o @ concat (map range_rule (bounds_table (last ?o)))
               @ relation_rule (last ?o) @ vs @ rs)"
    by (rule detect_keys)
  show "distinct (map sd_key ds)" unfolding ds by (rule distinct_unique_diagnostics)
  have only: "(c, metric) \<in> set (map sd_key ds)
      \<longleftrightarrow> (c, metric) \<in> sd_key ` set (concat (map range_rule (bounds_table (last ?o))))"
    if c: "c = ''SENSOR_MISSING'' \<or> c = ''SENSOR_IMPOSSIBLE_RANGE''" for c
  proof -
    have "(c, metric) \<notin> sd_key ` set (gap_rule gap ?o)" "(c, metric) \<notin> sd_key ` set (relation_rule (last ?o))"
      "(c, metric) \<notin> sd_key ` set vs" "(c, metric) \<notin> sd_key ` set rs"
      using c gap_codes relation_codes variation_codes [OF vs] rate_codes [OF rs]
      by (fastforce simp: sd_key_def)+
    then show ?thesis unfolding ds unique_diagnostics_keys by (simp only: set_append image_Un Un_iff simp_thms)
  qed
  from only [of "''SENSOR_MISSING''"] range_rule_keys(1) [OF assms(3)]
  show "(''SENSOR_MISSING'', metric) \<in> set (map sd_key ds) \<longleftrightarrow> v = None" by blast
  from only [of "''SENSOR_IMPOSSIBLE_RANGE''"] range_rule_keys(2) [OF assms(3)]
  show "(''SENSOR_IMPOSSIBLE_RANGE'', metric) \<in> set (map sd_key ds)
           \<longleftrightarrow> (\<exists>x. v = Some x \<and> (flt_less x lo \<or> flt_less hi x))" by blast
qed

lemma max_min_finite:
  "list_all flt_finite xs \<Longrightarrow> flt_finite x \<Longrightarrow> flt_finite (foldl flt_max x xs)"
  by (induction xs arbitrary: x) (auto simp: flt_max_def)

lemma rules_return:
  assumes "\<And>s f. s \<in> set h \<Longrightarrow> f \<in> {ts_temperature_c, ts_current_a, ts_vibration_rms_mps2} \<Longrightarrow>
    f s = None \<or> finite_value (f s)"
  shows "\<exists>ds. detect_sensor_failures gap h = Inr ds"
proof (cases "h = []")
  case False
  define o' where "o' = ordered_samples h"
  have "\<exists>ys. variation_rule x = Inr ys" if x: "x \<in> set (sequences (drop n o'))" for x n
  proof -
    obtain m vs tol lim where xs: "x = (m, vs, tol, lim)" by (cases x)
    with x obtain f where f: "f \<in> {ts_temperature_c, ts_current_a, ts_vibration_rms_mps2}"
      and vs: "vs = map f (drop n o')"
      by (auto simp: sequences_def)
    have "list_all flt_finite (map the vs)" if "None \<notin> set vs"
    proof -
      have "finite_value (f s)" if "s \<in> set (drop n o')" for s
      proof -
        from that have "s \<in> set h" using set_drop_subset [of n o'] by (auto simp: o'_def ordered_samples_def)
        moreover from that \<open>None \<notin> set vs\<close> have "f s \<noteq> None" by (force simp: vs)
        ultimately show ?thesis using assms [OF _ f, of s] by auto
      qed
      then show ?thesis
        by (fastforce simp: vs list_all_iff finite_value_def split: option.splits)
    qed
    then show ?thesis unfolding xs by (auto simp: pstdev_def Let_def split: prod.splits)
  qed
  then have "\<exists>vs. variation_rules o' = Inr vs"
    unfolding variation_rules_def Let_def by (auto intro!: collect_total)
  with rate_rules_total [of o'] False show ?thesis
    by (auto simp: detect_sensor_failures_def o'_def Let_def)
qed (simp add: detect_sensor_failures_def)

text \<open>Every history whose values are finite or missing is judged: no rule raises, whatever the values are, because the deviation is computed exactly and the elapsed time is kept above zero.\<close>

theorem sensor_rules_return:
  assumes "\<And>s f. s \<in> set h \<Longrightarrow> f \<in> {ts_temperature_c, ts_current_a, ts_vibration_rms_mps2} \<Longrightarrow>
    f s = None \<or> finite_value (f s)"
  shows "\<exists>ds. detect_sensor_failures gap h = Inr ds"
  using assms by (rule rules_return)

lemma filter_key_unique:
  "distinct (map f xs) \<Longrightarrow> k \<in> set xs \<Longrightarrow> filter (\<lambda>x. f k = f x) xs = [k]"
  by (induction xs) (auto simp: filter_empty_conv image_iff)

lemma sort_key_permuted:
  assumes "mset xs = mset ys" and "distinct (map f xs)"
  shows "sort_key f xs = sort_key f ys"
proof (rule properties_for_sort_key)
  have d: "distinct (map f (sort_key f ys))"
    using assms by (metis distinct_map mset_eq_imp_distinct_iff mset_sort mset_eq_setD)
  show "mset (sort_key f ys) = mset xs" using assms(1) by simp
  show "filter (\<lambda>x. f k = f x) (sort_key f ys) = filter (\<lambda>x. f k = f x) xs"
    if "k \<in> set (sort_key f ys)" for k
    using filter_key_unique [OF d that] filter_key_unique [OF assms(2), of k] that assms(1)
    by (metis mset_eq_setD set_sort)
qed simp

text \<open>The rules do not depend on the order in which the history is given: any arrangement of the same samples yields the same diagnostics.\<close>

theorem sensor_rules_ignore_order:
  assumes "mset h = mset h'" and "distinct (map (\<lambda>s. (ts_timestamp s, ts_sample_id s)) h)"
  shows "detect_sensor_failures gap h = detect_sensor_failures gap h'"
proof -
  have "ordered_samples h = ordered_samples h'"
    unfolding ordered_samples_def using assms by (rule sort_key_permuted)
  moreover have "h = [] \<longleftrightarrow> h' = []" using assms(1) by auto
  ultimately show ?thesis by (simp add: detect_sensor_failures_def)
qed

text \<open>Only the twelve latest samples matter: a longer history, however old and whatever it holds, gives the same diagnostics.\<close>

theorem sensor_rules_are_local:
  assumes "12 \<le> length h"
    and "\<And>x y. x \<in> set older \<Longrightarrow> y \<in> set h \<Longrightarrow>
      (ts_timestamp x, ts_sample_id x) < (ts_timestamp y, ts_sample_id y)"
  shows "detect_sensor_failures gap (older @ h) = detect_sensor_failures gap h"
proof -
  have o: "ordered_samples (older @ h) = ordered_samples older @ ordered_samples h"
    unfolding ordered_samples_def by (rule sort_key_append_ordered) (rule assms(2))
  have len: "length (ordered_samples h) = length h" by (simp add: ordered_samples_def)
  with assms(1) have ne: "ordered_samples h \<noteq> []" "butlast (ordered_samples h) \<noteq> []" "h \<noteq> []"
    by (auto simp flip: length_greater_0_conv)
  have "previous_sample (ordered_samples older @ ordered_samples h) = previous_sample (ordered_samples h)"
    using assms(1) len ne by (auto simp: previous_sample_def butlast_append)
  moreover have "last (ordered_samples older @ ordered_samples h) = last (ordered_samples h)"
    using ne by simp
  moreover have "variation_rules (ordered_samples older @ ordered_samples h) = variation_rules (ordered_samples h)"
    using assms(1) len by (simp add: variation_rules_def Let_def)
  ultimately show ?thesis
    using ne by (cases "previous_sample (ordered_samples h)")
      (simp_all add: detect_sensor_failures_def o gap_rule_def rate_rules_def Let_def)
qed

section \<open>Examples\<close>

text \<open>A sample without a current reading, far above the temperature range.\<close>

definition broken_sample :: telemetry_sample where
  "broken_sample = (steady 1)\<lparr>ts_temperature_c := Some (Fin 500), ts_current_a := None\<rparr>"

theorem latest_sample_is_checked_witness:
  "\<exists>ds. detect_sensor_failures (Fin 30) [broken_sample] = Inr ds
     \<and> (''SENSOR_MISSING'', ''current'') \<in> set (map sd_key ds)"
proof -
  have o: "ordered_samples [broken_sample] = [broken_sample]" by (simp add: ordered_samples_def)
  have "variation_rules [broken_sample] = Inr []" "rate_rules [broken_sample] = Inr []"
    by (simp_all add: variation_rules_def rate_rules_def previous_sample_def)
  then obtain ds where ds: "detect_sensor_failures (Fin 30) [broken_sample] = Inr ds"
    by (simp add: detect_sensor_failures_def o)
  have "(''current'', None, lit (- 1/10), lit 10, ''A'') \<in> set (bounds_table (last (ordered_samples [broken_sample])))"
    unfolding o by (simp add: bounds_table_def broken_sample_def)
  from latest_sample_is_checked [OF ds _ this] ds show ?thesis by blast
qed

theorem sensor_rules_return_witness: "\<exists>ds. detect_sensor_failures (Fin 30) [broken_sample, steady 2] = Inr ds"
  by (rule sensor_rules_return) (auto simp: broken_sample_def steady_def finite_value_def)

theorem sensor_rules_ignore_order_witness:
  "detect_sensor_failures (Fin 30) [broken_sample, steady 2] = detect_sensor_failures (Fin 30) [steady 2, broken_sample]"
  by (rule sensor_rules_ignore_order) (simp_all add: broken_sample_def steady_def add_mset_commute)

theorem sensor_rules_are_local_witness:
  "detect_sensor_failures (Fin 30) ([broken_sample] @ map steady [2..13])
     = detect_sensor_failures (Fin 30) (map steady [2..13])"
  by (rule sensor_rules_are_local) (auto simp: broken_sample_def steady_def less_prod_def)

end
