(* ===== verification/Worker.thy ===== *)
theory Worker
  imports Artifacts SensorRules "HOL-Library.List_Lexorder"
begin

text \<open>
  The anomaly worker, \<open>services/anomaly_worker/worker.py\<close>: registering trained models, finding
  the bundle a device may be scored with, and one scoring pass over the unscored telemetry of
  a device. A pass reads the committed store (sessions do not autoflush) and commits once at
  its end; an exception that leaves it rolls its work back, so a result \<open>Inl\<close> leaves the store
  as it was. \<open>clk k\<close> is the \<open>k\<close>-th reading of the clock in a pass.
\<close>

definition MAX_BATCH_ROWS :: nat where "MAX_BATCH_ROWS = 500"
definition CONTEXT_ROWS :: nat where "CONTEXT_ROWS = 12"
definition DIAGNOSTIC_INTERVAL :: int where "DIAGNOSTIC_INTERVAL = hours 1"

section \<open>The environment\<close>

text \<open>\<open>wk_resolve\<close> is \<open>Path.resolve\<close>, which follows symbolic links; \<open>wk_exc_text\<close> is \<open>str(exc)\<close> of library exceptions.\<close>

record 'e worker =
  wk_ml :: "'e ml"
  wk_codec :: "'e codec"
  wk_resolve :: "path \<Rightarrow> path"
  wk_exc_text :: "exc \<Rightarrow> string"

definition path_of :: "string \<Rightarrow> path" where
  "path_of s = split_on (CHR ''/'') s"

text \<open>\<open>root / relative\<close>: an absolute right operand replaces the left one.\<close>

definition path_join :: "path \<Rightarrow> string \<Rightarrow> path" where
  "path_join p s = (if starts_with ''/'' s then path_of s else p @ path_of s)"

definition models_directory :: "settings \<Rightarrow> path" where
  "models_directory cfg = path_of (model_root cfg)"

section \<open>Samples\<close>

definition aware :: "pydatetime \<Rightarrow> pydatetime" where
  "aware t = normalized_utc t"

definition telemetry_sample_of :: "telemetry_row \<Rightarrow> telemetry_sample" where
  "telemetry_sample_of r =
     \<lparr>ts_sample_id = int (tel_id r),
      ts_timestamp = dt_us (aware (case tel_device_time r of Some t \<Rightarrow> t | None \<Rightarrow> tel_received_at r)),
      ts_temperature_c = tel_temperature_c r, ts_vibration_rms_mps2 = tel_vibration_rms_mps2 r,
      ts_vibration_peak_mps2 = tel_vibration_peak_mps2 r,
      ts_vibration_crest_factor = tel_vibration_crest_factor r, ts_current_a = tel_current_a r,
      ts_quality = tel_quality r, ts_fault_flags = tel_fault_flags r, ts_regime = ''unknown''\<rparr>"

section \<open>Registering a model\<close>

definition trusted_artifact_directory :: "'e worker \<Rightarrow> settings \<Rightarrow> anomaly_model_row \<Rightarrow> path res" where
  "trusted_artifact_directory w cfg m =
     (let resolved_root = wk_resolve w (models_directory cfg);
          candidate = wk_resolve w (path_join resolved_root (mdl_artifact_path m))
      in bindE (raise_if (\<not> prefix resolved_root candidate) (ArtifactError ''MODEL_ARTIFACT_PATH_INVALID''))
           (\<lambda>_. Inr candidate))"

text \<open>\<open>str(directory.resolve().relative_to(root.resolve()))\<close>.\<close>

definition relative_path :: "'e worker \<Rightarrow> path \<Rightarrow> path \<Rightarrow> string res" where
  "relative_path w directory base =
     (let d = wk_resolve w directory; b = wk_resolve w base
      in bindE (raise_if (\<not> prefix b d) (ValueError ''path is not in the subpath'')) (\<lambda>_.
         Inr (join_with ''/'' (drop (length b) d))))"

definition find_model :: "string \<Rightarrow> string \<Rightarrow> db \<Rightarrow> anomaly_model_row option" where
  "find_model did version d = find (\<lambda>m. mdl_device_id m = did \<and> mdl_model_version m = version) (db_models d)"

definition put_model :: "anomaly_model_row \<Rightarrow> db \<Rightarrow> db" where
  "put_model m d = d\<lparr>db_models := row_put mdl_id (mdl_id m) (\<lambda>_. m) (db_models d)\<rparr>"

definition model_fits :: "anomaly_model_row \<Rightarrow> bool" where
  "model_fits m = (int32_ok (mdl_training_sample_count m) \<and> int32_ok (mdl_validation_sample_count m)
     \<and> int32_ok (mdl_random_seed m))"

definition register_bundle ::
  "'e worker \<Rightarrow> model_metadata \<Rightarrow> path \<Rightarrow> path \<Rightarrow> db \<Rightarrow> (db \<times> anomaly_model_row) res" where
  "register_bundle w md directory base d =
     bindE (relative_path w directory base) (\<lambda>relative.
     bindE (parse_utc (wk_codec w) (md_training_start md)) (\<lambda>start.
     bindE (parse_utc (wk_codec w) (md_training_end md)) (\<lambda>end'.
     bindE (parse_utc (wk_codec w) (md_created_at md)) (\<lambda>created.
     let known = find_model (md_device_id md) (md_model_version md) d;
         m = \<lparr>mdl_id = (case known of Some r \<Rightarrow> mdl_id r | None \<Rightarrow> row_fresh mdl_id (db_models d)),
              mdl_device_id = md_device_id md, mdl_model_version = md_model_version md,
              mdl_status = ''ready'',
              mdl_feature_schema = JObj [(''version'', JInt (md_feature_schema_version md)),
                                         (''names'', jstrs (md_feature_names md))],
              mdl_training_start = Aware start, mdl_training_end = Aware end',
              mdl_training_sample_count = md_training_sample_count md,
              mdl_validation_sample_count = md_validation_sample_count md,
              mdl_contamination = md_contamination md, mdl_random_seed = md_random_seed md,
              mdl_sklearn_version = md_sklearn_version md, mdl_artifact_path = relative,
              mdl_artifact_checksum = md_artifact_checksum md, mdl_created_at = Aware created,
              mdl_last_scored_at = (case known of Some r \<Rightarrow> mdl_last_scored_at r | None \<Rightarrow> None),
              mdl_diagnostic = None\<rparr>
     in bindE (raise_if (\<not> model_fits m) DataError) (\<lambda>_.
        Inr (if known = None then d\<lparr>db_models := db_models d @ [m]\<rparr> else put_model m d, m))))))"

definition received_order :: "telemetry_row \<Rightarrow> int \<times> int" where
  "received_order r = (dt_us (tel_received_at r), int (tel_id r))"

text \<open>The rows of a device in a condition, \<open>order_by(received_at, id)\<close>.\<close>

definition device_rows :: "string \<Rightarrow> (telemetry_row \<Rightarrow> bool) \<Rightarrow> db \<Rightarrow> telemetry_row list" where
  "device_rows did P d = sort_key received_order (filter (\<lambda>r. tel_device_id r = did \<and> P r) (db_telemetry d))"

text \<open>The directory and bundle to register: saved now, or found from an earlier run of the same training.\<close>

definition save_or_reuse ::
  "'e worker \<Rightarrow> path \<Rightarrow> string \<Rightarrow> 'e model_bundle \<Rightarrow> fs \<Rightarrow> (fs \<times> path \<times> 'e model_bundle) res" where
  "save_or_reuse w base did bundle files =
     (case save_bundle (wk_ml w) (wk_codec w) bundle base files of
        Inr saved \<Rightarrow> Inr saved
      | Inl e \<Rightarrow>
          if e \<noteq> OtherException ''FileExistsError'' then Inl e
          else let directory = bundle_directory base did (md_model_version (mb_metadata bundle)) in
            bindE (load_bundle (wk_ml w) (wk_codec w) files directory) (\<lambda>saved.
            bindE (raise_if (md_device_id (mb_metadata saved) \<noteq> did
                     \<or> md_model_version (mb_metadata saved) \<noteq> md_model_version (mb_metadata bundle))
                     (ArtifactError ''MODEL_EXISTING_ARTIFACT_MISMATCH'')) (\<lambda>_.
            Inr (files, directory, saved))))"

text \<open>Files written stay when the registration that follows raises.\<close>

definition train_and_register ::
  "'e worker \<Rightarrow> settings \<Rightarrow> int \<Rightarrow> string \<Rightarrow> pydatetime \<Rightarrow> pydatetime \<Rightarrow> flt \<Rightarrow> fs \<Rightarrow> db
     \<Rightarrow> fs \<times> (db \<times> anomaly_model_row) res" where
  "train_and_register w cfg now did baseline_start baseline_end contamination files d =
     (case get_device did d of
        None \<Rightarrow> (files, Inl (ValueError ''DEVICE_NOT_FOUND''))
      | Some v \<Rightarrow>
          let rows = device_rows did (\<lambda>r. dt_us baseline_start \<le> dt_us (tel_received_at r)
                \<and> dt_us (tel_received_at r) \<le> dt_us baseline_end) d;
              base = models_directory cfg
          in case bindE (train_model (wk_ml w) (map telemetry_sample_of rows) (dev_id v) (dev_asset_class v)
                    baseline_start baseline_end (anomaly_minimum_feature_rows cfg) contamination
                    DEFAULT_RANDOM_SEED (Aware now)) (\<lambda>bundle. save_or_reuse w base did bundle files) of
               Inl e \<Rightarrow> (files, Inl e)
             | Inr (files', directory, saved) \<Rightarrow>
                 (files', register_bundle w (mb_metadata saved) directory base d))"

section \<open>The bundle of a device\<close>

definition latest_registry :: "string \<Rightarrow> db \<Rightarrow> anomaly_model_row option" where
  "latest_registry did d = latest_model did d"

definition usable_bundle ::
  "'e worker \<Rightarrow> settings \<Rightarrow> int \<Rightarrow> fs \<Rightarrow> string \<Rightarrow> anomaly_model_row \<Rightarrow> 'e model_bundle option res" where
  "usable_bundle w cfg now files did m =
     bindE (trusted_artifact_directory w cfg m) (\<lambda>directory.
     bindE (load_bundle (wk_ml w) (wk_codec w) files directory) (\<lambda>b.
     bindE (raise_if (md_device_id (mb_metadata b) \<noteq> did \<or> md_model_version (mb_metadata b) \<noteq> mdl_model_version m)
              (ArtifactError ''MODEL_REGISTRY_MISMATCH'')) (\<lambda>_.
     bindE (raise_if (md_artifact_checksum (mb_metadata b) \<noteq> mdl_artifact_checksum m)
              (ArtifactError ''MODEL_REGISTRY_CHECKSUM_MISMATCH'')) (\<lambda>_.
     bindE (model_is_stale (wk_codec w) (mb_metadata b) now (model_stale_after_days cfg)) (\<lambda>stale.
     Inr (if stale then None else Some b))))))"

text \<open>\<open>except (ArtifactError, OSError, ValueError)\<close>.\<close>

definition bundle_error :: "exc \<Rightarrow> bool" where
  "bundle_error e = (is_value_error e \<or> e = OSError \<or> e = OtherException ''FileExistsError'')"

fun exc_text :: "'e worker \<Rightarrow> exc \<Rightarrow> string" where
  "exc_text w (ArtifactError s) = s"
| "exc_text w (ValueError s) = s"
| "exc_text w e = wk_exc_text w e"

definition error_code :: "'e worker \<Rightarrow> exc \<Rightarrow> string" where
  "error_code w e = (let code = take 48 (exc_text w e) in if code = [] then ''MODEL_ARTIFACT_INVALID'' else code)"

definition load_ready_bundle ::
  "'e worker \<Rightarrow> settings \<Rightarrow> int \<Rightarrow> fs \<Rightarrow> string \<Rightarrow> db
     \<Rightarrow> (anomaly_model_row option \<times> 'e model_bundle option \<times> string option) res" where
  "load_ready_bundle w cfg now files did d =
     (case latest_registry did d of
        None \<Rightarrow> Inr (None, None, Some ''MODEL_NOT_READY'')
      | Some m \<Rightarrow>
          (case usable_bundle w cfg now files did m of
             Inr (Some b) \<Rightarrow> Inr (Some (m\<lparr>mdl_status := ''ready'', mdl_diagnostic := None\<rparr>), Some b, None)
           | Inr None \<Rightarrow>
               Inr (Some (m\<lparr>mdl_status := ''stale'', mdl_diagnostic := Some ''MODEL_STALE: retraining is required''\<rparr>),
                    None, Some ''MODEL_STALE'')
           | Inl e \<Rightarrow>
               if bundle_error e
               then let code = error_code w e in
                 Inr (Some (m\<lparr>mdl_status := ''error'',
                              mdl_diagnostic := Some (take 300 (code @ '': deterministic rules remain active''))\<rparr>),
                      None, Some code)
               else Inl e))"

section \<open>Selecting rows\<close>

text \<open>SQL \<open>LIKE 'pattern%'\<close>: an underscore of the pattern matches any character.\<close>

fun like_prefix :: "string \<Rightarrow> string \<Rightarrow> bool" where
  "like_prefix [] s = True"
| "like_prefix (p # ps) [] = False"
| "like_prefix (p # ps) (c # cs) = ((p = CHR ''_'' \<or> p = c) \<and> like_prefix ps cs)"

definition awaiting_context :: "telemetry_row \<Rightarrow> bool" where
  "awaiting_context r =
     (case tel_anomaly_reason r of None \<Rightarrow> False | Some s \<Rightarrow> like_prefix ''FEATURE_WINDOW_NOT_READY'' s)"

definition pending :: "bool \<Rightarrow> telemetry_row \<Rightarrow> bool" where
  "pending model_ready r =
     (tel_anomaly_score r = None
      \<and> (if model_ready then \<not> awaiting_context r else tel_anomaly_reason r = None))"

definition targets_of :: "string \<Rightarrow> bool \<Rightarrow> db \<Rightarrow> telemetry_row list" where
  "targets_of did model_ready d = take MAX_BATCH_ROWS (device_rows did (pending model_ready) d)"

definition context_rows :: "string \<Rightarrow> telemetry_row list \<Rightarrow> db \<Rightarrow> telemetry_row list" where
  "context_rows did targets d =
     (let first = dt_us (tel_received_at (hd targets)); final = dt_us (tel_received_at (last targets));
          before = take (CONTEXT_ROWS - 1)
            (sort_key (\<lambda>r. (- dt_us (tel_received_at r), - int (tel_id r)))
               (filter (\<lambda>r. tel_device_id r = did \<and> dt_us (tel_received_at r) < first) (db_telemetry d)));
          batch = device_rows did (\<lambda>r. first \<le> dt_us (tel_received_at r) \<and> dt_us (tel_received_at r) \<le> final) d
      in rev before @ batch)"

section \<open>Diagnostics\<close>

text \<open>\<open>samples[max(0, index - CONTEXT_ROWS + 1) : index + 1]\<close>.\<close>

definition sample_window :: "telemetry_sample list \<Rightarrow> nat \<Rightarrow> telemetry_sample list" where
  "sample_window samples index = drop (index + 1 - CONTEXT_ROWS) (take (index + 1) samples)"

definition diagnose ::
  "int set \<Rightarrow> telemetry_sample list \<Rightarrow> nat \<Rightarrow> (int \<times> sensor_diagnostic list) list res" where
  "diagnose target_ids samples index =
     (let sid = ts_sample_id (samples ! index) in
      if sid \<in> target_ids
      then bindE (detect_sensor_failures (lit 30) (sample_window samples index)) (\<lambda>ds. Inr [(sid, ds)])
      else Inr [])"

definition diagnostics_by_id ::
  "telemetry_row list \<Rightarrow> telemetry_sample list \<Rightarrow> (int \<times> sensor_diagnostic list) list res" where
  "diagnostics_by_id targets samples =
     bindE (mapE (diagnose (set (map (\<lambda>r. int (tel_id r)) targets)) samples) [0 ..< length samples])
       (\<lambda>found. Inr (rev (concat found)))"

definition diagnostic_reason :: "sensor_diagnostic list \<Rightarrow> string" where
  "diagnostic_reason ds = take 300 (join_with ''; '' (map (\<lambda>d. sd_code d @ '': '' @ sd_reason d) ds))"

definition log_diagnostic :: "int \<Rightarrow> int \<Rightarrow> string \<Rightarrow> string \<Rightarrow> string \<Rightarrow> string \<Rightarrow> db \<Rightarrow> db" where
  "log_diagnostic now created did code severity detail d =
     (if \<exists>e \<in> set (db_errors d). err_component e = ''anomaly-worker'' \<and> err_device_id e = Some did
            \<and> err_error_code e = code \<and> now - DIAGNOSTIC_INTERVAL \<le> dt_us (err_created_at e)
      then d
      else add_error_log ''anomaly-worker'' code severity (Some did) (take 300 detail) (Aware created) d)"

section \<open>Alarms\<close>

definition set_alarm ::
  "string \<Rightarrow> string \<Rightarrow> string \<Rightarrow> bool \<Rightarrow> string \<Rightarrow> int \<Rightarrow> int \<Rightarrow> alarm_row list \<Rightarrow> alarm_row list" where
  "set_alarm did code source active summary now opened rows =
     (case find (\<lambda>a. alm_device_id a = did \<and> alm_code a = code \<and> alm_source a = source
                     \<and> alm_state a = ''active'') rows of
        None \<Rightarrow>
          if active then rows @ [new_alarm did code ''warning'' source (take 240 summary) (Aware opened) rows] else rows
      | Some a \<Rightarrow>
          row_put alm_id (alm_id a)
            (\<lambda>r. if active then r\<lparr>alm_summary := take 240 summary\<rparr>
                 else r\<lparr>alm_state := ''cleared'', alm_cleared_at := Some (Aware now)\<rparr>) rows)"

section \<open>One scoring pass\<close>

definition unscored_row :: "string \<Rightarrow> (int \<times> sensor_diagnostic list) list \<Rightarrow> telemetry_row \<Rightarrow> telemetry_row res" where
  "unscored_row detail diagnostics r =
     bindE (lookup diagnostics (int (tel_id r))) (\<lambda>ds.
     Inr (r\<lparr>tel_anomaly_reason := Some (if ds \<noteq> [] then diagnostic_reason ds else detail)\<rparr>))"

definition scored_row ::
  "score_result option \<Rightarrow> (int \<times> sensor_diagnostic list) list \<Rightarrow> telemetry_row \<Rightarrow> telemetry_row res" where
  "scored_row result diagnostics r =
     bindE (lookup diagnostics (int (tel_id r))) (\<lambda>ds.
     Inr (case result of
            None \<Rightarrow> r\<lparr>tel_anomaly_reason := Some ''FEATURE_WINDOW_NOT_READY: waiting for causal context''\<rparr>
          | Some x \<Rightarrow>
              r\<lparr>tel_anomaly_score := Some (sr_raw_anomaly_score x),
                tel_anomaly_percentile := Some (sr_empirical_percentile x),
                tel_anomaly_reason := Some (if ds \<noteq> [] then diagnostic_reason ds else sr_reason x)\<rparr>))"

text \<open>\<open>results.get(row.id)\<close> of the dictionary of the results of the targets.\<close>

definition result_of :: "score_result list \<Rightarrow> telemetry_row \<Rightarrow> score_result option" where
  "result_of results r = map_of (rev (map (\<lambda>x. (sr_sample_id x, x)) results)) (int (tel_id r))"

definition put_rows :: "telemetry_row list \<Rightarrow> db \<Rightarrow> db" where
  "put_rows rows d = d\<lparr>db_telemetry := fold (\<lambda>r. row_put tel_id (tel_id r) (\<lambda>_. r)) rows (db_telemetry d)\<rparr>"

definition scoring_event :: "string \<Rightarrow> int \<Rightarrow> anomaly_model_row option \<Rightarrow> json" where
  "scoring_event did processed m = JObj
     [(''type'', JStr ''anomaly_scoring''),
      (''device_id'', JStr did),
      (''processed'', JInt processed),
      (''model_version'', jopt (\<lambda>x. JStr (mdl_model_version x)) m),
      (''model_status'', JStr (case m of None \<Rightarrow> ''model_not_ready'' | Some x \<Rightarrow> mdl_status x))]"

definition put_registry :: "anomaly_model_row option \<Rightarrow> db \<Rightarrow> db" where
  "put_registry m d = (case m of None \<Rightarrow> d | Some x \<Rightarrow> put_model x d)"

text \<open>What a pass decides before it writes: the new rows, how many were processed, and the alarm inputs.\<close>

record decision =
  dc_rows :: "telemetry_row list"
  dc_processed :: int
  dc_anomalous :: bool
  dc_latest_reason :: string

definition decide_unscored ::
  "string \<Rightarrow> (int \<times> sensor_diagnostic list) list \<Rightarrow> telemetry_row list \<Rightarrow> decision res" where
  "decide_unscored detail diagnostics targets =
     bindE (mapE (unscored_row detail diagnostics) targets) (\<lambda>rows.
     Inr \<lparr>dc_rows = rows, dc_processed = int (length targets), dc_anomalous = False,
          dc_latest_reason = ''No model anomaly in the latest scored batch''\<rparr>)"

definition decide_scored ::
  "'e ml \<Rightarrow> 'e model_bundle \<Rightarrow> telemetry_sample list \<Rightarrow> (int \<times> sensor_diagnostic list) list
     \<Rightarrow> telemetry_row list \<Rightarrow> decision res" where
  "decide_scored lib b samples diagnostics targets =
     bindE (default_features (ml_numpy lib) False samples) (\<lambda>features.
     bindE (score_rows lib b features) (\<lambda>results.
     bindE (mapE (\<lambda>r. scored_row (result_of results r) diagnostics r) targets) (\<lambda>rows.
     let latest = result_of results (last targets) in
     Inr \<lparr>dc_rows = rows,
          dc_processed = int (length (filter (\<lambda>r. result_of results r \<noteq> None) targets)),
          dc_anomalous = (case latest of None \<Rightarrow> False | Some x \<Rightarrow> sr_anomalous x),
          dc_latest_reason = (case latest of None \<Rightarrow> ''No model anomaly in the latest scored batch''
                                           | Some x \<Rightarrow> sr_reason x)\<rparr>)))"

definition write_decision ::
  "runtime \<Rightarrow> (nat \<Rightarrow> int) \<Rightarrow> string \<Rightarrow> anomaly_model_row option \<Rightarrow> bool \<Rightarrow> sensor_diagnostic list
     \<Rightarrow> decision \<Rightarrow> db \<Rightarrow> db res" where
  "write_decision rt clk did registry scored latest_diagnostics dc d =
     (let summary = (let s = diagnostic_reason latest_diagnostics in if s = [] then ''Sensor diagnostics cleared'' else s);
          sensor = set_alarm did ''SENSOR_DIAGNOSTIC'' ''sensor_rule'' (latest_diagnostics \<noteq> []) summary (clk 3) (clk 5);
          anomaly = set_alarm did ''ANOMALY_DETECTED'' ''anomaly'' (dc_anomalous dc)
            (''Isolation Forest: '' @ dc_latest_reason dc) (clk 4) (clk 6);
          d1 = put_registry registry (put_rows (dc_rows dc) d);
          d2 = d1\<lparr>db_alarms := (if scored then anomaly (sensor (db_alarms d1)) else sensor (db_alarms d1))\<rparr>
      in notify_after_commit rt (scoring_event did (dc_processed dc) registry) d2)"

definition score_device_once ::
  "'e worker \<Rightarrow> runtime \<Rightarrow> settings \<Rightarrow> fs \<Rightarrow> (nat \<Rightarrow> int) \<Rightarrow> string \<Rightarrow> db \<Rightarrow> (db \<times> int) res" where
  "score_device_once w rt cfg files clk did d =
     bindE (load_ready_bundle w cfg (clk 0) files did d) (\<lambda>(registry, bundle, model_error).
     let targets = targets_of did (bundle \<noteq> None) d in
     if targets = [] then Inr (put_registry registry d, 0)
     else
       let samples = map telemetry_sample_of (context_rows did targets d) in
       bindE (diagnostics_by_id targets samples) (\<lambda>diagnostics.
       bindE (case bundle of
                None \<Rightarrow>
                  let code = (case model_error of None \<Rightarrow> ''MODEL_NOT_READY''
                                | Some c \<Rightarrow> if c = [] then ''MODEL_NOT_READY'' else c);
                      detail = code @ '': deterministic sensor and threshold rules remain active''
                  in bindE (decide_unscored detail diagnostics targets) (\<lambda>dc.
                     Inr (dc, registry,
                          log_diagnostic (clk 1) (clk 7) did code
                            (if code \<noteq> ''MODEL_NOT_READY'' then ''warning'' else ''info'') detail d))
              | Some b \<Rightarrow>
                  bindE (decide_scored (wk_ml w) b samples diagnostics targets) (\<lambda>dc.
                  Inr (dc, map_option (\<lambda>m. m\<lparr>mdl_last_scored_at := Some (Aware (clk 2))\<rparr>) registry, d)))
         (\<lambda>(dc, registry', d').
       bindE (lookup diagnostics (int (tel_id (last targets)))) (\<lambda>latest_diagnostics.
       bindE (write_decision rt clk did registry' (bundle \<noteq> None) latest_diagnostics dc d') (\<lambda>d''.
       Inr (d'', dc_processed dc))))))"

section \<open>All devices\<close>

text \<open>
  Each device is committed on its own, so when a pass raises the devices before it keep their
  results and the devices after it are not scored. \<open>clks did\<close> are the clock readings of a device.
\<close>

fun score_devices ::
  "(string \<Rightarrow> db \<Rightarrow> (db \<times> int) res) \<Rightarrow> string list \<Rightarrow> int \<Rightarrow> db \<Rightarrow> db \<times> int res" where
  "score_devices score [] processed d = (d, Inr processed)"
| "score_devices score (did # dids) processed d =
     (case score did d of
        Inl e \<Rightarrow> (d, Inl e)
      | Inr (d', n) \<Rightarrow> score_devices score dids (processed + n) d')"

definition run_once ::
  "'e worker \<Rightarrow> runtime \<Rightarrow> settings \<Rightarrow> fs \<Rightarrow> (string \<Rightarrow> nat \<Rightarrow> int) \<Rightarrow> db \<Rightarrow> db \<times> int res" where
  "run_once w rt cfg files clks d =
     score_devices (\<lambda>did. score_device_once w rt cfg files (clks did) did)
       (map dev_id (sort_key dev_id (db_devices d))) 0 d"

end
