(* ===== verification/WorkerLaws.thy ===== *)
theory WorkerLaws
  imports Worker IngestionLaws
begin

text \<open>
  What the anomaly worker promises: every target of a pass has its diagnostics, a pass takes
  exactly the oldest pending rows off the backlog, keeps the store consistent, returns
  whenever its inputs are finite, and scores only with a bundle it may trust. Its alarms are
  a second instance of the latch interface.
\<close>

section \<open>Updating rows by key\<close>

lemma fold_row_put:
  "distinct (map key rows) \<Longrightarrow> fold (\<lambda>r. row_put key (key r) (\<lambda>_. r)) rows tbl
     = map (\<lambda>t. case row_get key (key t) rows of Some r \<Rightarrow> r | None \<Rightarrow> t) tbl"
proof (induction rows arbitrary: tbl)
  case (Cons r rows)
  then have "row_get key (key r) rows = None" by (auto simp: row_get_None_iff)
  with Cons show ?case by (simp add: row_put_def)
qed simp

definition updated :: "telemetry_row list \<Rightarrow> telemetry_row \<Rightarrow> telemetry_row" where
  "updated rows t = (case row_get tel_id (tel_id t) rows of Some r \<Rightarrow> r | None \<Rightarrow> t)"

lemma put_rows_map:
  "distinct (map tel_id rows) \<Longrightarrow> db_telemetry (put_rows rows d) = map (updated rows) (db_telemetry d)"
  by (simp add: put_rows_def fold_row_put updated_def)

text \<open>What scoring may change of a row: only its anomaly columns.\<close>

definition same_reading :: "telemetry_row \<Rightarrow> telemetry_row \<Rightarrow> bool" where
  "same_reading t r = (\<exists>s p q. r = t\<lparr>tel_anomaly_score := s, tel_anomaly_percentile := p, tel_anomaly_reason := q\<rparr>)"

lemma same_reading_fields:
  assumes "same_reading t r"
  shows "tel_id r = tel_id t" "tel_device_id r = tel_device_id t" "tel_site_id r = tel_site_id t"
    "tel_message_id r = tel_message_id t" "tel_sequence r = tel_sequence t" "tel_received_at r = tel_received_at t"
  using assms by (auto simp: same_reading_def)

lemma same_reading_refl: "same_reading t t"
  unfolding same_reading_def
  by (rule exI [of _ "tel_anomaly_score t"], rule exI [of _ "tel_anomaly_percentile t"], rule exI [of _ "tel_anomaly_reason t"]) simp

text \<open>The rows a decision writes are the targets, in order, with new anomaly columns.\<close>

definition rewritten :: "telemetry_row list \<Rightarrow> telemetry_row list \<Rightarrow> bool" where
  "rewritten targets rows = list_all2 same_reading targets rows"

lemma rewritten_ids: "rewritten targets rows \<Longrightarrow> map tel_id rows = map tel_id targets"
  unfolding rewritten_def by (induction rule: list_all2_induct) (auto simp: same_reading_fields)

lemma updated_cases:
  assumes "rewritten targets rows" and "distinct (map tel_id (db_telemetry d))"
    and "set targets \<subseteq> set (db_telemetry d)" and "distinct (map tel_id targets)" and "t \<in> set (db_telemetry d)"
  shows "if t \<in> set targets then \<exists>i < length targets. t = targets ! i \<and> updated rows t = rows ! i \<and> same_reading t (rows ! i)
    else updated rows t = t"
proof (cases "t \<in> set targets")
  case True
  then obtain i where i: "i < length targets" "t = targets ! i" by (auto simp: in_set_conv_nth)
  from assms(1) i have r: "same_reading t (rows ! i)" and len: "length rows = length targets"
    by (auto simp: rewritten_def list_all2_conv_all_nth)
  have "distinct (map tel_id rows)" using rewritten_ids [OF assms(1)] assms(4) by simp
  then have "row_get tel_id (tel_id t) rows = Some (rows ! i)"
    using i len same_reading_fields(1) [OF r] by (simp add: row_get_eq_Some_iff)
  with True i r show ?thesis by (auto simp: updated_def)
next
  case False
  have "tel_id t \<notin> tel_id ` set targets"
  proof
    assume "tel_id t \<in> tel_id ` set targets"
    then obtain t' where "t' \<in> set targets" "tel_id t' = tel_id t" by auto
    with assms(2,3,5) have "t' = t" by (auto simp: distinct_map dest: inj_onD)
    with \<open>t' \<in> set targets\<close> False show False by simp
  qed
  then have "tel_id t \<notin> tel_id ` set rows"
    using arg_cong [OF rewritten_ids [OF assms(1)], of set] by simp
  then have "row_get tel_id (tel_id t) rows = None" by (simp add: row_get_None_iff)
  with False show ?thesis by (simp add: updated_def)
qed

lemma updated_same_reading:
  assumes "rewritten targets rows" and "distinct (map tel_id (db_telemetry d))"
    and "set targets \<subseteq> set (db_telemetry d)" and "distinct (map tel_id targets)" and "t \<in> set (db_telemetry d)"
  shows "same_reading t (updated rows t)"
  using updated_cases [OF assms] same_reading_refl [of t] by (auto split: if_splits)

section \<open>Targets and their context\<close>

lemma device_rows_set: "set (device_rows did P d) = {r \<in> set (db_telemetry d). tel_device_id r = did \<and> P r}"
  by (auto simp: device_rows_def)

lemma device_rows_sorted: "sorted (map received_order (device_rows did P d))"
  by (simp add: device_rows_def)

lemma device_rows_ids:
  assumes "distinct (map tel_id (db_telemetry d))"
  shows "distinct (map tel_id (device_rows did P d))"
proof -
  have "distinct (map tel_id (filter Q (db_telemetry d)))" for Q
    using assms by (simp add: distinct_map_filter)
  then have "distinct (device_rows did P d)" "inj_on tel_id (set (device_rows did P d))"
    by (simp_all add: device_rows_def distinct_map)
  then show ?thesis by (simp add: distinct_map)
qed

lemma targets_subset: "set (targets_of did ready d) \<subseteq> set (db_telemetry d)"
  using set_take_subset [of MAX_BATCH_ROWS "device_rows did (pending ready) d"]
  by (auto simp: targets_of_def device_rows_set)

lemma targets_ids: "distinct (map tel_id (db_telemetry d)) \<Longrightarrow> distinct (map tel_id (targets_of did ready d))"
  unfolding targets_of_def take_map [symmetric] by (rule distinct_take) (rule device_rows_ids)

lemma targets_in_context:
  assumes "t \<in> set (targets_of did ready d)"
  shows "t \<in> set (context_rows did (targets_of did ready d) d)"
proof -
  let ?ts = "targets_of did ready d"
  have "sorted (map received_order ?ts)"
    unfolding targets_of_def take_map [symmetric] by (rule sorted_wrt_take) (rule device_rows_sorted)
  then have mono: "received_order (?ts ! i) \<le> received_order (?ts ! j)" if "i \<le> j" "j < length ?ts" for i j
    using that sorted_nth_mono [of "map received_order ?ts" i j] by simp
  from assms obtain i where i: "i < length ?ts" "t = ?ts ! i" by (auto simp: in_set_conv_nth)
  then have ne: "?ts \<noteq> []" by auto
  from i ne mono [of 0 i] mono [of i "length ?ts - 1"]
  have "received_order (hd ?ts) \<le> received_order t" "received_order t \<le> received_order (last ?ts)"
    by (auto simp: hd_conv_nth last_conv_nth)
  then have "dt_us (tel_received_at (hd ?ts)) \<le> dt_us (tel_received_at t)"
    "dt_us (tel_received_at t) \<le> dt_us (tel_received_at (last ?ts))"
    by (auto simp: received_order_def less_eq_prod_def)
  moreover have "tel_device_id t = did" "t \<in> set (db_telemetry d)"
    using assms set_take_subset [of MAX_BATCH_ROWS "device_rows did (pending ready) d"]
    by (auto simp: targets_of_def device_rows_set)
  ultimately show ?thesis by (simp add: context_rows_def Let_def device_rows_set)
qed

lemma context_subset: "set (context_rows did ts d) \<subseteq> set (db_telemetry d)"
  by (auto simp: context_rows_def Let_def device_rows_set dest: in_set_takeD)

lemma diagnostics_cover:
  assumes "diagnostics_by_id ts (map telemetry_sample_of ctx) = Inr diagnostics" and "t \<in> set ts" and "t \<in> set ctx"
  shows "\<exists>ds. lookup diagnostics (int (tel_id t)) = Inr ds"
proof -
  let ?ids = "set (map (\<lambda>r. int (tel_id r)) ts)" and ?samples = "map telemetry_sample_of ctx"
  from assms(1) obtain found where found: "mapE (diagnose ?ids ?samples) [0 ..< length ?samples] = Inr found"
    and dg: "diagnostics = rev (concat found)" by (auto simp: diagnostics_by_id_def)
  from assms(3) obtain i where i: "i < length ctx" "t = ctx ! i" by (auto simp: in_set_conv_nth)
  with mapE_all [OF found] have "diagnose ?ids ?samples i = Inr (found ! i)" and len: "length found = length ctx"
    by (auto simp: list_all2_conv_all_nth)
  moreover have "ts_sample_id (?samples ! i) = int (tel_id t)" using i by (simp add: telemetry_sample_of_def)
  ultimately obtain ds where "[(int (tel_id t), ds)] = found ! i"
    using assms(2) by (auto simp: diagnose_def Let_def)
  then have "found ! i = [(int (tel_id t), ds)]" by (rule sym)
  with len i have "(int (tel_id t), ds) \<in> set diagnostics" by (force simp: dg in_set_conv_nth)
  then show ?thesis by (intro lookup_total) force
qed

section \<open>Decisions\<close>

definition decided :: "bool \<Rightarrow> telemetry_row list \<Rightarrow> decision \<Rightarrow> bool" where
  "decided ready targets dc = (rewritten targets (dc_rows dc) \<and> (\<forall>r \<in> set (dc_rows dc). \<not> pending ready r))"

lemma mapE_rewritten:
  assumes "mapE f targets = Inr rows" and "\<And>t r. f t = Inr r \<Longrightarrow> same_reading t r \<and> Q r"
  shows "rewritten targets rows \<and> (\<forall>r \<in> set rows. Q r)"
proof -
  from mapE_all [OF assms(1)] have "list_all2 (\<lambda>t r. same_reading t r \<and> Q r) targets rows"
    by (rule list_all2_mono) (use assms(2) in blast)
  then show ?thesis
    by (auto simp: rewritten_def list_all2_conv_all_nth in_set_conv_nth)
qed

lemma same_reading_reason: "same_reading t (t\<lparr>tel_anomaly_reason := q\<rparr>)"
  unfolding same_reading_def
  by (rule exI [of _ "tel_anomaly_score t"], rule exI [of _ "tel_anomaly_percentile t"], rule exI [of _ q]) simp

lemma same_reading_scored:
  "same_reading t (t\<lparr>tel_anomaly_score := s, tel_anomaly_percentile := p, tel_anomaly_reason := q\<rparr>)"
  unfolding same_reading_def by blast

lemma unscored_row_effect:
  assumes "unscored_row detail diagnostics t = Inr r"
  shows "same_reading t r \<and> \<not> pending False r"
proof -
  from assms obtain s where "r = t\<lparr>tel_anomaly_reason := Some s\<rparr>" by (auto simp: unscored_row_def)
  then show ?thesis by (simp add: same_reading_reason pending_def)
qed

lemma scored_row_effect:
  assumes "scored_row x diagnostics t = Inr r"
  shows "same_reading t r \<and> \<not> pending True r"
proof (cases x)
  case None
  then have r: "r = t\<lparr>tel_anomaly_reason := Some ''FEATURE_WINDOW_NOT_READY: waiting for causal context''\<rparr>"
    using assms by (auto simp: scored_row_def)
  then show ?thesis by (simp add: same_reading_reason pending_def awaiting_context_def)
next
  case (Some y)
  then show ?thesis using assms by (auto simp: scored_row_def same_reading_scored pending_def)
qed

lemma decide_unscored_decided: "decide_unscored detail diagnostics targets = Inr dc \<Longrightarrow> decided False targets dc"
  unfolding decide_unscored_def decided_def
  using mapE_rewritten [OF _ unscored_row_effect] by fastforce

lemma decide_scored_decided:
  assumes "decide_scored lib b samples diagnostics targets = Inr dc"
  shows "decided True targets dc"
proof -
  from assms obtain results rows where "mapE (\<lambda>r. scored_row (result_of results r) diagnostics r) targets = Inr rows"
    and "dc_rows dc = rows" by (auto simp: decide_scored_def Let_def)
  with mapE_rewritten [OF _ scored_row_effect] show ?thesis by (fastforce simp: decided_def)
qed

text \<open>A pass that returns: what it found, decided and wrote.\<close>

lemma score_pass_cases:
  assumes "score_device_once w rt cfg files clk did d = Inr (d', n)"
  obtains (idle) registry bndl err where "load_ready_bundle w cfg (clk 0) files did d = Inr (registry, bndl, err)"
    "targets_of did (bndl \<noteq> None) d = []" "d' = put_registry registry d" "n = 0"
  | (busy) registry bndl err diagnostics dc registry' d0 latest where
    "load_ready_bundle w cfg (clk 0) files did d = Inr (registry, bndl, err)"
    "targets_of did (bndl \<noteq> None) d \<noteq> []"
    "diagnostics_by_id (targets_of did (bndl \<noteq> None) d)
       (map telemetry_sample_of (context_rows did (targets_of did (bndl \<noteq> None) d) d)) = Inr diagnostics"
    "lookup diagnostics (int (tel_id (last (targets_of did (bndl \<noteq> None) d)))) = Inr latest"
    "decided (bndl \<noteq> None) (targets_of did (bndl \<noteq> None) d) dc" "n = dc_processed dc"
    "\<exists>es. d0 = d\<lparr>db_errors := es\<rparr>" "write_decision rt clk did registry' (bndl \<noteq> None) latest dc d0 = Inr d'"
    "bndl = None \<Longrightarrow> registry' = registry"
    "\<And>b. bndl = Some b \<Longrightarrow> decide_scored (wk_ml w) b
       (map telemetry_sample_of (context_rows did (targets_of did (bndl \<noteq> None) d) d)) diagnostics
       (targets_of did (bndl \<noteq> None) d) = Inr dc"
proof -
  from assms obtain registry bndl err
    where load: "load_ready_bundle w cfg (clk 0) files did d = Inr (registry, bndl, err)"
    unfolding score_device_once_def by (auto elim!: bindE_InrE)
  let ?ts = "targets_of did (bndl \<noteq> None) d"
  show thesis
  proof (cases "?ts = []")
    case True
    then show thesis using assms load by (intro idle) (auto simp: score_device_once_def)
  next
    case False
    let ?samples = "map telemetry_sample_of (context_rows did ?ts d)"
    have self: "\<exists>es. d = d\<lparr>db_errors := es\<rparr>" by (intro exI [of _ "db_errors d"]) simp
    have log: "\<exists>es. log_diagnostic a b c e f g d = d\<lparr>db_errors := es\<rparr>" for a b c e f g
      unfolding log_diagnostic_def add_error_log_def using self by (split if_split) blast
    show thesis
    proof (cases bndl)
      case None
      with assms load False obtain diagnostics detail dc d0 latest a b c e
        where "diagnostics_by_id ?ts ?samples = Inr diagnostics"
          and "decide_unscored detail diagnostics ?ts = Inr dc"
          and "d0 = log_diagnostic (clk 1) (clk 7) a b c e d"
          and "lookup diagnostics (int (tel_id (last ?ts))) = Inr latest"
          and "write_decision rt clk did registry False latest dc d0 = Inr d'" "n = dc_processed dc"
        unfolding score_device_once_def by (auto simp: Let_def)
      with load False None log show thesis
        by (intro busy [of registry bndl err diagnostics latest dc d0 registry]) (auto dest: decide_unscored_decided)
    next
      case (Some b)
      with assms load False obtain diagnostics dc latest registry'
        where "diagnostics_by_id ?ts ?samples = Inr diagnostics"
          and "decide_scored (wk_ml w) b ?samples diagnostics ?ts = Inr dc"
          and "lookup diagnostics (int (tel_id (last ?ts))) = Inr latest"
          and "write_decision rt clk did registry' True latest dc d = Inr d'" "n = dc_processed dc"
        unfolding score_device_once_def by (auto simp: Let_def)
      with self load False Some show thesis
        by (intro busy [of registry bndl err diagnostics latest dc d registry']) (auto dest: decide_scored_decided)
    qed
  qed
qed

section \<open>The backlog\<close>

lemma notify_tables:
  assumes "notify_after_commit rt e d = Inr d'"
  shows "\<exists>ns. d' = d\<lparr>db_notified := ns\<rparr>"
proof -
  have "\<exists>ns. d = d\<lparr>db_notified := ns\<rparr>" by (intro exI [of _ "db_notified d"]) simp
  with assms show ?thesis by (auto simp: notify_after_commit_def split: if_splits)
qed

lemma put_registry_tables [simp]:
  "db_telemetry (put_registry m d) = db_telemetry d" "db_devices (put_registry m d) = db_devices d"
  "db_alarms (put_registry m d) = db_alarms d" "db_thresholds (put_registry m d) = db_thresholds d"
  "db_health (put_registry m d) = db_health d" "db_commands (put_registry m d) = db_commands d"
  "store_ok (put_registry m d) = store_ok d"
  by (simp_all add: put_registry_def put_model_def split: option.splits)

lemma written_decision:
  assumes "write_decision rt clk did m scored ds dc d = Inr d'"
  shows "\<exists>as ns. d' = (put_registry m (put_rows (dc_rows dc) d))\<lparr>db_alarms := as, db_notified := ns\<rparr>
     \<and> as = (let sensor = set_alarm did ''SENSOR_DIAGNOSTIC'' ''sensor_rule'' (ds \<noteq> [])
               (let s = diagnostic_reason ds in if s = [] then ''Sensor diagnostics cleared'' else s) (clk 3) (clk 5);
             anomaly = set_alarm did ''ANOMALY_DETECTED'' ''anomaly'' (dc_anomalous dc)
               (''Isolation Forest: '' @ dc_latest_reason dc) (clk 4) (clk 6)
            in if scored then anomaly (sensor (db_alarms d)) else sensor (db_alarms d))"
proof -
  let ?d1 = "put_registry m (put_rows (dc_rows dc) d)"
  have al: "db_alarms ?d1 = db_alarms d" by (simp add: put_rows_def)
  obtain as where as: "as = (let sensor = set_alarm did ''SENSOR_DIAGNOSTIC'' ''sensor_rule'' (ds \<noteq> [])
               (let s = diagnostic_reason ds in if s = [] then ''Sensor diagnostics cleared'' else s) (clk 3) (clk 5);
             anomaly = set_alarm did ''ANOMALY_DETECTED'' ''anomaly'' (dc_anomalous dc)
               (''Isolation Forest: '' @ dc_latest_reason dc) (clk 4) (clk 6)
            in if scored then anomaly (sensor (db_alarms d)) else sensor (db_alarms d))" by blast
  have "notify_after_commit rt (scoring_event did (dc_processed dc) m) (?d1\<lparr>db_alarms := as\<rparr>) = Inr d'"
    using assms unfolding write_decision_def Let_def al as .
  from notify_tables [OF this] as show ?thesis by auto
qed

lemma filter_not_taken:
  "distinct xs \<Longrightarrow> filter (\<lambda>x. x \<notin> set (take n xs)) xs = drop n xs"
proof -
  assume d: "distinct xs"
  have "filter (\<lambda>x. x \<notin> set (take n xs)) (take n xs @ drop n xs) = drop n xs"
    unfolding filter_append using set_take_disj_set_drop_if_distinct [OF d, of n n]
    by (auto simp: filter_id_conv filter_empty_conv disjoint_iff)
  then show ?thesis by simp
qed

lemma pass_takes_oldest:
  assumes "score_device_once w rt cfg files clk did d = Inr (d', n)"
    and "load_ready_bundle w cfg (clk 0) files did d = Inr (registry, bndl, err)"
    and ids: "distinct (map tel_id (db_telemetry d))"
  shows "device_rows did (pending (bndl \<noteq> None)) d'
     = drop MAX_BATCH_ROWS (device_rows did (pending (bndl \<noteq> None)) d)"
  using assms(1)
proof (cases rule: score_pass_cases)
  case (idle registry' bndl' err')
  with assms(2) have "targets_of did (bndl \<noteq> None) d = []" by simp
  then have "device_rows did (pending (bndl \<noteq> None)) d = []" by (simp add: targets_of_def MAX_BATCH_ROWS_def)
  moreover have "db_telemetry d' = db_telemetry d" using idle by simp
  ultimately show ?thesis by (simp add: device_rows_def)
next
  case (busy registry' bndl' err' diagnostics dc registry'' d0 latest)
  define ready where "ready = (bndl \<noteq> None)"
  let ?P = "pending ready" and ?ts = "targets_of did ready d"
  have dec: "decided ready ?ts dc" using busy(1,5) assms(2) by (simp add: ready_def)
  then have rw: "rewritten ?ts (dc_rows dc)" and np: "\<forall>r \<in> set (dc_rows dc). \<not> ?P r"
    by (auto simp: decided_def)
  have tids: "distinct (map tel_id ?ts)" using ids by (rule targets_ids)
  have "distinct (map tel_id (dc_rows dc))" using rewritten_ids [OF rw] tids by simp
  moreover obtain es where "d0 = d\<lparr>db_errors := es\<rparr>" using busy(7) by blast
  ultimately have tel: "db_telemetry d' = map (updated (dc_rows dc)) (db_telemetry d)"
    using written_decision [OF busy(8)] by (auto simp: put_rows_map)
  note upd = updated_cases [OF rw ids targets_subset tids]
  have same: "same_reading t (updated (dc_rows dc) t)" if "t \<in> set (db_telemetry d)" for t
    using updated_same_reading [OF rw ids targets_subset tids that] .
  have P: "?P (updated (dc_rows dc) t) \<longleftrightarrow> ?P t \<and> t \<notin> set ?ts"
    if t: "t \<in> set (db_telemetry d)" for t
    using upd [OF t] np rw by (auto simp: rewritten_def list_all2_lengthD split: if_splits)
  have fixed: "updated (dc_rows dc) t = t" if "t \<in> set (db_telemetry d)" "t \<notin> set ?ts" for t
    using upd [OF that(1)] that(2) by simp
  have "filter (\<lambda>r. tel_device_id r = did \<and> ?P r) (map (updated (dc_rows dc)) (db_telemetry d))
      = map (updated (dc_rows dc)) (filter (\<lambda>t. tel_device_id t = did \<and> ?P t \<and> t \<notin> set ?ts) (db_telemetry d))"
    unfolding filter_map by (intro arg_cong [of _ _ "map (updated (dc_rows dc))"] filter_cong)
      (auto simp: P same_reading_fields [OF same])
  also have "\<dots> = filter (\<lambda>t. tel_device_id t = did \<and> ?P t \<and> t \<notin> set ?ts) (db_telemetry d)"
    by (rule map_idI) (auto simp: fixed)
  also have "\<dots> = filter (\<lambda>t. t \<notin> set ?ts) (filter (\<lambda>t. tel_device_id t = did \<and> ?P t) (db_telemetry d))"
    by (simp add: conj_commute conj_left_commute)
  finally have "device_rows did ?P d' = filter (\<lambda>t. t \<notin> set ?ts) (device_rows did ?P d)"
    by (simp add: device_rows_def tel filter_sort)
  also have "\<dots> = drop MAX_BATCH_ROWS (device_rows did ?P d)"
    unfolding targets_of_def using device_rows_ids [OF ids, of did ?P]
    by (intro filter_not_taken) (simp add: distinct_map)
  finally show ?thesis unfolding ready_def .
qed

section \<open>A pass returns\<close>

definition readable :: "telemetry_row \<Rightarrow> bool" where
  "readable r = (\<forall>v \<in> {tel_temperature_c r, tel_current_a r, tel_vibration_rms_mps2 r}. v = None \<or> finite_value v)"

lemma readable_sample:
  assumes "readable r" and "f \<in> {ts_temperature_c, ts_current_a, ts_vibration_rms_mps2}"
  shows "f (telemetry_sample_of r) = None \<or> finite_value (f (telemetry_sample_of r))"
  using assms by (auto simp: readable_def telemetry_sample_of_def)

lemma diagnostics_exist:
  assumes "\<forall>r \<in> set ctx. readable r"
  shows "\<exists>dg. diagnostics_by_id ts (map telemetry_sample_of ctx) = Inr dg"
proof -
  let ?samples = "map telemetry_sample_of ctx"
  have "\<exists>x. diagnose ids ?samples i = Inr x" for ids i
  proof -
    have "set (sample_window ?samples i) \<subseteq> telemetry_sample_of ` set ctx"
      by (auto simp: sample_window_def dest!: in_set_dropD in_set_takeD)
    then have src: "\<exists>r. readable r \<and> s = telemetry_sample_of r" if "s \<in> set (sample_window ?samples i)" for s
      using that assms by auto
    have "\<exists>ds. detect_sensor_failures (lit 30) (sample_window ?samples i) = Inr ds"
    proof (rule rules_return)
      fix s and f :: "telemetry_sample \<Rightarrow> flt option"
      assume "s \<in> set (sample_window ?samples i)" and f: "f \<in> {ts_temperature_c, ts_current_a, ts_vibration_rms_mps2}"
      with src obtain r where "readable r" "s = telemetry_sample_of r" by blast
      with readable_sample [OF _ f, of r] show "f s = None \<or> finite_value (f s)" by simp
    qed
    then show ?thesis by (auto simp: diagnose_def Let_def)
  qed
  then have "\<exists>ys. mapE (diagnose (set (map (\<lambda>r. int (tel_id r)) ts)) ?samples) [0 ..< length ?samples] = Inr ys"
    by (intro mapE_total)
  then show ?thesis by (auto simp: diagnostics_by_id_def)
qed

lemma length_digits: "0 < n \<Longrightarrow> length (digits_of n) \<le> n"
proof (induction n rule: digits_of.induct)
  case (1 n)
  show ?case
  proof (cases "n < 10")
    case True
    then show ?thesis using 1 by (simp add: digits_of.simps [of n])
  next
    case False
    then have "length (digits_of (n div 10)) \<le> n div 10" using 1 by simp
    then show ?thesis using False by (simp add: digits_of.simps [of n])
  qed
qed

lemma json_string_max: "length (json_string s) \<le> 6 * length s + 2"
proof -
  have "length (json_char c) \<le> 6" for c by (simp add: json_char_def Let_def)
  then have "length (concat (map json_char s)) \<le> 6 * length s"
    by (induction s) (auto intro: add_mono)
  then show ?thesis by (simp add: json_string_def)
qed

lemma json_string_literal:
  "length (json_string ''type'') \<le> 26" "length (json_string ''device_id'') \<le> 56"
  "length (json_string ''processed'') \<le> 56" "length (json_string ''model_version'') \<le> 80"
  "length (json_string ''model_status'') \<le> 74" "length (json_string ''anomaly_scoring'') \<le> 92"
  using json_string_max [of "''type''"] json_string_max [of "''device_id''"] json_string_max [of "''processed''"]
    json_string_max [of "''model_version''"] json_string_max [of "''model_status''"]
    json_string_max [of "''anomaly_scoring''"] by simp_all

lemma scoring_event_small:
  assumes "length did \<le> 63" and "\<And>x. m = Some x \<Longrightarrow> length (mdl_model_version x) \<le> 80 \<and> length (mdl_status x) \<le> 24"
    and "0 \<le> k" and "k \<le> 500"
  shows "\<not> event_too_large rt (scoring_event did k m)"
proof -
  have k: "length (str_of_int k) \<le> 500"
  proof (cases "k = 0")
    case True
    then show ?thesis by (simp add: str_of_int_def digits_of.simps)
  next
    case False
    then show ?thesis using assms(3,4) length_digits [of "nat k"] by (simp add: str_of_int_def)
  qed
  have did: "length (json_string did) \<le> 380" using json_string_max [of did] assms(1) by linarith
  let ?st = "case m of None \<Rightarrow> ''model_not_ready'' | Some x \<Rightarrow> mdl_status x"
  have "length ?st \<le> 24" using assms(2) by (auto split: option.splits)
  then have st: "length (json_string ?st) \<le> 146" using json_string_max [of ?st] by linarith
  have ver: "length (json_dumps r (jopt (\<lambda>x. JStr (mdl_model_version x)) m)) \<le> 482" for r
  proof (cases m)
    case (Some x)
    then show ?thesis using json_string_max [of "mdl_model_version x"] assms(2) [OF Some] by simp
  qed simp
  show ?thesis
    using k did st ver [of "rt_float_repr rt"] json_string_literal
    by (simp add: event_too_large_def scoring_event_def)
qed

lemma ready_bundle_usable:
  assumes "load_ready_bundle w cfg now files did d = Inr (registry, Some b, e)"
  obtains m dir where "latest_registry did d = Some m" "trusted_artifact_directory w cfg m = Inr dir"
    "load_bundle (wk_ml w) (wk_codec w) files dir = Inr b" "md_device_id (mb_metadata b) = did"
    "md_model_version (mb_metadata b) = mdl_model_version m"
    "md_artifact_checksum (mb_metadata b) = mdl_artifact_checksum m"
    "model_is_stale (wk_codec w) (mb_metadata b) now (model_stale_after_days cfg) = Inr False"
    "registry = Some (m\<lparr>mdl_status := ''ready'', mdl_diagnostic := None\<rparr>)"
proof -
  from assms obtain m where m: "latest_registry did d = Some m"
    by (auto simp: load_ready_bundle_def split: option.splits)
  with assms have u: "usable_bundle w cfg now files did m = Inr (Some b)"
    and r: "registry = Some (m\<lparr>mdl_status := ''ready'', mdl_diagnostic := None\<rparr>)"
    by (auto simp: load_ready_bundle_def Let_def split: sum.splits option.splits if_splits)
  from u show thesis
    unfolding usable_bundle_def
  proof (elim bindE_InrE)
    fix dir b' x y stale
    assume "trusted_artifact_directory w cfg m = Inr dir" "load_bundle (wk_ml w) (wk_codec w) files dir = Inr b'"
      "raise_if (md_device_id (mb_metadata b') \<noteq> did \<or> md_model_version (mb_metadata b') \<noteq> mdl_model_version m)
         (ArtifactError ''MODEL_REGISTRY_MISMATCH'') = Inr x"
      "raise_if (md_artifact_checksum (mb_metadata b') \<noteq> mdl_artifact_checksum m)
         (ArtifactError ''MODEL_REGISTRY_CHECKSUM_MISMATCH'') = Inr y"
      "model_is_stale (wk_codec w) (mb_metadata b') now (model_stale_after_days cfg) = Inr stale"
      "Inr (if stale then None else Some b') = Inr (Some b)"
    then show thesis using that [OF m _ _ _ _ _ _ r] by (simp split: if_splits)
  qed
qed

lemma registry_name:
  assumes "load_ready_bundle w cfg now files did d = Inr (Some m', b, e)"
  shows "\<exists>m. latest_registry did d = Some m \<and> mdl_model_version m' = mdl_model_version m \<and> length (mdl_status m') \<le> 24
     \<and> mdl_id m' = mdl_id m"
proof -
  from assms obtain m where m: "latest_registry did d = Some m"
    by (auto simp: load_ready_bundle_def split: option.splits)
  with assms show ?thesis
    by (cases "usable_bundle w cfg now files did m") (auto simp: load_ready_bundle_def Let_def split: option.splits if_splits)
qed

lemma decision_size:
  assumes "diagnostics_by_id ts samples = Inr dg"
    and "decide_unscored detail dg ts = Inr dc \<or> decide_scored lib b samples dg ts = Inr dc" and "length ts \<le> 500"
  shows "0 \<le> dc_processed dc \<and> dc_processed dc \<le> 500"
proof -
  have "length (filter P ts) \<le> 500" for P using assms(3) length_filter_le [of P ts] by linarith
  with assms(2,3) show ?thesis by (auto simp: decide_unscored_def decide_scored_def Let_def)
qed

lemma targets_few: "length (targets_of did ready d) \<le> 500"
  by (simp add: targets_of_def MAX_BATCH_ROWS_def)

lemma write_total:
  assumes "\<not> event_too_large rt (scoring_event did (dc_processed dc) m)"
  shows "\<exists>d'. write_decision rt clk did m scored ds dc d = Inr d'"
  using assms by (simp add: write_decision_def notify_after_commit_def Let_def)

lemma pass_returns:
  assumes load: "load_ready_bundle w cfg (clk 0) files did d = Inr (registry, bndl, err)"
    and read: "\<forall>r \<in> set (db_telemetry d). readable r"
    and est: "\<And>b. bndl = Some b \<Longrightarrow> answers (wk_ml w) (mb_estimator b)"
    and did: "length did \<le> 63"
    and ver: "\<And>m. latest_registry did d = Some m \<Longrightarrow> length (mdl_model_version m) \<le> 80"
  shows "\<exists>d' n. score_device_once w rt cfg files clk did d = Inr (d', n)"
proof -
  define ts where "ts = targets_of did (bndl \<noteq> None) d"
  define samples where "samples = map telemetry_sample_of (context_rows did ts d)"
  obtain dg where dg: "diagnostics_by_id ts samples = Inr dg"
    unfolding samples_def using diagnostics_exist context_subset read by blast
  have cover: "\<exists>ds. lookup dg (int (tel_id t)) = Inr ds" if "t \<in> set ts" for t
    using diagnostics_cover [OF dg [unfolded samples_def] that] targets_in_context that by (simp add: ts_def)
  have few: "length ts \<le> 500" unfolding ts_def by (rule targets_few)
  have small: "\<not> event_too_large rt (scoring_event did (dc_processed dc) (map_option g registry))"
    if "0 \<le> dc_processed dc \<and> dc_processed dc \<le> 500" "\<And>m. mdl_model_version (g m) = mdl_model_version m \<and> mdl_status (g m) = mdl_status m"
    for dc g
  proof (rule scoring_event_small)
    fix x assume "map_option g registry = Some x"
    then obtain m where "registry = Some m" "x = g m" by auto
    with registry_name load ver that(2) show "length (mdl_model_version x) \<le> 80 \<and> length (mdl_status x) \<le> 24" by metis
  qed (use that did in auto)
  show ?thesis
  proof (cases "ts = []")
    case True
    then show ?thesis using load by (simp add: score_device_once_def ts_def)
  next
    case False
    then obtain latest where latest: "lookup dg (int (tel_id (last ts))) = Inr latest" using cover by fastforce
    show ?thesis
    proof (cases bndl)
      case None
      define code where "code = (case err of None \<Rightarrow> ''MODEL_NOT_READY'' | Some c \<Rightarrow> if c = [] then ''MODEL_NOT_READY'' else c)"
      have "\<exists>ys. mapE (unscored_row detail dg) ts = Inr ys" for detail
        by (rule mapE_total) (use cover in \<open>fastforce simp: unscored_row_def\<close>)
      then obtain dc where dc: "decide_unscored (code @ '': deterministic sensor and threshold rules remain active'') dg ts = Inr dc"
        unfolding decide_unscored_def by (metis bindE_simps(2))
      from small [of dc "\<lambda>m. m"] decision_size [OF dg disjI1 [OF dc] few] obtain d' where
        "write_decision rt clk did registry False latest dc (log_diagnostic (clk 1) (clk 7) did code
           (if code \<noteq> ''MODEL_NOT_READY'' then ''warning'' else ''info'')
           (code @ '': deterministic sensor and threshold rules remain active'') d) = Inr d'"
        using write_total by (fastforce simp: option.map_ident)
      then show ?thesis
        using load dg dc latest False None unfolding score_device_once_def
        by (simp add: samples_def ts_def code_def Let_def)
    next
      case (Some b)
      obtain fs where fs: "default_features (ml_numpy (wk_ml w)) False samples = Inr fs" using default_features_total by blast
      have "load_ready_bundle w cfg (clk 0) files did d = Inr (registry, Some b, err)" using load Some by simp
      then obtain dir where "load_bundle (wk_ml w) (wk_codec w) files dir = Inr b" by (rule ready_bundle_usable)
      from loaded_bundle(1) [OF this] have "scorable b" by (simp add: sound_bundle_def)
      then obtain rs where rs: "score_rows (wk_ml w) b fs = Inr rs"
        using scores_exist [OF fs \<open>scorable b\<close>, of "wk_ml w"] est [OF Some] unfolding answers_def by blast
      have "\<exists>ys. mapE (\<lambda>t. scored_row (result_of rs t) dg t) ts = Inr ys"
        by (rule mapE_total) (use cover in \<open>fastforce simp: scored_row_def\<close>)
      then obtain dc where dc: "decide_scored (wk_ml w) b samples dg ts = Inr dc"
        using fs rs by (auto simp: decide_scored_def Let_def)
      let ?m = "map_option (\<lambda>m. m\<lparr>mdl_last_scored_at := Some (Aware (clk 2))\<rparr>) registry"
      from small [of dc "\<lambda>m. m\<lparr>mdl_last_scored_at := Some (Aware (clk 2))\<rparr>"] decision_size [OF dg disjI2 [OF dc] few]
      obtain d' where "write_decision rt clk did ?m True latest dc d = Inr d'"
        using write_total by fastforce
      then show ?thesis
        using load dg dc latest False Some unfolding score_device_once_def
        by (simp add: samples_def ts_def Let_def)
    qed
  qed
qed

section \<open>Worker alarms are a latch\<close>

record worker_alarm =
  wa_device_id :: string
  wa_sensor :: bool
  wa_active :: bool
  wa_summary :: string
  wa_now :: int
  wa_opened :: int

definition wa_code :: "worker_alarm \<Rightarrow> string" where
  "wa_code i = (if wa_sensor i then ''SENSOR_DIAGNOSTIC'' else ''ANOMALY_DETECTED'')"

definition wa_source :: "worker_alarm \<Rightarrow> string" where
  "wa_source i = (if wa_sensor i then ''sensor_rule'' else ''anomaly'')"

definition worker_alarm_step :: "worker_alarm \<Rightarrow> alarm_row list \<Rightarrow> alarm_row list" where
  "worker_alarm_step i =
     set_alarm (wa_device_id i) (wa_code i) (wa_source i) (wa_active i) (wa_summary i) (wa_now i) (wa_opened i)"

text \<open>The codes of the worker are raised from its own sources, and only from them.\<close>

definition sourced_row :: "alarm_row \<Rightarrow> bool" where
  "sourced_row a = ((alm_code a = ''SENSOR_DIAGNOSTIC'' \<longrightarrow> alm_source a = ''sensor_rule'')
     \<and> (alm_code a = ''ANOMALY_DETECTED'' \<longrightarrow> alm_source a = ''anomaly''))"

definition sourced_alarms :: "alarm_row list \<Rightarrow> bool" where
  "sourced_alarms rows = (alarms_ok rows \<and> (\<forall>a \<in> set rows. sourced_row a))"

lemma find_sourced:
  assumes "\<forall>a \<in> set rows. sourced_row a"
  shows "find (\<lambda>a. alm_device_id a = d \<and> alm_code a = wa_code i \<and> alm_source a = wa_source i \<and> alm_state a = ''active'') rows
     = find (active_alarm d (wa_code i)) rows"
  using assms by (intro find_cong) (auto simp: sourced_row_def wa_code_def wa_source_def)

lemma worker_step_eq:
  assumes "\<forall>a \<in> set rows. sourced_row a"
  shows "worker_alarm_step i rows =
     (case find (active_alarm (wa_device_id i) (wa_code i)) rows of
        None \<Rightarrow> if wa_active i
          then rows @ [new_alarm (wa_device_id i) (wa_code i) ''warning'' (wa_source i) (take 240 (wa_summary i))
                         (Aware (wa_opened i)) rows] else rows
      | Some a \<Rightarrow> row_put alm_id (alm_id a)
          (\<lambda>r. if wa_active i then r\<lparr>alm_summary := take 240 (wa_summary i)\<rparr>
               else r\<lparr>alm_state := ''cleared'', alm_cleared_at := Some (Aware (wa_now i))\<rparr>) rows)"
  unfolding worker_alarm_step_def set_alarm_def find_sourced [OF assms] ..

lemma worker_alarm_write:
  assumes "sourced_alarms rows"
  shows "alarm_write (wa_device_id i) (wa_code i) rows (worker_alarm_step i rows)"
proof -
  from assms have one: "one_active rows" and src: "\<forall>a \<in> set rows. sourced_row a"
    by (simp_all add: sourced_alarms_def alarms_ok_def)
  show ?thesis
  proof (cases "find (active_alarm (wa_device_id i) (wa_code i)) rows")
    case None
    then have "active_alarms (wa_device_id i) (wa_code i) rows = []" using find_active_None by blast
    with None show ?thesis by (simp add: worker_step_eq [OF src] alarm_write.keep alarm_write.open_new)
  next
    case (Some a)
    then have "active_alarms (wa_device_id i) (wa_code i) rows = [a]" using find_active_Some [OF one] by simp
    with Some show ?thesis by (auto simp: worker_step_eq [OF src] intro!: alarm_write.update)
  qed
qed

lemma worker_alarm_sourced:
  assumes "sourced_alarms rows"
  shows "sourced_alarms (worker_alarm_step i rows)"
proof -
  from assms have src: "\<forall>a \<in> set rows. sourced_row a" by (simp add: sourced_alarms_def)
  have "\<forall>a \<in> set (worker_alarm_step i rows). sourced_row a"
    using src unfolding worker_step_eq [OF src]
    by (auto simp: set_row_put sourced_row_def wa_code_def wa_source_def split: option.splits if_splits)
  moreover have "alarms_ok (worker_alarm_step i rows)"
    using alarm_write_ok [OF worker_alarm_write [OF assms]] assms by (simp add: sourced_alarms_def)
  ultimately show ?thesis by (simp add: sourced_alarms_def)
qed

interpretation worker_alarms: alarm_latch wa_device_id wa_code worker_alarm_step sourced_alarms
  by unfold_locales (simp_all add: worker_alarm_write worker_alarm_sourced, simp add: sourced_alarms_def)

lemma worker_alarm_active:
  assumes "sourced_alarms rows"
  shows "active_alarms (wa_device_id i) (wa_code i) (worker_alarm_step i rows) \<noteq> [] \<longleftrightarrow> wa_active i"
proof -
  from assms have ok: "alarms_ok rows" and one: "one_active rows" and dist: "distinct (map alm_id rows)"
    and src: "\<forall>a \<in> set rows. sourced_row a"
    by (simp_all add: sourced_alarms_def alarms_ok_def)
  let ?d = "wa_device_id i" and ?c = "wa_code i"
  show ?thesis
  proof (cases "find (active_alarm ?d ?c) rows")
    case None
    then have "active_alarms ?d ?c rows = []" using find_active_None by blast
    with None show ?thesis by (simp add: worker_step_eq [OF src])
  next
    case (Some a)
    then have a: "active_alarms ?d ?c rows = [a]" using find_active_Some [OF one] by simp
    have act: "active_alarm ?d ?c a" using active_in_rows [OF a] by simp
    show ?thesis
    proof (cases "wa_active i")
      case True
      have "active_alarms ?d ?c (row_put alm_id (alm_id a) (\<lambda>r. r\<lparr>alm_summary := take 240 (wa_summary i)\<rparr>) rows)
          = [a\<lparr>alm_summary := take 240 (wa_summary i)\<rparr>]"
        by (rule active_put_same [OF a _ dist]) (use act in simp)
      with Some True show ?thesis by (simp add: worker_step_eq [OF src])
    next
      case False
      have "active_alarms ?d ?c (row_put alm_id (alm_id a)
          (\<lambda>r. r\<lparr>alm_state := ''cleared'', alm_cleared_at := Some (Aware (wa_now i))\<rparr>) rows) = []"
        by (rule active_put_clear [OF a _ dist]) simp
      with Some False show ?thesis by (simp add: worker_step_eq [OF src])
    qed
  qed
qed

section \<open>The store stays consistent\<close>

definition worker_store :: "db \<Rightarrow> bool" where
  "worker_store d = (store_ok d \<and> distinct (map tel_id (db_telemetry d)) \<and> sourced_alarms (db_alarms d))"

text \<open>Rewriting the anomaly columns of rows touches no key and no reference.\<close>

lemma store_ok_rewrite:
  assumes "store_ok d" and "\<And>t. t \<in> set (db_telemetry d) \<Longrightarrow> same_reading t (f t)"
  shows "store_ok (d\<lparr>db_telemetry := map f (db_telemetry d)\<rparr>)"
    and "map tel_id (map f (db_telemetry d)) = map tel_id (db_telemetry d)"
proof -
  note same = same_reading_fields [OF assms(2)]
  have keys: "map (tel_message_id \<circ> f) (db_telemetry d) = map tel_message_id (db_telemetry d)"
    "map ((\<lambda>r. (tel_device_id r, tel_sequence r)) \<circ> f) (db_telemetry d)
       = map (\<lambda>r. (tel_device_id r, tel_sequence r)) (db_telemetry d)"
    by (simp_all add: same)
  show "store_ok (d\<lparr>db_telemetry := map f (db_telemetry d)\<rparr>)"
    using assms(1) unfolding store_ok_def keys_ok_def refs_ok_def
    by (auto simp: keys get_device_def same simp del: map_eq_conv)
  show "map tel_id (map f (db_telemetry d)) = map tel_id (db_telemetry d)"
    by (simp add: same)
qed

lemma pass_effect:
  assumes "score_device_once w rt cfg files clk did d = Inr (d', n)" and "distinct (map tel_id (db_telemetry d))"
  shows "\<exists>f. db_telemetry d' = map f (db_telemetry d) \<and> (\<forall>t \<in> set (db_telemetry d). same_reading t (f t))
     \<and> db_devices d' = db_devices d \<and> (store_ok d' \<longleftrightarrow> store_ok (d\<lparr>db_telemetry := map f (db_telemetry d), db_alarms := db_alarms d'\<rparr>))
     \<and> (sourced_alarms (db_alarms d) \<longrightarrow> sourced_alarms (db_alarms d'))"
  using assms(1)
proof (cases rule: score_pass_cases)
  case (idle registry bndl e)
  then show ?thesis
    by (intro exI [of _ "\<lambda>t. t"]) (simp add: same_reading_refl)
next
  case (busy registry bndl e diagnostics dc registry' d0 latest)
  let ?ts = "targets_of did (bndl \<noteq> None) d"
  have rw: "rewritten ?ts (dc_rows dc)" using busy(5) by (simp add: decided_def)
  have tids: "distinct (map tel_id ?ts)" using assms(2) by (rule targets_ids)
  have "distinct (map tel_id (dc_rows dc))" using rewritten_ids [OF rw] tids by simp
  then have tel: "db_telemetry (put_rows (dc_rows dc) d0) = map (updated (dc_rows dc)) (db_telemetry d)"
    using busy(7) by (auto simp: put_rows_map)
  obtain es where d0: "d0 = d\<lparr>db_errors := es\<rparr>" using busy(7) by blast
  obtain as ns where d': "d' = (put_registry registry' (put_rows (dc_rows dc) d0))\<lparr>db_alarms := as, db_notified := ns\<rparr>"
    and as: "as = (let sensor = set_alarm did ''SENSOR_DIAGNOSTIC'' ''sensor_rule'' (latest \<noteq> [])
               (let s = diagnostic_reason latest in if s = [] then ''Sensor diagnostics cleared'' else s) (clk 3) (clk 5);
             anomaly = set_alarm did ''ANOMALY_DETECTED'' ''anomaly'' (dc_anomalous dc)
               (''Isolation Forest: '' @ dc_latest_reason dc) (clk 4) (clk 6)
            in if bndl \<noteq> None then anomaly (sensor (db_alarms d0)) else sensor (db_alarms d0))"
    using written_decision [OF busy(8)] by blast
  have same: "same_reading t (updated (dc_rows dc) t)" if "t \<in> set (db_telemetry d)" for t
    using updated_same_reading [OF rw assms(2) targets_subset tids that] .
  have "sourced_alarms (db_alarms d')" if "sourced_alarms (db_alarms d)"
  proof -
    define i where "i = \<lparr>wa_device_id = did, wa_sensor = True, wa_active = (latest \<noteq> []),
      wa_summary = (let s = diagnostic_reason latest in if s = [] then ''Sensor diagnostics cleared'' else s),
      wa_now = clk 3, wa_opened = clk 5\<rparr>"
    define j where "j = \<lparr>wa_device_id = did, wa_sensor = False, wa_active = dc_anomalous dc,
      wa_summary = ''Isolation Forest: '' @ dc_latest_reason dc, wa_now = clk 4, wa_opened = clk 6\<rparr>"
    have "as = fold worker_alarm_step (if bndl \<noteq> None then [i, j] else [i]) (db_alarms d)"
      by (simp add: as i_def j_def d0 worker_alarm_step_def wa_code_def wa_source_def Let_def)
    with worker_alarms.run_inv [OF that] show ?thesis by (simp add: d')
  qed
  then show ?thesis
    using tel same d'
    by (intro exI [of _ "updated (dc_rows dc)"])
      (auto simp: d0 put_rows_def store_ok_def keys_ok_def refs_ok_def get_device_def)
qed

lemma pass_keeps_store:
  assumes "score_device_once w rt cfg files clk did d = Inr (d', n)" and "worker_store d"
  shows "worker_store d'"
proof -
  from assms obtain f where f: "db_telemetry d' = map f (db_telemetry d)" "\<forall>t \<in> set (db_telemetry d). same_reading t (f t)"
    "store_ok d' \<longleftrightarrow> store_ok (d\<lparr>db_telemetry := map f (db_telemetry d), db_alarms := db_alarms d'\<rparr>)"
    "sourced_alarms (db_alarms d')"
    using pass_effect [OF assms(1)] by (auto simp: worker_store_def)
  have "store_ok (d\<lparr>db_telemetry := map f (db_telemetry d)\<rparr>)"
    and ids: "map tel_id (map f (db_telemetry d)) = map tel_id (db_telemetry d)"
    using store_ok_rewrite [of d f] assms(2) f(2) by (auto simp: worker_store_def)
  moreover have "alarms_ok (db_alarms d')" using f(4) by (simp add: sourced_alarms_def)
  ultimately have "store_ok d'"
    using store_ok_set_alarms [of "d\<lparr>db_telemetry := map f (db_telemetry d)\<rparr>" "db_alarms d'"] f(3) by simp
  moreover have "distinct (map tel_id (db_telemetry d'))" using assms(2) ids f(1) by (simp add: worker_store_def del: map_map map_eq_conv)
  ultimately show ?thesis using f(4) by (simp add: worker_store_def)
qed

section \<open>What the worker promises\<close>

text \<open>C13: A scoring pass takes exactly the oldest five hundred pending rows of its device off the backlog: whatever it decides about them, they are not pending afterwards, and every other pending row stays, in the same order.\<close>

theorem pass_takes_oldest_rows:
  assumes "score_device_once w rt cfg files clk did d = Inr (d', n)"
    and "load_ready_bundle w cfg (clk 0) files did d = Inr (registry, bndl, err)"
    and "distinct (map tel_id (db_telemetry d))"
  shows "device_rows did (pending (bndl \<noteq> None)) d'
     = drop MAX_BATCH_ROWS (device_rows did (pending (bndl \<noteq> None)) d)"
  using assms by (rule pass_takes_oldest)

text \<open>C14: A pass returns: with telemetry whose values are finite or missing, an estimator that answers row by row and identifiers within their columns, no lookup, rule or event size raises, whether or not there is a model.\<close>

theorem scoring_pass_returns:
  assumes "load_ready_bundle w cfg (clk 0) files did d = Inr (registry, bndl, err)"
    and "\<forall>r \<in> set (db_telemetry d). readable r"
    and "\<And>b. bndl = Some b \<Longrightarrow> answers (wk_ml w) (mb_estimator b)"
    and "length did \<le> 63"
    and "\<And>m. latest_registry did d = Some m \<Longrightarrow> length (mdl_model_version m) \<le> 80"
  shows "\<exists>d' n. score_device_once w rt cfg files clk did d = Inr (d', n)"
  using assms by (rule pass_returns)

text \<open>Repeated passes over a device that has no model: \<open>clks k\<close> are the clock readings of the \<open>k\<close>-th.\<close>

inductive unmodelled_passes ::
  "'e worker \<Rightarrow> runtime \<Rightarrow> settings \<Rightarrow> fs \<Rightarrow> string \<Rightarrow> nat \<Rightarrow> db \<Rightarrow> db \<Rightarrow> bool"
  for w :: "'e worker" and rt cfg files did where
  none: "unmodelled_passes w rt cfg files did 0 d d"
| one: "score_device_once w rt cfg files clk did d = Inr (d', n) \<Longrightarrow>
     unmodelled_passes w rt cfg files did k d' d'' \<Longrightarrow> unmodelled_passes w rt cfg files did (Suc k) d d''"

lemma unmodelled_load: "latest_registry did d = None \<Longrightarrow> load_ready_bundle w cfg now files did d = Inr (None, None, Some ''MODEL_NOT_READY'')"
  by (simp add: load_ready_bundle_def)

lemma unmodelled_pass_models:
  assumes "score_device_once w rt cfg files clk did d = Inr (d', n)" and none: "latest_registry did d = None"
  shows "db_models d' = db_models d"
  using assms(1)
proof (cases rule: score_pass_cases)
  case (idle registry bndl e)
  then have "registry = None" using unmodelled_load [OF none, of w cfg "clk 0" files] by simp
  with idle(3) show ?thesis by (simp add: put_registry_def)
next
  case (busy registry bndl e diagnostics dc registry' d0 latest)
  then have "registry' = None" using unmodelled_load [OF none, of w cfg "clk 0" files] by simp
  then show ?thesis
    using written_decision [OF busy(8)] busy(7) by (auto simp: put_registry_def put_rows_def)
qed

lemma readable_same: "same_reading t r \<Longrightarrow> readable t \<Longrightarrow> readable r"
  by (auto simp: same_reading_def readable_def)

lemma unmodelled_progress:
  assumes "latest_registry did d = None" and "\<forall>r \<in> set (db_telemetry d). readable r" and "length did \<le> 63"
    and "distinct (map tel_id (db_telemetry d))"
  shows "\<exists>d'. unmodelled_passes w rt cfg files did k d d'
     \<and> device_rows did (pending False) d' = drop (k * MAX_BATCH_ROWS) (device_rows did (pending False) d)"
  using assms
proof (induction k arbitrary: d)
  case 0
  then show ?case by (auto intro: unmodelled_passes.none)
next
  case (Suc k)
  have load: "load_ready_bundle w cfg now files did d = Inr (None, None, Some ''MODEL_NOT_READY'')" for now
    using unmodelled_load [OF Suc.prems(1)] .
  obtain d1 n where p: "score_device_once w rt cfg files (\<lambda>_. 0) did d = Inr (d1, n)"
    using pass_returns [where clk = "\<lambda>_. 0" and rt = rt, OF load Suc.prems(2) _ Suc.prems(3)] Suc.prems(1) by auto
  have rows: "device_rows did (pending False) d1 = drop MAX_BATCH_ROWS (device_rows did (pending False) d)"
    using pass_takes_oldest [OF p load Suc.prems(4)] by simp
  obtain f where f: "db_telemetry d1 = map f (db_telemetry d)" "\<forall>t \<in> set (db_telemetry d). same_reading t (f t)"
    using pass_effect [OF p Suc.prems(4)] by blast
  have "\<forall>r \<in> set (db_telemetry d1). readable r" using f Suc.prems(2) readable_same by auto
  moreover have "distinct (map tel_id (db_telemetry d1))"
  proof -
    have "map tel_id (db_telemetry d1) = map tel_id (db_telemetry d)"
      using f by (simp add: same_reading_fields)
    with Suc.prems(4) show ?thesis by simp
  qed
  moreover have "latest_registry did d1 = None"
    using unmodelled_pass_models [OF p Suc.prems(1)] Suc.prems(1) by (simp add: latest_registry_def latest_model_def)
  ultimately obtain d2 where "unmodelled_passes w rt cfg files did k d1 d2"
    "device_rows did (pending False) d2 = drop (k * MAX_BATCH_ROWS) (device_rows did (pending False) d1)"
    using Suc.IH [of d1] Suc.prems(3) by blast
  with p rows show ?case by (auto intro: unmodelled_passes.one simp: add.commute)
qed

text \<open>C15: The backlog of a device without a model drains: after enough passes, as many as the backlog has batches of five hundred, no row is pending and every row has its diagnosis.\<close>

theorem backlog_drains:
  assumes "latest_registry did d = None" and "\<forall>r \<in> set (db_telemetry d). readable r" and "length did \<le> 63"
    and "distinct (map tel_id (db_telemetry d))"
    and "length (device_rows did (pending False) d) \<le> k * MAX_BATCH_ROWS"
  shows "\<exists>d'. unmodelled_passes w rt cfg files did k d d' \<and> device_rows did (pending False) d' = []"
  using unmodelled_progress [OF assms(1-4), where k = k] assms(5) by fastforce

lemma score_devices_store:
  "(\<And>did d d' n. score did d = Inr (d', n) \<Longrightarrow> worker_store d \<Longrightarrow> worker_store d') \<Longrightarrow> worker_store d \<Longrightarrow>
     worker_store (fst (score_devices score dids k d))"
  by (induction score dids k d rule: score_devices.induct) (auto split: sum.splits)

text \<open>A run over all devices keeps the store consistent whatever happens in it, an exception in the middle included: keys, references, one active alarm per device and code, and the worker's alarms raised only from their own sources.\<close>

theorem run_keeps_store:
  assumes "worker_store d"
  shows "worker_store (fst (run_once w rt cfg files clks d))"
  unfolding run_once_def using pass_keeps_store assms by (rule score_devices_store)

text \<open>C16: A pass uses a model only if its artifact lies inside the resolved model directory, passes the integrity checks and is the one registered: same device, version and checksum, not older than allowed.\<close>

theorem scored_by_registered_model:
  assumes "load_ready_bundle w cfg now files did d = Inr (registry, Some b, err)"
  shows "\<exists>m dir. latest_registry did d = Some m \<and> prefix (wk_resolve w (models_directory cfg)) dir
     \<and> load_bundle (wk_ml w) (wk_codec w) files dir = Inr b \<and> sound_bundle (wk_ml w) b
     \<and> md_device_id (mb_metadata b) = did \<and> md_model_version (mb_metadata b) = mdl_model_version m
     \<and> md_artifact_checksum (mb_metadata b) = mdl_artifact_checksum m
     \<and> (\<exists>created. parse_utc (wk_codec w) (md_created_at (mb_metadata b)) = Inr created
          \<and> now \<le> created + days (model_stale_after_days cfg))"
  using assms
proof (rule ready_bundle_usable)
  fix m dir
  assume "latest_registry did d = Some m" "trusted_artifact_directory w cfg m = Inr dir"
    "load_bundle (wk_ml w) (wk_codec w) files dir = Inr b" "md_device_id (mb_metadata b) = did"
    "md_model_version (mb_metadata b) = mdl_model_version m"
    "md_artifact_checksum (mb_metadata b) = mdl_artifact_checksum m"
    "model_is_stale (wk_codec w) (mb_metadata b) now (model_stale_after_days cfg) = Inr False"
  moreover from this have "sound_bundle (wk_ml w) b" by (intro loaded_bundle(1))
  moreover have "prefix (wk_resolve w (models_directory cfg)) dir"
    using \<open>trusted_artifact_directory w cfg m = Inr dir\<close> by (auto simp: trusted_artifact_directory_def Let_def)
  moreover have "\<exists>created. parse_utc (wk_codec w) (md_created_at (mb_metadata b)) = Inr created
      \<and> now \<le> created + days (model_stale_after_days cfg)"
    using \<open>model_is_stale _ _ _ _ = Inr False\<close> by (auto simp: model_is_stale_def)
  ultimately show ?thesis by blast
qed

section \<open>Alarms follow the latest target\<close>

lemma pass_alarms:
  assumes "score_device_once w rt cfg files clk did d = Inr (d', n)"
    and load: "load_ready_bundle w cfg (clk 0) files did d = Inr (registry, bndl, err)"
    and ts: "targets_of did (bndl \<noteq> None) d \<noteq> []" (is "?ts \<noteq> []") and src: "sourced_alarms (db_alarms d)"
  obtains dg latest dc where "diagnostics_by_id ?ts (map telemetry_sample_of (context_rows did ?ts d)) = Inr dg"
    "lookup dg (int (tel_id (last ?ts))) = Inr latest"
    "active_alarms did ''SENSOR_DIAGNOSTIC'' (db_alarms d') \<noteq> [] \<longleftrightarrow> latest \<noteq> []"
    "bndl \<noteq> None \<Longrightarrow> active_alarms did ''ANOMALY_DETECTED'' (db_alarms d') \<noteq> [] \<longleftrightarrow> dc_anomalous dc"
    "\<And>b. bndl = Some b \<Longrightarrow>
       decide_scored (wk_ml w) b (map telemetry_sample_of (context_rows did ?ts d)) dg ?ts = Inr dc"
    "\<And>d2 c2. (d2, c2) \<notin> {(did, ''SENSOR_DIAGNOSTIC''), (did, ''ANOMALY_DETECTED'')} \<Longrightarrow>
       active_alarms d2 c2 (db_alarms d') = active_alarms d2 c2 (db_alarms d)"
  using assms(1)
proof (cases rule: score_pass_cases)
  case (idle registry' bndl' e)
  with load ts show thesis by simp
next
  case (busy registry' bndl' e dg dc registry'' d0 latest)
  then have b: "bndl' = bndl" using load by simp
  define i where "i = \<lparr>wa_device_id = did, wa_sensor = True, wa_active = (latest \<noteq> []),
      wa_summary = (let s = diagnostic_reason latest in if s = [] then ''Sensor diagnostics cleared'' else s),
      wa_now = clk 3, wa_opened = clk 5\<rparr>"
  define j where "j = \<lparr>wa_device_id = did, wa_sensor = False, wa_active = dc_anomalous dc,
      wa_summary = ''Isolation Forest: '' @ dc_latest_reason dc, wa_now = clk 4, wa_opened = clk 6\<rparr>"
  have keys: "wa_device_id i = did" "wa_code i = ''SENSOR_DIAGNOSTIC''" "wa_active i \<longleftrightarrow> latest \<noteq> []"
    "wa_device_id j = did" "wa_code j = ''ANOMALY_DETECTED''" "wa_active j \<longleftrightarrow> dc_anomalous dc"
    by (simp_all add: i_def j_def wa_code_def)
  have al: "db_alarms d' = fold worker_alarm_step (if bndl \<noteq> None then [i, j] else [i]) (db_alarms d)"
    using written_decision [OF busy(8)] busy(7)
    by (auto simp: b i_def j_def worker_alarm_step_def wa_code_def wa_source_def Let_def)
  have sensor: "active_alarms did ''SENSOR_DIAGNOSTIC'' (worker_alarm_step i (db_alarms d)) \<noteq> [] \<longleftrightarrow> latest \<noteq> []"
    using worker_alarm_active [OF src, of i] by (simp only: keys)
  have src': "sourced_alarms (worker_alarm_step i (db_alarms d))" using worker_alarms.step_inv [OF src] .
  have kept: "active_alarms did ''SENSOR_DIAGNOSTIC'' (worker_alarm_step j (worker_alarm_step i (db_alarms d)))
      = active_alarms did ''SENSOR_DIAGNOSTIC'' (worker_alarm_step i (db_alarms d))"
    by (rule worker_alarms.step_frame [OF src']) (simp add: keys)
  have anomaly: "active_alarms did ''ANOMALY_DETECTED'' (worker_alarm_step j (worker_alarm_step i (db_alarms d))) \<noteq> []
      \<longleftrightarrow> dc_anomalous dc"
    using worker_alarm_active [OF src', of j] by (simp only: keys)
  show thesis
  proof (rule that [of dg latest dc])
    show "active_alarms did ''SENSOR_DIAGNOSTIC'' (db_alarms d') \<noteq> [] \<longleftrightarrow> latest \<noteq> []"
      using sensor kept by (cases "bndl = None") (simp_all add: al)
    show "active_alarms did ''ANOMALY_DETECTED'' (db_alarms d') \<noteq> [] \<longleftrightarrow> dc_anomalous dc" if "bndl \<noteq> None"
      using anomaly that by (simp add: al)
    show "active_alarms d2 c2 (db_alarms d') = active_alarms d2 c2 (db_alarms d)"
      if "(d2, c2) \<notin> {(did, ''SENSOR_DIAGNOSTIC''), (did, ''ANOMALY_DETECTED'')}" for d2 c2
      unfolding al using that by (intro worker_alarms.run_frame [OF src]) (auto simp: keys)
  qed (use busy b in auto)
qed

text \<open>After a pass with targets the sensor alarm of the device is active exactly when the sensor rules report something about the latest target, judged on the at most twelve samples up to it, and no alarm of another device or of the threshold engine has changed.\<close>

theorem sensor_alarm_follows_latest:
  assumes "score_device_once w rt cfg files clk did d = Inr (d', n)"
    and "load_ready_bundle w cfg (clk 0) files did d = Inr (registry, bndl, err)"
    and "targets_of did (bndl \<noteq> None) d \<noteq> []" and "sourced_alarms (db_alarms d)"
  shows "\<exists>dg latest. diagnostics_by_id (targets_of did (bndl \<noteq> None) d)
         (map telemetry_sample_of (context_rows did (targets_of did (bndl \<noteq> None) d) d)) = Inr dg
     \<and> lookup dg (int (tel_id (last (targets_of did (bndl \<noteq> None) d)))) = Inr latest
     \<and> (active_alarms did ''SENSOR_DIAGNOSTIC'' (db_alarms d') \<noteq> [] \<longleftrightarrow> latest \<noteq> [])
     \<and> (\<forall>d2 c2. (d2, c2) \<notin> {(did, ''SENSOR_DIAGNOSTIC''), (did, ''ANOMALY_DETECTED'')} \<longrightarrow>
          active_alarms d2 c2 (db_alarms d') = active_alarms d2 c2 (db_alarms d))"
  using assms by (rule pass_alarms) blast

text \<open>C17: With a model, the anomaly alarm after a pass says only whether the latest target was scored anomalous: an anomaly earlier in the batch leaves no alarm, and a latest target without a feature window clears the alarm that was active.\<close>

theorem anomaly_alarm_follows_latest:
  assumes "score_device_once w rt cfg files clk did d = Inr (d', n)"
    and "load_ready_bundle w cfg (clk 0) files did d = Inr (registry, Some b, err)"
    and "targets_of did True d \<noteq> []" and "sourced_alarms (db_alarms d)"
  shows "\<exists>features results. default_features (ml_numpy (wk_ml w)) False
         (map telemetry_sample_of (context_rows did (targets_of did True d) d)) = Inr features
     \<and> score_rows (wk_ml w) b features = Inr results
     \<and> (active_alarms did ''ANOMALY_DETECTED'' (db_alarms d') \<noteq> []
          \<longleftrightarrow> (\<exists>x. result_of results (last (targets_of did True d)) = Some x \<and> sr_anomalous x))"
proof -
  have "targets_of did (Some b \<noteq> None) d \<noteq> []" using assms(3) by simp
  from assms(1,2) this assms(4) obtain dg dc
    where dc: "decide_scored (wk_ml w) b (map telemetry_sample_of (context_rows did (targets_of did True d) d)) dg
        (targets_of did True d) = Inr dc"
      and act: "active_alarms did ''ANOMALY_DETECTED'' (db_alarms d') \<noteq> [] \<longleftrightarrow> dc_anomalous dc"
    by (rule pass_alarms) auto
  from dc obtain fs rs where "default_features (ml_numpy (wk_ml w)) False
       (map telemetry_sample_of (context_rows did (targets_of did True d) d)) = Inr fs"
    "score_rows (wk_ml w) b fs = Inr rs"
    "dc_anomalous dc \<longleftrightarrow> (\<exists>x. result_of rs (last (targets_of did True d)) = Some x \<and> sr_anomalous x)"
    by (auto simp: decide_scored_def Let_def split: option.splits)
  with act show ?thesis by blast
qed

section \<open>Errors that escape\<close>

text \<open>A count written as an infinity in a metadata file raises \<open>OverflowError\<close>, which no handler names.\<close>

lemma infinite_count_escapes:
  assumes "read_metadata (wk_codec w) members = Inl (OtherException ''OverflowError'')"
    and "read_file files (dir @ [METADATA_FILENAME]) = Inr content"
    and "cd_json_loads (wk_codec w) content = Inr (JObj members)"
    and "latest_registry did d = Some m" and "trusted_artifact_directory w cfg m = Inr dir"
  shows "score_device_once w rt cfg files clk did d = Inl (OtherException ''OverflowError'')"
  using assms
  by (simp add: score_device_once_def load_ready_bundle_def usable_bundle_def load_bundle_def
      metadata_from_dict_def bundle_error_def)

lemma failed_pass_stops_run:
  assumes "score_devices score before k d = (d1, Inr k1)" and "score did d1 = Inl e"
  shows "score_devices score (before @ did # later) k d = (d1, Inl e)"
  using assms by (induction score before k d rule: score_devices.induct) (auto split: sum.splits)

section \<open>Examples\<close>

definition demo_row :: telemetry_row where
  "demo_row = \<lparr>tel_id = 1, tel_message_id = ''m1'', tel_device_id = ''motor-01'', tel_site_id = ''workshop-demo'',
     tel_sequence = 1, tel_device_time = None, tel_received_at = Aware 0, tel_clock_synchronized = False,
     tel_uptime_ms = 10, tel_firmware_version = ''1.0.0'', tel_quality = ''partial'', tel_replayed = False,
     tel_temperature_c = Some (Fin 40), tel_vibration_rms_mps2 = None, tel_vibration_peak_mps2 = None,
     tel_vibration_crest_factor = None, tel_current_a = None, tel_sample_quality = JObj [], tel_fault_flags = [],
     tel_anomaly_score = None, tel_anomaly_percentile = None, tel_anomaly_reason = None\<rparr>"

definition demo_db :: db where
  "demo_db = empty_db\<lparr>db_devices := [new_device ''motor-01'' ''workshop-demo'' ''Motor'' (Aware 0)],
     db_telemetry := [demo_row]\<rparr>"

definition demo_worker :: "unit worker" where
  "demo_worker = \<lparr>wk_ml = flat_ml, wk_codec = holding ready_bundle, wk_resolve = (\<lambda>p. p), wk_exc_text = (\<lambda>_. '''')\<rparr>"

text \<open>The artifact of the device in the model directory, and its registration.\<close>

definition demo_files :: fs where
  "demo_files = no_files([''data'', ''models'', ''m1'', METADATA_FILENAME] \<mapsto> File ''m'',
     [''data'', ''models'', ''m1'', ARTIFACT_FILENAME] \<mapsto> File ''a'')"

definition demo_model :: anomaly_model_row where
  "demo_model = \<lparr>mdl_id = 1, mdl_device_id = ''motor-01'', mdl_model_version = ''iforest-v1-0'', mdl_status = ''ready'',
     mdl_feature_schema = JObj [], mdl_training_start = Aware 0, mdl_training_end = Aware 1,
     mdl_training_sample_count = 102, mdl_validation_sample_count = 34, mdl_contamination = Fin (1/64),
     mdl_random_seed = 7, mdl_sklearn_version = ''1.7.2'', mdl_artifact_path = ''m1'',
     mdl_artifact_checksum = ''sha256:0123456789abcdef'', mdl_created_at = Aware 0, mdl_last_scored_at = None,
     mdl_diagnostic = None\<rparr>"

abbreviation demo_ready_db :: db where
  "demo_ready_db \<equiv> demo_db\<lparr>db_models := [demo_model]\<rparr>"

lemma demo_tables [simp]: "db_telemetry demo_db = [demo_row]" "db_models demo_db = []" "db_alarms demo_db = []"
  by (simp_all add: demo_db_def empty_db_def)

lemma demo_no_model: "latest_registry ''motor-01'' demo_db = None"
  by (simp add: latest_registry_def latest_model_def)

lemma demo_unready: "load_ready_bundle w cfg now files ''motor-01'' demo_db = Inr (None, None, Some ''MODEL_NOT_READY'')"
  by (simp add: load_ready_bundle_def demo_no_model)

lemma demo_readable: "readable demo_row"
  by (simp add: readable_def demo_row_def finite_value_def)

lemma demo_targets: "db_telemetry d = [demo_row] \<Longrightarrow> targets_of ''motor-01'' m d = [demo_row]"
  by (simp add: targets_of_def device_rows_def demo_row_def pending_def awaiting_context_def MAX_BATCH_ROWS_def)

lemma demo_sourced: "sourced_alarms []"
  by (simp add: sourced_alarms_def alarms_ok_def one_active_def active_alarms_def)

lemma demo_store: "worker_store demo_db"
  using demo_sourced
  by (simp add: worker_store_def store_ok_def keys_ok_def refs_ok_def alarms_ok_def one_active_def active_alarms_def
      demo_db_def empty_db_def get_device_def row_get_def new_device_def demo_row_def sourced_alarms_def)

lemma demo_answers: "answers flat_ml e"
  using flat_estimator by (simp add: answers_def)

theorem scoring_pass_returns_witness:
  "\<exists>d' n. score_device_once demo_worker flat_runtime sample_settings no_files (\<lambda>_. 0) ''motor-01'' demo_db = Inr (d', n)"
  using scoring_pass_returns [OF demo_unready] demo_readable by (simp add: demo_no_model)

lemma demo_pass:
  obtains d' n where
    "score_device_once demo_worker flat_runtime sample_settings no_files (\<lambda>_. 0) ''motor-01'' demo_db = Inr (d', n)"
proof -
  have "\<exists>d' n. score_device_once demo_worker flat_runtime sample_settings no_files (\<lambda>_. 0) ''motor-01'' demo_db = Inr (d', n)"
    using pass_returns [OF demo_unready] demo_readable by (simp add: demo_no_model)
  then show thesis using that by blast
qed

theorem pass_takes_oldest_rows_witness:
  "\<exists>d' n. score_device_once demo_worker flat_runtime sample_settings no_files (\<lambda>_. 0) ''motor-01'' demo_db = Inr (d', n)
     \<and> device_rows ''motor-01'' (pending False) demo_db = [demo_row] \<and> device_rows ''motor-01'' (pending False) d' = []"
proof -
  obtain d' n where pass: "score_device_once demo_worker flat_runtime sample_settings no_files (\<lambda>_. 0) ''motor-01'' demo_db
      = Inr (d', n)" by (rule demo_pass)
  have "device_rows ''motor-01'' (pending False) demo_db = [demo_row]"
    by (simp add: device_rows_def demo_row_def pending_def)
  with pass_takes_oldest_rows [OF pass demo_unready] pass show ?thesis by (simp add: MAX_BATCH_ROWS_def)
qed

theorem backlog_drains_witness:
  "\<exists>d'. unmodelled_passes demo_worker flat_runtime sample_settings no_files ''motor-01'' 1 demo_db d'
     \<and> device_rows ''motor-01'' (pending False) d' = []"
proof (rule backlog_drains)
  show "latest_registry ''motor-01'' demo_db = None" by (rule demo_no_model)
  show "\<forall>r \<in> set (db_telemetry demo_db). readable r" using demo_readable by simp
  show "length (device_rows ''motor-01'' (pending False) demo_db) \<le> 1 * MAX_BATCH_ROWS"
    by (simp add: device_rows_def demo_row_def pending_def MAX_BATCH_ROWS_def)
qed simp_all

theorem run_keeps_store_witness:
  "worker_store (fst (run_once demo_worker flat_runtime sample_settings no_files (\<lambda>_ _. 0) demo_db))"
  using run_keeps_store [OF demo_store] .

theorem sensor_alarm_follows_latest_witness:
  "\<exists>d' n (dg :: (int \<times> sensor_diagnostic list) list) latest.
     score_device_once demo_worker flat_runtime sample_settings no_files (\<lambda>_. 0) ''motor-01'' demo_db = Inr (d', n)
     \<and> lookup dg 1 = Inr latest \<and> (active_alarms ''motor-01'' ''SENSOR_DIAGNOSTIC'' (db_alarms d') \<noteq> [] \<longleftrightarrow> latest \<noteq> [])"
proof -
  obtain d' n where pass: "score_device_once demo_worker flat_runtime sample_settings no_files (\<lambda>_. 0) ''motor-01'' demo_db
      = Inr (d', n)" by (rule demo_pass)
  have ts: "targets_of ''motor-01'' m demo_db = [demo_row]" for m by (rule demo_targets) simp
  have id: "int (tel_id (last [demo_row])) = 1" by (simp add: demo_row_def)
  have ne: "targets_of ''motor-01'' ((None :: unit model_bundle option) \<noteq> None) demo_db \<noteq> []" by (simp add: ts)
  have src: "sourced_alarms (db_alarms demo_db)" by (simp add: demo_sourced)
  from sensor_alarm_follows_latest [OF pass demo_unready ne src] show ?thesis
    unfolding ts id
  proof (elim exE conjE)
    fix dg :: "(int \<times> sensor_diagnostic list) list" and latest
    assume "lookup dg 1 = Inr latest"
      and "active_alarms ''motor-01'' ''SENSOR_DIAGNOSTIC'' (db_alarms d') \<noteq> [] \<longleftrightarrow> latest \<noteq> []"
    with pass show ?thesis by blast
  qed
qed

lemma demo_resolved: "trusted_artifact_directory demo_worker sample_settings demo_model = Inr [''data'', ''models'', ''m1'']"
  by (simp add: trusted_artifact_directory_def demo_worker_def sample_settings_def models_directory_def path_of_def
      path_join_def demo_model_def starts_with_def)

lemma demo_loads:
  "load_bundle flat_ml (holding ready_bundle) demo_files [''data'', ''models'', ''m1''] = Inr ready_bundle"
  by (rule stored_bundle_loads [OF _ _ _ _ _ ready_sound])
    (simp_all add: read_file_def demo_files_def holding_def METADATA_FILENAME_def ARTIFACT_FILENAME_def
      file_checksum_def flat_ml_def ready_bundle_def)

lemma demo_ready:
  "load_ready_bundle demo_worker sample_settings 0 demo_files ''motor-01'' demo_ready_db
     = Inr (Some (demo_model\<lparr>mdl_status := ''ready'', mdl_diagnostic := None\<rparr>), Some ready_bundle, None)"
proof -
  have "model_is_stale (holding ready_bundle) (mb_metadata ready_bundle) 0 30 = Inr False"
    by (simp add: model_is_stale_def parse_utc_def holding_def days_def seconds_def)
  moreover have "latest_registry ''motor-01'' demo_ready_db = Some demo_model"
    by (simp add: latest_registry_def latest_model_def demo_model_def)
  ultimately show ?thesis
    using demo_loads demo_resolved
    by (simp add: load_ready_bundle_def usable_bundle_def demo_worker_def sample_settings_def demo_model_def
        ready_bundle_def flat_bundle_def)
qed

theorem scored_by_registered_model_witness:
  "load_bundle flat_ml (holding ready_bundle) demo_files [''data'', ''models'', ''m1''] = Inr ready_bundle
   \<and> (\<exists>m. latest_registry ''motor-01'' demo_ready_db = Some m
        \<and> md_artifact_checksum (mb_metadata ready_bundle) = mdl_artifact_checksum m)"
  using scored_by_registered_model [OF demo_ready] demo_loads by blast

theorem anomaly_alarm_follows_latest_witness:
  "\<exists>d' n. score_device_once demo_worker flat_runtime sample_settings demo_files (\<lambda>_. 0) ''motor-01'' demo_ready_db = Inr (d', n)
     \<and> active_alarms ''motor-01'' ''ANOMALY_DETECTED'' (db_alarms d') = []"
proof -
  have "\<exists>d' n. score_device_once demo_worker flat_runtime sample_settings demo_files (\<lambda>_. 0) ''motor-01'' demo_ready_db
      = Inr (d', n)"
    using pass_returns [OF demo_ready] demo_readable demo_answers
    by (simp add: demo_worker_def latest_registry_def latest_model_def demo_model_def)
  then obtain d' n where pass: "score_device_once demo_worker flat_runtime sample_settings demo_files (\<lambda>_. 0) ''motor-01''
      demo_ready_db = Inr (d', n)" by blast
  have ts: "targets_of ''motor-01'' True demo_ready_db = [demo_row]" by (rule demo_targets) simp
  have "context_rows ''motor-01'' [demo_row] demo_ready_db = [demo_row]"
    by (simp add: context_rows_def device_rows_def demo_row_def)
  moreover have "default_features np False [telemetry_sample_of demo_row] = Inr []" for np
    by (simp add: default_features_def generate_features_def feature_step_def feature_rows_of_def next_segment_def
        fresh_window_def ordered_samples_def Let_def)
  moreover have "score_rows flat_ml ready_bundle [] = Inr []"
    by (simp add: score_rows_def feature_matrix_def ready_bundle_def flat_bundle_def)
  ultimately have "active_alarms ''motor-01'' ''ANOMALY_DETECTED'' (db_alarms d') = []"
    using anomaly_alarm_follows_latest [OF pass demo_ready] demo_sourced ts
    by (auto simp: demo_worker_def result_of_def)
  with pass show ?thesis by blast
qed

end
