(* ===== verification/Api.thy ===== *)
theory Api
  imports ApiViews "HOL-Library.List_Lexorder"
begin

text \<open>
  The endpoints of \<open>services/api/app/main.py\<close>: one definition per handler, with its guards
  in the order of the code, and \<open>handle\<close>, which authenticates the user and validates the
  request the way the framework does before the handler runs. A handler gives the store it
  commits and the response, or the exception that ends the request: an \<open>HTTPException\<close> is
  the answer to the client, anything else is an internal server error; in both cases the
  session is rolled back. \<open>clk k\<close> is the \<open>k\<close>-th reading of the clock in the handler,
  \<open>clk 9\<close> the reading with which the token is checked. A
  time that the session stores comes back in UTC (\<open>normalized_utc\<close>).
\<close>

section \<open>The environment\<close>

record api_env =
  env_rt :: runtime
  env_cr :: crypto
  env_cfg :: settings
  env_publish :: "publication \<Rightarrow> exc option"
  env_meanwhile :: "db \<Rightarrow> db"
  env_report :: "json res"

datatype response = Body json | Csv "string list"

definition ensure_admin :: "user_row \<Rightarrow> unit res" where
  "ensure_admin u = raise_if (usr_role u \<noteq> ''admin'') (HTTPException 403 ''Admin role required'')"

definition require_device :: "string \<Rightarrow> db \<Rightarrow> device_row res" where
  "require_device did d =
     (case get_device did d of None \<Rightarrow> Inl (HTTPException 404 ''Device not found'') | Some v \<Rightarrow> Inr v)"

section \<open>Reading\<close>

definition me :: "user_row \<Rightarrow> json" where
  "me u = JObj [(''username'', JStr (usr_username u)), (''role'', JStr (usr_role u))]"

definition token_response :: "string \<times> int \<Rightarrow> json" where
  "token_response t = JObj
     [(''access_token'', JStr (fst t)), (''token_type'', JStr ''bearer''), (''expires_in_s'', JInt (snd t))]"

text \<open>\<open>if site_id:\<close> and the like: an absent or empty parameter does not filter.\<close>

definition unless_empty :: "string option \<Rightarrow> (string \<Rightarrow> bool) \<Rightarrow> bool" where
  "unless_empty s P = (case s of None \<Rightarrow> True | Some x \<Rightarrow> x = [] \<or> P x)"

definition list_devices :: "api_env \<Rightarrow> int \<Rightarrow> string option \<Rightarrow> db \<Rightarrow> json" where
  "list_devices env now site_id d =
     JArr (map (to_device_view (env_rt env) (env_cfg env) now)
       (sort_key dev_id (filter (\<lambda>v. unless_empty site_id (\<lambda>s. dev_site_id v = s)) (db_devices d))))"

definition show_device :: "api_env \<Rightarrow> int \<Rightarrow> string \<Rightarrow> db \<Rightarrow> json res" where
  "show_device env now did d =
     bindE (require_device did d) (\<lambda>v. Inr (to_device_view (env_rt env) (env_cfg env) now v))"

definition list_telemetry ::
  "api_env \<Rightarrow> int \<Rightarrow> string \<Rightarrow> pydatetime option \<Rightarrow> pydatetime option \<Rightarrow> nat \<Rightarrow> db \<Rightarrow> json res" where
  "list_telemetry env now did start end' limit d =
     bindE (bounded_range (env_cfg env) now start end') (\<lambda>(range_start, range_end).
       (let items = map (to_telemetry_view (env_rt env))
              (take limit (order_desc tel_received_at (telemetry_between did range_start range_end d)))
        in Inr (JObj [(''items'', JArr items), (''count'', JInt (int (length items))),
                      (''limit'', JInt (int limit))])))"

definition get_anomaly_model :: "api_env \<Rightarrow> int \<Rightarrow> string \<Rightarrow> db \<Rightarrow> json res" where
  "get_anomaly_model env now did d =
     bindE (require_device did d) (\<lambda>_.
     Inr (to_anomaly_model_view (env_rt env) (env_cfg env) now did (latest_model did d)))"

definition list_alarms :: "api_env \<Rightarrow> string option \<Rightarrow> string option \<Rightarrow> nat \<Rightarrow> db \<Rightarrow> json" where
  "list_alarms env did alarm_state limit d =
     JArr (map (to_alarm_view (env_rt env))
       (take limit (order_desc alm_opened_at
         (filter (\<lambda>a. unless_empty did (\<lambda>x. alm_device_id a = x) \<and> unless_empty alarm_state (\<lambda>x. alm_state a = x))
            (db_alarms d)))))"

fun anomaly_evaluation_demo :: "json res \<Rightarrow> json res" where
  "anomaly_evaluation_demo (Inl e) =
     Inl (if e = OSError \<or> e = JSONDecodeError
          then HTTPException 503 ''Synthetic anomaly evaluation report is unavailable'' else e)"
| "anomaly_evaluation_demo (Inr report) =
     (if json_get ''field_performance_claimed'' report = Some (JBool False) then Inr report
      else Inl (HTTPException 503 ''Synthetic anomaly evaluation report failed provenance validation''))"

definition list_calibrations :: "api_env \<Rightarrow> string \<Rightarrow> db \<Rightarrow> json" where
  "list_calibrations env did d =
     JArr (map (to_calibration_view (env_rt env))
       (take 200 (order_desc cal_performed_at (filter (\<lambda>c. cal_device_id c = did) (db_calibrations d)))))"

definition list_maintenance :: "api_env \<Rightarrow> string \<Rightarrow> db \<Rightarrow> json" where
  "list_maintenance env did d =
     JArr (map (to_maintenance_view (env_rt env))
       (take 200 (order_desc mnt_performed_at (filter (\<lambda>m. mnt_device_id m = did) (db_maintenance d)))))"

definition list_commands :: "api_env \<Rightarrow> string \<Rightarrow> db \<Rightarrow> json" where
  "list_commands env did d =
     JArr (map (to_command_view (env_rt env))
       (take 100 (order_desc cmd_issued_at (filter (\<lambda>c. cmd_device_id c = did) (db_commands d)))))"

definition export_telemetry ::
  "api_env \<Rightarrow> int \<Rightarrow> string \<Rightarrow> metric \<Rightarrow> pydatetime option \<Rightarrow> pydatetime option \<Rightarrow> db \<Rightarrow> string list res" where
  "export_telemetry env now did m start end' d =
     bindE (bounded_range (env_cfg env) now start end') (\<lambda>(range_start, range_end).
     Inr (csv_stream (env_rt env) m
       (take 10000 (order_asc tel_received_at (telemetry_between did range_start range_end d)))))"

section \<open>Writing\<close>

definition ingest_telemetry ::
  "api_env \<Rightarrow> (nat \<Rightarrow> int) \<Rightarrow> string \<Rightarrow> telemetry_envelope \<Rightarrow> db \<Rightarrow> (db \<times> json) res" where
  "ingest_telemetry env clk x_ingest_token e d =
     bindE (raise_if (x_ingest_token \<noteq> ingest_token (env_cfg env)) (HTTPException 401 ''Invalid ingest token'')) (\<lambda>_.
       (case persist_telemetry (env_rt env) clk e d of
          Inl (SequenceCollisionError s) \<Rightarrow> Inl (HTTPException 409 s)
        | Inl x \<Rightarrow> Inl x
        | Inr (d', r) \<Rightarrow> Inr (d', JObj [(''status'', JStr (persist_status_str (pr_status r))),
                                        (''message_id'', JStr (pr_message_id r))])))"

definition get_alarm :: "int \<Rightarrow> db \<Rightarrow> alarm_row option" where
  "get_alarm alarm_id d = find (\<lambda>a. int (alm_id a) = alarm_id) (db_alarms d)"

definition acknowledged :: "int \<Rightarrow> string \<Rightarrow> alarm_row \<Rightarrow> alarm_row" where
  "acknowledged now who a = a\<lparr>alm_acknowledged_at := Some (Aware now), alm_acknowledged_by := Some who\<rparr>"

definition acknowledge_alarm ::
  "api_env \<Rightarrow> (nat \<Rightarrow> int) \<Rightarrow> user_row \<Rightarrow> int \<Rightarrow> db \<Rightarrow> (db \<times> json) res" where
  "acknowledge_alarm env clk u alarm_id d =
     (case get_alarm alarm_id d of
        None \<Rightarrow> Inl (HTTPException 404 ''Alarm not found'')
      | Some a \<Rightarrow>
          if alm_acknowledged_at a \<noteq> None then Inr (d, to_alarm_view (env_rt env) a)
          else
            (let who = usr_username u;
                 d1 = d\<lparr>db_alarms := row_put alm_id (alm_id a) (acknowledged (clk 0) who) (db_alarms d)\<rparr>;
                 d2 = add_audit who ''alarm_acknowledged'' ''alarm'' (str_of_int (int (alm_id a)))
                        (JObj [(''device_id'', JStr (alm_device_id a)), (''code'', JStr (alm_code a))])
                        (Aware (clk 1)) d1
             in bindE (notify_after_commit (env_rt env)
                  (JObj [(''type'', JStr ''alarm_acknowledged''),
                         (''device_id'', JStr (alm_device_id a)),
                         (''alarm_id'', JInt (int (alm_id a))),
                         (''acknowledged_by'', JStr who)]) d2) (\<lambda>d3.
                Inr (d3, to_alarm_view (env_rt env) (acknowledged (clk 0) who a)))))"

definition create_calibration ::
  "api_env \<Rightarrow> (nat \<Rightarrow> int) \<Rightarrow> user_row \<Rightarrow> string \<Rightarrow> calibration_create \<Rightarrow> db \<Rightarrow> (db \<times> json) res" where
  "create_calibration env clk u did r d =
     bindE (ensure_admin u) (\<lambda>_.
     bindE (require_device did d) (\<lambda>_.
       (let previous = (case latest_calibration did (cc_sensor r) d of
              Some c \<Rightarrow> cal_new_coefficients c
            | None \<Rightarrow> [(''scale'', lit 1), (''offset'', lit 0)]);
            row = \<lparr>cal_id = row_fresh cal_id (db_calibrations d), cal_device_id = did,
                   cal_sensor = sensor_str (cc_sensor r), cal_previous_coefficients = previous,
                   cal_new_coefficients = cc_new_coefficients r, cal_reason = cc_reason r,
                   cal_operator = usr_username u, cal_performed_at = Aware (clk 0)\<rparr>;
            d1 = d\<lparr>db_calibrations := db_calibrations d @ [row]\<rparr>
        in Inr (add_audit (usr_username u) ''calibration_created'' ''calibration''
                  (str_of_int (int (cal_id row)))
                  (JObj [(''device_id'', JStr did), (''sensor'', JStr (sensor_str (cc_sensor r)))])
                  (Aware (clk 1)) d1,
                to_calibration_view (env_rt env) row))))"

definition create_maintenance ::
  "api_env \<Rightarrow> (nat \<Rightarrow> int) \<Rightarrow> user_row \<Rightarrow> string \<Rightarrow> maintenance_create \<Rightarrow> db \<Rightarrow> (db \<times> json) res" where
  "create_maintenance env clk u did r d =
     bindE (require_device did d) (\<lambda>_.
       (let row = \<lparr>mnt_id = row_fresh mnt_id (db_maintenance d), mnt_device_id = did,
                   mnt_status = maintenance_status_str (mc_status r), mnt_notes = mc_notes r,
                   mnt_performed_at = mc_performed_at r, mnt_next_due_at = mc_next_due_at r,
                   mnt_created_by = usr_username u, mnt_updated_at = Aware (clk 0)\<rparr>;
            stored = row\<lparr>mnt_performed_at := normalized_utc (mc_performed_at r),
                         mnt_next_due_at := map_option normalized_utc (mc_next_due_at r)\<rparr>
        in Inr (add_audit (usr_username u) ''maintenance_created'' ''maintenance''
                  (str_of_int (int (mnt_id row)))
                  (JObj [(''device_id'', JStr did), (''status'', JStr (maintenance_status_str (mc_status r)))])
                  (Aware (clk 1)) (d\<lparr>db_maintenance := db_maintenance d @ [stored]\<rparr>),
                to_maintenance_view (env_rt env) row)))"

definition get_maintenance :: "int \<Rightarrow> db \<Rightarrow> maintenance_row option" where
  "get_maintenance record_id d = find (\<lambda>m. int (mnt_id m) = record_id) (db_maintenance d)"

definition maintenance_after :: "maintenance_update \<Rightarrow> maintenance_row \<Rightarrow> maintenance_row" where
  "maintenance_after r m =
     m\<lparr>mnt_status := (case mu_status r of None \<Rightarrow> mnt_status m | Some s \<Rightarrow> maintenance_status_str s),
       mnt_notes := (case mu_notes r of None \<Rightarrow> mnt_notes m | Some n \<Rightarrow> n),
       mnt_next_due_at := (case mu_next_due_at r of None \<Rightarrow> mnt_next_due_at m | Some t \<Rightarrow> t)\<rparr>"

definition update_maintenance ::
  "api_env \<Rightarrow> (nat \<Rightarrow> int) \<Rightarrow> user_row \<Rightarrow> int \<Rightarrow> maintenance_update \<Rightarrow> db \<Rightarrow> (db \<times> json) res" where
  "update_maintenance env clk u record_id r d =
     (case get_maintenance record_id d of
        None \<Rightarrow> Inl (HTTPException 404 ''Maintenance record not found'')
      | Some m0 \<Rightarrow>
          let m = maintenance_after r m0 in
          bindE (case mnt_next_due_at m of None \<Rightarrow> Inr False | Some due \<Rightarrow> dt_le due (mnt_performed_at m)) (\<lambda>late.
          bindE (raise_if late (HTTPException 422 ''next_due_at must be after performed_at'')) (\<lambda>_.
            (let row = m\<lparr>mnt_updated_at := Aware (clk 0)\<rparr>;
                 stored = row\<lparr>mnt_next_due_at := map_option normalized_utc (mnt_next_due_at row)\<rparr>
             in Inr (add_audit (usr_username u) ''maintenance_updated'' ''maintenance''
                       (str_of_int (int (mnt_id row))) (JObj [(''device_id'', JStr (mnt_device_id row))])
                       (Aware (clk 1))
                       (d\<lparr>db_maintenance := row_put mnt_id (mnt_id row) (\<lambda>_. stored) (db_maintenance d)\<rparr>),
                     to_maintenance_view (env_rt env) row)))))"

definition get_thresholds :: "api_env \<Rightarrow> (nat \<Rightarrow> int) \<Rightarrow> string \<Rightarrow> db \<Rightarrow> (db \<times> json) res" where
  "get_thresholds env clk did d =
     bindE (require_device did d) (\<lambda>_.
       (case get_threshold_config did d of
          Some c \<Rightarrow> Inr (d, to_threshold_view (env_rt env) c)
        | None \<Rightarrow>
            (let c = new_threshold_config did (Aware (clk 0))
             in Inr (add_threshold_config c d, to_threshold_view (env_rt env) c))))"

definition threshold_update :: "threshold_config_update \<Rightarrow> string \<Rightarrow> int \<Rightarrow> threshold_config_row \<Rightarrow> threshold_config_row" where
  "threshold_update r who now c =
     c\<lparr>thr_temperature_warning_c := tu_temperature_warning_c r,
       thr_temperature_critical_c := tu_temperature_critical_c r,
       thr_vibration_warning_mps2 := tu_vibration_warning_mps2 r,
       thr_vibration_critical_mps2 := tu_vibration_critical_mps2 r,
       thr_current_warning_a := tu_current_warning_a r,
       thr_current_critical_a := tu_current_critical_a r,
       thr_hysteresis_percent := tu_hysteresis_percent r,
       thr_updated_by := who, thr_updated_at := Aware now\<rparr>"

definition threshold_dump :: "threshold_config_update \<Rightarrow> json" where
  "threshold_dump r = JObj
     [(''temperature_warning_c'', JNum (tu_temperature_warning_c r)),
      (''temperature_critical_c'', JNum (tu_temperature_critical_c r)),
      (''vibration_warning_mps2'', JNum (tu_vibration_warning_mps2 r)),
      (''vibration_critical_mps2'', JNum (tu_vibration_critical_mps2 r)),
      (''current_warning_a'', JNum (tu_current_warning_a r)),
      (''current_critical_a'', JNum (tu_current_critical_a r)),
      (''hysteresis_percent'', JNum (tu_hysteresis_percent r))]"

definition update_thresholds ::
  "api_env \<Rightarrow> (nat \<Rightarrow> int) \<Rightarrow> user_row \<Rightarrow> string \<Rightarrow> threshold_config_update \<Rightarrow> db \<Rightarrow> (db \<times> json) res" where
  "update_thresholds env clk u did r d =
     bindE (ensure_admin u) (\<lambda>_.
     bindE (require_device did d) (\<lambda>_.
       (let who = usr_username u;
            d1 = (case get_threshold_config did d of
                    Some _ \<Rightarrow> d
                  | None \<Rightarrow> add_threshold_config (new_threshold_config did (Aware (clk 0))) d);
            d2 = put_threshold_config did (threshold_update r who (clk 0)) d1
        in Inr (add_audit who ''thresholds_updated'' ''device'' did (threshold_dump r) (Aware (clk 1)) d2,
                to_threshold_view (env_rt env) (the (get_threshold_config did d2))))))"

definition create_relay_command ::
  "api_env \<Rightarrow> (nat \<Rightarrow> int) \<Rightarrow> string \<Rightarrow> user_row \<Rightarrow> string \<Rightarrow> relay_command_create \<Rightarrow> db \<Rightarrow> (db \<times> json) res" where
  "create_relay_command env clk cid u did r d =
     bindE (ensure_admin u) (\<lambda>_.
     bindE (require_device did d) (\<lambda>device.
     bindE (issue_relay_command (env_publish env) (env_meanwhile env) clk cid device (usr_username u) r (env_cfg env) d) (\<lambda>(d', c).
     Inr (d', to_command_view (env_rt env) c))))"

section \<open>Requests\<close>

datatype request =
    Healthz
  | Login string string
  | Me
  | ListDevices "string option"
  | ShowDevice string
  | ListTelemetry string "pydatetime option" "pydatetime option" int
  | ShowAnomalyModel string
  | IngestTelemetry string telemetry_envelope
  | ListAlarms "string option" "string option" int
  | EvaluationDemo
  | AcknowledgeAlarm int
  | ListCalibrations string
  | CreateCalibration string calibration_create
  | ListMaintenance string
  | CreateMaintenance string maintenance_create
  | UpdateMaintenance int maintenance_update
  | ShowThresholds string
  | UpdateThresholds string threshold_config_update
  | CreateRelayCommand string relay_command_create
  | ListCommands string
  | ExportTelemetry string metric "pydatetime option" "pydatetime option"

text \<open>What the declared types of a request's parameters refuse (\<open>422\<close>) or fail on.\<close>

fun request_check :: "request \<Rightarrow> bool res" where
  "request_check (ListTelemetry _ _ _ limit) = Inr (1 \<le> limit \<and> limit \<le> 2000)"
| "request_check (ListAlarms _ alarm_state limit) =
     Inr ((case alarm_state of None \<Rightarrow> True | Some s \<Rightarrow> s \<in> {''active'', ''cleared''}) \<and> 1 \<le> limit \<and> limit \<le> 500)"
| "request_check (IngestTelemetry _ e) = Inr (telemetry_envelope_ok e)"
| "request_check (CreateCalibration _ r) = Inr (calibration_create_ok r)"
| "request_check (CreateMaintenance _ r) = maintenance_create_check r"
| "request_check (UpdateMaintenance _ r) = Inr (maintenance_update_ok r)"
| "request_check (UpdateThresholds _ r) = Inr (threshold_config_update_ok r)"
| "request_check (CreateRelayCommand _ r) = Inr (relay_command_create_ok r)"
| "request_check _ = Inr True"

fun is_public :: "request \<Rightarrow> bool" where
  "is_public Healthz = True"
| "is_public (Login _ _) = True"
| "is_public (IngestTelemetry _ _) = True"
| "is_public _ = False"

definition authenticate :: "api_env \<Rightarrow> int \<Rightarrow> string option \<Rightarrow> db \<Rightarrow> user_row res" where
  "authenticate env now token d =
     (case token of
        None \<Rightarrow> Inl (HTTPException 401 ''Not authenticated'')
      | Some t \<Rightarrow> get_current_user (env_cr env) (env_cfg env) now t d)"

definition body :: "db \<Rightarrow> json res \<Rightarrow> (db \<times> response) res" where
  "body d r = bindE r (\<lambda>j. Inr (d, Body j))"

definition committed :: "(db \<times> json) res \<Rightarrow> (db \<times> response) res" where
  "committed r = bindE r (\<lambda>(d, j). Inr (d, Body j))"

fun public_request :: "api_env \<Rightarrow> (nat \<Rightarrow> int) \<Rightarrow> request \<Rightarrow> db \<Rightarrow> (db \<times> response) res" where
  "public_request env clk (Login name password) d =
     body d (bindE (login (env_cr env) (env_cfg env) (clk 0) name password d) (\<lambda>t. Inr (token_response t)))"
| "public_request env clk (IngestTelemetry token e) d = committed (ingest_telemetry env clk token e d)"
| "public_request env clk _ d =
     Inr (d, Body (JObj [(''status'', JStr ''ok''), (''service'', JStr ''api'')]))"

fun user_request ::
  "api_env \<Rightarrow> (nat \<Rightarrow> int) \<Rightarrow> string \<Rightarrow> user_row \<Rightarrow> request \<Rightarrow> db \<Rightarrow> (db \<times> response) res" where
  "user_request env clk cid u Me d = Inr (d, Body (me u))"
| "user_request env clk cid u (ListDevices site) d = Inr (d, Body (list_devices env (clk 0) site d))"
| "user_request env clk cid u (ShowDevice did) d = body d (show_device env (clk 0) did d)"
| "user_request env clk cid u (ListTelemetry did s e limit) d =
     body d (list_telemetry env (clk 0) did s e (nat limit) d)"
| "user_request env clk cid u (ShowAnomalyModel did) d = body d (get_anomaly_model env (clk 0) did d)"
| "user_request env clk cid u (ListAlarms did st limit) d = Inr (d, Body (list_alarms env did st (nat limit) d))"
| "user_request env clk cid u EvaluationDemo d = body d (anomaly_evaluation_demo (env_report env))"
| "user_request env clk cid u (AcknowledgeAlarm i) d = committed (acknowledge_alarm env clk u i d)"
| "user_request env clk cid u (ListCalibrations did) d = Inr (d, Body (list_calibrations env did d))"
| "user_request env clk cid u (CreateCalibration did r) d = committed (create_calibration env clk u did r d)"
| "user_request env clk cid u (ListMaintenance did) d = Inr (d, Body (list_maintenance env did d))"
| "user_request env clk cid u (CreateMaintenance did r) d = committed (create_maintenance env clk u did r d)"
| "user_request env clk cid u (UpdateMaintenance i r) d = committed (update_maintenance env clk u i r d)"
| "user_request env clk cid u (ShowThresholds did) d = committed (get_thresholds env clk did d)"
| "user_request env clk cid u (UpdateThresholds did r) d = committed (update_thresholds env clk u did r d)"
| "user_request env clk cid u (CreateRelayCommand did r) d = committed (create_relay_command env clk cid u did r d)"
| "user_request env clk cid u (ListCommands did) d = Inr (d, Body (list_commands env did d))"
| "user_request env clk cid u (ExportTelemetry did m s e) d =
     bindE (export_telemetry env (clk 0) did m s e d) (\<lambda>rows. Inr (d, Csv rows))"
| "user_request env clk cid u _ d = Inl (HTTPException 404 ''Not Found'')"

definition handle ::
  "api_env \<Rightarrow> (nat \<Rightarrow> int) \<Rightarrow> string \<Rightarrow> string option \<Rightarrow> request \<Rightarrow> db \<Rightarrow> (db \<times> response) res" where
  "handle env clk cid token req d =
     (let checked = (\<lambda>k. bindE (request_check req) (\<lambda>ok.
            bindE (raise_if (\<not> ok) (HTTPException 422 ''Unprocessable Content'')) k)) in
      if is_public req then checked (\<lambda>_. public_request env clk req d)
      else bindE (authenticate env (clk 9) token d) (\<lambda>u. checked (\<lambda>_. user_request env clk cid u req d)))"

end
