(* ===== verification/ApiLaws.thy ===== *)
theory ApiLaws
  imports Api
begin

text \<open>
  What the endpoints of theory \<open>Api\<close> promise: who is let in, which requests only read, that
  every change is attributed and audited, that the store stays consistent, and the
  behaviour of the single workflows (acknowledging, calibrating, planning maintenance,
  setting thresholds, ingesting).
\<close>

section \<open>Inversions\<close>

lemma body_Inr: "body d r = Inr (d', x) \<longleftrightarrow> (\<exists>j. r = Inr j \<and> d' = d \<and> x = Body j)"
  by (auto simp: body_def)

lemma committed_Inr: "committed r = Inr (d', x) \<longleftrightarrow> (\<exists>j. r = Inr (d', j) \<and> x = Body j)"
  by (auto simp: committed_def)

lemma ensure_admin_Inr: "ensure_admin u = Inr x \<longleftrightarrow> usr_role u = ''admin''"
  by (auto simp: ensure_admin_def)

lemma require_device_Inr: "require_device did d = Inr v \<longleftrightarrow> get_device did d = Some v"
  by (auto simp: require_device_def split: option.splits)

lemmas handled = body_Inr committed_Inr ensure_admin_Inr require_device_Inr

lemma handle_user:
  assumes "handle env clk cid token req d = Inr (d', x)" and "\<not> is_public req"
  obtains u where "authenticate env (clk 9) token d = Inr u" and "request_check req = Inr True"
    and "user_request env clk cid u req d = Inr (d', x)"
  using assms by (auto simp: handle_def Let_def)

lemma handle_public:
  assumes "handle env clk cid token req d = Inr (d', x)" and "is_public req"
  shows "request_check req = Inr True \<and> public_request env clk req d = Inr (d', x)"
  using assms by (auto simp: handle_def Let_def)

lemma get_alarm_Some: "get_alarm i d = Some a \<Longrightarrow> a \<in> set (db_alarms d) \<and> int (alm_id a) = i"
  unfolding get_alarm_def by (auto dest: find_SomeD)

lemma get_maintenance_Some: "get_maintenance i d = Some m \<Longrightarrow> m \<in> set (db_maintenance d) \<and> int (mnt_id m) = i"
  unfolding get_maintenance_def by (auto dest: find_SomeD)

section \<open>Who is let in\<close>

lemma authenticate_Inr:
  "authenticate env now token d = Inr u \<Longrightarrow>
     \<exists>t. token = Some t \<and> get_current_user (env_cr env) (env_cfg env) now t d = Inr u"
  by (auto simp: authenticate_def split: option.splits)

lemma authenticate_Inl:
  "authenticate env now token d = Inl e \<Longrightarrow> \<exists>detail. e = HTTPException 401 detail"
  by (auto simp: authenticate_def get_current_user_def decode_access_token_def bindE_eq_Inl
      split: option.splits json.splits if_splits)

text \<open>C30: Nothing but the health check, signing in and token-protected ingestion works without a user: any other request of someone who is not an active user with a valid token is answered with 401, whatever its content, and never runs its handler.\<close>

theorem only_users_get_in:
  assumes "\<not> is_public req"
  shows "(\<exists>u t. token = Some t \<and> get_current_user (env_cr env) (env_cfg env) (clk 9) t d = Inr u
            \<and> u \<in> set (db_users d) \<and> usr_active u)
    \<or> (\<exists>detail. handle env clk cid token req d = Inl (HTTPException 401 detail))"
proof (cases "authenticate env (clk 9) token d")
  case (Inl e)
  then have "handle env clk cid token req d = Inl e" using assms by (simp add: handle_def Let_def)
  with authenticate_Inl [OF Inl] show ?thesis by auto
next
  case (Inr u)
  from authenticate_Inr [OF Inr] obtain t
    where t: "token = Some t" "get_current_user (env_cr env) (env_cfg env) (clk 9) t d = Inr u" by blast
  then have "\<exists>n. active_user n d = Some u"
    by (auto simp: get_current_user_def split: option.splits)
  with t active_userD show ?thesis by blast
qed

section \<open>Requests that only read\<close>

fun reads_only :: "request \<Rightarrow> bool" where
  "reads_only (IngestTelemetry _ _) = False"
| "reads_only (AcknowledgeAlarm _) = False"
| "reads_only (CreateCalibration _ _) = False"
| "reads_only (CreateMaintenance _ _) = False"
| "reads_only (UpdateMaintenance _ _) = False"
| "reads_only (ShowThresholds _) = False"
| "reads_only (UpdateThresholds _ _) = False"
| "reads_only (CreateRelayCommand _ _) = False"
| "reads_only _ = True"

fun admin_only :: "request \<Rightarrow> bool" where
  "admin_only (CreateCalibration _ _) = True"
| "admin_only (UpdateThresholds _ _) = True"
| "admin_only (CreateRelayCommand _ _) = True"
| "admin_only _ = False"

lemma user_reads: "reads_only req \<Longrightarrow> user_request env clk cid u req d = Inr (d', x) \<Longrightarrow> d' = d"
  by (cases req) (auto simp: handled)

lemma public_reads: "reads_only req \<Longrightarrow> public_request env clk req d = Inr (d', x) \<Longrightarrow> d' = d"
  by (cases req) (auto simp: handled)

definition audited :: "string \<Rightarrow> db \<Rightarrow> db \<Rightarrow> bool" where
  "audited who d d' = (\<exists>a later. db_audits d' = db_audits d @ a # later \<and> aud_actor a = who)"

lemma audited_add: "db_audits d1 = db_audits d \<Longrightarrow> audited who d (add_audit who a b c j t d1)"
  by (simp add: audited_def add_audit_def)

lemma acknowledge_cases:
  assumes "acknowledge_alarm env clk u i d = Inr (d', j)"
  obtains (again) a where "get_alarm i d = Some a" "alm_acknowledged_at a \<noteq> None" "d' = d"
  | (first) a e where "get_alarm i d = Some a" "alm_acknowledged_at a = None"
      "d' = with_event (env_rt env) e (add_audit (usr_username u) ''alarm_acknowledged'' ''alarm''
              (str_of_int (int (alm_id a)))
              (JObj [(''device_id'', JStr (alm_device_id a)), (''code'', JStr (alm_code a))]) (Aware (clk 1))
              (d\<lparr>db_alarms := row_put alm_id (alm_id a) (acknowledged (clk 0) (usr_username u)) (db_alarms d)\<rparr>))"
  using assms by (auto simp: acknowledge_alarm_def Let_def notify_eq split: option.splits if_splits)

lemma update_maintenance_cases:
  assumes "update_maintenance env clk u i r d = Inr (d', j)"
  obtains m0 m where "get_maintenance i d = Some m0" "m = maintenance_after r m0"
    "(case mnt_next_due_at m of None \<Rightarrow> Inr False | Some due \<Rightarrow> dt_le due (mnt_performed_at m)) = Inr False"
    "d' = add_audit (usr_username u) ''maintenance_updated'' ''maintenance'' (str_of_int (int (mnt_id m)))
        (JObj [(''device_id'', JStr (mnt_device_id m))]) (Aware (clk 1))
        (d\<lparr>db_maintenance := row_put mnt_id (mnt_id m)
             (\<lambda>_. m\<lparr>mnt_updated_at := Aware (clk 0), mnt_next_due_at := map_option normalized_utc (mnt_next_due_at m)\<rparr>)
             (db_maintenance d)\<rparr>)"
  using assms by (auto simp: update_maintenance_def Let_def split: option.splits)

lemma audited_same: "db_audits d' = db_audits d'' \<Longrightarrow> audited who d d'' \<Longrightarrow> audited who d d'"
  by (simp add: audited_def)

lemma audited_later: "prefix (db_audits d1) (db_audits d2) \<Longrightarrow> audited who d d1 \<Longrightarrow> audited who d d2"
  by (auto simp: audited_def prefix_def)

definition audit_grows :: "(db \<Rightarrow> db) \<Rightarrow> bool" where
  "audit_grows f = (\<forall>s. prefix (db_audits s) (db_audits (f s)))"

lemma relay_audited:
  assumes "create_relay_command env clk cid u did r d = Inr (d', j)" and "audit_grows (env_meanwhile env)"
  shows "audited (usr_username u) d d'"
proof -
  from assms(1) obtain v q x where "queue_command cid v (usr_username u) r clk d = Inr q"
    and d': "d' = put_command cid (command_after_publish x) (env_meanwhile env q)"
    by (auto simp: create_relay_command_def issue_relay_command_def Let_def)
  then have "audited (usr_username u) d q"
    by (auto simp: queue_command_Inr intro: audited_add simp: add_command_def)
  with assms(2) have "audited (usr_username u) d (env_meanwhile env q)"
    using audited_later unfolding audit_grows_def by blast
  then show ?thesis by (rule audited_same [rotated]) (simp add: d' put_command_def)
qed

lemma writes_audited:
  "acknowledge_alarm env clk u i d = Inr (d', j) \<Longrightarrow> d' = d \<or> audited (usr_username u) d d'"
  "create_calibration env clk u did c d = Inr (d', j) \<Longrightarrow> audited (usr_username u) d d'"
  "create_maintenance env clk u did m d = Inr (d', j) \<Longrightarrow> audited (usr_username u) d d'"
  "update_maintenance env clk u i mu d = Inr (d', j) \<Longrightarrow> audited (usr_username u) d d'"
  "update_thresholds env clk u did t d = Inr (d', j) \<Longrightarrow> audited (usr_username u) d d'"
proof -
  show "d' = d \<or> audited (usr_username u) d d'" if "acknowledge_alarm env clk u i d = Inr (d', j)"
    using that by (cases rule: acknowledge_cases) (simp_all add: audited_def add_audit_def)
  show "audited (usr_username u) d d'" if "create_calibration env clk u did c d = Inr (d', j)"
    using that by (auto simp: create_calibration_def Let_def intro!: audited_add)
  show "audited (usr_username u) d d'" if "create_maintenance env clk u did m d = Inr (d', j)"
    using that by (auto simp: create_maintenance_def Let_def intro!: audited_add)
  show "audited (usr_username u) d d'" if "update_maintenance env clk u i mu d = Inr (d', j)"
    using that by (cases rule: update_maintenance_cases) (auto intro!: audited_add)
  show "audited (usr_username u) d d'" if "update_thresholds env clk u did t d = Inr (d', j)"
    using that by (auto simp: update_thresholds_def Let_def put_threshold_config_def add_threshold_config_def
        intro!: audited_add split: option.splits)
qed

lemma user_writes_audited:
  assumes "user_request env clk cid u req d = Inr (d', x)" and "audit_grows (env_meanwhile env)"
    and "\<And>did. req \<noteq> ShowThresholds did"
  shows "d' = d \<or> audited (usr_username u) d d'"
proof (cases "reads_only req")
  case True
  with user_reads assms(1) show ?thesis by blast
next
  case False
  with assms writes_audited relay_audited [OF _ assms(2)] show ?thesis
    by (cases req) (auto simp: committed_Inr, blast+)
qed

lemma admin_required:
  "admin_only req \<Longrightarrow> user_request env clk cid u req d = Inr (d', x) \<Longrightarrow> usr_role u = ''admin''"
  by (cases req) (auto simp: handled create_calibration_def update_thresholds_def create_relay_command_def)


section \<open>The examples' environment\<close>

definition sample_env :: api_env where
  "sample_env = \<lparr>env_rt = sample_runtime, env_cr = sample_crypto, env_cfg = sample_settings,
     env_publish = (\<lambda>_. None), env_meanwhile = (\<lambda>d. d), env_report = Inl OSError\<rparr>"

abbreviation sample_bearer :: "string option" where
  "sample_bearer \<equiv> Some (sample_token sample_claims)"

lemma sample_authenticate:
  "0 \<le> now \<Longrightarrow> now < seconds 1800 \<Longrightarrow>
     authenticate sample_env now sample_bearer sample_users = Inr (sample_user ''admin'')"
  by (simp add: authenticate_def sample_env_def get_current_user_def decode_access_token_def sample_crypto_def
      sample_active_user)

theorem only_users_get_in_witness:
  "\<exists>detail. handle sample_env (\<lambda>_. 0) ''c1'' None (ListCommands ''motor-01'') sample_users = Inl (HTTPException 401 detail)"
  using only_users_get_in [of "ListCommands ''motor-01''" None] by simp

lemma sample_users_device [simp]: "get_device ''motor-01'' sample_users = Some sample_device"
  using sample_device_registered by (simp add: sample_users_def get_device_def)


section \<open>The store stays consistent\<close>

lemma issue_store_ok:
  assumes "store_ok d" and "\<And>s. store_ok s \<Longrightarrow> store_ok (meanwhile s)"
    and "issue_relay_command publish meanwhile clk cid v actor r cfg d = Inr (d', c)"
  shows "store_ok d'"
proof -
  from assms(3) obtain q x where q: "queue_command cid v actor r clk d = Inr q"
    and d': "d' = put_command cid (command_after_publish x) (meanwhile q)"
    by (auto simp: issue_relay_command_def Let_def)
  from q assms(1) have "store_ok q" by (auto simp: queue_command_Inr store_ok_add_command)
  with assms(2) show ?thesis by (simp add: d' store_ok_put_command)
qed

lemma acknowledge_alarms_ok:
  "alarms_ok rows \<Longrightarrow> alarms_ok (row_put alm_id k (acknowledged t who) rows)"
proof -
  let ?g = "\<lambda>r. if alm_id r = k then acknowledged t who r else r"
  assume ok: "alarms_ok rows"
  have "active_alarms d c (map ?g rows) = map ?g (active_alarms d c rows)" for d c
    by (induction rows) (auto simp: active_alarms_def acknowledged_def)
  moreover have "map alm_id (row_put alm_id k (acknowledged t who) rows) = map alm_id rows"
    by (rule map_row_put) (simp add: acknowledged_def)
  ultimately show ?thesis using ok by (simp add: alarms_ok_def one_active_def) (simp add: row_put_def)
qed

lemma writes_store_ok:
  "store_ok d \<Longrightarrow> acknowledge_alarm env clk u i d = Inr (d', j) \<Longrightarrow> store_ok d'"
  "store_ok d \<Longrightarrow> create_calibration env clk u did c d = Inr (d', j) \<Longrightarrow> store_ok d'"
  "store_ok d \<Longrightarrow> create_maintenance env clk u did m d = Inr (d', j) \<Longrightarrow> store_ok d'"
  "store_ok d \<Longrightarrow> update_maintenance env clk u i mu d = Inr (d', j) \<Longrightarrow> store_ok d'"
  "store_ok d \<Longrightarrow> get_thresholds env clk did d = Inr (d', j) \<Longrightarrow> store_ok d'"
  "store_ok d \<Longrightarrow> update_thresholds env clk u did t d = Inr (d', j) \<Longrightarrow> store_ok d'"
  "store_ok d \<Longrightarrow> ingest_telemetry env clk tok e d = Inr (d', j) \<Longrightarrow> store_ok d'"
proof -
  assume ok: "store_ok d"
  show "store_ok d'" if "acknowledge_alarm env clk u i d = Inr (d', j)"
    using that
  proof (cases rule: acknowledge_cases)
    case (first a e)
    from ok have "store_ok (d\<lparr>db_alarms := row_put alm_id (alm_id a) (acknowledged (clk 0) (usr_username u)) (db_alarms d)\<rparr>)"
      by (intro store_ok_set_alarms acknowledge_alarms_ok) (simp_all add: store_ok_def)
    with first show ?thesis by simp
  qed (use ok in simp)
  show "store_ok d'" if "create_calibration env clk u did c d = Inr (d', j)"
    using that ok by (auto simp: create_calibration_def Let_def)
  show "store_ok d'" if "create_maintenance env clk u did m d = Inr (d', j)"
    using that ok by (auto simp: create_maintenance_def Let_def)
  show "store_ok d'" if "update_maintenance env clk u i mu d = Inr (d', j)"
    using that ok by (cases rule: update_maintenance_cases) auto
  show "store_ok d'" if "get_thresholds env clk did d = Inr (d', j)"
    using that ok by (auto simp: get_thresholds_def Let_def store_ok_add_config new_threshold_config_def split: option.splits)
  show "store_ok d'" if "update_thresholds env clk u did t d = Inr (d', j)"
  proof -
    let ?d1 = "case get_threshold_config did d of Some _ \<Rightarrow> d
      | None \<Rightarrow> add_threshold_config (new_threshold_config did (Aware (clk 0))) d"
    have "store_ok ?d1"
      using ok by (simp add: store_ok_add_config new_threshold_config_def split: option.split)
    then have "store_ok (put_threshold_config did (threshold_update t (usr_username u) (clk 0)) ?d1)"
      by (rule store_ok_put_config) (simp add: threshold_update_def)
    with that show ?thesis by (auto simp: update_thresholds_def Let_def)
  qed
  show "store_ok d'" if "ingest_telemetry env clk tok e d = Inr (d', j)"
    using that telemetry_txn_store_ok [OF ok keeps_refl]
    by (auto simp: ingest_telemetry_def persist_telemetry_def split: sum.splits exc.splits)
qed

lemma relay_store_ok:
  assumes "store_ok d" and "\<And>s. store_ok s \<Longrightarrow> store_ok (env_meanwhile env s)"
    and "create_relay_command env clk cid u did r d = Inr (d', j)"
  shows "store_ok d'"
proof -
  from assms(3) obtain v c where
    "issue_relay_command (env_publish env) (env_meanwhile env) clk cid v (usr_username u) r (env_cfg env) d = Inr (d', c)"
    by (auto simp: create_relay_command_def)
  with issue_store_ok [of d "env_meanwhile env", OF assms(1,2)] show ?thesis by blast
qed

text \<open>
  An invariant of the store under requests: what every writing handler keeps, every request
  keeps, whatever it is and whoever sends it. The commits of other sessions during a
  command (\<open>env_meanwhile\<close>) have to keep it as well.
\<close>

locale request_invariant =
  fixes inv :: "db \<Rightarrow> bool"
  assumes ingest: "inv d \<Longrightarrow> ingest_telemetry env clk tok e d = Inr (d', j) \<Longrightarrow> inv d'"
    and acknowledge: "inv d \<Longrightarrow> acknowledge_alarm env clk u i d = Inr (d', j) \<Longrightarrow> inv d'"
    and calibrate: "inv d \<Longrightarrow> create_calibration env clk u did c d = Inr (d', j) \<Longrightarrow> inv d'"
    and create: "inv d \<Longrightarrow> maintenance_create_check m = Inr True \<Longrightarrow>
          create_maintenance env clk u did m d = Inr (d', j) \<Longrightarrow> inv d'"
    and update: "inv d \<Longrightarrow> update_maintenance env clk u i mu d = Inr (d', j) \<Longrightarrow> inv d'"
    and show_thresholds: "inv d \<Longrightarrow> get_thresholds env clk did d = Inr (d', j) \<Longrightarrow> inv d'"
    and set_thresholds: "inv d \<Longrightarrow> threshold_config_update_ok t \<Longrightarrow>
          update_thresholds env clk u did t d = Inr (d', j) \<Longrightarrow> inv d'"
    and relay: "inv d \<Longrightarrow> (\<And>s. inv s \<Longrightarrow> inv (env_meanwhile env s)) \<Longrightarrow> relay_command_create_ok r \<Longrightarrow>
          create_relay_command env clk cid u did r d = Inr (d', j) \<Longrightarrow> inv d'"
begin

lemma user_request_keeps:
  assumes "inv d" and "\<And>s. inv s \<Longrightarrow> inv (env_meanwhile env s)" and "request_check req = Inr True"
    and "user_request env clk cid u req d = Inr (d', x)"
  shows "inv d'"
proof (cases "reads_only req")
  case True
  with user_reads assms show ?thesis by blast
next
  case False
  have relayed: "relay_command_create_ok r \<Longrightarrow> create_relay_command env clk cid u did r d = Inr (d', j) \<Longrightarrow> inv d'" for did r j
    using relay [OF assms(1), of env] assms(2) by blast
  note kept = acknowledge [OF assms(1)] calibrate [OF assms(1)] create [OF assms(1)] update [OF assms(1)]
    show_thresholds [OF assms(1)] set_thresholds [OF assms(1)] relayed
  from False assms(3,4) show ?thesis by (cases req) (auto simp: committed_Inr intro: kept)
qed

lemma handle_keeps:
  assumes "inv d" and "\<And>s. inv s \<Longrightarrow> inv (env_meanwhile env s)"
    and ok: "handle env clk cid token req d = Inr (d', x)"
  shows "inv d'"
proof (cases "is_public req")
  case True
  with handle_public [OF ok] have "public_request env clk req d = Inr (d', x)" by blast
  with assms(1) ingest show ?thesis by (cases req) (auto simp: handled)
next
  case False
  with ok obtain u where "request_check req = Inr True" "user_request env clk cid u req d = Inr (d', x)"
    by (rule handle_user)
  with assms(1,2) user_request_keeps show ?thesis by blast
qed

end

interpretation consistency: request_invariant store_ok
  by unfold_locales (erule (1) writes_store_ok | rule relay_store_ok; assumption)+

text \<open>Every request that succeeds keeps the store consistent, whatever the other sessions do between the two commits of a command as long as they keep it too.\<close>

theorem handle_store_ok:
  assumes "store_ok d" and "\<And>s. store_ok s \<Longrightarrow> store_ok (env_meanwhile env s)"
    and "handle env clk cid token req d = Inr (d', x)"
  shows "store_ok d'"
  using assms by (rule consistency.handle_keeps)

lemma sample_users_ok: "store_ok sample_users"
  using store_ok_add_device [OF store_ok_empty, of sample_device] by (simp add: sample_users_def)

theorem handle_store_ok_witness:
  "\<exists>d' x. handle sample_env (\<lambda>_. 0) ''c1'' sample_bearer (ShowThresholds ''motor-01'') sample_users = Inr (d', x)
     \<and> d' \<noteq> sample_users \<and> store_ok d'"
proof -
  have auth: "authenticate sample_env 0 sample_bearer sample_users = Inr (sample_user ''admin'')"
    by (rule sample_authenticate) (simp_all add: seconds_def)
  have none: "get_threshold_config ''motor-01'' sample_users = None"
    by (simp add: get_threshold_config_def sample_users_def add_device_def empty_db_def)
  obtain d' x where ok: "handle sample_env (\<lambda>_. 0) ''c1'' sample_bearer (ShowThresholds ''motor-01'') sample_users = Inr (d', x)"
    and d': "db_thresholds d' = db_thresholds sample_users @ [new_threshold_config ''motor-01'' (Aware 0)]"
    by (simp add: handle_def auth get_thresholds_def require_device_def none committed_def Let_def
        add_threshold_config_def)
  from d' have "d' \<noteq> sample_users" by auto
  moreover note ok
  moreover have "store_ok d'"
    by (rule handle_store_ok [OF sample_users_ok _ ok]) (simp add: sample_env_def)
  ultimately show ?thesis by blast
qed

section \<open>Acknowledging alarms\<close>

lemma find_row_put:
  assumes "find (\<lambda>a. int (alm_id a) = i) rows = Some a"
  shows "find (\<lambda>a. int (alm_id a) = i) (row_put alm_id (alm_id a) (acknowledged t who) rows) = Some (acknowledged t who a)"
proof -
  from find_SomeD [OF assms] have i: "int (alm_id a) = i" by simp
  have "find (\<lambda>a. int (alm_id a) = i) (row_put alm_id k (acknowledged t who) rows) =
      map_option (\<lambda>r. if alm_id r = k then acknowledged t who r else r) (find (\<lambda>a. int (alm_id a) = i) rows)" for k
    by (induction rows) (auto simp: row_put_def acknowledged_def)
  with assms show ?thesis by simp
qed

text \<open>An alarm is acknowledged once: the first acknowledgement records its user and time and nothing else of any alarm, in particular not what is active; any later one, by anybody and at any time, succeeds without changing the store and shows the first.\<close>

theorem acknowledgement_is_final:
  assumes first: "acknowledge_alarm env clk u i d = Inr (d', j)" and new: "\<forall>a. get_alarm i d = Some a \<longrightarrow> alm_acknowledged_at a = None"
  shows "(\<exists>a. get_alarm i d' = Some a \<and> alm_acknowledged_at a = Some (Aware (clk 0))
            \<and> alm_acknowledged_by a = Some (usr_username u))
    \<and> map (\<lambda>a. a\<lparr>alm_acknowledged_at := None, alm_acknowledged_by := None\<rparr>) (db_alarms d')
        = map (\<lambda>a. a\<lparr>alm_acknowledged_at := None, alm_acknowledged_by := None\<rparr>) (db_alarms d)
    \<and> acknowledge_alarm env clk' u' i d' = Inr (d', j)"
  using first
proof (cases rule: acknowledge_cases)
  case (first a e)
  let ?b = "acknowledged (clk 0) (usr_username u) a"
  have b: "get_alarm i d' = Some ?b"
    using first(1) find_row_put by (auto simp: first(3) get_alarm_def add_audit_def)
  moreover have "map (\<lambda>a. a\<lparr>alm_acknowledged_at := None, alm_acknowledged_by := None\<rparr>) (db_alarms d')
        = map (\<lambda>a. a\<lparr>alm_acknowledged_at := None, alm_acknowledged_by := None\<rparr>) (db_alarms d)"
    by (simp add: first(3) add_audit_def row_put_def acknowledged_def)
  moreover have "j = to_alarm_view (env_rt env) ?b"
    using assms(1) first(1,2) by (auto simp: acknowledge_alarm_def Let_def)
  ultimately show ?thesis by (simp add: acknowledge_alarm_def acknowledged_def)
qed (use new in auto)

definition sample_alarm :: alarm_row where
  "sample_alarm = new_alarm ''motor-01'' ''CURRENT_THRESHOLD'' ''warning'' ''threshold'' ''s'' (Aware 0) []"

theorem acknowledgement_is_final_witness:
  "\<exists>d' j. acknowledge_alarm sample_env (\<lambda>_. 5) (sample_user ''operator'') 1 (sample_users\<lparr>db_alarms := [sample_alarm]\<rparr>) = Inr (d', j)
     \<and> acknowledge_alarm sample_env (\<lambda>_. 6) (sample_user ''admin'') 1 d' = Inr (d', j)"
proof -
  let ?d = "sample_users\<lparr>db_alarms := [sample_alarm]\<rparr>"
  have a: "get_alarm 1 ?d = Some sample_alarm"
    by (simp add: get_alarm_def sample_alarm_def new_alarm_def row_fresh_def)
  moreover have none: "alm_acknowledged_at sample_alarm = None" by (simp add: sample_alarm_def new_alarm_def)
  ultimately obtain d' j where ok: "acknowledge_alarm sample_env (\<lambda>_. 5) (sample_user ''operator'') 1 ?d = Inr (d', j)"
    by (simp add: acknowledge_alarm_def notify_eq sample_env_def Let_def)
  from acknowledgement_is_final [OF ok] a none ok show ?thesis by fastforce
qed

section \<open>Planning maintenance\<close>

definition due_after_work :: "maintenance_row \<Rightarrow> bool" where
  "due_after_work m =
     ((\<exists>t. mnt_performed_at m = Aware t)
      \<and> (case mnt_next_due_at m of None \<Rightarrow> True | Some due \<Rightarrow> \<exists>t. due = Aware t \<and> dt_us (mnt_performed_at m) < t))"

definition maintenance_ok :: "db \<Rightarrow> bool" where
  "maintenance_ok d = list_all due_after_work (db_maintenance d)"

lemma maintenance_create_ok:
  "maintenance_create_check r = Inr True \<Longrightarrow> mnt_performed_at m = normalized_utc (mc_performed_at r) \<Longrightarrow>
     mnt_next_due_at m = map_option normalized_utc (mc_next_due_at r) \<Longrightarrow> due_after_work m"
  by (cases "mc_performed_at r"; cases "mc_next_due_at r")
    (auto simp: maintenance_create_check_def due_after_work_def elim!: dt_le.elims)

lemma maintenance_update_ok:
  assumes "due_after_work m0" and "m = maintenance_after r m0"
    and "(case mnt_next_due_at m of None \<Rightarrow> Inr False | Some due \<Rightarrow> dt_le due (mnt_performed_at m)) = Inr False"
  shows "due_after_work (m\<lparr>mnt_updated_at := t, mnt_next_due_at := map_option normalized_utc (mnt_next_due_at m)\<rparr>)"
proof -
  from assms(1,2) obtain t where "mnt_performed_at m = Aware t" by (auto simp: due_after_work_def maintenance_after_def)
  with assms(3) show ?thesis
    by (cases "mnt_next_due_at m") (auto simp: due_after_work_def elim!: dt_le.elims)
qed

lemma writes_maintenance_ok:
  assumes "maintenance_ok d"
  shows "create_maintenance env clk u did r d = Inr (d', j) \<Longrightarrow> maintenance_create_check r = Inr True \<Longrightarrow> maintenance_ok d'"
    and "update_maintenance env clk u i mu d = Inr (d', j) \<Longrightarrow> maintenance_ok d'"
proof -
  assume "create_maintenance env clk u did r d = Inr (d', j)" and "maintenance_create_check r = Inr True"
  with assms maintenance_create_ok show "maintenance_ok d'"
    by (auto simp: create_maintenance_def Let_def maintenance_ok_def add_audit_def)
next
  assume "update_maintenance env clk u i mu d = Inr (d', j)"
  then show "maintenance_ok d'"
  proof (cases rule: update_maintenance_cases)
    case (1 m0 m)
    with assms get_maintenance_Some [OF 1(1)] have "due_after_work m0" by (auto simp: maintenance_ok_def list_all_iff)
    from maintenance_update_ok [OF this 1(2,3)] assms show ?thesis
      by (auto simp: 1(4) maintenance_ok_def add_audit_def list_all_iff set_row_put)
  qed
qed

lemma relay_frame:
  assumes "create_relay_command env clk cid u did r d = Inr (d', j)"
  obtains v q x where "queue_command cid v (usr_username u) r clk d = Inr q"
    and "d' = put_command cid (command_after_publish x) (env_meanwhile env q)"
  using assms by (auto simp: create_relay_command_def issue_relay_command_def Let_def)

lemma queue_frame:
  "queue_command cid v actor r clk d = Inr q \<Longrightarrow> db_maintenance q = db_maintenance d \<and> db_thresholds q = db_thresholds d"
  by (auto simp: queue_command_Inr add_audit_def add_command_def)

lemma ingest_frame:
  "ingest_telemetry env clk tok e d = Inr (d', j) \<Longrightarrow>
     db_maintenance d' = db_maintenance d \<and> db_commands d' = db_commands d"
  by (auto simp: ingest_telemetry_def persist_telemetry_def telemetry_txn_eq split: sum.splits exc.splits if_splits option.splits)

lemma ingest_cases:
  assumes "ingest_telemetry env clk tok e d = Inr (d', j)"
  shows "d' = d \<or> (\<exists>r. persist_telemetry (env_rt env) clk e d = Inr (d', r) \<and> pr_status r = Inserted)"
  using assms by (auto simp: ingest_telemetry_def persist_telemetry_def telemetry_txn_eq split: sum.splits exc.splits if_splits option.splits)

interpretation planned: request_invariant maintenance_ok
proof unfold_locales
  fix d d' :: db and env clk tok e j
  assume "maintenance_ok d" "ingest_telemetry env clk tok e d = Inr (d', j)"
  then show "maintenance_ok d'" by (simp add: maintenance_ok_def ingest_frame)
next
  fix d d' :: db and env clk u i j
  assume "maintenance_ok d" and a: "acknowledge_alarm env clk u i d = Inr (d', j)"
  from a have "db_maintenance d' = db_maintenance d"
    by (cases rule: acknowledge_cases) (simp_all add: add_audit_def)
  with \<open>maintenance_ok d\<close> show "maintenance_ok d'" by (simp add: maintenance_ok_def)
next
  fix d d' :: db and env clk u did c j
  assume "maintenance_ok d" "create_calibration env clk u did c d = Inr (d', j)"
  then show "maintenance_ok d'"
    by (auto simp: create_calibration_def Let_def add_audit_def maintenance_ok_def)
next
  fix d d' :: db and env clk did j
  assume "maintenance_ok d" "get_thresholds env clk did d = Inr (d', j)"
  then show "maintenance_ok d'"
    by (auto simp: get_thresholds_def Let_def add_threshold_config_def maintenance_ok_def split: option.splits)
next
  fix d d' :: db and env clk u did t j
  assume "maintenance_ok d" "update_thresholds env clk u did t d = Inr (d', j)"
  then show "maintenance_ok d'"
    by (auto simp: update_thresholds_def Let_def add_audit_def put_threshold_config_def add_threshold_config_def
        maintenance_ok_def split: option.splits)
next
  fix d d' :: db and env clk cid u did r j
  assume ok: "maintenance_ok d" "\<And>s. maintenance_ok s \<Longrightarrow> maintenance_ok (env_meanwhile env s)"
    and r: "create_relay_command env clk cid u did r d = Inr (d', j)"
  from r obtain v q x where q: "queue_command cid v (usr_username u) r clk d = Inr q"
    and d': "d' = put_command cid (command_after_publish x) (env_meanwhile env q)" by (rule relay_frame)
  have "maintenance_ok (env_meanwhile env q)"
    using ok queue_frame [OF q] by (simp add: maintenance_ok_def)
  then show "maintenance_ok d'" by (simp add: d' maintenance_ok_def put_command_def)
qed (erule (2) writes_maintenance_ok | erule (1) writes_maintenance_ok)+

text \<open>Every maintenance record of the store, however it was created and updated, has its next due date strictly after the work, as instants.\<close>

theorem maintenance_due_after_work:
  assumes "maintenance_ok d" and "\<And>s. maintenance_ok s \<Longrightarrow> maintenance_ok (env_meanwhile env s)"
    and "handle env clk cid token req d = Inr (d', x)"
  shows "maintenance_ok d'"
  using assms by (rule planned.handle_keeps)

section \<open>Setting thresholds\<close>

definition update_of :: "threshold_config_row \<Rightarrow> threshold_config_update" where
  "update_of c =
     \<lparr>tu_temperature_warning_c = thr_temperature_warning_c c,
      tu_temperature_critical_c = thr_temperature_critical_c c,
      tu_vibration_warning_mps2 = thr_vibration_warning_mps2 c,
      tu_vibration_critical_mps2 = thr_vibration_critical_mps2 c,
      tu_current_warning_a = thr_current_warning_a c, tu_current_critical_a = thr_current_critical_a c,
      tu_hysteresis_percent = thr_hysteresis_percent c\<rparr>"

definition thresholds_ok :: "db \<Rightarrow> bool" where
  "thresholds_ok d = list_all (\<lambda>c. threshold_config_update_ok (update_of c)) (db_thresholds d)"

lemma update_of_threshold_update: "update_of (threshold_update r who now c) = r"
  by (simp add: update_of_def threshold_update_def)

lemma default_thresholds_ok: "threshold_config_update_ok (update_of (new_threshold_config did t))"
proof -
  have "rnd (9/2) \<ge> 4" "rnd (9/2) \<le> 5" "rnd (7/5) \<ge> 1" "rnd (9/5) \<le> 2"
    by (rule rnd_ge_float rnd_le_float; simp add: rnd_numeral)+
  moreover have "rnd (7/5) < rnd (9/5)" by code_simp
  ultimately show ?thesis
    by (auto simp: threshold_config_update_ok_def update_of_def new_threshold_config_def ge_le_def of_exact_small
        warnings_are_below_critical_def rnd_numeral)
qed

lemma thresholds_ok_add: "thresholds_ok d \<Longrightarrow> thresholds_ok (add_threshold_config (new_threshold_config did t) d)"
  by (simp add: thresholds_ok_def add_threshold_config_def default_thresholds_ok)

lemma thresholds_ok_put:
  "thresholds_ok d \<Longrightarrow> threshold_config_update_ok r \<Longrightarrow> thresholds_ok (put_threshold_config did (threshold_update r who t) d)"
  by (auto simp: thresholds_ok_def put_threshold_config_def list_all_iff set_row_put update_of_threshold_update)

lemma ingest_thresholds_ok:
  assumes "thresholds_ok d" and "ingest_telemetry env clk tok e d = Inr (d', j)"
  shows "thresholds_ok d'"
  using ingest_cases [OF assms(2)]
proof
  assume "\<exists>r. persist_telemetry (env_rt env) clk e d = Inr (d', r) \<and> pr_status r = Inserted"
  then obtain r where "persist_telemetry (env_rt env) clk e d = Inr (d', r)" "pr_status r = Inserted" by blast
  from inserted_state [OF this] assms(1) show ?thesis
    by (auto simp: thresholds_ok_def default_thresholds_ok split: option.splits)
qed (use assms in simp)

interpretation tuned: request_invariant thresholds_ok
proof unfold_locales
  fix d d' :: db and env clk u i j
  assume "thresholds_ok d" and a: "acknowledge_alarm env clk u i d = Inr (d', j)"
  from a have "db_thresholds d' = db_thresholds d"
    by (cases rule: acknowledge_cases) (simp_all add: add_audit_def)
  with \<open>thresholds_ok d\<close> show "thresholds_ok d'" by (simp add: thresholds_ok_def)
next
  fix d d' :: db and env clk u did c j
  assume "thresholds_ok d" "create_calibration env clk u did c d = Inr (d', j)"
  then show "thresholds_ok d'"
    by (auto simp: create_calibration_def Let_def add_audit_def thresholds_ok_def)
next
  fix d d' :: db and m env clk u did j
  assume "thresholds_ok d" "create_maintenance env clk u did m d = Inr (d', j)"
  then show "thresholds_ok d'"
    by (auto simp: create_maintenance_def Let_def add_audit_def thresholds_ok_def)
next
  fix d d' :: db and env clk u i mu j
  assume "thresholds_ok d" and m: "update_maintenance env clk u i mu d = Inr (d', j)"
  from m have "db_thresholds d' = db_thresholds d"
    by (cases rule: update_maintenance_cases) (simp_all add: add_audit_def)
  with \<open>thresholds_ok d\<close> show "thresholds_ok d'" by (simp add: thresholds_ok_def)
next
  fix d d' :: db and env clk did j
  assume "thresholds_ok d" "get_thresholds env clk did d = Inr (d', j)"
  then show "thresholds_ok d'"
    by (auto simp: get_thresholds_def Let_def thresholds_ok_add split: option.splits)
next
  fix d d' :: db and t env clk u did j
  assume ok: "thresholds_ok d" "threshold_config_update_ok t" and upd: "update_thresholds env clk u did t d = Inr (d', j)"
  let ?d1 = "case get_threshold_config did d of Some _ \<Rightarrow> d
      | None \<Rightarrow> add_threshold_config (new_threshold_config did (Aware (clk 0))) d"
  have "thresholds_ok ?d1" using ok(1) by (simp add: thresholds_ok_add split: option.split)
  with ok(2) have "thresholds_ok (put_threshold_config did (threshold_update t (usr_username u) (clk 0)) ?d1)"
    by (simp add: thresholds_ok_put)
  with upd show "thresholds_ok d'"
    by (auto simp: update_thresholds_def Let_def thresholds_ok_def add_audit_def)
next
  fix d d' :: db and env clk cid u did r j
  assume ok: "thresholds_ok d" "\<And>s. thresholds_ok s \<Longrightarrow> thresholds_ok (env_meanwhile env s)"
    and r: "create_relay_command env clk cid u did r d = Inr (d', j)"
  from r obtain v q x where q: "queue_command cid v (usr_username u) r clk d = Inr q"
    and d': "d' = put_command cid (command_after_publish x) (env_meanwhile env q)" by (rule relay_frame)
  have "thresholds_ok (env_meanwhile env q)"
    using ok queue_frame [OF q] by (simp add: thresholds_ok_def)
  then show "thresholds_ok d'" by (simp add: d' thresholds_ok_def put_command_def)
qed (erule (1) ingest_thresholds_ok)

lemma config_of_ok:
  "thresholds_ok d \<Longrightarrow> get_threshold_config did d = Some c \<Longrightarrow> threshold_config_update_ok (update_of c)"
  by (auto simp: thresholds_ok_def get_threshold_config_def list_all_iff dest: row_get_SomeD)

lemma update_ok_Fin:
  assumes "threshold_config_update_ok r"
  shows "\<exists>w. tu_temperature_warning_c r = Fin w \<and> 0 \<le> w" and "\<exists>h. tu_hysteresis_percent r = Fin h \<and> 1 \<le> h \<and> h \<le> 25"
    and "flt_less (tu_temperature_warning_c r) (tu_temperature_critical_c r)"
    and "flt_less (tu_vibration_warning_mps2 r) (tu_vibration_critical_mps2 r)"
    and "flt_less (tu_current_warning_a r) (tu_current_critical_a r)"
proof -
  note ok = assms [unfolded threshold_config_update_ok_def]
  have Fin: "\<exists>x. v = Fin x \<and> rnd lo \<le> x \<and> x \<le> rnd hi" if "ge_le lo hi v" "\<bar>lo\<bar> \<le> 2 ^ 53" "\<bar>hi\<bar> \<le> 2 ^ 53" for lo hi v
    using that by (cases v) (auto simp: ge_le_def of_exact_small)
  show "\<exists>w. tu_temperature_warning_c r = Fin w \<and> 0 \<le> w" using ok Fin [of 0 150] by auto
  show "\<exists>h. tu_hysteresis_percent r = Fin h \<and> 1 \<le> h \<and> h \<le> 25"
    using ok Fin [of 1 25] by (auto simp: rnd_numeral)
  have less: "flt_less (Fin a) (Fin b)" if "\<not> flt_le (Fin b) (Fin a)" for a b using that by simp
  show "flt_less (tu_temperature_warning_c r) (tu_temperature_critical_c r)"
    "flt_less (tu_vibration_warning_mps2 r) (tu_vibration_critical_mps2 r)"
    "flt_less (tu_current_warning_a r) (tu_current_critical_a r)"
    using ok Fin [of 0 150] Fin [of 0 180] Fin [of 0 200] Fin [of 0 400] Fin [of 0 8] Fin [of 0 10] less
    by (fastforce simp: warnings_are_below_critical_def)+
qed

text \<open>C33: Thresholds are always usable: whatever requests are handled, every stored configuration, the defaults included, has finite thresholds with the warning strictly below the critical value in each metric and a hysteresis between 1 and 25 percent.\<close>

theorem thresholds_stay_ordered:
  assumes "thresholds_ok d" and "\<And>s. thresholds_ok s \<Longrightarrow> thresholds_ok (env_meanwhile env s)"
    and "handle env clk cid token req d = Inr (d', x)" and "get_threshold_config did d' = Some c"
  shows "thresholds_ok d'
    \<and> flt_less (thr_temperature_warning_c c) (thr_temperature_critical_c c)
    \<and> flt_less (thr_vibration_warning_mps2 c) (thr_vibration_critical_mps2 c)
    \<and> flt_less (thr_current_warning_a c) (thr_current_critical_a c)
    \<and> (\<exists>h. thr_hysteresis_percent c = Fin h \<and> 1 \<le> h \<and> h \<le> 25)"
proof -
  have ok: "thresholds_ok d'" using assms(1-3) by (rule tuned.handle_keeps)
  from update_ok_Fin [OF config_of_ok [OF ok assms(4)]] ok show ?thesis by (simp add: update_of_def)
qed

lemma sample_auth0: "authenticate sample_env 0 sample_bearer sample_users = Inr (sample_user ''admin'')"
  by (rule sample_authenticate) (simp_all add: seconds_def)

lemma sample_empty_tables:
  "db_maintenance sample_users = []" "db_thresholds sample_users = []" "db_calibrations sample_users = []"
  by (simp_all add: sample_users_def add_device_def empty_db_def)

theorem maintenance_due_after_work_witness:
  "\<exists>d' x. handle sample_env (\<lambda>_. 0) ''c1'' sample_bearer
       (CreateMaintenance ''motor-01'' \<lparr>mc_status = Scheduled, mc_notes = ''greased'', mc_performed_at = Naive 5, mc_next_due_at = Some (Naive 6)\<rparr>)
       sample_users = Inr (d', x) \<and> maintenance_ok d' \<and> db_maintenance d' \<noteq> []"
proof -
  obtain d' x where ok: "handle sample_env (\<lambda>_. 0) ''c1'' sample_bearer
       (CreateMaintenance ''motor-01'' \<lparr>mc_status = Scheduled, mc_notes = ''greased'', mc_performed_at = Naive 5, mc_next_due_at = Some (Naive 6)\<rparr>)
       sample_users = Inr (d', x)" and ne: "db_maintenance d' \<noteq> []"
    by (simp add: handle_def sample_auth0 maintenance_create_check_def create_maintenance_def require_device_def
        committed_def Let_def add_audit_def)
  have "maintenance_ok d'"
    by (rule maintenance_due_after_work [OF _ _ ok]) (simp_all add: sample_env_def maintenance_ok_def sample_empty_tables)
  with ok ne show ?thesis by blast
qed

theorem thresholds_stay_ordered_witness:
  "\<exists>d' x c. handle sample_env (\<lambda>_. 0) ''c1'' sample_bearer (ShowThresholds ''motor-01'') sample_users = Inr (d', x)
     \<and> get_threshold_config ''motor-01'' d' = Some c
     \<and> flt_less (thr_current_warning_a c) (thr_current_critical_a c)"
proof -
  have none: "get_threshold_config ''motor-01'' sample_users = None"
    by (simp add: get_threshold_config_def sample_empty_tables)
  obtain d' x c where ok: "handle sample_env (\<lambda>_. 0) ''c1'' sample_bearer (ShowThresholds ''motor-01'') sample_users = Inr (d', x)"
    and c: "get_threshold_config ''motor-01'' d' = Some c"
    by (simp add: handle_def sample_auth0 get_thresholds_def require_device_def none committed_def Let_def
        configs.get_add new_threshold_config_def)
  have "thresholds_ok sample_users" by (simp add: thresholds_ok_def sample_empty_tables)
  from thresholds_stay_ordered [OF this _ ok c] ok c show ?thesis by (auto simp: sample_env_def)
qed

section \<open>Ingesting over HTTP\<close>

text \<open>The HTTP ingestion answers a sequence collision with 409 but nothing else: a valid reading with the right token whose site is not the registered one of its device is no client error there, it leaves the handler as a plain \<open>ValueError\<close> (the MQTT path rejects the same reading).\<close>

theorem site_mismatch_is_a_server_error:
  assumes "telemetry_envelope_ok e" and "tok = ingest_token (env_cfg env)"
    and "get_telemetry (te_message_id e) d = None" and "sequence_owner (te_device_id e) (te_sequence e) d = None"
    and "site_mismatch (te_device_id e) (te_site_id e) d"
  shows "handle env clk cid token (IngestTelemetry tok e) d
      = Inl (ValueError ''topic site does not match registered device site'')"
  using assms by (simp add: handle_def Let_def ingest_telemetry_def persist_telemetry_def telemetry_txn_eq committed_def)

theorem site_mismatch_is_a_server_error_witness:
  "\<exists>m. handle sample_env (\<lambda>_. 0) ''c1'' None (IngestTelemetry (replicate 32 (CHR ''t'')) (sample_envelope ''m1'' 1 (Fin 41)))
     (add_device (sample_device\<lparr>dev_site_id := ''elsewhere''\<rparr>) empty_db) = Inl (ValueError m)"
proof -
  let ?d = "add_device (sample_device\<lparr>dev_site_id := ''elsewhere''\<rparr>) empty_db"
  have "get_device ''motor-01'' ?d = Some (sample_device\<lparr>dev_site_id := ''elsewhere''\<rparr>)"
    by (simp add: devices.get_add sample_device_id)
  then have "site_mismatch ''motor-01'' ''workshop-demo'' ?d" by (simp add: site_mismatch_def)
  moreover have "get_telemetry ''m1'' ?d = None" "sequence_owner ''motor-01'' 1 ?d = None"
    by (simp_all add: get_telemetry_def sequence_owner_def add_device_def empty_db_def)
  ultimately show ?thesis
    using site_mismatch_is_a_server_error [of "sample_envelope ''m1'' 1 (Fin 41)" "replicate 32 (CHR ''t'')" sample_env ?d]
    by (simp add: sample_envelope_valid sample_env_def sample_settings_def)
qed

section \<open>Calibrating\<close>

definition calibrations_of :: "string \<Rightarrow> string \<Rightarrow> db \<Rightarrow> calibration_row list" where
  "calibrations_of did s d = filter (\<lambda>c. cal_device_id c = did \<and> cal_sensor c = s) (db_calibrations d)"

text \<open>A history that starts at the neutral coefficients and hands each record's coefficients to the next.\<close>

fun chained :: "coefficients \<Rightarrow> calibration_row list \<Rightarrow> bool" where
  "chained previous [] = True"
| "chained previous (c # cs) = (cal_previous_coefficients c = previous \<and> chained (cal_new_coefficients c) cs)"

definition neutral :: coefficients where
  "neutral = [(''scale'', lit 1), (''offset'', lit 0)]"

lemma chained_append:
  "chained p (cs @ [c]) \<longleftrightarrow> chained p cs
     \<and> cal_previous_coefficients c = (if cs = [] then p else cal_new_coefficients (last cs))"
  by (induction p cs rule: chained.induct) auto

lemma head_of_order_desc:
  assumes "sorted_wrt (<) (map (dt_us \<circ> key) rows)" and "rows \<noteq> []"
  shows "\<exists>rest. order_desc key rows = last rows # rest"
proof -
  let ?f = "\<lambda>r. - dt_us (key r)"
  obtain x rest where x: "sort_key ?f rows = x # rest"
    using assms(2) by (metis length_0_conv length_sort neq_Nil_conv)
  have "x \<in> set rows" by (metis list.set_intros(1) set_sort x)
  have least: "?f x \<le> ?f y" if "y \<in> set rows" for y
  proof -
    have "sorted (map ?f (x # rest))" by (metis sorted_sort_key x)
    moreover have "y \<in> set (x # rest)" using that by (metis set_sort x)
    ultimately show ?thesis by auto
  qed
  from assms(2) obtain ys where rows: "rows = ys @ [last rows]" by (metis append_butlast_last_id)
  have "x = last rows"
  proof (rule ccontr)
    assume "x \<noteq> last rows"
    with \<open>x \<in> set rows\<close> rows have "x \<in> set ys" by (metis Un_iff empty_iff insert_iff list.set(1) list.set(2) set_append)
    moreover have "sorted_wrt (<) (map (dt_us \<circ> key) (ys @ [last rows]))" using assms(1) rows by argo
    ultimately have "dt_us (key x) < dt_us (key (last rows))" by (auto simp: sorted_wrt_append)
    with least [of "last rows"] assms(2) show False by simp
  qed
  with x show ?thesis by (simp add: order_desc_def)
qed

definition history_ok :: "db \<Rightarrow> bool" where
  "history_ok d = (\<forall>did s. chained neutral (calibrations_of did s d)
     \<and> sorted_wrt (<) (map (dt_us \<circ> cal_performed_at) (calibrations_of did s d)))"

lemma latest_calibration_last:
  assumes "history_ok d"
  shows "latest_calibration did s d =
     (if calibrations_of did (sensor_str s) d = [] then None else Some (last (calibrations_of did (sensor_str s) d)))"
proof (cases "calibrations_of did (sensor_str s) d = []")
  case False
  from assms have "sorted_wrt (<) (map (dt_us \<circ> cal_performed_at) (calibrations_of did (sensor_str s) d))"
    by (simp add: history_ok_def)
  from head_of_order_desc [OF this False] False show ?thesis
    by (auto simp: latest_calibration_def calibrations_of_def)
qed (simp add: latest_calibration_def calibrations_of_def order_desc_def)



end
