(* ===== verification/Platform.thy ===== *)
theory Platform
  imports Ingestor WorkerLaws ApiLaws
begin

text \<open>
  The processes that share the store, together: messages that reach the ingestor, requests
  that reach the API (with whatever is committed between the two commits of a command) and
  runs of the anomaly worker, in any order. \<open>platform_run\<close> is what they do to the store; the
  theory shows that it keeps the worker's view of the store, \<open>worker_store\<close>, which is stronger
  than what each process maintains for itself.
\<close>

section \<open>What only some operations touch\<close>

text \<open>The part of \<open>worker_store\<close> beside \<open>store_ok\<close>.\<close>

definition sourced_store :: "db \<Rightarrow> bool" where
  "sourced_store d = (distinct (map tel_id (db_telemetry d)) \<and> (\<forall>a \<in> set (db_alarms d). sourced_row a))"

lemma worker_store_iff: "worker_store d \<longleftrightarrow> store_ok d \<and> sourced_store d"
  by (auto simp: worker_store_def sourced_store_def store_ok_def sourced_alarms_def)

lemma sourced_same:
  "db_telemetry d' = db_telemetry d \<Longrightarrow> db_alarms d' = db_alarms d \<Longrightarrow> sourced_store d' = sourced_store d"
  by (simp add: sourced_store_def)

text \<open>A table operation that names another table leaves these two alone.\<close>

lemma other_tables [simp]:
  "db_telemetry (add_audit a b c e f g d) = db_telemetry d" "db_alarms (add_audit a b c e f g d) = db_alarms d"
  "db_telemetry (add_error_log a b c dv f1 g d) = db_telemetry d" "db_alarms (add_error_log a b c dv f1 g d) = db_alarms d"
  "db_telemetry (add_device v d) = db_telemetry d" "db_alarms (add_device v d) = db_alarms d"
  "db_telemetry (put_device k h d) = db_telemetry d" "db_alarms (put_device k h d) = db_alarms d"
  "db_telemetry (add_threshold_config c1 d) = db_telemetry d" "db_alarms (add_threshold_config c1 d) = db_alarms d"
  "db_telemetry (put_threshold_config k h1 d) = db_telemetry d" "db_alarms (put_threshold_config k h1 d) = db_alarms d"
  "db_telemetry (add_command c2 d) = db_telemetry d" "db_alarms (add_command c2 d) = db_alarms d"
  "db_telemetry (put_command k h2 d) = db_telemetry d" "db_alarms (put_command k h2 d) = db_alarms d"
  by (simp_all add: add_audit_def add_error_log_def add_device_def put_device_def add_threshold_config_def
      put_threshold_config_def add_command_def put_command_def)

section \<open>Ingestion\<close>

lemma sourced_metric_alarm:
  assumes "\<forall>a \<in> set rows. sourced_row a" and "code \<notin> {''SENSOR_DIAGNOSTIC'', ''ANOMALY_DETECTED''}"
  shows "\<forall>a \<in> set (apply_metric_alarm did code m u v w c h now rows). sourced_row a"
  using assms
  by (auto simp: apply_metric_alarm_def Let_def set_row_put sourced_row_def split: option.splits if_splits)

lemma sourced_thresholds:
  "\<forall>a \<in> set rows. sourced_row a \<Longrightarrow> \<forall>a \<in> set (threshold_alarms config did vs clk rows). sourced_row a"
  unfolding threshold_alarms_def by (intro sourced_metric_alarm) simp_all

lemma upsert_tables [simp]:
  "db_telemetry (upsert_device b did site t f d) = db_telemetry d" "db_alarms (upsert_device b did site t f d) = db_alarms d"
  by (simp_all add: upsert_device_def Let_def)

lemma sourced_telemetry_writes:
  assumes "sourced_store d1"
  shows "sourced_store (telemetry_writes clk e d0 d1)"
proof -
  let ?row = "telemetry_row_of e (Aware (clk 0)) (db_telemetry d1)"
  have t: "db_telemetry (telemetry_writes clk e d0 d1) = db_telemetry d1 @ [?row]"
    by (simp add: telemetry_writes_def Let_def split: option.splits)
  have a: "\<exists>config. db_alarms (telemetry_writes clk e d0 d1)
      = threshold_alarms config (te_device_id e) (te_measurements e) clk (db_alarms d1)"
    by (cases "get_threshold_config (te_device_id e) d0") (auto simp: telemetry_writes_def Let_def)
  have "tel_id ?row \<notin> tel_id ` set (db_telemetry d1)" by (simp add: telemetry_row_of_def row_fresh_notin)
  with t a assms sourced_thresholds show ?thesis by (auto simp: sourced_store_def)
qed

lemma sourced_event [simp]: "sourced_store (with_event rt ev d) = sourced_store d"
  by (rule sourced_same) simp_all

lemma sourced_persistence:
  assumes "sourced_store d"
  shows "persist_telemetry rt clk e d = Inr (d', r) \<Longrightarrow> sourced_store d'"
    and "persist_health rt clk h d = Inr (d', r) \<Longrightarrow> sourced_store d'"
    and "persist_command_ack rt clk c d = Inr (d', r) \<Longrightarrow> sourced_store d'"
proof -
  show "sourced_store d'" if "persist_telemetry rt clk e d = Inr (d', r)"
    using that assms sourced_telemetry_writes [OF assms]
    by (auto simp: persist_telemetry_def telemetry_txn_eq split: if_splits option.splits)
  have "db_telemetry (health_writes rt clk h d d) = db_telemetry d" "db_alarms (health_writes rt clk h d d) = db_alarms d"
    by (simp_all add: health_writes_def Let_def)
  then have "sourced_store (health_writes rt clk h d d)" using assms sourced_same by blast
  then show "sourced_store d'" if "persist_health rt clk h d = Inr (d', r)"
    using that assms by (auto simp: persist_health_def health_txn_eq split: if_splits option.splits)
  show "sourced_store d'" if "persist_command_ack rt clk c d = Inr (d', r)"
    using that assms by (auto simp: persist_command_ack_def notify_eq sourced_store_def split: option.splits if_splits)
qed

lemma message_worker_store:
  assumes "worker_store d" and "handle_message rt dec clk t payload d = Inr (d', s)"
  shows "worker_store d'"
proof (cases "persist_message rt dec clk t payload d")
  case (Inr p)
  with assms(2) obtain r where r: "persist_message rt dec clk t payload d = Inr (d', r)"
    by (auto simp: handle_message_cases)
  have "sourced_store d" using assms(1) by (simp add: worker_store_iff)
  with r sourced_persistence have "sourced_store d'" by (cases rule: persist_message_Inr) blast+
  with persist_message_store_ok [OF _ r] assms(1) show ?thesis by (simp add: worker_store_iff)
next
  case (Inl e)
  with assms(2) handle_message_rejected obtain code m where "d' = record_error code m None (clk 6) d" by blast
  with assms(1) show ?thesis by (simp add: worker_store_iff record_error_store_ok) (simp add: record_error_def sourced_store_def)
qed

section \<open>Requests\<close>

lemma sourced_requests:
  assumes "sourced_store d"
  shows "ingest_telemetry env clk tok e d = Inr (d', j) \<Longrightarrow> sourced_store d'"
    and "acknowledge_alarm env clk u i d = Inr (d', j) \<Longrightarrow> sourced_store d'"
    and "create_calibration env clk u did c d = Inr (d', j) \<Longrightarrow> sourced_store d'"
    and "create_maintenance env clk u did m d = Inr (d', j) \<Longrightarrow> sourced_store d'"
    and "update_maintenance env clk u i mu d = Inr (d', j) \<Longrightarrow> sourced_store d'"
    and "get_thresholds env clk did d = Inr (d', j) \<Longrightarrow> sourced_store d'"
    and "update_thresholds env clk u did t d = Inr (d', j) \<Longrightarrow> sourced_store d'"
proof -
  show "sourced_store d'" if "ingest_telemetry env clk tok e d = Inr (d', j)"
    using that assms by (auto simp: ingest_telemetry_def split: sum.splits exc.splits dest: sourced_persistence)
  show "sourced_store d'" if "acknowledge_alarm env clk u i d = Inr (d', j)"
    using that by (cases rule: acknowledge_cases)
      (use assms in \<open>auto simp: sourced_store_def set_row_put acknowledged_def sourced_row_def\<close>)
  show "sourced_store d'" if "create_calibration env clk u did c d = Inr (d', j)"
    using that assms by (auto simp: create_calibration_def Let_def sourced_store_def)
  show "sourced_store d'" if "create_maintenance env clk u did m d = Inr (d', j)"
    using that assms by (auto simp: create_maintenance_def Let_def sourced_store_def)
  show "sourced_store d'" if "update_maintenance env clk u i mu d = Inr (d', j)"
    using that by (cases rule: update_maintenance_cases) (use assms in \<open>auto simp: sourced_store_def\<close>)
  show "sourced_store d'" if "get_thresholds env clk did d = Inr (d', j)"
    using that assms by (auto simp: get_thresholds_def Let_def sourced_store_def split: option.splits)
  show "sourced_store d'" if "update_thresholds env clk u did t d = Inr (d', j)"
    using that assms by (auto simp: update_thresholds_def Let_def sourced_store_def split: option.splits)
qed

lemma issue_worker_store:
  assumes "worker_store d" and "\<And>s. worker_store s \<Longrightarrow> worker_store (meanwhile s)"
    and "issue_relay_command publish meanwhile clk cid v actor r cfg d = Inr (d', c)"
  shows "worker_store d'"
proof -
  from assms(3) obtain q x where q: "queue_command cid v actor r clk d = Inr q"
    and d': "d' = put_command cid (command_after_publish x) (meanwhile q)"
    by (auto simp: issue_relay_command_def Let_def)
  have "store_ok q" using q assms(1) by (auto simp: queue_command_Inr store_ok_add_command worker_store_iff)
  moreover have "sourced_store q" using q assms(1) by (auto simp: queue_command_Inr worker_store_iff sourced_store_def)
  ultimately have "worker_store (meanwhile q)" using assms(2) by (simp add: worker_store_iff)
  then show ?thesis by (simp add: d' worker_store_iff store_ok_put_command sourced_store_def)
qed

lemma relay_worker_store:
  assumes "worker_store d" and "\<And>s. worker_store s \<Longrightarrow> worker_store (env_meanwhile env s)"
    and "create_relay_command env clk cid u did r d = Inr (d', j)"
  shows "worker_store d'"
proof -
  from assms(3) obtain v c where
    "issue_relay_command (env_publish env) (env_meanwhile env) clk cid v (usr_username u) r (env_cfg env) d = Inr (d', c)"
    by (auto simp: create_relay_command_def)
  with issue_worker_store [of d "env_meanwhile env", OF assms(1,2)] show ?thesis by blast
qed

lemma run_worker_store: "worker_store d \<Longrightarrow> worker_store (fst (run_once w rt cfg files clks d))"
  unfolding run_once_def by (rule score_devices_store [OF pass_keeps_store])

interpretation sources: request_invariant worker_store
  unfolding worker_store_iff
proof (unfold_locales, goal_cases)
  case (8 d env r clk cid u did d' j)
  then show ?case using relay_worker_store [of d env] unfolding worker_store_iff by blast
qed (blast dest: writes_store_ok sourced_requests)+

section \<open>Everything together\<close>

text \<open>
  A run of the platform. A request may find, between the two commits of a relay command,
  whatever another run of the platform has committed meanwhile.
\<close>

inductive platform_run :: "'e worker \<Rightarrow> db \<Rightarrow> db \<Rightarrow> bool" for w :: "'e worker" where
  start: "platform_run w d d"
| message: "platform_run w d0 d \<Longrightarrow> handle_message rt dec clk t payload d = Inr (d', status) \<Longrightarrow> platform_run w d0 d'"
| request: "platform_run w d0 d \<Longrightarrow> (\<And>s. platform_run w s (env_meanwhile env s)) \<Longrightarrow>
    handle env clk cid token req d = Inr (d', response) \<Longrightarrow> platform_run w d0 d'"
| worker: "platform_run w d0 d \<Longrightarrow> platform_run w d0 (fst (run_once w rt cfg files clks d))"



end
