(* ===== verification/Responses.thy ===== *)
theory Responses
  imports Platform
begin

text \<open>
  The response models of \<open>services/api/app/schemas.py\<close>, as types of JSON values, and the
  \<open>response_model\<close> each endpoint of \<open>services/api/app/main.py\<close> declares. pydantic validates a
  view when it is built, so a row that does not fit its view turns a request into a server
  error; the theory shows that the rows that the processes of the platform store always fit.
\<close>

section \<open>Field types\<close>

text \<open>
  The annotations that the models use. \<open>FloatIn\<close> is a \<open>float\<close> with \<open>ge\<close> and \<open>le\<close>; a datetime is
  rendered as a string. \<open>Model\<close> lists the fields in order, \<open>Below\<close> adds the validator of
  \<open>ThresholdConfigUpdate\<close>: each first field strictly below its second.
\<close>

datatype field_type =
    Str
  | Integer
  | Float
  | FloatIn rat rat
  | Boolean
  | Datetime
  | Literal "json list"
  | Optional field_type
  | ListOf field_type
  | DictOf field_type
  | Anything
  | Model "(string \<times> field_type) list"
  | Below "(string \<times> string) list" field_type

definition is_str :: "json \<Rightarrow> bool" where
  "is_str j = (case j of JStr _ \<Rightarrow> True | _ \<Rightarrow> False)"

definition num_where :: "(flt \<Rightarrow> bool) \<Rightarrow> json \<Rightarrow> bool" where
  "num_where P j = (case j of JNum x \<Rightarrow> P x | _ \<Rightarrow> False)"

definition arr_where :: "(json \<Rightarrow> bool) \<Rightarrow> json \<Rightarrow> bool" where
  "arr_where P j = (case j of JArr js \<Rightarrow> list_all P js | _ \<Rightarrow> False)"

definition obj_where :: "((string \<times> json) list \<Rightarrow> bool) \<Rightarrow> json \<Rightarrow> bool" where
  "obj_where P j = (case j of JObj ms \<Rightarrow> P ms | _ \<Rightarrow> False)"

fun fields_where :: "(string \<times> (json \<Rightarrow> bool)) list \<Rightarrow> (string \<times> json) list \<Rightarrow> bool" where
  "fields_where [] [] = True"
| "fields_where ((k, P) # fs) ((k', j) # ms) = (k = k' \<and> P j \<and> fields_where fs ms)"
| "fields_where _ _ = False"

definition member_below :: "(string \<times> json) list \<Rightarrow> string \<times> string \<Rightarrow> bool" where
  "member_below ms p =
     (case (map_of ms (fst p), map_of ms (snd p)) of
        (Some (JNum x), Some (JNum y)) \<Rightarrow> \<not> flt_le y x
      | _ \<Rightarrow> False)"

primrec conforms :: "field_type \<Rightarrow> json \<Rightarrow> bool" where
  "conforms Str = is_str"
| "conforms Integer = (\<lambda>j. case j of JInt _ \<Rightarrow> True | _ \<Rightarrow> False)"
| "conforms Float = num_where (\<lambda>_. True)"
| "conforms (FloatIn lo hi) = num_where (ge_le lo hi)"
| "conforms Boolean = (\<lambda>j. case j of JBool _ \<Rightarrow> True | _ \<Rightarrow> False)"
| "conforms Datetime = is_str"
| "conforms (Literal js) = (\<lambda>j. j \<in> set js)"
| "conforms (Optional t) = (\<lambda>j. j = JNull \<or> conforms t j)"
| "conforms (ListOf t) = arr_where (conforms t)"
| "conforms (DictOf t) = obj_where (\<lambda>ms. list_all (conforms t \<circ> snd) ms)"
| "conforms Anything = (\<lambda>_. True)"
| "conforms (Model fs) = obj_where (fields_where (map (map_prod id conforms) fs))"
| "conforms (Below ps t) = (\<lambda>j. conforms t j \<and> obj_where (\<lambda>ms. list_all (member_below ms) ps) j)"

section \<open>The views\<close>

abbreviation literals :: "string list \<Rightarrow> field_type" where
  "literals ss \<equiv> Literal (map JStr ss)"

definition TokenResponse :: field_type where
  "TokenResponse = Model [(''access_token'', Str), (''token_type'', literals [''bearer'']), (''expires_in_s'', Integer)]"

definition UserView :: field_type where
  "UserView = Model [(''username'', Str), (''role'', Str)]"

definition DeviceView :: field_type where
  "DeviceView = Model
     [(''id'', Str), (''site_id'', Str), (''display_name'', Str), (''asset_class'', Str), (''simulated'', Boolean),
      (''firmware_version'', Optional Str), (''status'', literals [''online'', ''degraded'', ''offline'']),
      (''last_seen_at'', Optional Datetime), (''rssi_dbm'', Optional Integer), (''reset_reason'', Optional Str),
      (''reset_count'', Integer), (''queue_depth'', Integer), (''queue_capacity'', Integer),
      (''dropped_message_count'', Integer), (''modbus_status'', Str), (''active_faults'', ListOf Str)]"

definition TelemetryView :: field_type where
  "TelemetryView = Model
     [(''message_id'', Str), (''sequence'', Integer), (''device_time'', Optional Datetime), (''received_at'', Datetime),
      (''quality'', Str), (''replayed'', Boolean), (''temperature_c'', Optional Float),
      (''vibration_rms_mps2'', Optional Float), (''vibration_peak_mps2'', Optional Float),
      (''vibration_crest_factor'', Optional Float), (''current_a'', Optional Float), (''fault_flags'', ListOf Str),
      (''anomaly_score'', Optional Float), (''anomaly_percentile'', Optional Float), (''anomaly_reason'', Optional Str)]"

definition TelemetryPage :: field_type where
  "TelemetryPage = Model [(''items'', ListOf TelemetryView), (''count'', Integer), (''limit'', Integer)]"

definition AnomalyModelView :: field_type where
  "AnomalyModelView = Model
     [(''device_id'', Str), (''status'', literals [''model_not_ready'', ''ready'', ''stale'', ''error'']),
      (''ready'', Boolean), (''diagnostic'', Str), (''model_version'', Optional Str),
      (''feature_schema_version'', Optional Integer), (''feature_names'', ListOf Str),
      (''training_start'', Optional Datetime), (''training_end'', Optional Datetime),
      (''training_sample_count'', Integer), (''validation_sample_count'', Integer), (''contamination'', Optional Float),
      (''random_seed'', Optional Integer), (''sklearn_version'', Optional Str), (''created_at'', Optional Datetime),
      (''last_scored_at'', Optional Datetime), (''score_interpretation'', Str),
      (''field_performance_claimed'', Literal [JBool False])]"

definition IngestResult :: field_type where
  "IngestResult = Model [(''status'', literals [''inserted'', ''duplicate'']), (''message_id'', Str)]"

definition AlarmView :: field_type where
  "AlarmView = Model
     [(''id'', Integer), (''device_id'', Str), (''code'', Str), (''severity'', literals [''warning'', ''critical'']),
      (''source'', Str), (''state'', literals [''active'', ''cleared'']), (''summary'', Str), (''opened_at'', Datetime),
      (''cleared_at'', Optional Datetime), (''acknowledged_at'', Optional Datetime), (''acknowledged_by'', Optional Str)]"

definition CalibrationView :: field_type where
  "CalibrationView = Model
     [(''id'', Integer), (''device_id'', Str), (''sensor'', Str), (''previous_coefficients'', DictOf Float),
      (''new_coefficients'', DictOf Float), (''reason'', Str), (''operator'', Str), (''performed_at'', Datetime)]"

definition MaintenanceView :: field_type where
  "MaintenanceView = Model
     [(''id'', Integer), (''device_id'', Str), (''status'', Str), (''notes'', Str), (''performed_at'', Datetime),
      (''next_due_at'', Optional Datetime), (''created_by'', Str), (''updated_at'', Datetime)]"

definition CommandView :: field_type where
  "CommandView = Model
     [(''command_id'', Str), (''device_id'', Str), (''kind'', Str), (''parameters'', DictOf Anything), (''status'', Str),
      (''result_code'', Optional Str), (''detail'', Optional Str), (''issued_by'', Str), (''issued_at'', Datetime),
      (''expires_at'', Datetime), (''acknowledged_at'', Optional Datetime)]"

text \<open>\<open>ThresholdConfigView\<close> inherits the fields, the bounds and the validator of \<open>ThresholdConfigUpdate\<close>.\<close>

definition threshold_fields :: "(string \<times> field_type) list" where
  "threshold_fields =
     [(''temperature_warning_c'', FloatIn 0 150), (''temperature_critical_c'', FloatIn 0 180),
      (''vibration_warning_mps2'', FloatIn 0 200), (''vibration_critical_mps2'', FloatIn 0 400),
      (''current_warning_a'', FloatIn 0 8), (''current_critical_a'', FloatIn 0 10), (''hysteresis_percent'', FloatIn 1 25)]"

definition threshold_pairs :: "(string \<times> string) list" where
  "threshold_pairs =
     [(''temperature_warning_c'', ''temperature_critical_c''), (''vibration_warning_mps2'', ''vibration_critical_mps2''),
      (''current_warning_a'', ''current_critical_a'')]"

definition ThresholdConfigView :: field_type where
  "ThresholdConfigView = Below threshold_pairs (Model
     (threshold_fields @ [(''device_id'', Str), (''updated_by'', Str), (''updated_at'', Datetime)]))"

text \<open>The declared response model of each endpoint; the CSV export has none.\<close>

fun response_model :: "request \<Rightarrow> field_type" where
  "response_model Healthz = DictOf Str"
| "response_model (Login _ _) = TokenResponse"
| "response_model Me = UserView"
| "response_model (ListDevices _) = ListOf DeviceView"
| "response_model (ShowDevice _) = DeviceView"
| "response_model (ListTelemetry _ _ _ _) = TelemetryPage"
| "response_model (ShowAnomalyModel _) = AnomalyModelView"
| "response_model (IngestTelemetry _ _) = IngestResult"
| "response_model (ListAlarms _ _ _) = ListOf AlarmView"
| "response_model EvaluationDemo = DictOf Anything"
| "response_model (AcknowledgeAlarm _) = AlarmView"
| "response_model (ListCalibrations _) = ListOf CalibrationView"
| "response_model (CreateCalibration _ _) = CalibrationView"
| "response_model (ListMaintenance _) = ListOf MaintenanceView"
| "response_model (CreateMaintenance _ _) = MaintenanceView"
| "response_model (UpdateMaintenance _ _) = MaintenanceView"
| "response_model (ShowThresholds _) = ThresholdConfigView"
| "response_model (UpdateThresholds _ _) = ThresholdConfigView"
| "response_model (CreateRelayCommand _ _) = CommandView"
| "response_model (ListCommands _) = ListOf CommandView"
| "response_model (ExportTelemetry _ _ _ _) = Anything"

section \<open>Rows that fit their views\<close>

lemmas json_checks = is_str_def num_where_def arr_where_def obj_where_def

lemma conforms_opt [simp]:
  "conforms (Optional t) (jopt f x) \<longleftrightarrow> (case x of None \<Rightarrow> True | Some a \<Rightarrow> f a = JNull \<or> conforms t (f a))"
  by (cases x) simp_all

lemma conforms_strs [simp]: "conforms (ListOf Str) (jstrs ss)" "conforms (ListOf t) (JArr [])"
  by (simp_all add: jstrs_def json_checks list_all_iff)

lemma conforms_map [simp]: "conforms (ListOf t) (JArr (map f xs)) \<longleftrightarrow> list_all (\<lambda>x. conforms t (f x)) xs"
  by (simp add: json_checks list_all_iff)

lemma scalars [simp]:
  "conforms Str (JStr s)" "conforms Datetime (JStr s)" "conforms Integer (JInt i)" "conforms Float (JNum x)"
  "conforms Boolean (JBool b)" "conforms (FloatIn lo hi) (JNum x) \<longleftrightarrow> ge_le lo hi x"
  "conforms (Optional t) JNull" "conforms (Literal js) j \<longleftrightarrow> j \<in> set js" "conforms Anything j"
  by (simp_all add: json_checks)

text \<open>Fields are checked one by one.\<close>

lemma conforms_model [simp]:
  "conforms (Model []) (JObj [])"
  "conforms (Model ((k, t) # fs)) (JObj ((k', j) # ms)) \<longleftrightarrow> k = k' \<and> conforms t j \<and> conforms (Model fs) (JObj ms)"
  by (simp_all add: json_checks)

lemma conforms_dict [simp]: "conforms (DictOf t) (JObj ms) \<longleftrightarrow> (\<forall>m \<in> set ms. conforms t (snd m))"
  by (simp add: json_checks list_all_iff)

lemma conforms_present [simp]:
  "conforms (Optional t) (JStr s) \<longleftrightarrow> conforms t (JStr s)" "conforms (Optional t) (JInt i) \<longleftrightarrow> conforms t (JInt i)"
  "conforms (Optional t) (JNum x) \<longleftrightarrow> conforms t (JNum x)"
  by simp_all

declare conforms.simps [simp del]

lemma device_fits: "conforms DeviceView (to_device_view rt cfg now v)"
  by (simp add: DeviceView_def to_device_view_def device_status_def split: option.split)

lemma telemetry_fits: "conforms TelemetryView (to_telemetry_view rt r)"
  by (simp add: TelemetryView_def to_telemetry_view_def split: option.split)

lemma page_fits:
  "conforms TelemetryPage (JObj [(''items'', JArr (map (to_telemetry_view rt) rows)), (''count'', JInt n), (''limit'', JInt l)])"
  by (simp add: TelemetryPage_def telemetry_fits list_all_iff)

lemma schema_version_fits: "conforms (Optional Integer) (schema_version_view v)"
  by (cases v rule: schema_version_view.cases) simp_all

lemma feature_names_fit: "conforms (ListOf Str) (feature_names_view rt v)"
  by (cases "(rt, v)" rule: feature_names_view.cases) (simp_all add: jstrs_def conforms.simps json_checks list_all_iff)

lemma model_fits_view: "conforms AnomalyModelView (to_anomaly_model_view rt cfg now did m)"
  by (simp add: AnomalyModelView_def to_anomaly_model_view_def model_status_def Let_def schema_version_fits feature_names_fit
      split: option.split)

lemma calibration_fits: "conforms CalibrationView (to_calibration_view rt c)"
  by (auto simp: CalibrationView_def to_calibration_view_def coefficients_json_def)

lemma maintenance_fits: "conforms MaintenanceView (to_maintenance_view rt m)"
  by (simp add: MaintenanceView_def to_maintenance_view_def split: option.split)

definition alarm_typed :: "alarm_row \<Rightarrow> bool" where
  "alarm_typed a = (alm_severity a \<in> {''warning'', ''critical''} \<and> alm_state a \<in> {''active'', ''cleared''})"

definition command_typed :: "command_row \<Rightarrow> bool" where
  "command_typed c = conforms (DictOf Anything) (cmd_parameters c)"

lemma alarm_fits: "conforms AlarmView (to_alarm_view rt a) \<longleftrightarrow> alarm_typed a"
  by (auto simp: AlarmView_def to_alarm_view_def alarm_typed_def split: option.split)

lemma command_fits: "conforms CommandView (to_command_view rt c) \<longleftrightarrow> command_typed c"
  by (auto simp: CommandView_def to_command_view_def command_typed_def split: option.split)

lemma threshold_fits: "conforms ThresholdConfigView (to_threshold_view rt c) \<longleftrightarrow> threshold_config_update_ok (update_of c)"
  by (auto simp: ThresholdConfigView_def conforms.simps(13) threshold_fields_def threshold_pairs_def member_below_def
      to_threshold_view_def threshold_config_update_ok_def warnings_are_below_critical_def update_of_def json_checks)

section \<open>What is stored always fits\<close>

definition view_store :: "db \<Rightarrow> bool" where
  "view_store d = (thresholds_ok d \<and> list_all alarm_typed (db_alarms d) \<and> list_all command_typed (db_commands d))"

interpretation typed_commands: invariant_rows cmd_command_id get_command add_command put_command db_commands command_typed
  by unfold_locales (simp_all add: add_command_def put_command_def)

lemma view_same:
  "db_thresholds d' = db_thresholds d \<Longrightarrow> db_alarms d' = db_alarms d \<Longrightarrow> db_commands d' = db_commands d \<Longrightarrow>
     view_store d' = view_store d"
  by (simp add: view_store_def thresholds_ok_def)

lemma new_alarm_typed: "sev \<in> {''warning'', ''critical''} \<Longrightarrow> alarm_typed (new_alarm d c sev src sm t rows)"
  by (simp add: alarm_typed_def)

lemma typed_put:
  "list_all alarm_typed rows \<Longrightarrow> (\<And>r. alarm_typed r \<Longrightarrow> alarm_typed (f r)) \<Longrightarrow> list_all alarm_typed (row_put key k f rows)"
  by (auto simp: list_all_iff set_row_put)

lemma typed_metric_alarm:
  assumes "list_all alarm_typed rows"
  shows "list_all alarm_typed (apply_metric_alarm did code m u v w c h now rows)"
proof (cases v)
  case (Some x)
  have severity: "desired_severity x w c = Some s \<Longrightarrow> s \<in> {''warning'', ''critical''}" for s
    by (auto simp: desired_severity_def split: if_splits)
  show ?thesis
    using assms severity
    by (auto simp: apply_metric_alarm_def Some Let_def new_alarm_typed alarm_typed_def intro!: typed_put split: option.split)
qed (use assms in \<open>simp add: apply_metric_alarm_def\<close>)

lemma typed_thresholds: "list_all alarm_typed rows \<Longrightarrow> list_all alarm_typed (threshold_alarms config did vs clk rows)"
  unfolding threshold_alarms_def by (intro typed_metric_alarm)

lemma typed_set_alarm: "list_all alarm_typed rows \<Longrightarrow> list_all alarm_typed (set_alarm did code src act summary now opened rows)"
  by (auto simp: set_alarm_def new_alarm_typed alarm_typed_def intro!: typed_put split: option.split)

lemma view_telemetry_writes: "view_store d \<Longrightarrow> view_store (telemetry_writes clk e d d)"
  unfolding telemetry_writes_def Let_def
  by (cases "get_threshold_config (te_device_id e) d")
    (simp_all add: view_store_def upsert_device_def add_device_def put_device_def Let_def typed_thresholds
      thresholds_ok_def add_threshold_config_def default_thresholds_ok)

lemma view_event [simp]: "view_store (with_event rt ev d) = view_store d"
  by (rule view_same) simp_all

lemma view_persistence:
  assumes "view_store d"
  shows "persist_telemetry rt clk e d = Inr (d', r) \<Longrightarrow> view_store d'"
    and "persist_health rt clk h d = Inr (d', r) \<Longrightarrow> view_store d'"
    and "persist_command_ack rt clk c d = Inr (d', r) \<Longrightarrow> view_store d'"
proof -
  show "view_store d'" if "persist_telemetry rt clk e d = Inr (d', r)"
    using that assms view_telemetry_writes [OF assms]
    by (auto simp: persist_telemetry_def telemetry_txn_eq split: if_splits option.splits)
  have "view_store (health_writes rt clk h d d) = view_store d"
    by (rule view_same) (simp_all add: health_writes_def upsert_device_def add_device_def put_device_def Let_def)
  with assms show "view_store d'" if "persist_health rt clk h d = Inr (d', r)"
    using that assms by (auto simp: persist_health_def health_txn_eq split: if_splits option.splits)
  have "command_typed x \<Longrightarrow> command_typed (command_after_ack c t x)" for t x by (simp add: command_typed_def command_after_ack_def)
  with assms show "view_store d'" if "persist_command_ack rt clk c d = Inr (d', r)"
    using that
    by (auto simp: persist_command_ack_def notify_eq view_store_def thresholds_ok_def add_audit_def put_command_def list_all_iff
        set_row_put split: option.splits if_splits)
qed

lemma view_requests:
  assumes "view_store d"
  shows "ingest_telemetry env clk tok e d = Inr (d', j) \<Longrightarrow> view_store d'"
    and "acknowledge_alarm env clk u i d = Inr (d', j) \<Longrightarrow> view_store d'"
    and "create_calibration env clk u did c d = Inr (d', j) \<Longrightarrow> view_store d'"
    and "create_maintenance env clk u did m d = Inr (d', j) \<Longrightarrow> view_store d'"
    and "update_maintenance env clk u i mu d = Inr (d', j) \<Longrightarrow> view_store d'"
    and "get_thresholds env clk did d = Inr (d', j) \<Longrightarrow> view_store d'"
    and "threshold_config_update_ok t \<Longrightarrow> update_thresholds env clk u did t d = Inr (d', j) \<Longrightarrow> view_store d'"
proof -
  have th: "thresholds_ok d" using assms by (simp add: view_store_def)
  note tables = view_store_def add_audit_def add_threshold_config_def put_threshold_config_def
  show "view_store d'" if "ingest_telemetry env clk tok e d = Inr (d', j)"
    using that assms by (auto simp: ingest_telemetry_def split: sum.splits exc.splits dest: view_persistence)
  show "view_store d'" if ack: "acknowledge_alarm env clk u i d = Inr (d', j)"
  proof -
    from tuned.acknowledge [OF th ack] have "thresholds_ok d'" .
    with ack assms show ?thesis
      by (cases rule: acknowledge_cases)
        (auto simp: tables alarm_typed_def acknowledged_def intro!: typed_put)
  qed
  show "view_store d'" if "create_calibration env clk u did c d = Inr (d', j)"
    using that tuned.calibrate [OF th that] assms by (auto simp: create_calibration_def Let_def tables)
  show "view_store d'" if "create_maintenance env clk u did m d = Inr (d', j)"
    using that assms by (auto simp: create_maintenance_def Let_def tables thresholds_ok_def)
  show "view_store d'" if "update_maintenance env clk u i mu d = Inr (d', j)"
    using that by (cases rule: update_maintenance_cases) (use assms in \<open>auto simp: tables thresholds_ok_def\<close>)
  show "view_store d'" if "get_thresholds env clk did d = Inr (d', j)"
    using that tuned.show_thresholds [OF th that] assms
    by (auto simp: get_thresholds_def Let_def tables split: option.splits)
  show "view_store d'" if "threshold_config_update_ok t" "update_thresholds env clk u did t d = Inr (d', j)"
    using that(2) tuned.set_thresholds [OF th that] assms
    by (auto simp: update_thresholds_def Let_def tables split: option.splits)
qed

lemma queued_view:
  assumes "queue_command cid v actor r clk d = Inr q" and "view_store d"
  shows "view_store q"
proof -
  have "command_typed (queued_command cid v actor r (clk 0))" by (simp add: command_typed_def queued_command_def)
  with assms show ?thesis by (auto simp: queue_command_Inr view_store_def thresholds_ok_def add_audit_def add_command_def)
qed

lemma published_typed: "command_typed c \<Longrightarrow> command_typed (command_after_publish x c)"
  by (cases x) (simp_all add: command_typed_def)

interpretation typed: request_invariant view_store
proof (unfold_locales, goal_cases)
  case (8 d env r clk cid u did d' j)
  from 8(4) obtain v q x where q: "queue_command cid v (usr_username u) r clk d = Inr q"
    and d': "d' = put_command cid (command_after_publish x) (env_meanwhile env q)" by (rule relay_frame)
  from 8(2) queued_view [OF q 8(1)] have "view_store (env_meanwhile env q)" .
  then show ?case
    using typed_commands.all_put [of "env_meanwhile env q", OF _ published_typed]
    by (simp add: d' view_store_def thresholds_ok_def) (simp add: put_command_def)
qed (blast dest: view_requests)+

lemma pass_keeps_view:
  assumes "score_device_once w rt cfg files clk did d = Inr (d', n)" and "view_store d"
  shows "view_store d'"
  using assms(1)
proof (cases rule: score_pass_cases)
  case (idle registry bndl e)
  with assms(2) show ?thesis by (simp add: view_store_def thresholds_ok_def)
next
  case (busy registry bndl e diagnostics dc registry' d0 latest)
  obtain es where d0: "d0 = d\<lparr>db_errors := es\<rparr>" using busy(7) by blast
  obtain as ns where d': "d' = (put_registry registry' (put_rows (dc_rows dc) d0))\<lparr>db_alarms := as, db_notified := ns\<rparr>"
    and as: "as = (let sensor = set_alarm did ''SENSOR_DIAGNOSTIC'' ''sensor_rule'' (latest \<noteq> [])
               (let s = diagnostic_reason latest in if s = [] then ''Sensor diagnostics cleared'' else s) (clk 3) (clk 5);
             anomaly = set_alarm did ''ANOMALY_DETECTED'' ''anomaly'' (dc_anomalous dc)
               (''Isolation Forest: '' @ dc_latest_reason dc) (clk 4) (clk 6)
            in if bndl \<noteq> None then anomaly (sensor (db_alarms d0)) else sensor (db_alarms d0))"
    using written_decision [OF busy(8)] by blast
  have "list_all alarm_typed as" using assms(2) unfolding as d0 Let_def by (auto simp: view_store_def intro!: typed_set_alarm)
  then show ?thesis using assms(2) by (simp add: d' d0 view_store_def thresholds_ok_def put_rows_def)
qed

lemma score_devices_keeps:
  assumes "\<And>did d d' n. score did d = Inr (d', n) \<Longrightarrow> P d \<Longrightarrow> P d'"
  shows "P d \<Longrightarrow> P (fst (score_devices score dids n d))"
  by (induction dids arbitrary: d n) (auto split: sum.split dest: assms)

lemma run_keeps_view: "view_store d \<Longrightarrow> view_store (fst (run_once w rt cfg files clks d))"
  unfolding run_once_def by (rule score_devices_keeps [where P = view_store]) (rule pass_keeps_view)

lemma message_keeps_view:
  assumes "view_store d" and "handle_message rt dec clk t payload d = Inr (d', s)"
  shows "view_store d'"
proof (cases "persist_message rt dec clk t payload d")
  case (Inr p)
  with assms(2) obtain r where "persist_message rt dec clk t payload d = Inr (d', r)"
    by (auto simp: handle_message_cases)
  then show ?thesis by (cases rule: persist_message_Inr) (blast dest: view_persistence [OF assms(1)])+
next
  case (Inl e)
  with assms(2) handle_message_rejected obtain code m where "d' = record_error code m None (clk 6) d" by blast
  then have "view_store d' = view_store d" by (intro view_same) (simp_all add: record_error_def add_error_log_def)
  with assms(1) show ?thesis by simp
qed

lemma platform_keeps_view: "platform_run w d d' \<Longrightarrow> view_store d \<Longrightarrow> view_store d'"
proof (induction rule: platform_run.induct)
  case (message d0 d rt dec clk t payload d' status)
  then show ?case using message_keeps_view by blast
next
  case (request d0 d env clk cid token req d' response)
  then show ?case using typed.handle_keeps by blast
next
  case (worker d0 d rt cfg files clks)
  then show ?case using run_keeps_view by blast
qed

section \<open>Every response fits its model\<close>

lemma config_view_fits:
  "thresholds_ok d \<Longrightarrow> get_threshold_config did d = Some c \<Longrightarrow> conforms ThresholdConfigView (to_threshold_view rt c)"
  by (simp add: threshold_fits config_of_ok)

lemma updated_view_fits:
  assumes "threshold_config_update_ok r"
  shows "conforms ThresholdConfigView (to_threshold_view rt (the (get_threshold_config did
     (put_threshold_config did (threshold_update r who now)
        (case get_threshold_config did d of Some _ \<Rightarrow> d | None \<Rightarrow> add_threshold_config (new_threshold_config did t) d)))))"
proof -
  have key: "thr_device_id (threshold_update r who now c) = thr_device_id c" for c by (simp add: threshold_update_def)
  have "get_threshold_config did (case get_threshold_config did d of Some _ \<Rightarrow> d
      | None \<Rightarrow> add_threshold_config (new_threshold_config did t) d) \<noteq> None"
    by (simp add: configs.get_add new_threshold_config_def split: option.split)
  then show ?thesis
    using assms by (auto simp: threshold_fits configs.get_put [OF key] update_of_threshold_update)
qed

lemma queried:
  "list_all P rows \<Longrightarrow> list_all P (take n (order_desc key (filter Q rows)))"
  by (auto simp: list_all_iff order_desc_def dest: in_set_takeD)

lemma public_fits:
  "public_request env clk req d = Inr (d', Body j) \<Longrightarrow> is_public req \<Longrightarrow> conforms (response_model req) j"
proof (cases req)
  case (IngestTelemetry tok e)
  have "persist_status_str s \<in> {''inserted'', ''duplicate''}" for s by (cases s) simp_all
  then show "public_request env clk req d = Inr (d', Body j) \<Longrightarrow> ?thesis"
    by (auto simp: IngestTelemetry handled ingest_telemetry_def IngestResult_def split: sum.splits exc.splits)
qed (auto simp: handled token_response_def TokenResponse_def)

lemma writes_fit:
  assumes "view_store d"
  shows "acknowledge_alarm env clk u i d = Inr (d', j) \<Longrightarrow> conforms AlarmView j"
    and "create_calibration env clk u did c d = Inr (d', j) \<Longrightarrow> conforms CalibrationView j"
    and "create_maintenance env clk u did m d = Inr (d', j) \<Longrightarrow> conforms MaintenanceView j"
    and "update_maintenance env clk u i mu d = Inr (d', j) \<Longrightarrow> conforms MaintenanceView j"
    and "get_thresholds env clk did d = Inr (d', j) \<Longrightarrow> conforms ThresholdConfigView j"
    and "threshold_config_update_ok t \<Longrightarrow> update_thresholds env clk u did t d = Inr (d', j) \<Longrightarrow> conforms ThresholdConfigView j"
    and "create_relay_command env clk cid u did r d = Inr (d', j) \<Longrightarrow> conforms CommandView j"
proof -
  show "conforms AlarmView j" if "acknowledge_alarm env clk u i d = Inr (d', j)"
    using that assms
    by (auto simp: acknowledge_alarm_def Let_def notify_eq alarm_fits view_store_def list_all_iff alarm_typed_def acknowledged_def
        split: option.splits if_splits dest!: get_alarm_Some)
  show "conforms CalibrationView j" if "create_calibration env clk u did c d = Inr (d', j)"
    using that by (auto simp: create_calibration_def Let_def calibration_fits)
  show "conforms MaintenanceView j" if "create_maintenance env clk u did m d = Inr (d', j)"
    using that by (auto simp: create_maintenance_def Let_def maintenance_fits)
  show "conforms MaintenanceView j" if "update_maintenance env clk u i mu d = Inr (d', j)"
    using that by (auto simp: update_maintenance_def Let_def maintenance_fits split: option.splits)
  show "conforms ThresholdConfigView j" if "get_thresholds env clk did d = Inr (d', j)"
    using that assms
    by (auto simp: get_thresholds_def Let_def view_store_def threshold_fits default_thresholds_ok intro: config_of_ok
        split: option.splits)
  show "conforms ThresholdConfigView j" if "threshold_config_update_ok t" "update_thresholds env clk u did t d = Inr (d', j)"
    using that(2) updated_view_fits [OF that(1)] by (auto simp: update_thresholds_def Let_def)
  have "command_typed (queued_command cid v actor r now)" for v actor now by (simp add: command_typed_def queued_command_def)
  then show "conforms CommandView j" if "create_relay_command env clk cid u did r d = Inr (d', j)"
    using that by (auto simp: create_relay_command_def issue_relay_command_def Let_def command_fits published_typed)
qed

lemma lists_fit:
  assumes "view_store d"
  shows "conforms (ListOf AlarmView) (list_alarms env did st n d)" and "conforms (ListOf CommandView) (list_commands env x d)"
  using assms by (simp_all add: list_alarms_def list_commands_def alarm_fits command_fits queried view_store_def)

lemma report_fits: "anomaly_evaluation_demo r = Inr j \<Longrightarrow> conforms (DictOf Anything) j"
  by (cases r; cases j) (auto split: if_splits)

lemma user_fits:
  assumes "view_store d" and "request_check req = Inr True" and ok: "user_request env clk cid u req d = Inr (d', Body j)"
  shows "conforms (response_model req) j"
proof -
  note fits = writes_fit [OF assms(1)] lists_fit [OF assms(1)]
  show ?thesis
    using ok assms(2) fits
    by (cases req) (auto simp: handled me_def UserView_def show_device_def list_devices_def device_fits list_all_iff
        list_telemetry_def Let_def page_fits get_anomaly_model_def model_fits_view list_calibrations_def calibration_fits
        list_maintenance_def maintenance_fits report_fits split: prod.splits)
qed

text \<open>C32: Every body the API answers with conforms to the response model its endpoint declares, whatever messages, requests and worker runs the store has been through: no stored row makes a view fail its validation, which would be a server error.\<close>

theorem responses_conform:
  assumes "platform_run w d0 d" and "view_store d0" and ok: "handle env clk cid token req d = Inr (d', Body j)"
  shows "conforms (response_model req) j"
proof (cases "is_public req")
  case True
  with handle_public [OF ok] public_fits show ?thesis by blast
next
  case False
  from ok False obtain u where "request_check req = Inr True" "user_request env clk cid u req d = Inr (d', Body j)"
    by (rule handle_user)
  with user_fits [OF platform_keeps_view [OF assms(1,2)]] show ?thesis by blast
qed

lemma empty_view: "view_store empty_db"
  by (simp add: view_store_def thresholds_ok_def empty_db_def)

lemma sample_view: "view_store sample_users"
  using empty_view by (simp add: view_store_def thresholds_ok_def sample_users_def add_device_def)

theorem responses_conform_witness:
  "\<exists>d' j. handle sample_env (\<lambda>_. 0) ''c1'' sample_bearer (ShowThresholds ''motor-01'') sample_users = Inr (d', Body j)
     \<and> conforms ThresholdConfigView j"
proof -
  have auth: "authenticate sample_env 0 sample_bearer sample_users = Inr (sample_user ''admin'')"
    by (rule sample_authenticate) (simp_all add: seconds_def)
  obtain d' j where ok: "handle sample_env (\<lambda>_. 0) ''c1'' sample_bearer (ShowThresholds ''motor-01'') sample_users = Inr (d', Body j)"
    by (cases "get_threshold_config ''motor-01'' sample_users")
      (simp_all add: handle_def auth get_thresholds_def require_device_def committed_def Let_def)
  from responses_conform [OF platform_run.start sample_view ok] ok show ?thesis by auto
qed

end
