(* ===== verification/Simulator.thy ===== *)
theory Simulator
  imports Topics Calendar Ingestion
begin

text \<open>
  The synthetic telemetry of the scenarios, \<open>simulator/telemetry_generator/main.py\<close>: the
  readings of each scenario, the envelope built around a reading, and the publishing loop.
  \<open>math.sin\<close>, the pseudo-random draws and name-based UUIDs are the functions of \<open>sim_lib\<close>;
  \<open>lib_ok\<close> states the bounds their documentation gives. The lemmas show by interval
  arithmetic on rounded operations that every reading of every scenario satisfies the
  contract that the ingestor enforces.
\<close>

section \<open>JSON text with the default separators\<close>

fun json_text :: "(flt \<Rightarrow> string) \<Rightarrow> json \<Rightarrow> string" where
  "json_text r JNull = ''null''"
| "json_text r (JBool b) = (if b then ''true'' else ''false'')"
| "json_text r (JInt i) = str_of_int i"
| "json_text r (JNum x) = r x"
| "json_text r (JStr s) = json_string s"
| "json_text r (JArr js) = ''['' @ join_with '', '' (map (json_text r) js) @ '']''"
| "json_text r (JObj kvs) =
     ''{'' @ join_with '', '' (map (\<lambda>(k, v). json_string k @ '': '' @ json_text r v) kvs) @ ''}''"

section \<open>Readings\<close>

text \<open>\<open>sl_uniform s k a b\<close> is the \<open>k\<close>-th call of \<open>rng.uniform(a, b)\<close> of a generator seeded with \<open>s\<close>.\<close>

record sim_lib =
  sl_sin :: "flt \<Rightarrow> flt"
  sl_uniform :: "int \<Rightarrow> nat \<Rightarrow> flt \<Rightarrow> flt \<Rightarrow> flt"
  sl_uuid5 :: "string \<Rightarrow> string"

record scenario_value =
  sv_temperature_c :: flt
  sv_vibration_rms_mps2 :: flt
  sv_vibration_peak_mps2 :: flt
  sv_vibration_crest_factor :: flt
  sv_current_a :: flt
  sv_quality :: string
  sv_fault_flags :: "string list"
  sv_temperature_status :: string

definition SCENARIOS :: "string list" where
  "SCENARIOS = [''normal'', ''rising-temperature'', ''vibration-imbalance'', ''current-overload'', ''sensor-stuck'']"

text \<open>Python's \<open>round(x, n)\<close>: the exact value rounded half to even at the \<open>n\<close>-th decimal, then to a float.\<close>

fun py_round :: "nat \<Rightarrow> flt \<Rightarrow> flt" where
  "py_round n (Fin a) = of_exact (of_int (round_even (a * 10 ^ n)) / 10 ^ n)"
| "py_round n x = x"

text \<open>\<open>uniform(-a, a)\<close>, draw \<open>j\<close> of reading \<open>index\<close>: four draws are made per reading.\<close>

definition jitter :: "sim_lib \<Rightarrow> int \<Rightarrow> nat \<Rightarrow> nat \<Rightarrow> rat \<Rightarrow> flt" where
  "jitter lib rseed index j a = sl_uniform lib rseed (4 * index + j) (flt_neg (lit a)) (lit a)"

text \<open>The reading before rounding.\<close>

record raw_reading =
  rw_temperature_c :: flt
  rw_vibration_rms :: flt
  rw_vibration_peak :: flt
  rw_current_a :: flt
  rw_quality :: string
  rw_fault_flags :: "string list"
  rw_temperature_status :: string

definition healthy_reading :: "sim_lib \<Rightarrow> int \<Rightarrow> nat \<Rightarrow> raw_reading" where
  "healthy_reading lib rseed index =
     (let rms = flt_add (lit (115/100)) (jitter lib rseed index 1 (8/100)) in
      \<lparr>rw_temperature_c = flt_add (flt_add (lit (415/10)) (flt_mul (lit (5/10)) (sl_sin lib (of_exact (of_nat index / 8)))))
         (jitter lib rseed index 0 (12/100)),
       rw_vibration_rms = rms,
       rw_vibration_peak = flt_mul rms (flt_add (lit (22/10)) (jitter lib rseed index 2 (12/100))),
       rw_current_a = flt_add (lit (63/100)) (jitter lib rseed index 3 (25/1000)),
       rw_quality = ''good'', rw_fault_flags = [], rw_temperature_status = ''good''\<rparr>)"

definition warned :: "bool \<Rightarrow> string \<Rightarrow> raw_reading \<Rightarrow> raw_reading" where
  "warned c flag w = (if c then w\<lparr>rw_quality := ''degraded'', rw_fault_flags := rw_fault_flags w @ [flag]\<rparr> else w)"

definition scenario_reading :: "string \<Rightarrow> flt \<Rightarrow> nat \<Rightarrow> raw_reading \<Rightarrow> raw_reading res" where
  "scenario_reading name phase index w =
     (if name = ''rising-temperature'' then
        let t = flt_add (rw_temperature_c w) (flt_mul (lit 32) phase)
        in Inr (warned (flt_le (lit 65) t) ''TEMPERATURE_WARNING'' (w\<lparr>rw_temperature_c := t\<rparr>))
      else if name = ''vibration-imbalance'' then
        let rms = flt_add (rw_vibration_rms w) (flt_mul (lit (52/10)) phase);
            peak = flt_mul rms (flt_add (lit (27/10)) (flt_mul (lit (8/10)) phase))
        in Inr (warned (flt_le (lit (45/10)) rms) ''VIBRATION_WARNING'' (w\<lparr>rw_vibration_rms := rms, rw_vibration_peak := peak\<rparr>))
      else if name = ''current-overload'' then
        let c = flt_add (rw_current_a w) (flt_mul (lit (125/100)) phase)
        in Inr (warned (flt_le (lit (14/10)) c) ''CURRENT_OVERLOAD_WARNING'' (w\<lparr>rw_current_a := c\<rparr>))
      else if name = ''sensor-stuck'' then
        let v = w\<lparr>rw_temperature_c := lit (4175/100)\<rparr>
        in Inr (if 8 \<le> index
                then v\<lparr>rw_quality := ''bad'', rw_temperature_status := ''stuck'',
                       rw_fault_flags := rw_fault_flags v @ [''TEMPERATURE_SENSOR_STUCK'']\<rparr>
                else v)
      else if name \<noteq> ''normal'' then Inl (ValueError (''unsupported scenario: '' @ name))
      else Inr w)"

definition emitted :: "raw_reading \<Rightarrow> scenario_value res" where
  "emitted w =
     bindE (flt_div (rw_vibration_peak w) (flt_max (rw_vibration_rms w) (lit (1/10000)))) (\<lambda>crest.
     Inr \<lparr>sv_temperature_c = py_round 3 (rw_temperature_c w),
          sv_vibration_rms_mps2 = py_round 4 (rw_vibration_rms w),
          sv_vibration_peak_mps2 = py_round 4 (rw_vibration_peak w),
          sv_vibration_crest_factor = py_round 3 crest,
          sv_current_a = py_round 4 (rw_current_a w),
          sv_quality = rw_quality w, sv_fault_flags = rw_fault_flags w,
          sv_temperature_status = rw_temperature_status w\<rparr>)"

definition phase_of :: "nat \<Rightarrow> nat \<Rightarrow> flt" where
  "phase_of count index = of_exact (of_nat index / of_nat (max (count - 1) 1))"

definition scenario_value_at :: "sim_lib \<Rightarrow> string \<Rightarrow> nat \<Rightarrow> int \<Rightarrow> nat \<Rightarrow> scenario_value res" where
  "scenario_value_at lib name count rseed index =
     bindE (scenario_reading name (phase_of count index) index (healthy_reading lib rseed index)) emitted"

text \<open>The generator, run to its end.\<close>

definition scenario_values :: "sim_lib \<Rightarrow> string \<Rightarrow> nat \<Rightarrow> int \<Rightarrow> scenario_value list res" where
  "scenario_values lib name count rseed = mapE (scenario_value_at lib name count rseed) [0 ..< count]"

section \<open>Envelopes\<close>

definition steady_sensor :: "string \<Rightarrow> int \<Rightarrow> json" where
  "steady_sensor status n = JObj
     [(''status'', JStr status), (''valid_samples'', JInt n), (''expected_samples'', JInt n), (''error_code'', JNull)]"

definition build_envelope :: "sim_lib \<Rightarrow> scenario_value \<Rightarrow> int \<Rightarrow> int \<Rightarrow> string \<Rightarrow> (string \<times> json) list" where
  "build_envelope lib v sequence device_time session_id =
     (let device_id = ''motor-01'' in
      [(''schema_version'', JInt 1),
       (''message_id'', JStr (sl_uuid5 lib (''iiot:'' @ session_id @ '':'' @ device_id @ '':'' @ str_of_int sequence))),
       (''site_id'', JStr ''workshop-demo''),
       (''device_id'', JStr device_id),
       (''sequence'', JInt sequence),
       (''device_time'', JStr (isoformat_z device_time)),
       (''clock_synchronized'', JBool True),
       (''uptime_ms'', JInt ((sequence + 1) * 10000)),
       (''firmware_version'', JStr ''0.1.0-sim''),
       (''quality'', JStr (sv_quality v)),
       (''replayed'', JBool False),
       (''measurements'', JObj
          [(''temperature_c'', JNum (sv_temperature_c v)),
           (''vibration_rms_mps2'', JNum (sv_vibration_rms_mps2 v)),
           (''vibration_peak_mps2'', JNum (sv_vibration_peak_mps2 v)),
           (''vibration_crest_factor'', JNum (sv_vibration_crest_factor v)),
           (''current_a'', JNum (sv_current_a v))]),
       (''sample_quality'', JObj
          [(''temperature'', steady_sensor (sv_temperature_status v) 10),
           (''vibration'', steady_sensor ''good'' 256),
           (''current'', steady_sensor ''good'' 50)]),
       (''fault_flags'', jstrs (sv_fault_flags v))])"

section \<open>Intervals\<close>

text \<open>A finite value between bounds in eighths: these are exact floats, so rounding keeps values between them.\<close>

definition boxed :: "int \<Rightarrow> int \<Rightarrow> flt \<Rightarrow> bool" where
  "boxed i j x = (case x of Fin r \<Rightarrow> (of_int i \<le> 8 * r \<and> 8 * r \<le> of_int j) | _ \<Rightarrow> False)"

abbreviation small :: "int \<Rightarrow> bool" where "small i \<equiv> \<bar>i\<bar> \<le> 2 ^ 50"

lemma boxedE:
  assumes "boxed i j x"
  obtains r where "x = Fin r" "of_int i \<le> 8 * r" "8 * r \<le> of_int j"
  using assms by (cases x) (auto simp: boxed_def)

lemma boxed_widen: "boxed i j x \<Longrightarrow> k \<le> i \<Longrightarrow> j \<le> l \<Longrightarrow> boxed k l x"
  by (auto simp: boxed_def split: flt.splits)

lemma eighth_exact: "small i \<Longrightarrow> rnd (of_int i / 8) = of_int i / 8"
proof -
  assume "small i"
  have "rnd (of_int i * 2 powi (- 3)) = of_int i * 2 powi (- 3)"
    by (rule rnd_exact [of _ i "- 3"]) (use \<open>small i\<close> in simp_all)
  moreover have "(2::rat) powi (- 3) = 1 / 8" by (simp add: power_int_def power3_eq_cube)
  ultimately show ?thesis by (simp only: times_divide_eq_right mult_1_right)
qed

lemma boxed_of_exact:
  assumes "of_int i \<le> 8 * q" "8 * q \<le> of_int j" "small i" "small j"
  shows "boxed i j (of_exact q)"
proof -
  have "of_int i / 8 \<le> q" "q \<le> of_int j / 8" using assms(1,2) by simp_all
  then have "of_int i / 8 \<le> rnd q" "rnd q \<le> of_int j / 8"
    using rnd_ge_float [OF _ eighth_exact [OF assms(3)]] rnd_le_float [OF _ eighth_exact [OF assms(4)]] by blast+
  moreover have "\<bar>q\<bar> \<le> 2 ^ 53"
  proof -
    have "- (2 ^ 50) \<le> (of_int i :: rat)" "(of_int j :: rat) \<le> 2 ^ 50" using assms(3,4) by (simp_all flip: of_int_le_iff)
    with assms(1,2) show ?thesis by (simp add: abs_le_iff)
  qed
  ultimately show ?thesis by (simp add: of_exact_small boxed_def)
qed

lemma boxed_add:
  assumes "boxed i j x" "boxed k l y" "small (i + k)" "small (j + l)"
  shows "boxed (i + k) (j + l) (flt_add x y)"
  using assms by (elim boxedE) (auto intro!: boxed_of_exact)

lemma boxed_mul:
  assumes "boxed i j x" "boxed k l y" "0 \<le> i" "0 \<le> k" "8 * n \<le> i * k" "j * l \<le> 8 * m" "small n" "small m"
  shows "boxed n m (flt_mul x y)"
proof -
  from assms(1,2) obtain r s where r: "x = Fin r" "of_int i \<le> 8 * r" "8 * r \<le> of_int j"
    and s: "y = Fin s" "of_int k \<le> 8 * s" "8 * s \<le> of_int l" by (elim boxedE)
  have nn: "(0::rat) \<le> of_int i" "(0::rat) \<le> of_int k" using assms(3,4) by simp_all
  then have "of_int i * of_int k \<le> (8 * r) * (8 * s)" "(8 * r) * (8 * s) \<le> of_int j * of_int l"
    using r s by (intro mult_mono; linarith)+
  moreover have "(of_int (8 * n) :: rat) \<le> of_int (i * k)" "(of_int (j * l) :: rat) \<le> of_int (8 * m)"
    using assms(5,6) by (simp_all only: of_int_le_iff)
  ultimately show ?thesis
    using assms(7,8) by (simp only: r(1) s(1) flt_mul.simps) (rule boxed_of_exact, simp_all)
qed

lemma boxed_mul_sym:
  assumes "boxed 0 j x" "boxed (- l) l y" "0 \<le> l" "j * l \<le> 8 * m" "small m"
  shows "boxed (- m) m (flt_mul x y)"
proof -
  from assms(1,2) obtain r s where r: "x = Fin r" "0 \<le> r" "8 * r \<le> of_int j"
    and s: "y = Fin s" "- of_int l \<le> 8 * s" "8 * s \<le> of_int l" by (elim boxedE) auto
  have "\<bar>8 * s\<bar> \<le> of_int l" using s(2,3) by linarith
  then have "\<bar>(8 * r) * (8 * s)\<bar> \<le> of_int j * of_int l"
    unfolding abs_mult using r(2,3) by (intro mult_mono) auto
  moreover have "(of_int (j * l) :: rat) \<le> of_int (8 * m)" using assms(4) by (simp only: of_int_le_iff)
  ultimately have "\<bar>64 * (r * s)\<bar> \<le> 8 * of_int m" by simp
  then have "- of_int m \<le> 8 * (r * s) \<and> 8 * (r * s) \<le> of_int m" by (simp only: abs_le_iff) linarith
  then show ?thesis using assms(5) by (simp only: r(1) s(1) flt_mul.simps) (rule boxed_of_exact, simp_all)
qed

lemma boxed_div:
  assumes "boxed 0 j x" "boxed k l y" "0 < k" "8 * j \<le> m * k" "0 \<le> m" "small m"
  obtains q where "flt_div x y = Inr q" "boxed 0 m q"
proof -
  from assms(1,2) obtain r s where r: "x = Fin r" "0 \<le> r" "8 * r \<le> of_int j"
    and s: "y = Fin s" "of_int k \<le> 8 * s" by (elim boxedE) auto
  have k: "(0::rat) < of_int k" using assms(3) by simp
  then have pos: "0 < s" using s(2) by linarith
  have m: "0 \<le> (of_int m :: rat)" using assms(5) by simp
  have "(8 * of_int j :: rat) \<le> of_int m * of_int k" using assms(4) by (simp flip: of_int_mult of_int_le_iff)
  also have "\<dots> \<le> of_int m * (8 * s)" using s(2) m by (rule mult_left_mono)
  finally have "8 * r \<le> of_int m * s" using r(3) by simp
  then have "8 * (r / s) \<le> of_int m" using pos by (simp add: pos_divide_le_eq)
  moreover have "0 \<le> 8 * (r / s)" using r(2) pos by simp
  ultimately have "boxed 0 m (of_exact (r / s))" using assms(6) by (intro boxed_of_exact) simp_all
  then show thesis using that pos by (simp add: r(1) s(1))
qed

lemma boxed_round:
  assumes "boxed (8 * i) (8 * j) x" "small (8 * i)" "small (8 * j)"
  shows "boxed (8 * i) (8 * j) (py_round n x)"
proof -
  from assms(1) obtain r where r: "x = Fin r" "of_int i \<le> r" "r \<le> of_int j" by (elim boxedE) auto
  let ?p = "10 ^ n :: int"
  have p: "(0::rat) < of_int ?p" by simp
  have "of_int (i * ?p) \<le> r * of_int ?p" "r * of_int ?p \<le> of_int (j * ?p)"
    using r(2,3) by (simp_all add: mult_right_mono)
  then have "i * ?p \<le> round_even (r * of_int ?p)" "round_even (r * of_int ?p) \<le> j * ?p"
    using round_even_mono round_even_of_int by metis+
  then have "(of_int (i * ?p) :: rat) \<le> of_int (round_even (r * of_int ?p))"
    "(of_int (round_even (r * of_int ?p)) :: rat) \<le> of_int (j * ?p)"
    by (simp_all only: of_int_le_iff)
  then have "of_int i \<le> (of_int (round_even (r * of_int ?p)) :: rat) / of_int ?p"
    "(of_int (round_even (r * of_int ?p)) :: rat) / of_int ?p \<le> of_int j"
    using p by (simp_all add: pos_le_divide_eq pos_divide_le_eq)
  then show ?thesis
    using assms(2,3) unfolding r(1) py_round.simps by (intro boxed_of_exact) (simp_all add: r(1))
qed

section \<open>Every reading fits the contract\<close>

text \<open>What the documentation of \<open>math.sin\<close> and \<open>Random.uniform\<close> promises.\<close>

definition lib_ok :: "sim_lib \<Rightarrow> bool" where
  "lib_ok lib = ((\<forall>r. boxed (- 8) 8 (sl_sin lib (Fin r)))
     \<and> (\<forall>s k a b. flt_finite a \<longrightarrow> flt_finite b \<longrightarrow> flt_le a b
          \<longrightarrow> flt_le a (sl_uniform lib s k a b) \<and> flt_le (sl_uniform lib s k a b) b))"

lemma boxed_lit: "of_int i \<le> 8 * q \<Longrightarrow> 8 * q \<le> of_int j \<Longrightarrow> small i \<Longrightarrow> small j \<Longrightarrow> boxed i j (lit q)"
  by (rule boxed_of_exact)

lemma boxed_between:
  assumes "flt_le a x" "flt_le x b" "boxed i k a" "boxed l j b"
  shows "boxed i j x"
proof -
  from assms(3,4) obtain r s where "a = Fin r" "of_int i \<le> 8 * r" "b = Fin s" "8 * s \<le> of_int j" by (elim boxedE)
  with assms(1,2) show ?thesis by (cases x) (auto simp: boxed_def)
qed

lemma boxed_jitter:
  assumes "lib_ok lib" "0 \<le> a" "8 * a \<le> of_int m" "small m"
  shows "boxed (- m) m (jitter lib s index j a)"
proof -
  have m: "0 \<le> m" using assms(2,3) by (simp flip: of_int_0_le_iff)
  from assms(2-4) have up: "boxed 0 m (lit a)" by (intro boxed_lit) simp_all
  then obtain r where r: "lit a = Fin r" "0 \<le> r" "8 * r \<le> of_int m" by (elim boxedE) auto
  then have "flt_le (flt_neg (lit a)) (jitter lib s index j a)" "flt_le (jitter lib s index j a) (lit a)"
    using assms(1) by (simp_all add: lib_ok_def jitter_def)
  moreover have "boxed (- m) 0 (flt_neg (lit a))" using r by (simp add: boxed_def)
  ultimately show ?thesis using up by (rule boxed_between)
qed

text \<open>The bounds of a reading before it is rounded, in eighths: vibration and current stay away from zero and from the top of the contract.\<close>

definition tame :: "raw_reading \<Rightarrow> bool" where
  "tame w = (boxed 312 640 (rw_temperature_c w) \<and> boxed 7 56 (rw_vibration_rms w) \<and> boxed 0 240 (rw_vibration_peak w)
     \<and> boxed 0 24 (rw_current_a w))"

lemma healthy_bounds:
  assumes lib: "lib_ok lib" and i: "i \<le> 2 ^ 53"
  shows "boxed 312 352 (rw_temperature_c (healthy_reading lib s i))" (is ?temperature)
    and "boxed 7 11 (rw_vibration_rms (healthy_reading lib s i))" (is ?rms)
    and "boxed 0 40 (rw_vibration_peak (healthy_reading lib s i))" (is ?peak)
    and "boxed 0 8 (rw_current_a (healthy_reading lib s i))" (is ?current)
proof -
  have "(of_nat i :: rat) \<le> 2 ^ 53" using i by (simp flip: of_nat_le_iff)
  then have "\<bar>of_nat i / 8 :: rat\<bar> \<le> 2 ^ 53" by simp
  then have "boxed (- 8) 8 (sl_sin lib (of_exact (of_nat i / 8)))" using lib by (simp add: lib_ok_def of_exact_small)
  moreover have "boxed 0 8 (lit (5/10))" by (rule boxed_lit) simp_all
  ultimately have "boxed (- 8) 8 (flt_mul (lit (5/10)) (sl_sin lib (of_exact (of_nat i / 8))))"
    by (intro boxed_mul_sym [of 8 _ 8]) simp_all
  then have "boxed (328 - 8) (336 + 8) (flt_add (lit (415/10)) (flt_mul (lit (5/10)) (sl_sin lib (of_exact (of_nat i / 8)))))"
    using boxed_add [of 328 336 "lit (415/10)" "- 8" 8] by (simp add: boxed_lit)
  then have "boxed (320 - 1) (344 + 1) (flt_add (flt_add (lit (415/10)) (flt_mul (lit (5/10)) (sl_sin lib (of_exact (of_nat i / 8)))))
      (jitter lib s i 0 (12/100)))"
    using boxed_add [of 320 344 _ "- 1" 1, OF _ boxed_jitter [OF lib, of "12/100" 1]] by simp
  then show ?temperature by (auto simp: healthy_reading_def Let_def intro: boxed_widen)
  have rms: "boxed (8 - 1) (10 + 1) (flt_add (lit (115/100)) (jitter lib s i 1 (8/100)))"
    using boxed_add [of 8 10 "lit (115/100)" "- 1" 1, OF boxed_lit boxed_jitter [OF lib, of "8/100" 1]] by simp
  then show ?rms by (simp add: healthy_reading_def Let_def)
  have "boxed (17 - 1) (18 + 1) (flt_add (lit (22/10)) (jitter lib s i 2 (12/100)))"
    using boxed_add [of 17 18 "lit (22/10)" "- 1" 1, OF boxed_lit boxed_jitter [OF lib, of "12/100" 1]] by simp
  with rms show ?peak by (auto simp: healthy_reading_def Let_def intro: boxed_mul)
  have "boxed (5 - 1) (6 + 1) (flt_add (lit (63/100)) (jitter lib s i 3 (25/1000)))"
    using boxed_add [of 5 6 "lit (63/100)" "- 1" 1, OF boxed_lit boxed_jitter [OF lib, of "25/1000" 1]] by simp
  then show ?current by (auto simp: healthy_reading_def Let_def intro: boxed_widen)
qed

lemma phase_bounds: "i < count \<Longrightarrow> boxed 0 8 (phase_of count i)"
  unfolding phase_of_def by (rule boxed_of_exact) (auto simp: divide_le_eq max_def not_le)

lemma warned_values [simp]:
  "rw_temperature_c (warned c f w) = rw_temperature_c w" "rw_vibration_rms (warned c f w) = rw_vibration_rms w"
  "rw_vibration_peak (warned c f w) = rw_vibration_peak w" "rw_current_a (warned c f w) = rw_current_a w"
  by (simp_all add: warned_def)

lemma scenario_tame:
  assumes "name \<in> set SCENARIOS" and lib: "lib_ok lib" and i: "i < count" "count \<le> 2 ^ 53"
  obtains w where "scenario_reading name (phase_of count i) i (healthy_reading lib s i) = Inr w" "tame w"
proof -
  have "i \<le> 2 ^ 53" using i by simp
  note h = healthy_bounds [OF lib this, of s]
  note phase = phase_bounds [OF i(1)]
  have rest: "tame (healthy_reading lib s i)"
    using boxed_widen [OF h(1)] boxed_widen [OF h(2)] boxed_widen [OF h(3)] boxed_widen [OF h(4)] by (simp add: tame_def)
  have "name = ''normal'' \<or> name = ''rising-temperature'' \<or> name = ''vibration-imbalance''
    \<or> name = ''current-overload'' \<or> name = ''sensor-stuck''"
    using assms(1) unfolding SCENARIOS_def by (simp only: list.set insert_iff empty_iff simp_thms)
  then consider (1) "name = ''normal''" | (2) "name = ''rising-temperature''" | (3) "name = ''vibration-imbalance''"
    | (4) "name = ''current-overload''" | (5) "name = ''sensor-stuck''"
    by (elim disjE)
  then show thesis
  proof cases
    case 1
    with rest show thesis by (intro that) (simp_all add: scenario_reading_def)
  next
    case 2
    have "boxed 0 256 (flt_mul (lit 32) (phase_of count i))"
      by (rule boxed_mul [OF boxed_lit [of 256 _ 256] phase]) simp_all
    with h(1) have "boxed (312 + 0) (352 + 256) (flt_add (rw_temperature_c (healthy_reading lib s i)) (flt_mul (lit 32) (phase_of count i)))"
      by (intro boxed_add) simp_all
    note new = this
    show thesis
      by (rule that, simp add: 2 scenario_reading_def Let_def)
        (use rest new in \<open>auto simp: tame_def intro: boxed_widen\<close>)
  next
    case 3
    let ?rms = "flt_add (rw_vibration_rms (healthy_reading lib s i)) (flt_mul (lit (52/10)) (phase_of count i))"
    have "boxed 0 42 (flt_mul (lit (52/10)) (phase_of count i))"
      by (rule boxed_mul [OF boxed_lit [of 41 _ 42] phase]) simp_all
    with h(2) have rms: "boxed (7 + 0) (11 + 42) ?rms" by (intro boxed_add) simp_all
    have "boxed 0 7 (flt_mul (lit (8/10)) (phase_of count i))"
      by (rule boxed_mul [OF boxed_lit [of 6 _ 7] phase]) simp_all
    then have factor: "boxed (21 + 0) (22 + 7) (flt_add (lit (27/10)) (flt_mul (lit (8/10)) (phase_of count i)))"
      by (intro boxed_add boxed_lit) simp_all
    have "boxed 0 240 (flt_mul ?rms (flt_add (lit (27/10)) (flt_mul (lit (8/10)) (phase_of count i))))"
      by (rule boxed_mul [OF rms factor]) simp_all
    note new = this
    show thesis
      by (rule that, simp add: 3 scenario_reading_def Let_def)
        (use rest new rms in \<open>auto simp: tame_def intro: boxed_widen\<close>)
  next
    case 4
    have "boxed 0 11 (flt_mul (lit (125/100)) (phase_of count i))"
      by (rule boxed_mul [OF boxed_lit [of 10 _ 11] phase]) simp_all
    with h(4) have "boxed (0 + 0) (8 + 11) (flt_add (rw_current_a (healthy_reading lib s i)) (flt_mul (lit (125/100)) (phase_of count i)))"
      by (intro boxed_add) simp_all
    note new = this
    show thesis
      by (rule that, simp add: 4 scenario_reading_def Let_def)
        (use rest new in \<open>auto simp: tame_def intro: boxed_widen\<close>)
  next
    case 5
    have "boxed 312 640 (lit (4175/100))" by (rule boxed_lit) simp_all
    note new = this
    show thesis
      by (rule that, simp add: 5 scenario_reading_def Let_def)
        (use rest new in \<open>auto simp: tame_def intro: boxed_widen\<close>)
  qed
qed

definition labelled :: "raw_reading \<Rightarrow> bool" where
  "labelled w = ((\<exists>q. quality_str q = rw_quality w) \<and> (\<exists>s. sensor_status_str s = rw_temperature_status w)
     \<and> length (rw_fault_flags w) \<le> 32)"

lemma labels: "\<exists>q. quality_str q = ''good''" "\<exists>q. quality_str q = ''degraded''" "\<exists>q. quality_str q = ''bad''"
    "\<exists>s. sensor_status_str s = ''good''" "\<exists>s. sensor_status_str s = ''stuck''"
  by (blast intro: quality_str.simps sensor_status_str.simps)+

lemma scenario_labelled:
  "scenario_reading name phase i (healthy_reading lib s i) = Inr w \<Longrightarrow> labelled w"
  by (auto simp: scenario_reading_def healthy_reading_def warned_def Let_def labelled_def labels split: if_splits)

lemma boxed_ge_le:
  assumes "boxed i j x" "8 * lo \<le> of_int i" "of_int j \<le> 8 * hi" "small i" "small j" "\<bar>lo\<bar> \<le> 2 ^ 53" "\<bar>hi\<bar> \<le> 2 ^ 53"
  shows "ge_le lo hi x"
proof -
  from assms(1) obtain r where r: "x = Fin r" "of_int i \<le> 8 * r" "8 * r \<le> of_int j" by (elim boxedE)
  have "rnd lo \<le> of_int i / 8" "of_int j / 8 \<le> rnd hi"
    using assms(2,3) rnd_le_float [OF _ eighth_exact [OF assms(4)]] rnd_ge_float [OF _ eighth_exact [OF assms(5)]] by simp_all
  with r assms(6,7) show ?thesis by (simp add: ge_le_def of_exact_small)
qed

lemma emitted_fits:
  assumes "tame w"
  obtains v where "emitted w = Inr v" "ge_le (- 80) 200 (sv_temperature_c v)" "ge_le 0 2000 (sv_vibration_rms_mps2 v)"
    "ge_le 0 4000 (sv_vibration_peak_mps2 v)" "ge_le 0 100 (sv_vibration_crest_factor v)"
    "ge_le (- (1/10)) 10 (sv_current_a v)" "sv_quality v = rw_quality w" "sv_fault_flags v = rw_fault_flags w"
    "sv_temperature_status v = rw_temperature_status w"
proof -
  have t: "boxed (8 * 39) (8 * 80) (rw_temperature_c w)" and rms: "boxed 7 56 (rw_vibration_rms w)"
    and peak: "boxed (8 * 0) (8 * 30) (rw_vibration_peak w)" and c: "boxed (8 * 0) (8 * 3) (rw_current_a w)"
    using assms by (simp_all add: tame_def)
  have "boxed 0 1 (lit (1/10000))" by (rule boxed_lit) simp_all
  with rms have "boxed 7 56 (flt_max (rw_vibration_rms w) (lit (1/10000)))"
    by (elim boxedE) (simp add: flt_max_def boxed_def)
  then obtain q where q: "flt_div (rw_vibration_peak w) (flt_max (rw_vibration_rms w) (lit (1/10000))) = Inr q"
    "boxed (8 * 0) (8 * 35) q"
    using boxed_div [of 240 "rw_vibration_peak w" 7 56 _ 280] peak by auto
  have rms0: "boxed (8 * 0) (8 * 7) (rw_vibration_rms w)" using boxed_widen [OF rms] by simp
  show thesis
  proof (rule that)
    show "emitted w = Inr \<lparr>sv_temperature_c = py_round 3 (rw_temperature_c w),
          sv_vibration_rms_mps2 = py_round 4 (rw_vibration_rms w), sv_vibration_peak_mps2 = py_round 4 (rw_vibration_peak w),
          sv_vibration_crest_factor = py_round 3 q, sv_current_a = py_round 4 (rw_current_a w),
          sv_quality = rw_quality w, sv_fault_flags = rw_fault_flags w,
          sv_temperature_status = rw_temperature_status w\<rparr>" using q(1) by (simp add: emitted_def)
  qed (simp_all add: boxed_ge_le [OF boxed_round [OF t]] boxed_ge_le [OF boxed_round [OF rms0]]
      boxed_ge_le [OF boxed_round [OF peak]] boxed_ge_le [OF boxed_round [OF c]] boxed_ge_le [OF boxed_round [OF q(2)]])
qed

text \<open>The members of an envelope as it is sent.\<close>

definition envelope_members :: "telemetry_envelope \<Rightarrow> (string \<times> json) list" where
  "envelope_members e =
     [(''schema_version'', JInt (te_schema_version e)),
      (''message_id'', JStr (te_message_id e)),
      (''site_id'', JStr (te_site_id e)),
      (''device_id'', JStr (te_device_id e)),
      (''sequence'', JInt (te_sequence e)),
      (''device_time'', jopt (\<lambda>t. JStr (isoformat_z (dt_us t))) (te_device_time e)),
      (''clock_synchronized'', JBool (te_clock_synchronized e)),
      (''uptime_ms'', JInt (te_uptime_ms e)),
      (''firmware_version'', JStr (te_firmware_version e)),
      (''quality'', JStr (quality_str (te_quality e))),
      (''replayed'', JBool (te_replayed e)),
      (''measurements'', measurements_json (te_measurements e)),
      (''sample_quality'', sample_quality_json (te_sample_quality e)),
      (''fault_flags'', jstrs (te_fault_flags e))]"

lemma envelope_fits:
  assumes v: "ge_le (- 80) 200 (sv_temperature_c v)" "ge_le 0 2000 (sv_vibration_rms_mps2 v)"
    "ge_le 0 4000 (sv_vibration_peak_mps2 v)" "ge_le 0 100 (sv_vibration_crest_factor v)" "ge_le (- (1/10)) 10 (sv_current_a v)"
    and q: "quality_str q = sv_quality v" and st: "sensor_status_str st = sv_temperature_status v"
    and flags: "length (sv_fault_flags v) \<le> 32" and n: "0 \<le> n"
  shows "\<exists>e. telemetry_envelope_ok e \<and> build_envelope lib v n t session = envelope_members e"
proof (intro exI conjI)
  define sensor where "sensor s k = \<lparr>sq_status = s, sq_valid_samples = k, sq_expected_samples = k, sq_error_code = None\<rparr>" for s k
  let ?e = "\<lparr>te_schema_version = 1,
    te_message_id = sl_uuid5 lib (''iiot:'' @ session @ '':'' @ ''motor-01'' @ '':'' @ str_of_int n),
    te_site_id = ''workshop-demo'', te_device_id = ''motor-01'', te_sequence = n, te_device_time = Some (Aware t),
    te_clock_synchronized = True, te_uptime_ms = (n + 1) * 10000, te_firmware_version = ''0.1.0-sim'', te_quality = q,
    te_replayed = False,
    te_measurements = \<lparr>temperature_c = Some (sv_temperature_c v), vibration_rms_mps2 = Some (sv_vibration_rms_mps2 v),
      vibration_peak_mps2 = Some (sv_vibration_peak_mps2 v), vibration_crest_factor = Some (sv_vibration_crest_factor v),
      current_a = Some (sv_current_a v)\<rparr>,
    te_sample_quality = \<lparr>spl_temperature = sensor st 10, spl_vibration = sensor SGood 256, spl_current = sensor SGood 50\<rparr>,
    te_fault_flags = sv_fault_flags v\<rparr>"
  have "identifier_ok ''workshop-demo''" "identifier_ok ''motor-01''" by code_simp+
  with v flags n show "telemetry_envelope_ok ?e"
    by (simp add: telemetry_envelope_ok_def measurements_ok_def opt_ge_le_def sample_quality_ok_def sensor_quality_ok_def
        opt_max_length_def clock_state_is_consistent_def sensor_def)
  show "build_envelope lib v n t session = envelope_members ?e"
    by (simp add: build_envelope_def envelope_members_def measurements_json_def sample_quality_json_def
        sensor_quality_json_def steady_sensor_def sensor_def Let_def st q)
qed

text \<open>C8: Each scenario of the generator yields as many readings as asked for, and whatever the draws, every envelope built around a reading satisfies the contract that the ingestor enforces: rounded to floats and then to decimals, no measurement leaves its range and no division fails.\<close>

theorem generated_readings_fit_contract:
  assumes "name \<in> set SCENARIOS" and "lib_ok lib" and "count \<le> 2 ^ 53"
  shows "\<exists>vs. scenario_values lib name count rseed = Inr vs \<and> length vs = count
     \<and> (\<forall>v \<in> set vs. \<forall>n \<ge> 0. \<forall>t session. \<exists>e. telemetry_envelope_ok e
          \<and> build_envelope lib v n t session = envelope_members e)"
proof -
  have one: "\<exists>v. scenario_value_at lib name count rseed i = Inr v
      \<and> (\<forall>n \<ge> 0. \<forall>t session. \<exists>e. telemetry_envelope_ok e \<and> build_envelope lib v n t session = envelope_members e)"
    if i: "i < count" for i
  proof -
    obtain w where w: "scenario_reading name (phase_of count i) i (healthy_reading lib rseed i) = Inr w" "tame w"
      by (rule scenario_tame [OF assms(1,2) i assms(3)])
    from scenario_labelled [OF w(1)] obtain q st where "quality_str q = rw_quality w"
      "sensor_status_str st = rw_temperature_status w" "length (rw_fault_flags w) \<le> 32" by (auto simp: labelled_def)
    note q = this
    obtain v where v: "emitted w = Inr v" "ge_le (- 80) 200 (sv_temperature_c v)" "ge_le 0 2000 (sv_vibration_rms_mps2 v)"
      "ge_le 0 4000 (sv_vibration_peak_mps2 v)" "ge_le 0 100 (sv_vibration_crest_factor v)"
      "ge_le (- (1/10)) 10 (sv_current_a v)" "sv_quality v = rw_quality w" "sv_fault_flags v = rw_fault_flags w"
      "sv_temperature_status v = rw_temperature_status w" by (rule emitted_fits [OF w(2)])
    have "scenario_value_at lib name count rseed i = Inr v" using w(1) v(1) by (simp add: scenario_value_at_def)
    moreover have "\<exists>e. telemetry_envelope_ok e \<and> build_envelope lib v n t session = envelope_members e"
      if "0 \<le> n" for n t session
      by (rule envelope_fits [OF v(2-6) _ _ _ that, of q st]) (simp_all add: v(7-9) q)
    ultimately show ?thesis by blast
  qed
  then have "\<And>i. i \<in> set [0 ..< count] \<Longrightarrow> \<exists>v. scenario_value_at lib name count rseed i = Inr v"
    by (metis atLeastLessThan_iff set_upt)
  then obtain vs where vs: "scenario_values lib name count rseed = Inr vs"
    unfolding scenario_values_def using mapE_total [of "[0 ..< count]"] by blast
  then have all: "list_all2 (\<lambda>i v. scenario_value_at lib name count rseed i = Inr v) [0 ..< count] vs"
    by (simp add: scenario_values_def mapE_all)
  then have "length vs = count" using list_all2_lengthD by fastforce
  moreover have "\<exists>i < count. scenario_value_at lib name count rseed i = Inr v" if "v \<in> set vs" for v
    using all that by (auto simp: list_all2_conv_all_nth in_set_conv_nth)
  ultimately show ?thesis using vs one by fastforce
qed

section \<open>Publishing a scenario\<close>

record publish_args =
  pa_scenario :: string
  pa_count :: nat
  pa_sequence_start :: int
  pa_seed :: int
  pa_session_id :: string

record sent_message =
  sm_topic :: string
  sm_payload :: string
  sm_qos :: nat
  sm_retain :: bool

definition scenario_message :: "sim_lib \<Rightarrow> (flt \<Rightarrow> string) \<Rightarrow> publish_args \<Rightarrow> int \<Rightarrow> string \<Rightarrow> nat \<Rightarrow> scenario_value \<Rightarrow> sent_message" where
  "scenario_message lib repr args start t offset v =
     \<lparr>sm_topic = t,
      sm_payload = json_text repr (JObj (build_envelope lib v (pa_sequence_start args + int offset)
        (start + seconds (10 * int offset)) (pa_session_id args))),
      sm_qos = 1, sm_retain = False\<rparr>"

text \<open>
  The loop over \<open>enumerate(scenario_values(...))\<close>: the generator makes the next reading when it
  is asked for one. \<open>broker k\<close> is the code of the \<open>k\<close>-th publication after waiting for it, or
  what the client raised.
\<close>

fun publish_loop ::
  "sim_lib \<Rightarrow> (flt \<Rightarrow> string) \<Rightarrow> (nat \<Rightarrow> int res) \<Rightarrow> publish_args \<Rightarrow> int \<Rightarrow> string \<Rightarrow> nat list
     \<Rightarrow> sent_message list \<Rightarrow> sent_message list \<times> unit res" where
  "publish_loop lib repr broker args start t [] sent = (sent, Inr ())"
| "publish_loop lib repr broker args start t (k # ks) sent =
     (case scenario_value_at lib (pa_scenario args) (pa_count args) (pa_seed args) k of
        Inl e \<Rightarrow> (sent, Inl e)
      | Inr v \<Rightarrow>
          let sent' = sent @ [scenario_message lib repr args start t k v] in
          (case broker k of
             Inl e \<Rightarrow> (sent', Inl e)
           | Inr rc \<Rightarrow>
               if rc \<noteq> 0 then (sent', Inl (OtherException ''RuntimeError''))
               else publish_loop lib repr broker args start t ks sent'))"

definition publish_scenario ::
  "sim_lib \<Rightarrow> (flt \<Rightarrow> string) \<Rightarrow> (nat \<Rightarrow> int res) \<Rightarrow> publish_args \<Rightarrow> int res \<Rightarrow> sent_message list \<times> unit res" where
  "publish_scenario lib repr broker args start =
     (case bindE start (\<lambda>s. bindE (topic ''workshop-demo'' ''motor-01'' TELEMETRY) (\<lambda>t. Inr (s, t))) of
        Inl e \<Rightarrow> ([], Inl e)
      | Inr (s, t) \<Rightarrow> publish_loop lib repr broker args s t [0 ..< pa_count args] [])"

lemma publish_loop_sends:
  "publish_loop lib repr broker args start t ks sent = (sent', r) \<Longrightarrow>
     \<exists>n \<le> length ks. \<exists>vs. list_all2 (\<lambda>k v. scenario_value_at lib (pa_scenario args) (pa_count args) (pa_seed args) k = Inr v)
         (take n ks) vs \<and> sent' = sent @ map2 (scenario_message lib repr args start t) (take n ks) vs
       \<and> (r = Inr () \<longrightarrow> n = length ks)"
proof (induction ks arbitrary: sent)
  case (Cons k ks)
  show ?case
  proof (cases "scenario_value_at lib (pa_scenario args) (pa_count args) (pa_seed args) k")
    case (Inl e)
    with Cons.prems show ?thesis by (intro exI [of _ 0]) auto
  next
    case v: (Inr v)
    let ?m = "scenario_message lib repr args start t k v"
    show ?thesis
    proof (cases "broker k = Inr 0")
      case True
      with Cons.prems v have "publish_loop lib repr broker args start t ks (sent @ [?m]) = (sent', r)" by simp
      from Cons.IH [OF this] obtain n vs where "n \<le> length ks"
        "list_all2 (\<lambda>k v. scenario_value_at lib (pa_scenario args) (pa_count args) (pa_seed args) k = Inr v) (take n ks) vs"
        "sent' = (sent @ [?m]) @ map2 (scenario_message lib repr args start t) (take n ks) vs"
        "r = Inr () \<longrightarrow> n = length ks" by blast
      with v show ?thesis by (intro exI [of _ "Suc n"] conjI exI [of _ "v # vs"]) simp_all
    next
      case False
      with Cons.prems v have "sent' = sent @ [?m]" "r \<noteq> Inr ()" by (auto simp: Let_def split: sum.splits if_splits)
      with v show ?thesis by (intro exI [of _ "Suc 0"] conjI exI [of _ "[v]"]) simp_all
    qed
  qed
qed auto

section \<open>Examples\<close>

definition still_lib :: sim_lib where
  "still_lib = \<lparr>sl_sin = (\<lambda>_. Fin 0), sl_uniform = (\<lambda>_ _ a _. a), sl_uuid5 = (\<lambda>s. s)\<rparr>"

lemma flt_le_refl: "flt_finite a \<Longrightarrow> flt_le a a"
  by (cases a) simp_all

lemma still_lib_ok: "lib_ok still_lib"
  by (simp add: lib_ok_def still_lib_def boxed_def flt_le_refl)

theorem generated_readings_fit_contract_witness:
  "\<exists>vs. scenario_values still_lib ''sensor-stuck'' 12 7 = Inr vs \<and> length vs = 12"
proof -
  have "''sensor-stuck'' \<in> set SCENARIOS" by (simp add: SCENARIOS_def)
  from generated_readings_fit_contract [OF this still_lib_ok, of 12 7] show ?thesis by auto
qed

end
