(* ===== verification/Gateway.thy ===== *)
theory Gateway
  imports Simulator Commands Ingestor Artifacts
begin

text \<open>
  The simulated gateway, \<open>simulator/gateway_agent.py\<close>: the callbacks of its MQTT client, its
  publications, and the main loop that switches the relay off at its deadline. The client
  calls back on a thread of its own (\<open>loop_start\<close>), so a callback and the loop are sequences
  of statements on shared attributes: each is the list of its \<open>gw_action\<close>s, run in one go by
  \<open>gw_on_message\<close>, \<open>gw_on_disconnect\<close> and \<open>relay_check\<close>, and in any interleaving by the step
  relation \<open>gateway_step\<close>.
\<close>

definition SITE_ID :: string where "SITE_ID = ''workshop-demo''"
definition DEVICE_ID :: string where "DEVICE_ID = ''motor-01''"

section \<open>State and environment\<close>

text \<open>What is not this repository's code: JSON on bytes, ISO times, and pydantic's reading of the parameters.\<close>

record gateway_env =
  ge_runtime :: runtime
  ge_json_loads :: "bytes \<Rightarrow> json res"
  ge_fromisoformat :: "string \<Rightarrow> pydatetime res"
  ge_read_relay :: "json \<Rightarrow> relay_command_create option"
  ge_error_count :: "json \<Rightarrow> nat"

text \<open>The readings of one callback or turn: UTC clocks (in the order they are read), the monotonic clock in seconds, and a fresh UUID.\<close>

record reading =
  rd_now :: int
  rd_sent_at :: int
  rd_monotonic :: flt
  rd_uuid :: string

record gateway =
  gw_relay_on :: bool
  gw_relay_off_deadline :: "flt option"
  gw_sequence :: int
  gw_telemetry_sequence :: int
  gw_telemetry_values :: "scenario_value res list"
  gw_started_monotonic :: flt
  gw_reset_count :: int
  gw_ready :: bool
  gw_subscriptions :: "(string \<times> nat) list"
  gw_published :: "sent_message list"

definition gateway_topic :: "topic_kind \<Rightarrow> string" where
  "gateway_topic kind = (case topic SITE_ID DEVICE_ID kind of Inr t \<Rightarrow> t | Inl _ \<Rightarrow> [])"

text \<open>\<open>self.client.publish(...)\<close>: the client queues the message.\<close>

definition publish_json :: "gateway_env \<Rightarrow> topic_kind \<Rightarrow> (string \<times> json) list \<Rightarrow> bool \<Rightarrow> gateway \<Rightarrow> gateway" where
  "publish_json env kind members retain g =
     g\<lparr>gw_published := gw_published g @
         [\<lparr>sm_topic = gateway_topic kind, sm_payload = json_text (rt_float_repr (ge_runtime env)) (JObj members),
           sm_qos = 1, sm_retain = retain\<rparr>]\<rparr>"

section \<open>Acknowledgements\<close>

definition ack_members :: "reading \<Rightarrow> string \<Rightarrow> string \<Rightarrow> string \<Rightarrow> bool \<Rightarrow> (string \<times> json) list" where
  "ack_members rd command_id status result_code relay_on =
     [(''schema_version'', JInt 1),
      (''message_id'', JStr (rd_uuid rd)),
      (''command_id'', JStr command_id),
      (''site_id'', JStr SITE_ID),
      (''device_id'', JStr DEVICE_ID),
      (''device_time'', JStr (isoformat_z (rd_sent_at rd))),
      (''status'', JStr status),
      (''result_code'', JStr result_code),
      (''detail'', JNull),
      (''relay_on'', JBool relay_on)]"

definition publish_ack :: "gateway_env \<Rightarrow> reading \<Rightarrow> string \<Rightarrow> string \<Rightarrow> string \<Rightarrow> gateway \<Rightarrow> gateway" where
  "publish_ack env rd command_id status result_code g =
     publish_json env COMMAND_ACKS (ack_members rd command_id status result_code (gw_relay_on g)) False g"

section \<open>Reading a command\<close>

datatype verdict = Answer string string | Switch relay_command_create

text \<open>\<open>payload["command_id"]\<close> of a JSON value: only a dictionary has string keys.\<close>

fun members_of :: "json \<Rightarrow> (string \<times> json) list res" where
  "members_of (JObj m) = Inr m"
| "members_of _ = Inl TypeError"

definition expired :: "gateway_env \<Rightarrow> int \<Rightarrow> json \<Rightarrow> bool res" where
  "expired env now v =
     bindE (ge_fromisoformat env (replace_z (json_str (ge_runtime env) v))) (\<lambda>expires_at. dt_le expires_at (Aware now))"

definition judge_command :: "gateway_env \<Rightarrow> int \<Rightarrow> (string \<times> json) list \<Rightarrow> verdict res" where
  "judge_command env now m =
     (if map_of m ''device_id'' \<noteq> Some (JStr DEVICE_ID) \<or> map_of m ''site_id'' \<noteq> Some (JStr SITE_ID)
      then Inr (Answer ''rejected'' ''IDENTITY_MISMATCH'')
      else
        bindE (item m ''expires_at'') (\<lambda>v.
        bindE (expired env now v) (\<lambda>late.
        if late then Inr (Answer ''expired'' ''COMMAND_EXPIRED'')
        else if map_of m ''kind'' \<noteq> Some (JStr ''set_demo_relay'') then Inr (Answer ''rejected'' ''UNSUPPORTED_COMMAND'')
        else
          bindE (item m ''parameters'') (\<lambda>ps.
          bindE (validated relay_command_create_ok (ge_error_count env ps) (ge_read_relay env ps)) (\<lambda>r.
          Inr (Switch r))))))"

definition read_command :: "gateway_env \<Rightarrow> int \<Rightarrow> bytes \<Rightarrow> (string \<times> verdict) res" where
  "read_command env now payload =
     bindE (ge_json_loads env payload) (\<lambda>v.
     bindE (members_of v) (\<lambda>m.
     bindE (item m ''command_id'') (\<lambda>c.
     bindE (judge_command env now m) (\<lambda>verdict.
     Inr (json_str (ge_runtime env) c, verdict)))))"

section \<open>Callbacks as sequences of statements\<close>

datatype gw_action =
    Unready
  | SetRelay bool
  | SetDeadline "flt option"
  | Acknowledge reading string string string
  | AcknowledgeSwitched reading string

fun perform :: "gateway_env \<Rightarrow> gw_action \<Rightarrow> gateway \<Rightarrow> gateway" where
  "perform env Unready g = g\<lparr>gw_ready := False\<rparr>"
| "perform env (SetRelay b) g = g\<lparr>gw_relay_on := b\<rparr>"
| "perform env (SetDeadline t) g = g\<lparr>gw_relay_off_deadline := t\<rparr>"
| "perform env (Acknowledge rd c status code) g = publish_ack env rd c status code g"
| "perform env (AcknowledgeSwitched rd c) g =
     publish_ack env rd c ''completed'' (if gw_relay_on g then ''RELAY_ON'' else ''RELAY_OFF'') g"

fun verdict_actions :: "reading \<Rightarrow> string \<Rightarrow> verdict \<Rightarrow> gw_action list" where
  "verdict_actions rd c (Answer status code) = [Acknowledge rd c status code]"
| "verdict_actions rd c (Switch r) =
     [SetRelay (rc_relay_on r),
      SetDeadline (if rc_relay_on r then Some (flt_add (rd_monotonic rd) (of_exact (of_int (rc_timeout_s r)))) else None),
      AcknowledgeSwitched rd c]"

text \<open>\<open>except (KeyError, TypeError, ValueError, ValidationError, JSONDecodeError)\<close>: only a warning is logged.\<close>

definition command_error :: "exc \<Rightarrow> bool" where
  "command_error e = (e = KeyError \<or> e = TypeError \<or> is_value_error e)"

definition message_actions :: "gateway_env \<Rightarrow> reading \<Rightarrow> bytes \<Rightarrow> gw_action list res" where
  "message_actions env rd payload =
     (case read_command env (rd_now rd) payload of
        Inr (c, v) \<Rightarrow> Inr (verdict_actions rd c v)
      | Inl e \<Rightarrow> if command_error e then Inr [] else Inl e)"

definition gw_on_message :: "gateway_env \<Rightarrow> reading \<Rightarrow> bytes \<Rightarrow> gateway \<Rightarrow> gateway res" where
  "gw_on_message env rd payload g = bindE (message_actions env rd payload) (\<lambda>as. Inr (fold (perform env) as g))"

definition disconnect_actions :: "gw_action list" where
  "disconnect_actions = [Unready, SetRelay False, SetDeadline None]"

definition gw_on_disconnect :: "gateway_env \<Rightarrow> gateway \<Rightarrow> gateway" where
  "gw_on_disconnect env g = fold (perform env) disconnect_actions g"

definition availability_members :: "string \<Rightarrow> string \<Rightarrow> (string \<times> json) list" where
  "availability_members status reason =
     [(''schema_version'', JInt 1), (''site_id'', JStr SITE_ID), (''device_id'', JStr DEVICE_ID),
      (''status'', JStr status), (''reason'', JStr reason)]"

definition gw_on_connect :: "gateway_env \<Rightarrow> bool \<Rightarrow> gateway \<Rightarrow> gateway" where
  "gw_on_connect env is_failure g =
     (if is_failure then g
      else (publish_json env AVAILABILITY (availability_members ''online'' ''boot'') True
              (g\<lparr>gw_subscriptions := gw_subscriptions g @ [(gateway_topic COMMANDS, 1)]\<rparr>))\<lparr>gw_ready := True\<rparr>)"

section \<open>Periodic publications\<close>

definition uptime_ms :: "reading \<Rightarrow> gateway \<Rightarrow> int res" where
  "uptime_ms rd g = int_of_flt (flt_mul (flt_sub (rd_monotonic rd) (gw_started_monotonic g)) (Fin 1000))"

definition health_members :: "reading \<Rightarrow> int \<Rightarrow> int \<Rightarrow> int \<Rightarrow> (string \<times> json) list" where
  "health_members rd sequence uptime resets =
     [(''schema_version'', JInt 1),
      (''message_id'', JStr (rd_uuid rd)),
      (''site_id'', JStr SITE_ID),
      (''device_id'', JStr DEVICE_ID),
      (''sequence'', JInt sequence),
      (''device_time'', JStr (isoformat_z (rd_now rd))),
      (''uptime_ms'', JInt uptime),
      (''firmware_version'', JStr ''0.1.0-sim''),
      (''status'', JStr ''online''),
      (''rssi_dbm'', JInt (- 48)),
      (''reset_reason'', JStr ''software_simulation_start''),
      (''reset_count'', JInt resets),
      (''queue_depth'', JInt 0),
      (''queue_capacity'', JInt 512),
      (''dropped_message_count'', JInt 0),
      (''modbus_status'', JStr ''ok''),
      (''active_faults'', JArr [])]"

text \<open>The sequence is counted before the payload is built, so it stays counted when the payload raises.\<close>

definition publish_health :: "gateway_env \<Rightarrow> reading \<Rightarrow> gateway \<Rightarrow> gateway \<times> unit res" where
  "publish_health env rd g =
     (let g1 = g\<lparr>gw_sequence := gw_sequence g + 1\<rparr> in
      case uptime_ms rd g1 of
        Inl e \<Rightarrow> (g1, Inl e)
      | Inr uptime \<Rightarrow>
          (publish_json env HEALTH (health_members rd (gw_sequence g1) uptime (gw_reset_count g1)) True g1, Inr ()))"

text \<open>\<open>payload[key] = value\<close> on a dictionary that has the key.\<close>

definition set_member :: "string \<Rightarrow> json \<Rightarrow> (string \<times> json) list \<Rightarrow> (string \<times> json) list" where
  "set_member key v m = map (\<lambda>(k, w). (k, if k = key then v else w)) m"

definition publish_telemetry :: "gateway_env \<Rightarrow> sim_lib \<Rightarrow> reading \<Rightarrow> gateway \<Rightarrow> gateway \<times> unit res" where
  "publish_telemetry env lib rd g =
     (case gw_telemetry_values g of
        [] \<Rightarrow> (g, Inl (OtherException ''StopIteration''))
      | v # vs \<Rightarrow>
          let g1 = g\<lparr>gw_telemetry_values := vs\<rparr> in
          (case bindE v (\<lambda>x. bindE (uptime_ms rd g1) (\<lambda>uptime. Inr (x, uptime))) of
             Inl e \<Rightarrow> (g1, Inl e)
           | Inr (x, uptime) \<Rightarrow>
               let payload = set_member ''uptime_ms'' (JInt uptime) (set_member ''message_id'' (JStr (rd_uuid rd))
                     (build_envelope lib x (gw_telemetry_sequence g1) (rd_now rd) ''simulated-gateway''))
               in ((publish_json env TELEMETRY payload False g1)\<lparr>gw_telemetry_sequence := gw_telemetry_sequence g1 + 1\<rparr>,
                   Inr ())))"

section \<open>The main loop\<close>

definition relay_check :: "flt \<Rightarrow> gateway \<Rightarrow> gateway" where
  "relay_check now g =
     (case gw_relay_off_deadline g of
        None \<Rightarrow> g
      | Some t \<Rightarrow> if flt_le t now then g\<lparr>gw_relay_on := False, gw_relay_off_deadline := None\<rparr> else g)"

record loop_state =
  lp_gateway :: gateway
  lp_next_health :: flt
  lp_next_telemetry :: flt

text \<open>One turn that reads \<open>now\<close> from the monotonic clock; an exception leaves the loop.\<close>

definition loop_turn :: "gateway_env \<Rightarrow> sim_lib \<Rightarrow> flt \<Rightarrow> reading \<Rightarrow> reading \<Rightarrow> loop_state \<Rightarrow> loop_state \<times> unit res" where
  "loop_turn env lib now health_rd telemetry_rd l =
     (let (l1, r1) =
        (if flt_le (lp_next_health l) now
         then let (g, r) = publish_health env health_rd (lp_gateway l) in
           (if r = Inr () then l\<lparr>lp_gateway := g, lp_next_health := flt_add now (Fin 10)\<rparr> else l\<lparr>lp_gateway := g\<rparr>, r)
         else (l, Inr ()))
      in if r1 \<noteq> Inr () then (l1, r1) else
      let (l2, r2) =
        (if flt_le (lp_next_telemetry l1) now
         then let (g, r) = publish_telemetry env lib telemetry_rd (lp_gateway l1) in
           (if r = Inr () then l1\<lparr>lp_gateway := g, lp_next_telemetry := flt_add now (Fin 2)\<rparr> else l1\<lparr>lp_gateway := g\<rparr>, r)
         else (l1, Inr ()))
      in if r2 \<noteq> Inr () then (l2, r2)
      else (l2\<lparr>lp_gateway := relay_check now (lp_gateway l2)\<rparr>, Inr ()))"

text \<open>\<open>run\<close> over the turns it makes, each with its readings; \<open>finally\<close> the relay is switched off.\<close>

fun run_turns ::
  "gateway_env \<Rightarrow> sim_lib \<Rightarrow> (flt \<times> reading \<times> reading) list \<Rightarrow> loop_state \<Rightarrow> loop_state \<times> unit res" where
  "run_turns env lib [] l = (l, Inr ())"
| "run_turns env lib ((now, h, t) # ts) l =
     (case loop_turn env lib now h t l of
        (l', Inr _) \<Rightarrow> run_turns env lib ts l'
      | (l', Inl e) \<Rightarrow> (l'\<lparr>lp_gateway := (lp_gateway l')\<lparr>gw_relay_on := False\<rparr>\<rparr>, Inl e))"

definition new_gateway :: "sim_lib \<Rightarrow> flt \<Rightarrow> int \<Rightarrow> gateway" where
  "new_gateway lib monotonic epoch =
     \<lparr>gw_relay_on = False, gw_relay_off_deadline = None, gw_sequence = 0, gw_telemetry_sequence = epoch,
      gw_telemetry_values = map (scenario_value_at lib ''normal'' 1000000 20260811) [0 ..< 1000000],
      gw_started_monotonic = monotonic, gw_reset_count = 1, gw_ready = False, gw_subscriptions = [], gw_published = []\<rparr>"

text \<open>The last will that the broker publishes when the connection is lost.\<close>

definition gateway_will :: "gateway_env \<Rightarrow> sent_message" where
  "gateway_will env = \<lparr>sm_topic = gateway_topic AVAILABILITY,
     sm_payload = json_text (rt_float_repr (ge_runtime env)) (JObj (availability_members ''offline'' ''broker_lwt'')),
     sm_qos = 1, sm_retain = True\<rparr>"

section \<open>The two threads\<close>

text \<open>
  \<open>th_callback\<close> is what is left of the callback in progress; \<open>th_loop\<close> is where the main loop
  stands in \<open>if deadline is not None and now >= deadline: relay_on = False; deadline = None\<close>,
  which reads the attribute twice. A comparison with \<open>None\<close> raises \<open>TypeError\<close>, which ends the
  loop through its \<open>finally\<close>.
\<close>

datatype loop_pc = LIdle | LCompare flt | LOff | LClear | LStopped

record gw_threads =
  th_gateway :: gateway
  th_callback :: "gw_action list"
  th_loop :: loop_pc

text \<open>A publication of the loop that raises ends it too.\<close>

definition after_publication :: "gw_threads \<Rightarrow> gateway \<times> unit res \<Rightarrow> gw_threads" where
  "after_publication s x =
     (if snd x = Inr () then s\<lparr>th_gateway := fst x\<rparr>
      else s\<lparr>th_gateway := (fst x)\<lparr>gw_relay_on := False\<rparr>, th_loop := LStopped\<rparr>)"

inductive callback_step :: "gateway_env \<Rightarrow> gw_threads \<Rightarrow> gw_threads \<Rightarrow> bool" for env where
  message: "th_callback s = [] \<Longrightarrow> message_actions env rd payload = Inr as \<Longrightarrow>
    callback_step env s (s\<lparr>th_callback := as\<rparr>)"
| disconnect: "th_callback s = [] \<Longrightarrow> callback_step env s (s\<lparr>th_callback := disconnect_actions\<rparr>)"
| connect: "th_callback s = [] \<Longrightarrow> callback_step env s (s\<lparr>th_gateway := gw_on_connect env is_failure (th_gateway s)\<rparr>)"
| statement: "th_callback s = a # as \<Longrightarrow>
    callback_step env s (s\<lparr>th_gateway := perform env a (th_gateway s), th_callback := as\<rparr>)"

inductive loop_step :: "gateway_env \<Rightarrow> sim_lib \<Rightarrow> gw_threads \<Rightarrow> gw_threads \<Rightarrow> bool" for env lib where
  health: "th_loop s = LIdle \<Longrightarrow>
    loop_step env lib s (after_publication s (publish_health env rd (th_gateway s)))"
| telemetry: "th_loop s = LIdle \<Longrightarrow>
    loop_step env lib s (after_publication s (publish_telemetry env lib rd (th_gateway s)))"
| pending: "th_loop s = LIdle \<Longrightarrow> gw_relay_off_deadline (th_gateway s) \<noteq> None \<Longrightarrow>
    loop_step env lib s (s\<lparr>th_loop := LCompare now\<rparr>)"
| early: "th_loop s = LCompare now \<Longrightarrow> gw_relay_off_deadline (th_gateway s) = Some t \<Longrightarrow> \<not> flt_le t now \<Longrightarrow>
    loop_step env lib s (s\<lparr>th_loop := LIdle\<rparr>)"
| due: "th_loop s = LCompare now \<Longrightarrow> gw_relay_off_deadline (th_gateway s) = Some t \<Longrightarrow> flt_le t now \<Longrightarrow>
    loop_step env lib s (s\<lparr>th_loop := LOff\<rparr>)"
| missing: "th_loop s = LCompare now \<Longrightarrow> gw_relay_off_deadline (th_gateway s) = None \<Longrightarrow>
    loop_step env lib s (s\<lparr>th_gateway := (th_gateway s)\<lparr>gw_relay_on := False\<rparr>, th_loop := LStopped\<rparr>)"
| off: "th_loop s = LOff \<Longrightarrow>
    loop_step env lib s (s\<lparr>th_gateway := (th_gateway s)\<lparr>gw_relay_on := False\<rparr>, th_loop := LClear\<rparr>)"
| clear: "th_loop s = LClear \<Longrightarrow>
    loop_step env lib s (s\<lparr>th_gateway := (th_gateway s)\<lparr>gw_relay_off_deadline := None\<rparr>, th_loop := LIdle\<rparr>)"

inductive gateway_step :: "gateway_env \<Rightarrow> sim_lib \<Rightarrow> gw_threads \<Rightarrow> gw_threads \<Rightarrow> bool" for env lib where
  callback: "callback_step env s s' \<Longrightarrow> gateway_step env lib s s'"
| loop: "loop_step env lib s s' \<Longrightarrow> gateway_step env lib s s'"

inductive_cases callback_stepE: "callback_step env s s'"
inductive_cases loop_stepE: "loop_step env lib s s'"
inductive_cases gateway_stepE: "gateway_step env lib s s'"

section \<open>Run without interleaving\<close>

text \<open>The same program when every callback and every turn of the loop runs in one go.\<close>

inductive atomic_step :: "gateway_env \<Rightarrow> sim_lib \<Rightarrow> gateway \<Rightarrow> gateway \<Rightarrow> bool" for env lib where
  message: "gw_on_message env rd payload g = Inr g' \<Longrightarrow> atomic_step env lib g g'"
| disconnect: "atomic_step env lib g (gw_on_disconnect env g)"
| connect: "atomic_step env lib g (gw_on_connect env is_failure g)"
| turn: "loop_turn env lib now h t l = (l', Inr u) \<Longrightarrow> atomic_step env lib (lp_gateway l) (lp_gateway l')"

inductive_cases atomic_stepE: "atomic_step env lib g g'"

definition gateway_reachable :: "gateway_env \<Rightarrow> sim_lib \<Rightarrow> gateway \<Rightarrow> bool" where
  "gateway_reachable env lib g = (\<exists>m e. (atomic_step env lib)\<^sup>*\<^sup>* (new_gateway lib m e) g)"

text \<open>A relay that is on has a deadline, at most thirty seconds after a reading of the clock.\<close>

definition timed :: "gateway \<Rightarrow> bool" where
  "timed g = (gw_relay_on g \<longrightarrow> (\<exists>m k. gw_relay_off_deadline g = Some (flt_add m (of_exact (of_int k))) \<and> 1 \<le> k \<and> k \<le> 30))"

lemma publish_json_relay [simp]:
  "gw_relay_on (publish_json env kind m retain g) = gw_relay_on g"
  "gw_relay_off_deadline (publish_json env kind m retain g) = gw_relay_off_deadline g"
  by (simp_all add: publish_json_def)

lemma publish_ack_relay [simp]:
  "gw_relay_on (publish_ack env rd c s r g) = gw_relay_on g"
  "gw_relay_off_deadline (publish_ack env rd c s r g) = gw_relay_off_deadline g"
  by (simp_all add: publish_ack_def)

lemma publish_health_relay [simp]:
  "gw_relay_on (fst (publish_health env rd g)) = gw_relay_on g"
  "gw_relay_off_deadline (fst (publish_health env rd g)) = gw_relay_off_deadline g"
  by (simp_all add: publish_health_def Let_def split: sum.splits)

lemma publish_telemetry_relay [simp]:
  "gw_relay_on (fst (publish_telemetry env lib rd g)) = gw_relay_on g"
  "gw_relay_off_deadline (fst (publish_telemetry env lib rd g)) = gw_relay_off_deadline g"
  by (simp_all add: publish_telemetry_def Let_def split: sum.splits list.splits)

lemma timed_publications [simp]:
  "timed (publish_json env kind m retain g) = timed g"
  "timed (fst (publish_health env rd g)) = timed g" "timed (fst (publish_telemetry env lib rd g)) = timed g"
  by (simp_all add: timed_def)

lemma timed_relay_check: "timed g \<Longrightarrow> timed (relay_check now g)"
  by (cases "gw_relay_off_deadline g") (simp_all add: timed_def relay_check_def)

lemma timed_turn:
  assumes "loop_turn env lib now h t l = (l', r)" and "timed (lp_gateway l)"
  shows "timed (lp_gateway l')"
  using assms timed_publications(2) [of env h "lp_gateway l"] timed_relay_check
  by (auto simp: loop_turn_def Let_def split_beta split: if_splits)

lemma switched_command:
  assumes "read_command env now payload = Inr (c, Switch r)"
  shows "relay_command_create_ok r"
  using assms
  by (auto simp: read_command_def judge_command_def validated_def split: if_splits option.splits)

lemma timed_message:
  assumes "gw_on_message env rd payload g = Inr g'" and "timed g"
  shows "timed g'"
proof (cases "read_command env (rd_now rd) payload")
  case (Inl e)
  with assms show ?thesis by (auto simp: gw_on_message_def message_actions_def split: if_splits)
next
  case (Inr cv)
  obtain c v where cv: "cv = (c, v)" by force
  with assms(1) Inr have g': "g' = fold (perform env) (verdict_actions rd c v) g"
    by (simp add: gw_on_message_def message_actions_def)
  show ?thesis
  proof (cases v)
    case (Answer s code)
    with assms(2) show ?thesis by (simp add: g' timed_def)
  next
    case (Switch r)
    then have "relay_command_create_ok r" using switched_command Inr cv by blast
    then show ?thesis by (auto simp: g' Switch timed_def relay_command_create_ok_def)
  qed
qed

lemma timed_step: "atomic_step env lib g g' \<Longrightarrow> timed g \<Longrightarrow> timed g'"
proof (induction rule: atomic_step.induct)
  case (message rd payload g g')
  then show ?case using timed_message by blast
next
  case (disconnect g)
  then show ?case by (simp add: gw_on_disconnect_def disconnect_actions_def timed_def)
next
  case (connect g is_failure)
  then show ?case by (auto simp: gw_on_connect_def timed_def)
next
  case (turn now h t l l' u)
  then show ?case using timed_turn by blast
qed


section \<open>Interleaved\<close>

definition idle_threads :: "gateway \<Rightarrow> gw_threads" where
  "idle_threads g = \<lparr>th_gateway = g, th_callback = [], th_loop = LIdle\<rparr>"

lemma thread_steps:
  "callback_step env s s' \<Longrightarrow> (gateway_step env lib)\<^sup>*\<^sup>* s s'"
  "loop_step env lib s s' \<Longrightarrow> (gateway_step env lib)\<^sup>*\<^sup>* s s'"
  by (auto intro: gateway_step.intros)

text \<open>A callback left alone runs to its end.\<close>

lemma callback_completes:
  "th_callback s = as \<Longrightarrow>
     (gateway_step env lib)\<^sup>*\<^sup>* s (s\<lparr>th_gateway := fold (perform env) as (th_gateway s), th_callback := []\<rparr>)"
proof (induction as arbitrary: s)
  case Nil
  then have "s\<lparr>th_gateway := th_gateway s, th_callback := []\<rparr> = s" by simp
  then show ?case by simp
next
  case (Cons a as)
  let ?s = "s\<lparr>th_gateway := perform env a (th_gateway s), th_callback := as\<rparr>"
  have "gateway_step env lib s ?s" using Cons.prems by (intro gateway_step.callback callback_step.statement)
  moreover have "(gateway_step env lib)\<^sup>*\<^sup>* ?s (?s\<lparr>th_gateway := fold (perform env) as (th_gateway ?s), th_callback := []\<rparr>)"
    by (rule Cons.IH) simp
  ultimately show ?case by (simp add: converse_rtranclp_into_rtranclp)
qed

lemma message_completes:
  assumes "th_callback s = []" and "read_command env (rd_now rd) payload = Inr (c, v)"
  shows "(gateway_step env lib)\<^sup>*\<^sup>* s (s\<lparr>th_gateway := fold (perform env) (verdict_actions rd c v) (th_gateway s)\<rparr>)"
proof -
  let ?s = "s\<lparr>th_callback := verdict_actions rd c v\<rparr>"
  have "message_actions env rd payload = Inr (verdict_actions rd c v)" using assms(2) by (simp add: message_actions_def)
  then have "gateway_step env lib s ?s" using assms(1) by (intro gateway_step.callback callback_step.message)
  moreover have "(gateway_step env lib)\<^sup>*\<^sup>* ?s (?s\<lparr>th_gateway := fold (perform env) (verdict_actions rd c v) (th_gateway ?s),
      th_callback := []\<rparr>)" by (rule callback_completes) simp
  moreover have "?s\<lparr>th_gateway := fold (perform env) (verdict_actions rd c v) (th_gateway ?s), th_callback := []\<rparr>
      = s\<lparr>th_gateway := fold (perform env) (verdict_actions rd c v) (th_gateway s)\<rparr>"
    using assms(1) by simp
  ultimately show ?thesis by (simp add: converse_rtranclp_into_rtranclp)
qed

text \<open>A switch-on that has been processed.\<close>

lemma switched_on:
  assumes "rc_relay_on r"
  shows "gw_relay_on (fold (perform env) (verdict_actions rd c (Switch r)) g)"
    and "gw_relay_off_deadline (fold (perform env) (verdict_actions rd c (Switch r)) g)
       = Some (flt_add (rd_monotonic rd) (of_exact (of_int (rc_timeout_s r))))"
  using assms by simp_all

text \<open>Without a deadline the loop never touches the relay.\<close>

lemma loop_leaves_relay:
  assumes "(loop_step env lib)\<^sup>*\<^sup>* s s'" and "gw_relay_on (th_gateway s)" "gw_relay_off_deadline (th_gateway s) = None" "th_loop s = LIdle"
  shows "th_loop s' = LStopped \<or> (gw_relay_on (th_gateway s') \<and> gw_relay_off_deadline (th_gateway s') = None \<and> th_loop s' = LIdle)"
  using assms
proof (induction rule: rtranclp_induct)
  case (step s1 s2)
  from step.hyps(2) step.IH [OF step.prems] show ?case
    by (elim loop_stepE) (auto simp: after_publication_def)
qed simp

lemma expired_then_switched:
  fixes rd1 rd2 :: reading
  assumes read1: "read_command env (rd_now rd1) p1 = Inr (c1, Switch r1)" and on1: "rc_relay_on r1"
    and read2: "read_command env (rd_now rd2) p2 = Inr (c2, Switch r2)" and on2: "rc_relay_on r2"
    and due: "flt_le (flt_add (rd_monotonic rd1) (of_exact (of_int (rc_timeout_s r1)))) now"
  obtains s where "(gateway_step env lib)\<^sup>*\<^sup>* (idle_threads g) s" "th_callback s = []" "th_loop s = LIdle"
    "gw_relay_on (th_gateway s)" "gw_relay_off_deadline (th_gateway s) = None"
proof -
  define g1 where "g1 = fold (perform env) (verdict_actions rd1 c1 (Switch r1)) g"
  define g2 where "g2 = g1\<lparr>gw_relay_on := False\<rparr>"
  define g3 where "g3 = fold (perform env) (verdict_actions rd2 c2 (Switch r2)) g2"
  define st where "st g pc = \<lparr>th_gateway = g, th_callback = [], th_loop = pc\<rparr>" for g pc
  have d1: "gw_relay_off_deadline g1 = Some (flt_add (rd_monotonic rd1) (of_exact (of_int (rc_timeout_s r1))))"
    using switched_on(2) [OF on1] by (simp add: g1_def)
  have "(gateway_step env lib)\<^sup>*\<^sup>* (idle_threads g) (st g1 LIdle)"
    using message_completes [OF _ read1, of "idle_threads g"] by (simp add: idle_threads_def st_def g1_def)
  also have "loop_step env lib (st g1 LIdle) (st g1 (LCompare now))"
    using loop_step.pending [of "st g1 LIdle" env lib now] d1 by (simp add: st_def)
  then have "(gateway_step env lib)\<^sup>*\<^sup>* (st g1 LIdle) (st g1 (LCompare now))" by (rule thread_steps)
  also have "loop_step env lib (st g1 (LCompare now)) (st g1 LOff)"
    using loop_step.due [of "st g1 (LCompare now)" now _ env lib] d1 due by (simp add: st_def)
  then have "(gateway_step env lib)\<^sup>*\<^sup>* (st g1 (LCompare now)) (st g1 LOff)" by (rule thread_steps)
  also have "loop_step env lib (st g1 LOff) (st g2 LClear)"
    using loop_step.off [of "st g1 LOff" env lib] by (simp add: st_def g2_def)
  then have "(gateway_step env lib)\<^sup>*\<^sup>* (st g1 LOff) (st g2 LClear)" by (rule thread_steps)
  also have "(gateway_step env lib)\<^sup>*\<^sup>* (st g2 LClear) (st g3 LClear)"
    using message_completes [OF _ read2, of "st g2 LClear"] by (simp add: st_def g3_def)
  also have "loop_step env lib (st g3 LClear) (st (g3\<lparr>gw_relay_off_deadline := None\<rparr>) LIdle)"
    using loop_step.clear [of "st g3 LClear" env lib] by (simp add: st_def)
  then have "(gateway_step env lib)\<^sup>*\<^sup>* (st g3 LClear) (st (g3\<lparr>gw_relay_off_deadline := None\<rparr>) LIdle)" by (rule thread_steps)
  finally have run: "(gateway_step env lib)\<^sup>*\<^sup>* (idle_threads g) (st (g3\<lparr>gw_relay_off_deadline := None\<rparr>) LIdle)" .
  have "gw_relay_on g3" using switched_on(1) [OF on2] by (simp add: g3_def)
  then show thesis by (intro that [OF run]) (simp_all add: st_def)
qed

text \<open>C4: The fail-safe deadline can be lost. When a switch-on is processed between the two assignments with which the loop expires an earlier one, the loop's second assignment clears the new deadline: the relay is on without one, and the loop, however long it runs, never switches it off.\<close>

theorem relay_can_stay_on:
  fixes rd1 rd2 :: reading
  assumes "read_command env (rd_now rd1) p1 = Inr (c1, Switch r1)" and "rc_relay_on r1"
    and "read_command env (rd_now rd2) p2 = Inr (c2, Switch r2)" and "rc_relay_on r2"
    and "flt_le (flt_add (rd_monotonic rd1) (of_exact (of_int (rc_timeout_s r1)))) now"
  shows "\<exists>s. (gateway_step env lib)\<^sup>*\<^sup>* (idle_threads (new_gateway lib m e)) s \<and> th_callback s = [] \<and> th_loop s = LIdle
     \<and> gw_relay_on (th_gateway s)
     \<and> (\<forall>s'. (loop_step env lib)\<^sup>*\<^sup>* s s' \<longrightarrow> th_loop s' = LStopped \<or> gw_relay_on (th_gateway s'))"
  by (rule expired_then_switched [OF assms]) (blast dest: loop_leaves_relay)

text \<open>The deadline is read twice: when a disconnection is handled in between, the comparison raises and the loop ends.\<close>

lemma loop_can_end:
  fixes rd :: reading
  assumes read: "read_command env (rd_now rd) p = Inr (c, Switch r)" and on: "rc_relay_on r"
  shows "\<exists>s. (gateway_step env lib)\<^sup>*\<^sup>* (idle_threads g) s \<and> th_loop s = LStopped"
proof -
  define g1 where "g1 = fold (perform env) (verdict_actions rd c (Switch r)) g"
  define g2 where "g2 = gw_on_disconnect env g1"
  define st where "st g pc = \<lparr>th_gateway = g, th_callback = [], th_loop = pc\<rparr>" for g pc
  have "(gateway_step env lib)\<^sup>*\<^sup>* (idle_threads g) (st g1 LIdle)"
    using message_completes [OF _ read, of "idle_threads g"] by (simp add: idle_threads_def st_def g1_def)
  also have "loop_step env lib (st g1 LIdle) (st g1 (LCompare (Fin 0)))"
    using loop_step.pending [of "st g1 LIdle" env lib "Fin 0"] switched_on(2) [OF on] by (simp add: st_def g1_def)
  then have "(gateway_step env lib)\<^sup>*\<^sup>* (st g1 LIdle) (st g1 (LCompare (Fin 0)))" by (rule thread_steps)
  also have "callback_step env (st g1 (LCompare (Fin 0))) ((st g1 (LCompare (Fin 0)))\<lparr>th_callback := disconnect_actions\<rparr>)"
    by (rule callback_step.disconnect) (simp add: st_def)
  then have "(gateway_step env lib)\<^sup>*\<^sup>* (st g1 (LCompare (Fin 0))) ((st g1 (LCompare (Fin 0)))\<lparr>th_callback := disconnect_actions\<rparr>)"
    by (rule thread_steps)
  also have "(gateway_step env lib)\<^sup>*\<^sup>* ((st g1 (LCompare (Fin 0)))\<lparr>th_callback := disconnect_actions\<rparr>) (st g2 (LCompare (Fin 0)))"
    using callback_completes [of "(st g1 (LCompare (Fin 0)))\<lparr>th_callback := disconnect_actions\<rparr>" disconnect_actions env lib]
    by (simp add: st_def g2_def gw_on_disconnect_def)
  also have "loop_step env lib (st g2 (LCompare (Fin 0))) (st (g2\<lparr>gw_relay_on := False\<rparr>) LStopped)"
    using loop_step.missing [of "st g2 (LCompare (Fin 0))" "Fin 0" env lib]
    by (simp add: st_def g2_def gw_on_disconnect_def disconnect_actions_def)
  then have "(gateway_step env lib)\<^sup>*\<^sup>* (st g2 (LCompare (Fin 0))) (st (g2\<lparr>gw_relay_on := False\<rparr>) LStopped)"
    by (rule thread_steps)
  finally show ?thesis by (intro exI [of _ "st (g2\<lparr>gw_relay_on := False\<rparr>) LStopped"] conjI) (simp_all add: st_def)
qed

section \<open>What a message does\<close>

text \<open>The message that a gateway adds to its queue when it acknowledges.\<close>

definition acknowledgement :: "gateway_env \<Rightarrow> reading \<Rightarrow> string \<Rightarrow> string \<Rightarrow> string \<Rightarrow> bool \<Rightarrow> sent_message" where
  "acknowledgement env rd c status code on =
     \<lparr>sm_topic = gateway_topic COMMAND_ACKS,
      sm_payload = json_text (rt_float_repr (ge_runtime env)) (JObj (ack_members rd c status code on)), sm_qos = 1, sm_retain = False\<rparr>"

lemma published_ack [simp]:
  "gw_published (publish_ack env rd c status code g) = gw_published g @ [acknowledgement env rd c status code (gw_relay_on g)]"
  by (simp add: publish_ack_def publish_json_def acknowledgement_def)

text \<open>C5: The gateway switches its relay only for a command that is its own, of the supported kind, not expired, and with a timeout within the contract; every command it can read is answered by exactly one acknowledgement that names it and tells the relay's state, and what it cannot read changes nothing.\<close>

theorem message_outcome:
  assumes "gw_on_message env rd payload g = Inr g'"
  shows "(g' = g \<and> (\<exists>e. read_command env (rd_now rd) payload = Inl e \<and> command_error e))
     \<or> (\<exists>c status code. g' = publish_ack env rd c status code g \<and> (status, code) \<in>
           {(''rejected'', ''IDENTITY_MISMATCH''), (''expired'', ''COMMAND_EXPIRED''), (''rejected'', ''UNSUPPORTED_COMMAND'')}
         \<and> gw_published g' = gw_published g @ [acknowledgement env rd c status code (gw_relay_on g)])
     \<or> (\<exists>m c r. ge_json_loads env payload = Inr (JObj m) \<and> relay_command_create_ok r
         \<and> map_of m ''device_id'' = Some (JStr DEVICE_ID) \<and> map_of m ''site_id'' = Some (JStr SITE_ID)
         \<and> map_of m ''kind'' = Some (JStr ''set_demo_relay'')
         \<and> bindE (item m ''expires_at'') (expired env (rd_now rd)) = Inr False
         \<and> gw_relay_on g' = rc_relay_on r \<and> gw_relay_off_deadline g'
             = (if rc_relay_on r then Some (flt_add (rd_monotonic rd) (of_exact (of_int (rc_timeout_s r)))) else None)
         \<and> gw_published g' = gw_published g
             @ [acknowledgement env rd c ''completed'' (if rc_relay_on r then ''RELAY_ON'' else ''RELAY_OFF'') (rc_relay_on r)])"
proof (cases "read_command env (rd_now rd) payload")
  case (Inl e)
  with assms show ?thesis by (auto simp: gw_on_message_def message_actions_def split: if_splits)
next
  case (Inr cv)
  then obtain v m cj verdict where r: "ge_json_loads env payload = Inr v" "members_of v = Inr m" "item m ''command_id'' = Inr cj"
    "judge_command env (rd_now rd) m = Inr verdict" "cv = (json_str (ge_runtime env) cj, verdict)"
    by (auto simp: read_command_def)
  define c where "c = json_str (ge_runtime env) cj"
  have g': "g' = fold (perform env) (verdict_actions rd c verdict) g"
    using assms Inr by (simp add: gw_on_message_def message_actions_def r(5) c_def)
  have v: "v = JObj m" using r(2) by (cases v) auto
  show ?thesis
  proof (cases verdict)
    case (Answer status code)
    then have "(status, code) \<in> {(''rejected'', ''IDENTITY_MISMATCH''), (''expired'', ''COMMAND_EXPIRED''), (''rejected'', ''UNSUPPORTED_COMMAND'')}"
      using r(4) by (auto simp: judge_command_def split: if_splits)
    then show ?thesis using g' Answer by (intro disjI2 disjI1) (simp, blast)
  next
    case (Switch q)
    have "relay_command_create_ok q" using switched_command Inr r(5) Switch by blast
    moreover have "map_of m ''device_id'' = Some (JStr DEVICE_ID)" "map_of m ''site_id'' = Some (JStr SITE_ID)"
      "map_of m ''kind'' = Some (JStr ''set_demo_relay'')" "bindE (item m ''expires_at'') (expired env (rd_now rd)) = Inr False"
      using r(4) Switch by (auto simp: judge_command_def split: if_splits)
    ultimately show ?thesis using g' Switch r(1) v by (intro disjI2) auto
  qed
qed

section \<open>Examples\<close>

definition demo_reading :: "flt \<Rightarrow> reading" where
  "demo_reading t = \<lparr>rd_now = 0, rd_sent_at = 0, rd_monotonic = t, rd_uuid = ''u1''\<rparr>"

definition demo_switch :: relay_command_create where
  "demo_switch = \<lparr>rc_relay_on = True, rc_timeout_s = 30\<rparr>"

definition demo_env :: "json \<Rightarrow> gateway_env" where
  "demo_env v = \<lparr>ge_runtime = flat_runtime, ge_json_loads = (\<lambda>_. Inr v), ge_fromisoformat = (\<lambda>_. Inr (Aware 10000000)),
     ge_read_relay = (\<lambda>_. Some demo_switch), ge_error_count = (\<lambda>_. 1)\<rparr>"

definition demo_command :: json where
  "demo_command = JObj [(''command_id'', JStr ''c1''), (''device_id'', JStr DEVICE_ID), (''site_id'', JStr SITE_ID),
     (''expires_at'', JStr ''1970-01-01T00:00:10Z''), (''kind'', JStr ''set_demo_relay''), (''parameters'', JNull)]"

lemma demo_read: "read_command (demo_env demo_command) 0 [] = Inr (''c1'', Switch demo_switch)"
  by (simp add: read_command_def judge_command_def demo_env_def demo_command_def expired_def item_def lookup_def
      validated_def demo_switch_def relay_command_create_ok_def)

lemma demo_switched: "gw_on_message (demo_env demo_command) (demo_reading t) [] g
    = Inr (fold (perform (demo_env demo_command)) (verdict_actions (demo_reading t) ''c1'' (Switch demo_switch)) g)"
  using demo_read by (simp add: gw_on_message_def message_actions_def demo_reading_def)


theorem relay_can_stay_on_witness:
  "\<exists>s. (gateway_step (demo_env demo_command) still_lib)\<^sup>*\<^sup>* (idle_threads (new_gateway still_lib (Fin 0) 0)) s
     \<and> th_loop s = LIdle \<and> gw_relay_on (th_gateway s)"
proof -
  have read: "read_command (demo_env demo_command) (rd_now (demo_reading (Fin 0))) [] = Inr (''c1'', Switch demo_switch)"
    using demo_read by (simp add: demo_reading_def)
  have on: "rc_relay_on demo_switch" by (simp add: demo_switch_def)
  have "flt_le (flt_add (rd_monotonic (demo_reading (Fin 0))) (of_exact (of_int (rc_timeout_s demo_switch)))) (Fin 30)"
    by (simp add: demo_reading_def demo_switch_def of_exact_small rnd_numeral)
  from relay_can_stay_on [OF read on read on this] show ?thesis by blast
qed

theorem message_outcome_witness:
  "\<exists>g'. gw_on_message (demo_env (JObj [(''command_id'', JStr ''c1'')])) (demo_reading (Fin 0)) [] (new_gateway still_lib (Fin 0) 0)
       = Inr g' \<and> \<not> gw_relay_on g'"
proof -
  let ?env = "demo_env (JObj [(''command_id'', JStr ''c1'')])"
  have "\<exists>g'. gw_on_message ?env (demo_reading (Fin 0)) [] (new_gateway still_lib (Fin 0) 0) = Inr g'"
    by (simp add: gw_on_message_def message_actions_def read_command_def judge_command_def demo_env_def item_def lookup_def)
  then obtain g' where g': "gw_on_message ?env (demo_reading (Fin 0)) [] (new_gateway still_lib (Fin 0) 0) = Inr g'" by blast
  have "ge_json_loads ?env [] = Inr (JObj m) \<Longrightarrow> map_of m ''device_id'' = None" for m by (auto simp: demo_env_def)
  moreover have off: "\<not> gw_relay_on (new_gateway still_lib (Fin 0) 0)" by (simp add: new_gateway_def)
  ultimately show ?thesis using message_outcome [OF g'] g' by auto
qed

end
