(* ===== verification/Modbus.thy ===== *)
theory Modbus
  imports Prelude "HOL-Library.Word"
begin

text \<open>
  The deterministic Modbus RTU node, \<open>simulator/modbus/protocol.py\<close>, and one turn of its
  pseudo-terminal server, \<open>pty_node.py\<close>. A byte is an \<open>8 word\<close>; the checksum register and
  the register values are Python's unbounded integers, so building a \<open>bytes\<close> object and
  \<open>to_bytes\<close> may raise. The lemmas on the checksum show that it stays below \<open>2 ^ 16\<close> and that
  no corruption of a single byte goes unnoticed; the rest states what a node answers.
\<close>

unbundle bit_operations_syntax

type_synonym pybytes = "8 word list"

section \<open>Bytes\<close>

text \<open>\<open>bytes([...])\<close> and \<open>int.to_bytes(2, ...)\<close>, which raise out of range.\<close>

definition bytes_of :: "int list \<Rightarrow> pybytes res" where
  "bytes_of ns = bindE (raise_if (\<not> list_all (\<lambda>n. 0 \<le> n \<and> n < 256) ns) (ValueError ''bytes must be in range(0, 256)''))
     (\<lambda>_. Inr (map word_of_int ns))"

definition to_bytes_big :: "int \<Rightarrow> pybytes res" where
  "to_bytes_big n = bindE (raise_if (n < 0 \<or> 65536 \<le> n) (OtherException ''OverflowError''))
     (\<lambda>_. Inr [word_of_int (n div 256), word_of_int (n mod 256)])"

definition to_bytes_little :: "int \<Rightarrow> pybytes res" where
  "to_bytes_little n = bindE (to_bytes_big n) (\<lambda>bs. Inr (rev bs))"

text \<open>\<open>int.from_bytes\<close> of two bytes.\<close>

definition from_big :: "8 word \<Rightarrow> 8 word \<Rightarrow> int" where
  "from_big hi lo = uint hi * 256 + uint lo"

section \<open>The checksum\<close>

definition crc_shift :: "int \<Rightarrow> int" where
  "crc_shift crc = (if crc AND 1 \<noteq> 0 then drop_bit 1 crc XOR 0xA001 else drop_bit 1 crc)"

definition crc_byte :: "8 word \<Rightarrow> int \<Rightarrow> int" where
  "crc_byte value crc = (crc_shift ^^ 8) (crc XOR uint value)"

definition crc16 :: "pybytes \<Rightarrow> int" where
  "crc16 data = fold crc_byte data 0xFFFF"

definition with_crc :: "pybytes \<Rightarrow> pybytes res" where
  "with_crc payload = bindE (to_bytes_little (crc16 payload)) (\<lambda>checksum. Inr (payload @ checksum))"

definition read_request :: "int \<Rightarrow> int \<Rightarrow> int \<Rightarrow> pybytes res" where
  "read_request node_address first quantity =
     bindE (bytes_of [node_address, 3, drop_bit 8 first, first AND 0xFF, drop_bit 8 quantity, quantity AND 0xFF]) with_crc"

section \<open>The node\<close>

datatype node_scenario = NORMAL | TIMEOUT | BAD_CRC | ILLEGAL_ADDRESS | STALE

definition REGISTER_COUNT :: int where "REGISTER_COUNT = 18"

record node =
  nd_node_address :: int
  nd_scenario :: node_scenario
  nd_temperature_centi_c :: int
  nd_adc_raw :: int
  nd_sensor_status :: int
  nd_fault_flags :: int
  nd_uptime_ms :: int
  nd_reset_count :: int
  nd_crc_error_count :: int
  nd_exception_count :: int
  nd_config_generation :: int
  nd_calibration_offset_centi_c :: int
  nd_calibration_gain_q15 :: int
  nd_stale_registers :: "int list option"

definition new_node :: node where
  "new_node = \<lparr>nd_node_address = 1, nd_scenario = NORMAL, nd_temperature_centi_c = 4250, nd_adc_raw = 2048,
     nd_sensor_status = 0, nd_fault_flags = 0, nd_uptime_ms = 120000, nd_reset_count = 3, nd_crc_error_count = 0,
     nd_exception_count = 0, nd_config_generation = 1, nd_calibration_offset_centi_c = 0,
     nd_calibration_gain_q15 = 32768, nd_stale_registers = None\<rparr>"

definition current_registers :: "node \<Rightarrow> int list" where
  "current_registers n =
     [0x0100, 0x4949, nd_node_address n, 0x0001, nd_sensor_status n, nd_fault_flags n,
      nd_temperature_centi_c n AND 0xFFFF, nd_adc_raw n,
      drop_bit 16 (nd_uptime_ms n) AND 0xFFFF, nd_uptime_ms n AND 0xFFFF,
      drop_bit 16 (nd_reset_count n) AND 0xFFFF, nd_reset_count n AND 0xFFFF,
      nd_crc_error_count n AND 0xFFFF, nd_exception_count n AND 0xFFFF,
      drop_bit 16 (nd_config_generation n) AND 0xFFFF, nd_config_generation n AND 0xFFFF,
      nd_calibration_offset_centi_c n AND 0xFFFF, nd_calibration_gain_q15 n]"

definition node_registers :: "node \<Rightarrow> node \<times> int list" where
  "node_registers n =
     (if nd_scenario n = STALE
      then case nd_stale_registers n of
             None \<Rightarrow> (n\<lparr>nd_stale_registers := Some (current_registers n)\<rparr>, current_registers n)
           | Some rs \<Rightarrow> (n, rs)
      else (n\<lparr>nd_stale_registers := None\<rparr>, current_registers n))"

text \<open>\<open>_exception\<close>: the counter is raised before the bytes are built.\<close>

definition node_exception :: "8 word \<Rightarrow> int \<Rightarrow> node \<Rightarrow> node \<times> pybytes res" where
  "node_exception function code n =
     (n\<lparr>nd_exception_count := nd_exception_count n + 1\<rparr>,
      bindE (bytes_of [nd_node_address n, uint function OR 0x80, code]) with_crc)"

definition read_holding :: "8 word \<Rightarrow> int \<Rightarrow> int \<Rightarrow> node \<Rightarrow> node \<times> pybytes res" where
  "read_holding function first quantity n =
     (if quantity < 1 \<or> REGISTER_COUNT < quantity then node_exception function 0x03 n
      else if REGISTER_COUNT \<le> first \<or> REGISTER_COUNT < first + quantity then node_exception function 0x02 n
      else let (n', rs) = node_registers n; values = take (nat quantity) (drop (nat first) rs) in
        (n', bindE (mapE to_bytes_big values) (\<lambda>words.
             bindE (bytes_of [nd_node_address n, uint function, int (length (concat words))]) (\<lambda>header.
             with_crc (header @ concat words)))))"

definition crc_matches :: "pybytes \<Rightarrow> bool" where
  "crc_matches frame = (crc16 (butlast (butlast frame)) = from_big (last frame) (last (butlast frame)))"

text \<open>The last byte flipped in one bit.\<close>

definition corrupted :: "pybytes \<Rightarrow> pybytes" where
  "corrupted response = butlast response @ [last response XOR 1]"

definition node_response :: "pybytes \<Rightarrow> node \<Rightarrow> node \<times> pybytes res" where
  "node_response frame n =
     (let function = frame ! 1 in
      if nd_scenario n = ILLEGAL_ADDRESS then node_exception function 0x02 n
      else if function = 0x03
      then read_holding function (from_big (frame ! 2) (frame ! 3)) (from_big (frame ! 4) (frame ! 5)) n
      else node_exception function 0x01 n)"

definition handle_frame :: "pybytes \<Rightarrow> node \<Rightarrow> node \<times> pybytes option res" where
  "handle_frame frame n =
     (if nd_scenario n = TIMEOUT then (n, Inr None)
      else if length frame \<noteq> 8 \<or> \<not> crc_matches frame
      then (n\<lparr>nd_crc_error_count := nd_crc_error_count n + 1\<rparr>, Inr None)
      else if uint (frame ! 0) \<noteq> nd_node_address n then (n, Inr None)
      else let (n', response) = node_response frame n in
        (n', bindE response (\<lambda>r. Inr (Some (if nd_scenario n = BAD_CRC then corrupted r else r)))))"

text \<open>One turn of the server: \<open>None\<close> when nothing arrived in time, else the frame read and what is written back.\<close>

definition serve_once :: "pybytes option \<Rightarrow> node \<Rightarrow> node \<times> (bool \<times> pybytes list) res" where
  "serve_once request n =
     (case request of
        None \<Rightarrow> (n, Inr (False, []))
      | Some frame \<Rightarrow>
          let (n', r) = handle_frame frame n in
          (n', bindE r (\<lambda>response. Inr (True, case response of None \<Rightarrow> [] | Some bs \<Rightarrow> [bs]))))"

section \<open>The checksum register stays in sixteen bits\<close>

abbreviation u16 :: "int \<Rightarrow> bool" where "u16 x \<equiv> 0 \<le> x \<and> x < 65536"

lemma u16_take_bit: "u16 x \<longleftrightarrow> take_bit 16 x = x"
  by (simp add: take_bit_int_eq_self_iff)

lemma u16_xor: "u16 x \<Longrightarrow> u16 y \<Longrightarrow> u16 (x XOR y)"
  unfolding u16_take_bit by simp

lemma u16_half: "u16 x \<Longrightarrow> u16 (drop_bit 1 x)"
  by (simp add: drop_bit_eq_div) linarith

lemma u16_byte: "u16 (uint (v :: 8 word))"
  using uint_bounded [of v] by simp

lemma u16_shift: "u16 x \<Longrightarrow> u16 (crc_shift x)"
  using u16_xor [of "drop_bit 1 x" "0xA001"] u16_half [of x] by (simp add: crc_shift_def)

lemma u16_shifts: "u16 x \<Longrightarrow> u16 ((crc_shift ^^ k) x)"
  by (induction k) (simp_all add: u16_shift)

lemma u16_crc_byte: "u16 x \<Longrightarrow> u16 (crc_byte v x)"
  unfolding crc_byte_def by (intro u16_shifts u16_xor u16_byte)

lemma u16_crc: "u16 x \<Longrightarrow> u16 (fold crc_byte bs x)"
  by (induction bs arbitrary: x) (simp_all add: u16_crc_byte)

lemma u16_crc16: "u16 (crc16 bs)"
  unfolding crc16_def by (rule u16_crc) simp

section \<open>The checksum step can be undone\<close>

text \<open>The polynomial has its top bit set, so the top bit of the new register is the bit shifted out.\<close>

lemma shifted_out: "u16 x \<Longrightarrow> bit (crc_shift x) 15 \<longleftrightarrow> odd x"
proof -
  assume "u16 x"
  then have "x div 65536 = 0" by simp
  then have "\<not> bit (drop_bit 1 x) 15" by (simp add: drop_bit_eq_div bit_iff_odd flip: zdiv_zmult2_eq)
  then show ?thesis
    by (simp add: crc_shift_def bit_xor_iff and_one_eq odd_iff_mod_2_eq_one)
qed

lemma crc_shift_inj:
  assumes "u16 x" "u16 y" and eq: "crc_shift x = crc_shift y"
  shows "x = y"
proof -
  have par: "odd x \<longleftrightarrow> odd y" using shifted_out [OF assms(1)] shifted_out [OF assms(2)] eq by simp
  have "drop_bit 1 x = drop_bit 1 y"
  proof (cases "odd x")
    case True
    with eq par have "(drop_bit 1 x XOR 0xA001) XOR 0xA001 = (drop_bit 1 y XOR 0xA001) XOR 0xA001"
      by (simp add: crc_shift_def and_one_eq odd_iff_mod_2_eq_one)
    then show ?thesis by (simp only: xor.assoc xor_self_eq xor.right_neutral)
  next
    case False
    with eq par show ?thesis by (simp add: crc_shift_def and_one_eq even_iff_mod_2_eq_zero)
  qed
  then have "x div 2 = y div 2" by (simp add: drop_bit_eq_div)
  with par show ?thesis by presburger
qed

lemma crc_shifts_inj: "u16 x \<Longrightarrow> u16 y \<Longrightarrow> (crc_shift ^^ k) x = (crc_shift ^^ k) y \<Longrightarrow> x = y"
proof (induction k)
  case (Suc k)
  have "(crc_shift ^^ k) x = (crc_shift ^^ k) y"
    by (rule crc_shift_inj [OF u16_shifts [OF Suc.prems(1)] u16_shifts [OF Suc.prems(2)]]) (use Suc.prems(3) in simp)
  with Suc show ?case by simp
qed simp

lemma crc_byte_inj: "u16 x \<Longrightarrow> u16 y \<Longrightarrow> crc_byte v x = crc_byte v y \<Longrightarrow> x = y"
proof -
  assume u: "u16 x" "u16 y" and "crc_byte v x = crc_byte v y"
  then have "x XOR uint v = y XOR uint v"
    unfolding crc_byte_def
    using crc_shifts_inj [OF u16_xor [OF u(1) u16_byte] u16_xor [OF u(2) u16_byte]] by blast
  then have "(x XOR uint v) XOR uint v = (y XOR uint v) XOR uint v" by simp
  then show ?thesis by (simp only: xor.assoc xor_self_eq xor.right_neutral)
qed

lemma crc_fold_inj: "u16 x \<Longrightarrow> u16 y \<Longrightarrow> fold crc_byte bs x = fold crc_byte bs y \<Longrightarrow> x = y"
proof (induction bs arbitrary: x y)
  case (Cons v bs)
  have "crc_byte v x = crc_byte v y"
    by (rule Cons.IH [OF u16_crc_byte [OF Cons.prems(1)] u16_crc_byte [OF Cons.prems(2)]]) (use Cons.prems(3) in simp)
  then show ?case by (rule crc_byte_inj [OF Cons.prems(1,2)])
qed simp

lemma crc_byte_distinguishes:
  assumes "u16 x" and "crc_byte v x = crc_byte w x"
  shows "v = w"
proof -
  have "x XOR uint v = x XOR uint w"
    using crc_shifts_inj [OF u16_xor [OF assms(1) u16_byte] u16_xor [OF assms(1) u16_byte]] assms(2)
    unfolding crc_byte_def by blast
  then have "x XOR (x XOR uint v) = x XOR (x XOR uint w)" by simp
  then have "uint v = uint w" by (simp flip: xor.assoc)
  then show ?thesis by (simp only: word_uint_eq_iff)
qed

lemma crc16_distinguishes:
  assumes "i < length bs" and "crc16 (bs[i := v]) = crc16 bs"
  shows "bs[i := v] = bs"
proof -
  define s where "s = fold crc_byte (take i bs) 0xFFFF"
  have s: "u16 s" unfolding s_def by (rule u16_crc) simp
  have "fold crc_byte bs 0xFFFF = fold crc_byte (drop (Suc i) bs) (crc_byte (bs ! i) s)"
    by (subst id_take_nth_drop [OF assms(1)]) (simp add: s_def)
  moreover have "fold crc_byte (bs[i := v]) 0xFFFF = fold crc_byte (drop (Suc i) bs) (crc_byte v s)"
    using assms(1) by (simp add: s_def upd_conv_take_nth_drop)
  ultimately have "fold crc_byte (drop (Suc i) bs) (crc_byte v s) = fold crc_byte (drop (Suc i) bs) (crc_byte (bs ! i) s)"
    using assms(2) by (simp add: crc16_def)
  then have "crc_byte v s = crc_byte (bs ! i) s" by (rule crc_fold_inj [OF u16_crc_byte [OF s] u16_crc_byte [OF s]])
  from crc_byte_distinguishes [OF s this] show ?thesis by (simp only: list_update_id)
qed

section \<open>Frames\<close>

lemma to_bytes_big_Inr: "u16 n \<Longrightarrow> to_bytes_big n = Inr [word_of_int (n div 256), word_of_int (n mod 256)]"
  by (simp add: to_bytes_big_def)

lemma from_big_bytes: "u16 n \<Longrightarrow> from_big (word_of_int (n div 256)) (word_of_int (n mod 256)) = n"
proof -
  assume "u16 n"
  then have "0 \<le> n div 256" "n div 256 < 256" by linarith+
  then show ?thesis by (simp add: from_big_def take_bit_eq_mod unsigned_of_int)
qed

lemma from_big_parts: "from_big a b mod 256 = uint b" "from_big a b div 256 = uint a"
  using uint_bounded [of b] by (simp_all add: from_big_def)

lemma from_big_inj: "from_big a b = from_big c d \<Longrightarrow> a = c \<and> b = d"
  by (metis from_big_parts word_uint_eq_iff)

text \<open>A checksum never overflows its two bytes, low byte first.\<close>

lemma with_crc_total:
  "with_crc p = Inr (p @ [word_of_int (crc16 p mod 256), word_of_int (crc16 p div 256)])"
  using u16_crc16 [of p] by (simp add: with_crc_def to_bytes_little_def to_bytes_big_Inr)

lemma with_crc_matches: "with_crc p = Inr f \<Longrightarrow> crc_matches f"
  using from_big_bytes [OF u16_crc16 [of p]] by (auto simp: with_crc_total crc_matches_def butlast_append)

lemma split_frame: "2 \<le> length f \<Longrightarrow> f = butlast (butlast f) @ [last (butlast f), last f]"
proof (cases f rule: rev_cases)
  case (snoc g b)
  moreover assume "2 \<le> length f"
  ultimately show ?thesis by (cases g rule: rev_cases) (simp_all add: butlast_append)
qed simp

lemma crc_matches_iff: "2 \<le> length f \<Longrightarrow>
   crc_matches f \<longleftrightarrow> from_big (f ! (length f - 1)) (f ! (length f - 2)) = crc16 (take (length f - 2) f)"
  by (subst (1 2 3 4) split_frame) (auto simp: crc_matches_def butlast_append nth_append)

text \<open>Changing one byte of a frame, of its checksum too, makes the checksum wrong.\<close>

lemma one_byte_unnoticed:
  assumes "2 \<le> length f" and "i < length f" and "crc_matches f" and "crc_matches (f[i := v])"
  shows "f[i := v] = f"
proof -
  let ?k = "length f - 2"
  show ?thesis
  proof (cases "i < ?k")
    case True
    with assms have "crc16 ((take ?k f)[i := v]) = crc16 (take ?k f)"
      by (simp add: crc_matches_iff take_update_swap)
    with True assms(1) have "(take ?k f)[i := v] = take ?k f" by (intro crc16_distinguishes) simp_all
    with True have "v = f ! i" by (metis length_take min_less_iff_conj assms(2) nth_list_update_eq nth_take)
    then show ?thesis by simp
  next
    case False
    with assms have "from_big (f[i := v] ! (length f - 1)) (f[i := v] ! ?k) = from_big (f ! (length f - 1)) (f ! ?k)"
      by (simp add: crc_matches_iff)
    then have "f[i := v] ! (length f - 1) = f ! (length f - 1) \<and> f[i := v] ! ?k = f ! ?k" by (rule from_big_inj)
    moreover have "i = length f - 1 \<or> i = ?k" using False assms(1,2) by linarith
    ultimately have "v = f ! i" using assms(2) by (auto simp: nth_list_update split: if_splits)
    then show ?thesis by simp
  qed
qed

text \<open>C6: A request in which one byte was changed on the line, in its payload or in its checksum, is never acted upon: the node answers nothing and only counts the error.\<close>

theorem corrupted_request_is_ignored:
  assumes "crc_matches f" and "length f = 8" and "i < 8" and "v \<noteq> f ! i" and "nd_scenario n \<noteq> TIMEOUT"
  shows "handle_frame (f[i := v]) n = (n\<lparr>nd_crc_error_count := nd_crc_error_count n + 1\<rparr>, Inr None)"
proof -
  have "f[i := v] \<noteq> f" using assms(2-4) by (metis nth_list_update_eq)
  then have "\<not> crc_matches (f[i := v])" using one_byte_unnoticed [of f i v] assms(1-3) by auto
  then show ?thesis using assms(2,5) by (simp add: handle_frame_def)
qed

section \<open>What a node answers\<close>

text \<open>The register values in the data of a response, as a master reads them: pairs of bytes, high byte first.\<close>

fun words_of :: "pybytes \<Rightarrow> int list" where
  "words_of (hi # lo # bs) = from_big hi lo # words_of bs"
| "words_of _ = []"

lemma words_of_values:
  "list_all u16 vs \<Longrightarrow> \<exists>ws. mapE to_bytes_big vs = Inr ws \<and> words_of (concat ws) = vs \<and> length (concat ws) = 2 * length vs"
proof (induction vs)
  case (Cons v vs)
  then obtain ws where "mapE to_bytes_big vs = Inr ws" "words_of (concat ws) = vs" "length (concat ws) = 2 * length vs" by auto
  moreover have "u16 v" using Cons.prems by simp
  ultimately show ?case by (simp add: to_bytes_big_Inr from_big_bytes)
qed simp

lemma bytes_of_Inr: "list_all (\<lambda>n. 0 \<le> n \<and> n < 256) ns \<Longrightarrow> bytes_of ns = Inr (map word_of_int ns)"
  by (simp add: bytes_of_def)

lemma uint_byte: "0 \<le> n \<Longrightarrow> n < 256 \<Longrightarrow> uint (word_of_int n :: 8 word) = n"
  by (simp add: unsigned_of_int take_bit_eq_mod)

lemma mask_ff: "x AND 0xFF = x mod (256 :: int)"
proof -
  have "x AND mask 8 = x mod 256" by (simp flip: take_bit_eq_mask add: take_bit_eq_mod)
  then show ?thesis by (simp add: mask_eq_exp_minus_1)
qed

lemma mask_ffff: "x AND 0xFFFF = x mod (65536 :: int)"
proof -
  have "x AND mask 16 = x mod 65536" by (simp flip: take_bit_eq_mask add: take_bit_eq_mod)
  then show ?thesis by (simp add: mask_eq_exp_minus_1)
qed

text \<open>A request built by \<open>read_request\<close>.\<close>

lemma read_request_frame:
  assumes "0 \<le> a" "a < 256" and "u16 first" and "u16 q"
  obtains c where "read_request a first q =
      Inr ([word_of_int a, 3, word_of_int (first div 256), word_of_int (first mod 256),
            word_of_int (q div 256), word_of_int (q mod 256)] @ c)" "length c = 2"
    "crc_matches ([word_of_int a, 3, word_of_int (first div 256), word_of_int (first mod 256),
            word_of_int (q div 256), word_of_int (q mod 256)] @ c)"
proof -
  let ?p = "[word_of_int a, 3, word_of_int (first div 256), word_of_int (first mod 256),
            word_of_int (q div 256), word_of_int (q mod 256)] :: pybytes"
  have b: "list_all (\<lambda>n. 0 \<le> n \<and> n < 256) [a, 3, drop_bit 8 first, first AND 0xFF, drop_bit 8 q, q AND 0xFF]"
    using assms by (simp add: mask_ff drop_bit_eq_div) linarith
  have "read_request a first q = with_crc ?p"
    unfolding read_request_def bytes_of_Inr [OF b] by (simp add: mask_ff drop_bit_eq_div)
  moreover have "crc_matches (?p @ [word_of_int (crc16 ?p mod 256), word_of_int (crc16 ?p div 256)])"
    by (rule with_crc_matches [of ?p]) (simp add: with_crc_total)
  ultimately show thesis by (intro that) (simp_all add: with_crc_total)
qed

lemma read_holding_answer:
  assumes "1 \<le> q" "0 \<le> first" "first + q \<le> REGISTER_COUNT" and "0 \<le> nd_node_address n" "nd_node_address n < 256"
    and "list_all u16 (snd (node_registers n))" and "length (snd (node_registers n)) = 18"
  obtains ws r c where "read_holding 3 first q n = (fst (node_registers n), Inr r)" "crc_matches r"
    "r = [word_of_int (nd_node_address n), 3, word_of_int (2 * q)] @ concat ws @ c" "length c = 2"
    "length (concat ws) = 2 * nat q" "words_of (concat ws) = take (nat q) (drop (nat first) (snd (node_registers n)))"
proof -
  let ?vs = "take (nat q) (drop (nat first) (snd (node_registers n)))"
  have "list_all u16 ?vs" using assms(6) by (auto simp: list_all_iff dest!: in_set_takeD in_set_dropD)
  from words_of_values [OF this] obtain ws where
    ws: "mapE to_bytes_big ?vs = Inr ws" "words_of (concat ws) = ?vs" "length (concat ws) = 2 * length ?vs" by blast
  have len: "length ?vs = nat q" using assms(1-3,7) by (simp add: REGISTER_COUNT_def)
  define h :: pybytes where "h = [word_of_int (nd_node_address n), 3, word_of_int (2 * q)]"
  have "2 * q < 256" "0 \<le> 2 * q" using assms(1-3) by (simp_all add: REGISTER_COUNT_def)
  then have head: "bytes_of [nd_node_address n, 3, int (length (concat ws))] = Inr h"
    using assms(1,4,5) len by (simp add: ws(3) h_def bytes_of_Inr)
  define r where "r = (h @ concat ws) @ [word_of_int (crc16 (h @ concat ws) mod 256), word_of_int (crc16 (h @ concat ws) div 256)]"
  have crc: "with_crc (h @ concat ws) = Inr r" by (simp add: with_crc_total r_def)
  show thesis
  proof (rule that [of r ws "[word_of_int (crc16 (h @ concat ws) mod 256), word_of_int (crc16 (h @ concat ws) div 256)]"])
    have "\<not> (q < 1 \<or> REGISTER_COUNT < q)" "\<not> (REGISTER_COUNT \<le> first \<or> REGISTER_COUNT < first + q)"
      using assms(1-3) by (auto simp: REGISTER_COUNT_def)
    then show "read_holding 3 first q n = (fst (node_registers n), Inr r)"
      using ws(1) head crc by (simp add: read_holding_def Let_def split_beta)
    show "crc_matches r" using with_crc_matches [OF crc] .
    show "r = [word_of_int (nd_node_address n), 3, word_of_int (2 * q)] @ concat ws @
        [word_of_int (crc16 (h @ concat ws) mod 256), word_of_int (crc16 (h @ concat ws) div 256)]"
      unfolding r_def h_def by (simp only: append.assoc)
    show "length (concat ws) = 2 * nat q" using ws(3) len by simp
  qed (use ws(2) in simp_all)
qed

text \<open>What the fields of a node must satisfy for its registers to be sixteen-bit words; the fields that are masked may have any value.\<close>

definition node_ok :: "node \<Rightarrow> bool" where
  "node_ok n = (0 \<le> nd_node_address n \<and> nd_node_address n < 256 \<and> u16 (nd_sensor_status n) \<and> u16 (nd_fault_flags n)
     \<and> u16 (nd_adc_raw n) \<and> u16 (nd_calibration_gain_q15 n)
     \<and> (case nd_stale_registers n of None \<Rightarrow> True | Some rs \<Rightarrow> length rs = 18 \<and> list_all u16 rs))"

lemma current_registers_u16: "node_ok n \<Longrightarrow> list_all u16 (current_registers n)"
  by (simp add: node_ok_def current_registers_def mask_ffff)

lemma node_registers_ok:
  assumes "node_ok n"
  shows "list_all u16 (snd (node_registers n))" "length (snd (node_registers n)) = 18" "node_ok (fst (node_registers n))"
proof -
  have "length (current_registers n) = 18" by (simp add: current_registers_def)
  then show "list_all u16 (snd (node_registers n))" "length (snd (node_registers n)) = 18" "node_ok (fst (node_registers n))"
    using assms current_registers_u16 [OF assms]
    by (auto simp: node_registers_def node_ok_def split: option.splits)
qed

lemma node_ok_counters [simp]:
  "node_ok (n\<lparr>nd_exception_count := k\<rparr>) = node_ok n" "node_ok (n\<lparr>nd_crc_error_count := k\<rparr>) = node_ok n"
  by (simp_all add: node_ok_def)

lemma exception_byte: "0 \<le> uint (f :: 8 word) OR 0x80" "uint f OR 0x80 < (256 :: int)"
proof -
  have "take_bit 8 (uint f) = uint f" using uint_bounded [of f] by (simp add: take_bit_int_eq_self_iff)
  then have "take_bit 8 (uint f OR 0x80) = uint f OR (0x80 :: int)" by simp
  then show "0 \<le> uint f OR 0x80" "uint f OR 0x80 < (256 :: int)"
    using take_bit_nonnegative [of 8 "uint f OR 0x80"] take_bit_int_less_exp [of 8 "uint f OR 0x80"] by simp_all
qed

lemma node_exception_answer:
  assumes "node_ok n" and "code \<in> {1, 2, 3}"
  obtains c where "node_exception function code n = (n\<lparr>nd_exception_count := nd_exception_count n + 1\<rparr>,
      Inr ([word_of_int (nd_node_address n), word_of_int (uint function OR 0x80), word_of_int code] @ c))" "length c = 2"
    "crc_matches ([word_of_int (nd_node_address n), word_of_int (uint function OR 0x80), word_of_int code] @ c)"
proof -
  let ?p = "[word_of_int (nd_node_address n), word_of_int (uint function OR 0x80), word_of_int code] :: pybytes"
  have b: "list_all (\<lambda>n. 0 \<le> n \<and> n < 256) [nd_node_address n, uint function OR 0x80, code]"
    using assms exception_byte by (auto simp: node_ok_def)
  let ?c = "[word_of_int (crc16 ?p mod 256), word_of_int (crc16 ?p div 256)] :: pybytes"
  have crc: "with_crc ?p = Inr (?p @ ?c)" by (rule with_crc_total)
  show thesis
  proof (rule that [of ?c])
    show "node_exception function code n = (n\<lparr>nd_exception_count := nd_exception_count n + 1\<rparr>, Inr (?p @ ?c))"
      unfolding node_exception_def bytes_of_Inr [OF b] using crc by simp
    show "crc_matches (?p @ ?c)" using with_crc_matches [OF crc] .
  qed simp
qed

lemma from_big_range: "u16 (from_big a b)"
  using uint_bounded [of a] uint_bounded [of b] by (simp add: from_big_def)

text \<open>Every answer before it is corrupted: it is framed, comes from the node and names the function asked for, marked when it is an exception.\<close>

lemma node_response_shape:
  assumes "node_ok n"
  obtains n' r where "node_response f n = (n', Inr r)" "node_ok n'" "nd_scenario n' = nd_scenario n" "crc_matches r"
    "5 \<le> length r" "r ! 0 = word_of_int (nd_node_address n)" "r ! 1 = f ! 1 \<or> r ! 1 = word_of_int (uint (f ! 1) OR 0x80)"
proof -
  note answer = that
  have exc: thesis if e: "node_response f n = node_exception (f ! 1) code n" and code: "code \<in> {1, 2, 3}" for code
  proof -
    obtain c where "node_exception (f ! 1) code n = (n\<lparr>nd_exception_count := nd_exception_count n + 1\<rparr>,
        Inr ([word_of_int (nd_node_address n), word_of_int (uint (f ! 1) OR 0x80), word_of_int code] @ c))" "length c = 2"
      "crc_matches ([word_of_int (nd_node_address n), word_of_int (uint (f ! 1) OR 0x80), word_of_int code] @ c)"
      by (rule node_exception_answer [OF assms code, of "f ! 1"])
    with e assms show thesis
      by (intro answer [of "n\<lparr>nd_exception_count := nd_exception_count n + 1\<rparr>"
            "[word_of_int (nd_node_address n), word_of_int (uint (f ! 1) OR 0x80), word_of_int code] @ c"]) simp_all
  qed
  define first q where "first = from_big (f ! 2) (f ! 3)" and "q = from_big (f ! 4) (f ! 5)"
  show thesis
  proof (cases "nd_scenario n = ILLEGAL_ADDRESS \<or> f ! 1 \<noteq> 3")
    case True
    then show thesis by (intro exc [of "if nd_scenario n = ILLEGAL_ADDRESS then 2 else 1"]) (auto simp: node_response_def)
  next
    case False
    then have resp: "node_response f n = read_holding 3 first q n" by (simp add: node_response_def first_def q_def)
    show thesis
    proof (cases "1 \<le> q \<and> first + q \<le> REGISTER_COUNT")
      case True
      have "0 \<le> nd_node_address n" "nd_node_address n < 256" "0 \<le> first"
        using assms from_big_range [of "f ! 2" "f ! 3"] by (simp_all add: node_ok_def first_def)
      from read_holding_answer [OF _ this(3) _ this(1,2) node_registers_ok(1,2) [OF assms]] True
      obtain ws r c where "read_holding 3 first q n = (fst (node_registers n), Inr r)" "crc_matches r"
        "r = [word_of_int (nd_node_address n), 3, word_of_int (2 * q)] @ concat ws @ c" "length c = 2" by blast
      moreover have "nd_scenario (fst (node_registers n)) = nd_scenario n"
        by (simp add: node_registers_def split: option.splits)
      ultimately show thesis
        using resp False node_registers_ok(3) [OF assms] by (intro answer [of "fst (node_registers n)" r]) simp_all
    next
      case invalid: False
      then show thesis
        using resp False
        by (intro exc [of "if q < 1 \<or> REGISTER_COUNT < q then 3 else 2"]) (auto simp: read_holding_def REGISTER_COUNT_def)
    qed
  qed
qed

lemma corrupted_mismatch:
  assumes "2 \<le> length r" and "crc_matches r"
  shows "\<not> crc_matches (corrupted r)"
proof
  assume bad: "crc_matches (corrupted r)"
  have last: "last r = r ! (length r - 1)" using assms(1) by (intro last_conv_nth) auto
  have "corrupted r = r[length r - 1 := last r XOR 1]"
    using assms(1) by (cases r rule: rev_cases) (simp_all add: corrupted_def)
  moreover from this bad have "r[length r - 1 := last r XOR 1] = r"
    using assms by (intro one_byte_unnoticed) auto
  then have "r[length r - 1 := last r XOR 1] ! (length r - 1) = last r" by (simp add: last)
  then have "last r XOR 1 = last r" using assms(1) by simp
  then have "(last r XOR 1) XOR last r = last r XOR last r" by simp
  then show False by (simp add: ac_simps)
qed

text \<open>A node whose fields fit its registers never raises, whatever arrives on the line, and stays such a node.\<close>

theorem node_never_raises:
  assumes "node_ok n"
  shows "\<exists>n' r. handle_frame f n = (n', Inr r) \<and> node_ok n'"
  by (rule node_response_shape [OF assms, of f]) (use assms in \<open>auto simp: handle_frame_def\<close>)

text \<open>A node answers only a request of eight bytes with the right checksum that is addressed to it, and the answer comes from it and names the function asked for, marked by the top bit when it is an exception. The checksum of the answer is right exactly when the scenario does not corrupt it.\<close>

theorem answers_are_framed:
  assumes "node_ok n" and "handle_frame f n = (n', Inr (Some r))"
  shows "length f = 8 \<and> crc_matches f \<and> uint (f ! 0) = nd_node_address n
     \<and> r ! 0 = f ! 0 \<and> (r ! 1 = f ! 1 \<or> r ! 1 = word_of_int (uint (f ! 1) OR 0x80))
     \<and> (crc_matches r \<longleftrightarrow> nd_scenario n \<noteq> BAD_CRC)"
proof (rule node_response_shape [OF assms(1), of f])
  fix n1 r1
  assume resp: "node_response f n = (n1, Inr r1)" "crc_matches r1" "5 \<le> length r1" "r1 ! 0 = word_of_int (nd_node_address n)"
    "r1 ! 1 = f ! 1 \<or> r1 ! 1 = word_of_int (uint (f ! 1) OR 0x80)"
  from assms(2) have sent: "length f = 8" "crc_matches f" "uint (f ! 0) = nd_node_address n"
    "r = (if nd_scenario n = BAD_CRC then corrupted r1 else r1)"
    using resp(1) by (auto simp: handle_frame_def split: if_splits)
  have "corrupted r1 ! i = r1 ! i" if "i < 2" for i
    using that resp(3) by (cases r1 rule: rev_cases) (simp_all add: corrupted_def nth_append)
  then have "r ! 0 = r1 ! 0" "r ! 1 = r1 ! 1" by (simp_all add: sent(4))
  moreover have "r1 ! 0 = f ! 0" using resp(4) by (simp flip: sent(3))
  moreover have "\<not> crc_matches (corrupted r1)" using resp(2,3) by (intro corrupted_mismatch) simp_all
  ultimately show ?thesis using sent resp(2,5) by simp
qed

text \<open>C7: What a master reads is what the node holds: a read within the register map is answered by the register values asked for, in order, high byte first, under a right checksum; after the first read a stale node repeats its old values.\<close>

theorem read_registers_roundtrip:
  assumes "node_ok n" and "nd_scenario n = NORMAL \<or> nd_scenario n = STALE"
    and "1 \<le> q" and "0 \<le> first" and "first + q \<le> REGISTER_COUNT"
  shows "\<exists>f r. read_request (nd_node_address n) first q = Inr f
     \<and> handle_frame f n = (fst (node_registers n), Inr (Some r)) \<and> crc_matches r
     \<and> length r = 5 + 2 * nat q \<and> uint (r ! 2) = 2 * q
     \<and> words_of (take (2 * nat q) (drop 3 r)) = take (nat q) (drop (nat first) (snd (node_registers n)))"
proof -
  have a: "0 \<le> nd_node_address n" "nd_node_address n < 256" using assms(1) by (simp_all add: node_ok_def)
  have u: "u16 first" "u16 q" using assms(3-5) by (simp_all add: REGISTER_COUNT_def)
  let ?p = "[word_of_int (nd_node_address n), 3, word_of_int (first div 256), word_of_int (first mod 256),
            word_of_int (q div 256), word_of_int (q mod 256)]"
  obtain c where f: "read_request (nd_node_address n) first q = Inr (?p @ c)" "length c = 2" "crc_matches (?p @ c)"
    by (rule read_request_frame [OF a u])
  obtain ws r k where r: "read_holding 3 first q n = (fst (node_registers n), Inr r)" "crc_matches r"
    "r = [word_of_int (nd_node_address n), 3, word_of_int (2 * q)] @ concat ws @ k" "length k = 2"
    "length (concat ws) = 2 * nat q" "words_of (concat ws) = take (nat q) (drop (nat first) (snd (node_registers n)))"
    by (rule read_holding_answer [OF assms(3-5) a node_registers_ok(1,2) [OF assms(1)]])
  have "from_big (word_of_int (first div 256)) (word_of_int (first mod 256)) = first"
    "from_big (word_of_int (q div 256)) (word_of_int (q mod 256)) = q"
    using u by (simp_all only: from_big_bytes)
  then have "node_response (?p @ c) n = read_holding 3 first q n"
    using assms(2) by (auto simp: node_response_def eval_nat_numeral)
  then have "handle_frame (?p @ c) n = (fst (node_registers n), Inr (Some r))"
    using f(2,3) r(1) assms(2) a by (auto simp: handle_frame_def uint_byte)
  moreover have "take (2 * nat q) (drop 3 r) = concat ws" using r(5) by (simp add: r(3))
  moreover have "uint (r ! 2) = 2 * q"
    using assms(3-5) uint_byte [of "2 * q"] by (simp add: r(3) REGISTER_COUNT_def del: of_int_mult)
  moreover have "length r = 5 + 2 * nat q" using r(4,5) by (simp add: r(3))
  ultimately show ?thesis using f(1) r(2,6) by (intro exI [of _ "?p @ c"] exI [of _ r]) simp
qed

text \<open>What the registers mean to the master: the temperature as a signed word, the uptime in two words, high word first, modulo \<open>2 ^ 32\<close>.\<close>

lemma temperature_register:
  assumes "- 32768 \<le> nd_temperature_centi_c n" "nd_temperature_centi_c n < 32768"
  shows "signed_take_bit 15 (current_registers n ! 6) = nd_temperature_centi_c n"
proof -
  have "current_registers n ! 6 = take_bit 16 (nd_temperature_centi_c n)"
    by (simp add: current_registers_def mask_ffff take_bit_eq_mod)
  moreover have "signed_take_bit 15 (take_bit 16 (nd_temperature_centi_c n)) = signed_take_bit 15 (nd_temperature_centi_c n)"
    by (rule signed_take_bit_take_bit [THEN trans]) simp
  ultimately show ?thesis using assms by (simp add: signed_take_bit_int_eq_self)
qed

lemma uptime_registers: "current_registers n ! 8 * 65536 + current_registers n ! 9 = nd_uptime_ms n mod 4294967296"
  using zmod_zmult2_eq [of 65536 "nd_uptime_ms n" 65536] by (simp add: current_registers_def mask_ffff drop_bit_eq_div)

section \<open>Examples\<close>

text \<open>The golden frames of the documentation.\<close>

lemma golden_read:
  "read_request 1 0 8 = Inr [1, 3, 0, 0, 0, 8, 68, 12]"
  "handle_frame [1, 3, 0, 0, 0, 8, 68, 12] new_node
     = (new_node, Inr (Some [1, 3, 16, 1, 0, 73, 73, 0, 1, 0, 1, 0, 0, 0, 0, 16, 154, 8, 0, 164, 10]))"
  by code_simp+

lemma new_node_ok: "node_ok new_node"
  by (simp add: node_ok_def new_node_def)

theorem corrupted_request_is_ignored_witness:
  "handle_frame [1, 3, 0, 0, 0, 9, 68, 12] new_node = (new_node\<lparr>nd_crc_error_count := 1\<rparr>, Inr None)"
proof -
  have "crc_matches [1, 3, 0, 0, 0, 8, 68, 12]" by code_simp
  from corrupted_request_is_ignored [OF this, of 5 9 new_node] show ?thesis by (simp add: new_node_def eval_nat_numeral)
qed

theorem node_never_raises_witness:
  "\<exists>n' r. handle_frame [1, 3] new_node = (n', Inr r) \<and> node_ok n'"
  using node_never_raises [OF new_node_ok] by blast

theorem answers_are_framed_witness:
  "crc_matches [1, 3, 16, 1, 0, 73, 73, 0, 1, 0, 1, 0, 0, 0, 0, 16, 154, 8, 0, 164, 10]"
  using answers_are_framed [OF new_node_ok golden_read(2)] by (simp add: new_node_def)

theorem read_registers_roundtrip_witness:
  "\<exists>f r. read_request 1 6 2 = Inr f \<and> snd (handle_frame f new_node) = Inr (Some r)
     \<and> words_of (take 4 (drop 3 r)) = [4250, 2048]"
proof -
  have "nd_node_address new_node = 1" "nd_scenario new_node = NORMAL"
    "take 2 (drop 6 (snd (node_registers new_node))) = [4250, 2048]"
    by (simp_all add: new_node_def node_registers_def current_registers_def mask_ffff)
  with read_registers_roundtrip [OF new_node_ok, of 2 6] show ?thesis
    by (auto simp: REGISTER_COUNT_def)
qed

end
