(* ===== verification/Evaluation.thy ===== *)
theory Evaluation
  imports Artifacts SensorRules
begin

text \<open>
  The comparison of the threshold rules with the model, \<open>services/anomaly_worker/evaluation.py\<close>:
  the confusion counts and the rates computed from them in binary64, the detection delays, the
  evaluation of the samples regime by regime, and the report that is written. A dictionary is
  an association list in insertion order; where a later entry of a key replaces an earlier one
  (\<open>{f(x): x for x in xs}\<close>), lookups go to the reversed list.
\<close>

section \<open>Dictionaries built in a loop\<close>

text \<open>\<open>d.setdefault(k, []).append(x)\<close>, \<open>list(dict.fromkeys(xs))\<close> and \<open>{key(x): x for x in xs}\<close>.\<close>

definition append_under :: "'k \<Rightarrow> 'a \<Rightarrow> ('k \<times> 'a list) list \<Rightarrow> ('k \<times> 'a list) list" where
  "append_under k x m =
     (if k \<in> fst ` set m then map (\<lambda>(k', xs). (k', if k' = k then xs @ [x] else xs)) m else m @ [(k, [x])])"

definition distinct_first :: "'a list \<Rightarrow> 'a list" where
  "distinct_first xs = rev (remdups (rev xs))"

definition keyed :: "('a \<Rightarrow> 'k) \<Rightarrow> 'a list \<Rightarrow> ('k \<times> 'a) list" where
  "keyed key xs = rev (map (\<lambda>x. (key x, x)) xs)"

section \<open>Metrics\<close>

record detector_metrics =
  dm_true_positive :: int
  dm_false_positive :: int
  dm_true_negative :: int
  dm_false_negative :: int
  dm_precision :: flt
  dm_recall :: flt
  dm_f1 :: flt
  dm_false_positive_rate :: flt

text \<open>\<open>sum(f(expected, actual) for expected, actual in zip(truth, predictions, strict=True))\<close>.\<close>

definition count_pairs :: "(bool \<Rightarrow> bool \<Rightarrow> bool) \<Rightarrow> bool list \<Rightarrow> bool list \<Rightarrow> int res" where
  "count_pairs f truth predictions =
     bindE (raise_if (length truth \<noteq> length predictions) (ValueError ''zip() arguments differ in length'')) (\<lambda>_.
     Inr (int (length (filter (\<lambda>(e, a). f e a) (zip truth predictions)))))"

text \<open>The quotient of two integers, correctly rounded.\<close>

definition int_ratio :: "int \<Rightarrow> int \<Rightarrow> flt" where
  "int_ratio a b = of_exact (of_int a / of_int b)"

definition f1_score :: "flt \<Rightarrow> flt \<Rightarrow> flt res" where
  "f1_score precision recall =
     flt_div (flt_mul (flt_mul (lit 2) precision) recall) (flt_max (flt_add precision recall) (lit (1/10^12)))"

definition metrics :: "bool list \<Rightarrow> bool list \<Rightarrow> detector_metrics res" where
  "metrics truth predictions =
     bindE (count_pairs (\<lambda>e a. e \<and> a) truth predictions) (\<lambda>tp.
     bindE (count_pairs (\<lambda>e a. \<not> e \<and> a) truth predictions) (\<lambda>fp.
     bindE (count_pairs (\<lambda>e a. \<not> e \<and> \<not> a) truth predictions) (\<lambda>tn.
     bindE (count_pairs (\<lambda>e a. e \<and> \<not> a) truth predictions) (\<lambda>fn.
     let precision = int_ratio tp (max (tp + fp) 1); recall = int_ratio tp (max (tp + fn) 1) in
     bindE (f1_score precision recall) (\<lambda>f1.
     Inr \<lparr>dm_true_positive = tp, dm_false_positive = fp, dm_true_negative = tn, dm_false_negative = fn,
          dm_precision = precision, dm_recall = recall, dm_f1 = f1,
          dm_false_positive_rate = int_ratio fp (max (fp + tn) 1)\<rparr>)))))"

section \<open>One sample, one regime\<close>

definition at_least :: "rat \<Rightarrow> flt option \<Rightarrow> bool" where
  "at_least bound v = (case v of None \<Rightarrow> False | Some x \<Rightarrow> flt_le (lit bound) x)"

definition over_threshold :: "telemetry_sample \<Rightarrow> bool" where
  "over_threshold s = (at_least 65 (ts_temperature_c s) \<or> at_least (45/10) (ts_vibration_rms_mps2 s)
     \<or> at_least (14/10) (ts_current_a s))"

definition threshold_or_sensor_rule :: "telemetry_sample list \<Rightarrow> bool res" where
  "threshold_or_sensor_rule history =
     (if history = [] then Inl IndexError
      else if over_threshold (last history) then Inr True
      else bindE (detect_sensor_failures (lit 30) (drop (length history - 12) history)) (\<lambda>ds. Inr (ds \<noteq> [])))"

text \<open>The loop of \<open>_delay\<close>: the time from \<open>start\<close> to the first id that was predicted.\<close>

fun first_hit ::
  "(int \<times> telemetry_sample) list \<Rightarrow> int \<Rightarrow> (int \<times> bool) list \<Rightarrow> int list \<Rightarrow> flt option res" where
  "first_hit by_id start predictions [] = Inr None"
| "first_hit by_id start predictions (i # ids) =
     (if map_of predictions i = Some True
      then bindE (lookup by_id i) (\<lambda>s. Inr (Some (total_seconds (ts_timestamp s - start))))
      else first_hit by_id start predictions ids)"

definition delay :: "telemetry_sample list \<Rightarrow> int list \<Rightarrow> (int \<times> bool) list \<Rightarrow> flt option res" where
  "delay samples ids predictions =
     (case ids of
        [] \<Rightarrow> Inr None
      | i # _ \<Rightarrow>
          let by_id = keyed ts_sample_id samples in
          bindE (lookup by_id i) (\<lambda>s. first_hit by_id (ts_timestamp s) predictions ids))"

record judged =
  jd_sample_id :: int
  jd_deterministic :: bool
  jd_model :: bool
  jd_reason :: string

text \<open>The body of the loop over \<open>enumerate(regime_samples)\<close>.\<close>

definition judge_sample ::
  "(int \<times> score_result) list \<Rightarrow> telemetry_sample list \<Rightarrow> nat \<Rightarrow> judged list res" where
  "judge_sample scores samples index =
     (case map_of scores (ts_sample_id (samples ! index)) of
        None \<Rightarrow> Inr []
      | Some r \<Rightarrow>
          bindE (threshold_or_sensor_rule (take (index + 1) samples)) (\<lambda>deterministic.
          Inr [\<lparr>jd_sample_id = ts_sample_id (samples ! index), jd_deterministic = deterministic,
                jd_model = sr_anomalous r, jd_reason = sr_reason r\<rparr>]))"

record scenario_outcome =
  so_scenario :: string
  so_evaluated_samples :: int
  so_deterministic_delay :: "flt option"
  so_model_delay :: "flt option"

definition predictions_by_id :: "(judged \<Rightarrow> bool) \<Rightarrow> judged list \<Rightarrow> (int \<times> bool) list" where
  "predictions_by_id f js = rev (map (\<lambda>j. (jd_sample_id j, f j)) js)"

definition evaluate_regime ::
  "'e ml \<Rightarrow> 'e model_bundle \<Rightarrow> string \<Rightarrow> telemetry_sample list \<Rightarrow> (judged list \<times> scenario_outcome) res" where
  "evaluate_regime lib bundle regime samples =
     bindE (default_features (ml_numpy lib) False samples) (\<lambda>rows.
     bindE (score_rows lib bundle rows) (\<lambda>results.
     let row_ids = map fr_sample_id rows in
     bindE (collect (judge_sample (keyed sr_sample_id results) samples) [0 ..< length samples]) (\<lambda>js.
     bindE (delay samples row_ids (predictions_by_id jd_deterministic js)) (\<lambda>deterministic.
     bindE (delay samples row_ids (predictions_by_id jd_model js)) (\<lambda>model.
     Inr (js, \<lparr>so_scenario = regime, so_evaluated_samples = int (length row_ids),
               so_deterministic_delay = deterministic, so_model_delay = model\<rparr>))))))"

section \<open>The report\<close>

definition grouped :: "telemetry_sample list \<Rightarrow> (string \<times> telemetry_sample list) list" where
  "grouped samples = fold (\<lambda>s. append_under (ts_regime s) s) (ordered_samples samples) []"

record evaluation =
  ev_truth :: "bool list"
  ev_deterministic :: "bool list"
  ev_model :: "bool list"
  ev_outcomes :: "scenario_outcome list"
  ev_reasons :: "(string \<times> string list) list"

definition no_evaluation :: evaluation where
  "no_evaluation = \<lparr>ev_truth = [], ev_deterministic = [], ev_model = [], ev_outcomes = [], ev_reasons = []\<rparr>"

definition add_regime :: "string \<Rightarrow> judged list \<times> scenario_outcome \<Rightarrow> evaluation \<Rightarrow> evaluation" where
  "add_regime regime part ev =
     (case part of (js, outcome) \<Rightarrow>
        \<lparr>ev_truth = ev_truth ev @ map (\<lambda>_. regime \<noteq> ''normal'') js,
         ev_deterministic = ev_deterministic ev @ map jd_deterministic js,
         ev_model = ev_model ev @ map jd_model js,
         ev_outcomes = ev_outcomes ev @ [outcome],
         ev_reasons = fold (append_under regime) (map jd_reason (filter jd_model js)) (ev_reasons ev)\<rparr>)"

fun evaluate_groups ::
  "'e ml \<Rightarrow> 'e model_bundle \<Rightarrow> (string \<times> telemetry_sample list) list \<Rightarrow> evaluation \<Rightarrow> evaluation res" where
  "evaluate_groups lib bundle [] ev = Inr ev"
| "evaluate_groups lib bundle ((regime, samples) # groups) ev =
     bindE (evaluate_regime lib bundle regime samples) (\<lambda>part.
     evaluate_groups lib bundle groups (add_regime regime part ev))"

definition metrics_json :: "detector_metrics \<Rightarrow> json" where
  "metrics_json m = JObj
     [(''true_positive'', JInt (dm_true_positive m)), (''false_positive'', JInt (dm_false_positive m)),
      (''true_negative'', JInt (dm_true_negative m)), (''false_negative'', JInt (dm_false_negative m)),
      (''precision'', JNum (dm_precision m)), (''recall'', JNum (dm_recall m)), (''f1'', JNum (dm_f1 m)),
      (''false_positive_rate'', JNum (dm_false_positive_rate m))]"

definition outcome_json :: "scenario_outcome \<Rightarrow> json" where
  "outcome_json s = JObj
     [(''scenario'', JStr (so_scenario s)), (''evaluated_samples'', JInt (so_evaluated_samples s)),
      (''first_deterministic_detection_delay_s'', jopt JNum (so_deterministic_delay s)),
      (''first_model_detection_delay_s'', jopt JNum (so_model_delay s))]"

definition report_json :: "'e model_bundle \<Rightarrow> evaluation \<Rightarrow> detector_metrics \<Rightarrow> detector_metrics \<Rightarrow> json" where
  "report_json bundle ev deterministic model = JObj
     [(''schema_version'', JInt 1), (''data_kind'', JStr ''synthetic''), (''field_performance_claimed'', JBool False),
      (''model_version'', JStr (md_model_version (mb_metadata bundle))),
      (''score_interpretation'', JStr (md_score_direction (mb_metadata bundle))),
      (''deterministic_detector'', metrics_json deterministic), (''isolation_forest'', metrics_json model),
      (''scenarios'', JArr (map outcome_json (ev_outcomes ev))),
      (''example_model_reasons'',
       JObj (map (\<lambda>(regime, reasons). (regime, jstrs (take 3 (distinct_first reasons)))) (ev_reasons ev)))]"

definition evaluate_detectors :: "'e ml \<Rightarrow> 'e model_bundle \<Rightarrow> telemetry_sample list \<Rightarrow> json res" where
  "evaluate_detectors lib bundle samples =
     bindE (evaluate_groups lib bundle (grouped samples) no_evaluation) (\<lambda>ev.
     bindE (metrics (ev_truth ev) (ev_deterministic ev)) (\<lambda>deterministic.
     bindE (metrics (ev_truth ev) (ev_model ev)) (\<lambda>model.
     Inr (report_json bundle ev deterministic model))))"

section \<open>Writing it\<close>

text \<open>\<open>mkdir(parents=True, exist_ok=True)\<close>, and writing through a temporary name.\<close>

definition mkdir_exist_ok :: "path \<Rightarrow> fs \<Rightarrow> fs res" where
  "mkdir_exist_ok p files =
     bindE (raise_if (is_file files p) (OtherException ''FileExistsError'')) (\<lambda>_.
     bindE (raise_if (list_ex (is_file files) (prefixes p)) OSError) (\<lambda>_.
     Inr (\<lambda>q. if q \<in> set (prefixes p) then Some Dir else files q)))"

definition write_evaluation :: "'e codec \<Rightarrow> json \<Rightarrow> path \<Rightarrow> string \<Rightarrow> fs \<Rightarrow> fs res" where
  "write_evaluation cd report directory name files =
     bindE (mkdir_exist_ok directory files) (\<lambda>made.
     let temporary = directory @ [name @ ''.tmp'']; output = directory @ [name] in
     bindE (raise_if (made temporary = Some Dir) OSError) (\<lambda>_.
     bindE (raise_if (made output = Some Dir) OSError) (\<lambda>_.
     Inr ((made(temporary := None))(output \<mapsto> File (cd_json_text cd report))))))"

section \<open>Rates lie between zero and one\<close>

definition unit_float :: "flt \<Rightarrow> bool" where
  "unit_float x = (flt_le (Fin 0) x \<and> flt_le x (Fin 1))"

lemma unit_floatE:
  assumes "unit_float x"
  obtains r where "x = Fin r" "0 \<le> r" "r \<le> 1"
  using assms by (cases x) (auto simp: unit_float_def)

lemma unit_of_exact: "0 \<le> q \<Longrightarrow> q \<le> 1 \<Longrightarrow> unit_float (of_exact q)"
  by (simp add: of_exact_small unit_float_def rnd_nonneg rnd_le_float)

lemma int_ratio_unit: "0 \<le> a \<Longrightarrow> a \<le> b \<Longrightarrow> unit_float (int_ratio a (max b 1))"
  unfolding int_ratio_def by (rule unit_of_exact) (simp_all add: divide_le_eq max_def)

lemma picofraction: "lit (1/10^12) = Fin (rnd (1/10^12))" and picofraction_pos: "0 < rnd (1/10^12)"
proof -
  show "lit (1/10^12) = Fin (rnd (1/10^12))" by (rule of_exact_small) simp
  have "rnd (1 / 2 ^ 40) = 1 / 2 ^ 40"
    by (rule rnd_exact [of _ 1 "- 40"]) (simp_all add: power_int_minus field_simps)
  then have "1 / 2 ^ 40 \<le> rnd (1/10^12)" by (intro rnd_ge_float) simp_all
  moreover have "(0::rat) < 1 / 2 ^ 40" by simp
  ultimately show "0 < rnd (1/10^12)" by (rule less_le_trans [rotated])
qed

text \<open>Doubling a float is exact.\<close>

lemma rnd_double:
  assumes "rnd x = x"
  shows "rnd (2 * x) = 2 * x"
proof (cases "x = 0")
  case False
  have "bexp (2 * x) = bexp x + 1"
    using bexp_bounds [OF False] by (intro bexp_unique) (simp_all add: abs_mult power_int_add)
  then have "qexp (2 * x) \<le> qexp x + 1" unfolding qexp_def by linarith
  moreover have "2 * x = of_int (round_even (x / 2 powi qexp x)) * 2 powi (qexp x + 1)"
    using assms False by (simp add: rnd_def power_int_add)
  ultimately show ?thesis by (rule scaled_int)
qed simp

text \<open>The quotient is at most one because \<open>2pr \<le> p + r\<close> on the unit interval and rounding is monotone.\<close>

lemma f1_unit:
  assumes "unit_float (Fin a)" "unit_float (Fin b)" and "rnd a = a"
  shows "\<exists>f. f1_score (Fin a) (Fin b) = Inr f \<and> unit_float f"
proof -
  from assms have a: "0 \<le> a" "a \<le> 1" and b: "0 \<le> b" "b \<le> 1" by (simp_all add: unit_float_def)
  define d where "d = max (rnd (a + b)) (rnd (1/10^12))"
  have two: "lit 2 = Fin 2" by (simp add: of_exact_small rnd_numeral)
  have den: "flt_max (flt_add (Fin a) (Fin b)) (lit (1/10^12)) = Fin d"
    using a b by (simp add: picofraction flt_max_def d_def of_exact_small max_def)
  have d: "0 < d" "rnd (a + b) \<le> d" using picofraction_pos by (simp_all add: d_def less_max_iff_disj)
  define n where "n = 2 * a * b"
  have n0: "0 \<le> n" using a b by (simp add: n_def)
  have n2: "n \<le> 2" using a b mult_mono [of a 1 b 1] by (simp add: n_def)
  have num: "flt_mul (flt_mul (lit 2) (Fin a)) (Fin b) = Fin (rnd n)"
    using a n0 n2 by (simp add: two of_exact_small rnd_double [OF assms(3)] flip: n_def)
  have "a * b \<le> a" "a * b \<le> b" using a b by (simp_all add: mult_left_le mult_left_le_one_le)
  then have "n \<le> a + b" by (simp add: n_def)
  then have "rnd n \<le> d" using d(2) by (rule order_trans [OF rnd_mono])
  then show ?thesis
    using n0 d unfolding f1_score_def num den by (auto intro!: unit_of_exact divide_nonneg_pos rnd_nonneg)
qed

lemma count_pairs_Inr:
  "count_pairs f t p = Inr n \<longleftrightarrow> length t = length p \<and> n = int (length (filter (\<lambda>(e, a). f e a) (zip t p)))"
  by (auto simp: count_pairs_def)

lemma confusion_partition:
  "int (length (filter (\<lambda>(e, a). e \<and> a) zs)) + int (length (filter (\<lambda>(e, a). \<not> e \<and> a) zs))
   + int (length (filter (\<lambda>(e, a). \<not> e \<and> \<not> a) zs)) + int (length (filter (\<lambda>(e, a). e \<and> \<not> a) zs)) = int (length zs)"
  by (induction zs) auto

lemma int_ratio_float:
  assumes "0 \<le> a" "a \<le> b"
  obtains r where "int_ratio a (max b 1) = Fin r" "unit_float (Fin r)" "rnd r = r"
proof -
  have "\<bar>of_int a / of_int (max b 1) :: rat\<bar> \<le> 2 ^ 53" using assms by (simp add: divide_le_eq max_def)
  then have "int_ratio a (max b 1) = Fin (rnd (of_int a / of_int (max b 1)))" unfolding int_ratio_def by (rule of_exact_small)
  with int_ratio_unit [OF assms] show thesis by (intro that [OF _ _ rnd_idem]) (simp_all only:)
qed

definition rates_ok :: "detector_metrics \<Rightarrow> bool" where
  "rates_ok m = (unit_float (dm_precision m) \<and> unit_float (dm_recall m) \<and> unit_float (dm_f1 m)
     \<and> unit_float (dm_false_positive_rate m))"

lemma metrics_total:
  assumes "length truth = length predictions"
  shows "\<exists>m. metrics truth predictions = Inr m \<and> rates_ok m
     \<and> dm_true_positive m + dm_false_positive m + dm_true_negative m + dm_false_negative m = int (length truth)
     \<and> dm_true_negative m + dm_false_positive m = int (length (filter Not truth))"
proof -
  let ?zs = "zip truth predictions"
  define tp fp tn fn where "tp = int (length (filter (\<lambda>(e, a). e \<and> a) ?zs))"
    and "fp = int (length (filter (\<lambda>(e, a). \<not> e \<and> a) ?zs))"
    and "tn = int (length (filter (\<lambda>(e, a). \<not> e \<and> \<not> a) ?zs))"
    and "fn = int (length (filter (\<lambda>(e, a). e \<and> \<not> a) ?zs))"
  note counts = tp_def fp_def tn_def fn_def
  have nn: "0 \<le> tp" "0 \<le> fp" "0 \<le> tn" "0 \<le> fn" by (simp_all add: counts)
  obtain p where p: "int_ratio tp (max (tp + fp) 1) = Fin p" "unit_float (Fin p)" "rnd p = p"
    by (rule int_ratio_float [of tp "tp + fp"]) (use nn in auto)
  obtain r where r: "int_ratio tp (max (tp + fn) 1) = Fin r" "unit_float (Fin r)"
    by (rule int_ratio_float [of tp "tp + fn"]) (use nn in auto)
  obtain f where f: "f1_score (Fin p) (Fin r) = Inr f" "unit_float f" using f1_unit [OF p(2) r(2) p(3)] by blast
  have fpr: "unit_float (int_ratio fp (max (fp + tn) 1))" using nn by (intro int_ratio_unit) simp_all
  have total: "tp + fp + tn + fn = int (length truth)"
    using confusion_partition [of ?zs] assms by (simp add: counts)
  have negative: "tn + fp = int (length (filter Not truth))"
    unfolding counts using assms by (induction truth predictions rule: list_induct2) auto
  have "metrics truth predictions = Inr \<lparr>dm_true_positive = tp, dm_false_positive = fp, dm_true_negative = tn,
      dm_false_negative = fn, dm_precision = Fin p, dm_recall = Fin r, dm_f1 = f,
      dm_false_positive_rate = int_ratio fp (max (fp + tn) 1)\<rparr>"
    using assms f(1) by (simp add: metrics_def count_pairs_def Let_def p(1) r(1) flip: counts)
  then show ?thesis using p r f fpr total negative by (simp add: rates_ok_def)
qed

section \<open>Regular sampling\<close>

text \<open>
  Samples without gaps, with finite measurements and finite feature values: the window holds
  the latest samples, and from the \<open>mw\<close>-th sample on each has its row.
\<close>

definition finite_windows :: "numpy \<Rightarrow> telemetry_sample set \<Rightarrow> bool" where
  "finite_windows np S = (\<forall>seg. seg \<noteq> [] \<longrightarrow> set seg \<subseteq> S \<longrightarrow> list_all flt_finite (segment_values np seg))"

definition regular_window :: "nat \<Rightarrow> nat \<Rightarrow> telemetry_sample list \<Rightarrow> window \<Rightarrow> bool" where
  "regular_window ws mw seen w =
     (win_segment w = drop (length seen - ws) seen
      \<and> win_previous w = (if seen = [] then None else Some (ts_timestamp (last seen)))
      \<and> map fr_sample_id (win_rows w) = map ts_sample_id (drop (mw - 1) seen))"

lemma regular_step:
  fixes s :: telemetry_sample
  assumes w: "regular_window ws mw seen w" and mw: "1 \<le> mw" "mw \<le> ws"
    and close: "seen \<noteq> [] \<Longrightarrow> close_enough gap (last seen) s"
    and fin: "\<forall>x \<in> set (seen @ [s]). measurements_are_finite x" and h: "h \<longrightarrow> (\<forall>x \<in> set (seen @ [s]). is_healthy x)"
    and np: "finite_windows np (set (seen @ [s]))"
  shows "regular_window ws mw (seen @ [s]) (feature_step np ws mw gap h s w)"
proof -
  define seg where "seg = next_segment ws gap w s"
  have "seg = (if ws < length (win_segment w @ [s]) then tl (win_segment w @ [s]) else win_segment w @ [s])"
    using w close by (auto simp: seg_def next_segment_def regular_window_def close_enough_def Let_def)
  then have seg: "seg = drop (length (seen @ [s]) - ws) (seen @ [s])"
    using w mw by (auto simp: regular_window_def drop_Suc tl_drop Suc_diff_le min_def split: if_splits)
  have ne: "seg \<noteq> []" and len: "length seg = min ws (Suc (length seen))"
    using mw by (auto simp: seg)
  have sub: "set seg \<subseteq> set (seen @ [s])" unfolding seg by (rule set_drop_subset)
  have "map fr_sample_id (feature_rows_of np mw h seg s) = (if mw \<le> Suc (length seen) then [ts_sample_id s] else [])"
  proof -
    have "list_all measurements_are_finite seg" "h \<longrightarrow> list_all is_healthy seg"
      using sub fin h by (auto simp: list_all_iff)
    moreover have "list_all flt_finite (segment_values np seg)" using np sub ne by (simp add: finite_windows_def)
    ultimately show ?thesis using len mw by (auto simp: feature_rows_of_def Let_def)
  qed
  then show ?thesis
    using w mw by (auto simp: regular_window_def feature_step_def Let_def seg simp flip: seg_def)
qed

lemma regular_fold:
  assumes "regular_window ws mw seen w" "1 \<le> mw" "mw \<le> ws" "successively (close_enough gap) (seen @ xs)"
    "\<forall>x \<in> set (seen @ xs). measurements_are_finite x" "h \<longrightarrow> (\<forall>x \<in> set (seen @ xs). is_healthy x)"
    "finite_windows np (set (seen @ xs))"
  shows "regular_window ws mw (seen @ xs) (fold (feature_step np ws mw gap h) xs w)"
  using assms
proof (induction xs arbitrary: seen w)
  case (Cons x xs)
  have np: "finite_windows np (set (seen @ [x]))"
    using Cons.prems(7) by (auto simp: finite_windows_def)
  have "regular_window ws mw (seen @ [x]) (feature_step np ws mw gap h x w)"
    by (rule regular_step [OF Cons.prems(1-3)]) (use Cons.prems(4-6) np in \<open>auto simp: successively_append_iff\<close>)
  from Cons.IH [OF this Cons.prems(2,3)] Cons.prems(4-7) show ?case by simp
qed simp

lemma regular_features:
  assumes "ordered_samples xs = xs" "2 \<le> mw" "mw \<le> ws" "successively (close_enough gap) xs"
    "\<forall>x \<in> set xs. measurements_are_finite x" "h \<longrightarrow> (\<forall>x \<in> set xs. is_healthy x)" "finite_windows np (set xs)"
  shows "\<exists>rows. generate_features np ws mw gap h xs = Inr rows \<and> map fr_sample_id rows = map ts_sample_id (drop (mw - 1) xs)"
proof -
  have "regular_window ws mw [] fresh_window" by (simp add: regular_window_def fresh_window_def)
  from regular_fold [OF this _ assms(3), of gap xs h np] assms show ?thesis
    by (simp add: generate_features_def regular_window_def)
qed

section \<open>Every scored sample is judged\<close>

lemma row_ids_subseq:
  "subseq (map fr_sample_id (win_rows (fold (feature_step np ws mw gap h) xs w)))
     (map fr_sample_id (win_rows w) @ map ts_sample_id xs)"
proof (induction xs arbitrary: w)
  case (Cons x xs)
  have "subseq (map fr_sample_id (win_rows (feature_step np ws mw gap h x w))) (map fr_sample_id (win_rows w) @ [ts_sample_id x])"
    by (auto simp: feature_step_def feature_rows_of_def Let_def)
  then have "subseq (map fr_sample_id (win_rows (feature_step np ws mw gap h x w)) @ map ts_sample_id xs)
      (map fr_sample_id (win_rows w) @ map ts_sample_id (x # xs))"
    using list_emb_append_mono [of "(=)", OF _ subseq_order.order_refl] by fastforce
  with Cons.IH [of "feature_step np ws mw gap h x w"] show ?case
    unfolding fold_Cons comp_def by (rule subseq_order.order_trans)
qed simp

lemma feature_ids:
  assumes "generate_features np ws mw gap h samples = Inr rows"
  shows "subseq (map fr_sample_id rows) (map ts_sample_id (ordered_samples samples))"
  using assms row_ids_subseq [of np ws mw gap h "ordered_samples samples" fresh_window]
  by (auto simp: generate_features_def fresh_window_def)

lemma keyed_keys: "fst ` set (keyed key xs) = key ` set xs"
  by (auto simp: keyed_def image_image)

lemma judged_ids:
  assumes "collect (judge_sample scores samples) is = Inr js"
  shows "map jd_sample_id js = filter (\<lambda>i. i \<in> fst ` set scores) (map (\<lambda>i. ts_sample_id (samples ! i)) is)"
  using assms
proof (induction "is" arbitrary: js)
  case (Cons i "is")
  from Cons.prems obtain a b where a: "judge_sample scores samples i = Inr a"
    and b: "collect (judge_sample scores samples) is = Inr b" and js: "js = a @ b" by auto
  have "map jd_sample_id a = filter (\<lambda>i. i \<in> fst ` set scores) [ts_sample_id (samples ! i)]"
    using a map_of_eq_None_iff [of scores "ts_sample_id (samples ! i)"] by (auto simp: judge_sample_def split: option.splits)
  then show ?case using Cons.IH [OF b] by (simp only: js map_append list.map filter_append flip: append_Cons) simp
qed simp

lemma score_rows_ids:
  assumes "score_rows lib b rows = Inr results"
  shows "map sr_sample_id results = map fr_sample_id rows"
proof (cases "rows = []")
  case True
  then show ?thesis using assms by (auto simp: score_rows_def feature_matrix_def)
next
  case False
  from scores_match_rows [OF assms this] show ?thesis by blast
qed

lemma subseq_filter_members: "subseq xs ys \<Longrightarrow> distinct ys \<Longrightarrow> filter (\<lambda>y. y \<in> set xs) ys = xs"
proof (induction ys arbitrary: xs)
  case (Cons y ys)
  show ?case
  proof (cases "xs \<noteq> [] \<and> hd xs = y")
    case True
    then obtain xs' where xs: "xs = y # xs'" by (cases xs) auto
    then have "subseq xs' ys" using Cons.prems(1) by simp
    then have "filter (\<lambda>z. z \<in> set xs') ys = xs'" using Cons by simp
    moreover have "filter (\<lambda>z. z = y \<or> z \<in> set xs') ys = filter (\<lambda>z. z \<in> set xs') ys"
      using Cons.prems(2) by (intro filter_cong) auto
    ultimately show ?thesis by (simp add: xs)
  next
    case False
    then have sub: "subseq xs ys" using Cons.prems(1) by (cases xs) (auto simp: subseq_Cons2_iff)
    then have "set xs \<subseteq> set ys" by (metis notin_set_nthsI set_nths_subset subseq_conv_nths)
    then show ?thesis using Cons.IH [OF sub] Cons.prems(2) by auto
  qed
qed (auto dest: list_emb_Nil2)

lemma regime_judged:
  assumes "evaluate_regime lib b regime samples = Inr (js, out)" and "distinct (map ts_sample_id samples)"
    and "ordered_samples samples = samples"
  shows "int (length js) = so_evaluated_samples out \<and> so_scenario out = regime"
proof -
  from assms(1) obtain rows results where f: "default_features (ml_numpy lib) False samples = Inr rows"
    and r: "score_rows lib b rows = Inr results"
    and js: "collect (judge_sample (keyed sr_sample_id results) samples) [0 ..< length samples] = Inr js"
    and out: "so_evaluated_samples out = int (length rows)" "so_scenario out = regime"
    by (auto simp: evaluate_regime_def Let_def)
  have ids: "fst ` set (keyed sr_sample_id results) = set (map fr_sample_id rows)"
    using score_rows_ids [OF r] by (metis keyed_keys list.set_map)
  have "subseq (map fr_sample_id rows) (map ts_sample_id samples)"
    using feature_ids f assms(3) unfolding default_features_def by metis
  note members = subseq_filter_members [OF this assms(2)]
  have enumerated: "map (\<lambda>i. ts_sample_id (samples ! i)) [0 ..< length samples] = map ts_sample_id samples"
    by (rule nth_equalityI) simp_all
  from members have "map jd_sample_id js = map fr_sample_id rows"
    using judged_ids [OF js] unfolding ids enumerated by simp
  then have "length js = length rows" by (rule map_eq_imp_length_eq)
  with out show ?thesis by simp
qed

section \<open>Grouping\<close>

lemma distinct_first_snoc: "distinct_first (xs @ [x]) = (if x \<in> set xs then distinct_first xs else distinct_first xs @ [x])"
  by (simp add: distinct_first_def)

lemma distinct_first_set: "set (distinct_first xs) = set xs" "distinct (distinct_first xs)"
  by (simp_all add: distinct_first_def)

text \<open>The loop of \<open>setdefault\<close> and \<open>append\<close> groups by key, in the order in which the keys appear.\<close>

lemma append_under_groups:
  "fold (\<lambda>x. append_under (f x) x) xs [] = map (\<lambda>k. (k, filter (\<lambda>x. f x = k) xs)) (distinct_first (map f xs))"
proof (induction xs rule: rev_induct)
  case (snoc x xs)
  have none: "filter (\<lambda>y. f y = f x) xs = []" if "f x \<notin> f ` set xs"
    using that unfolding filter_empty_conv by (metis image_eqI)
  have "append_under (f x) x (map (\<lambda>k. (k, filter (\<lambda>x. f x = k) xs)) (distinct_first (map f xs)))
      = map (\<lambda>k. (k, filter (\<lambda>x. f x = k) (xs @ [x]))) (distinct_first (map f (xs @ [x])))"
    using none by (auto simp: append_under_def distinct_first_snoc distinct_first_set image_image)
  with snoc show ?case by simp
qed (simp add: distinct_first_def)

lemma grouped_eq:
  "grouped samples = map (\<lambda>k. (k, filter (\<lambda>s. ts_regime s = k) (ordered_samples samples)))
     (distinct_first (map ts_regime (ordered_samples samples)))"
  unfolding grouped_def by (rule append_under_groups)

lemma ordered_filter: "ordered_samples (filter P (ordered_samples samples)) = filter P (ordered_samples samples)"
  unfolding ordered_samples_def by (rule properties_for_sort_key) (simp_all add: sorted_filter)

lemma group_ordered:
  assumes "(k, xs) \<in> set (grouped samples)" and "distinct (map ts_sample_id samples)"
  shows "ordered_samples xs = xs \<and> distinct (map ts_sample_id xs) \<and> (\<forall>s \<in> set xs. ts_regime s = k)"
proof -
  have "distinct (map ts_sample_id (ordered_samples samples))"
    using assms(2) by (simp add: ordered_samples_def distinct_map)
  then have "distinct (map ts_sample_id (filter P (ordered_samples samples)))" for P by (rule distinct_map_filter)
  with assms(1) show ?thesis by (auto simp: grouped_eq ordered_filter)
qed

definition judged_count :: "evaluation \<Rightarrow> int" where
  "judged_count ev = (\<Sum>o' \<leftarrow> ev_outcomes ev. so_evaluated_samples o')"

definition normal_count :: "evaluation \<Rightarrow> int" where
  "normal_count ev = (\<Sum>o' \<leftarrow> filter (\<lambda>o'. so_scenario o' = ''normal'') (ev_outcomes ev). so_evaluated_samples o')"

definition tallied :: "evaluation \<Rightarrow> bool" where
  "tallied ev = (length (ev_deterministic ev) = length (ev_truth ev) \<and> length (ev_model ev) = length (ev_truth ev)
     \<and> int (length (ev_truth ev)) = judged_count ev \<and> int (length (filter Not (ev_truth ev))) = normal_count ev)"

lemma groups_tallied:
  assumes "evaluate_groups lib b groups ev = Inr ev'" and "tallied ev"
    and "\<forall>(k, xs) \<in> set groups. ordered_samples xs = xs \<and> distinct (map ts_sample_id xs)"
  shows "tallied ev' \<and> map so_scenario (ev_outcomes ev') = map so_scenario (ev_outcomes ev) @ map fst groups"
  using assms
proof (induction lib b groups ev arbitrary: ev' rule: evaluate_groups.induct)
  case (2 lib b k xs groups ev)
  from "2.prems"(1) obtain js out where part: "evaluate_regime lib b k xs = Inr (js, out)"
    and rest: "evaluate_groups lib b groups (add_regime k (js, out) ev) = Inr ev'" by auto
  have j: "int (length js) = so_evaluated_samples out" "so_scenario out = k"
    using regime_judged [OF part] "2.prems"(3) by auto
  have "tallied (add_regime k (js, out) ev)"
    using "2.prems"(2) j by (auto simp: tallied_def add_regime_def judged_count_def normal_count_def filter_map comp_def)
  from "2.IH" [OF rest this] "2.prems"(3) show ?case by (simp add: add_regime_def j(2))
qed simp

lemma groups_evaluated:
  assumes "evaluate_groups lib b groups ev = Inr ev'"
    and "\<forall>(k, xs) \<in> set groups. \<exists>rows. default_features (ml_numpy lib) False xs = Inr rows \<and> length rows = n"
  shows "map so_evaluated_samples (ev_outcomes ev') = map so_evaluated_samples (ev_outcomes ev) @ replicate (length groups) (int n)"
  using assms
proof (induction lib b groups ev arbitrary: ev' rule: evaluate_groups.induct)
  case (2 lib b k xs groups ev)
  from "2.prems"(1) obtain js out where part: "evaluate_regime lib b k xs = Inr (js, out)"
    and rest: "evaluate_groups lib b groups (add_regime k (js, out) ev) = Inr ev'" by auto
  have "so_evaluated_samples out = int n" using part "2.prems"(2) by (auto simp: evaluate_regime_def Let_def)
  with "2.IH" [OF rest] "2.prems"(2) show ?case by (simp add: add_regime_def)
qed simp

lemma report_parts:
  assumes "evaluate_detectors lib b samples = Inr report" and "distinct (map ts_sample_id samples)"
  obtains ev dm mm where "evaluate_groups lib b (grouped samples) no_evaluation = Inr ev" "report = report_json b ev dm mm"
    "rates_ok dm" "rates_ok mm"
    "dm_true_positive dm + dm_false_positive dm + dm_true_negative dm + dm_false_negative dm = judged_count ev"
    "dm_true_positive mm + dm_false_positive mm + dm_true_negative mm + dm_false_negative mm = judged_count ev"
    "dm_true_negative dm + dm_false_positive dm = normal_count ev"
    "dm_true_negative mm + dm_false_positive mm = normal_count ev"
    "map so_scenario (ev_outcomes ev) = distinct_first (map ts_regime (ordered_samples samples))"
proof -
  from assms(1) obtain ev dm mm where ev: "evaluate_groups lib b (grouped samples) no_evaluation = Inr ev"
    and dm: "metrics (ev_truth ev) (ev_deterministic ev) = Inr dm" and mm: "metrics (ev_truth ev) (ev_model ev) = Inr mm"
    and report: "report = report_json b ev dm mm" by (auto simp: evaluate_detectors_def)
  have "tallied no_evaluation" by (simp add: tallied_def no_evaluation_def judged_count_def normal_count_def)
  from groups_tallied [OF ev this] group_ordered [OF _ assms(2)]
  have t: "tallied ev" "map so_scenario (ev_outcomes ev) = map fst (grouped samples)" by (auto simp: no_evaluation_def)
  from metrics_total [of "ev_truth ev" "ev_deterministic ev"] metrics_total [of "ev_truth ev" "ev_model ev"] t dm mm
  show thesis
    by (intro that [OF ev report]) (simp_all add: tallied_def grouped_eq comp_def)
qed

text \<open>C19: A report judges both detectors on the same samples: with distinct sample identifiers, each detector's confusion counts add up to the evaluated samples of all scenarios and its negatives to those of the normal scenario; every rate lies between zero and one; the scenarios appear once each, in the order of their first samples.\<close>

theorem report_is_complete:
  assumes "evaluate_detectors lib b samples = Inr report" and "distinct (map ts_sample_id samples)"
  shows "\<exists>ev dm mm. report = report_json b ev dm mm \<and> rates_ok dm \<and> rates_ok mm
     \<and> dm_true_positive dm + dm_false_positive dm + dm_true_negative dm + dm_false_negative dm = judged_count ev
     \<and> dm_true_positive mm + dm_false_positive mm + dm_true_negative mm + dm_false_negative mm = judged_count ev
     \<and> dm_true_negative dm + dm_false_positive dm = normal_count ev
     \<and> dm_true_negative mm + dm_false_positive mm = normal_count ev
     \<and> map so_scenario (ev_outcomes ev) = distinct_first (map ts_regime (ordered_samples samples))"
  by (rule report_parts [OF assms]) blast

section \<open>Evaluation returns\<close>

definition rule_values :: "telemetry_sample \<Rightarrow> bool" where
  "rule_values s = (\<forall>f \<in> {ts_temperature_c, ts_current_a, ts_vibration_rms_mps2}. f s = None \<or> finite_value (f s))"

lemma threshold_rule_total:
  assumes "h \<noteq> []" and "\<forall>s \<in> set h. rule_values s"
  shows "\<exists>v. threshold_or_sensor_rule h = Inr v"
proof -
  have "\<exists>ds. detect_sensor_failures (lit 30) (drop (length h - 12) h) = Inr ds"
    by (rule rules_return) (use assms(2) in \<open>auto simp: rule_values_def dest!: in_set_dropD\<close>)
  with assms(1) show ?thesis by (auto simp: threshold_or_sensor_rule_def)
qed

lemma lookup_keyed: "i \<in> key ` set xs \<Longrightarrow> \<exists>x. lookup (keyed key xs) i = Inr x"
  by (rule lookup_total) (simp add: keyed_keys)

lemma first_hit_total:
  "set ids \<subseteq> fst ` set by_id \<Longrightarrow> \<exists>d. first_hit by_id start predictions ids = Inr d"
  by (induction ids) (use lookup_total in \<open>fastforce+\<close>)

lemma delay_total:
  assumes "set ids \<subseteq> ts_sample_id ` set samples"
  shows "\<exists>d. delay samples ids predictions = Inr d"
proof (cases ids)
  case (Cons i rest)
  obtain s where "lookup (keyed ts_sample_id samples) i = Inr s"
    using lookup_keyed [of i ts_sample_id samples] assms Cons by auto
  moreover obtain d where "first_hit (keyed ts_sample_id samples) (ts_timestamp s) predictions ids = Inr d"
    using first_hit_total assms by (metis keyed_keys)
  ultimately show ?thesis by (simp add: delay_def Cons Let_def)
qed (simp add: delay_def)

lemma subseq_subset: "subseq xs ys \<Longrightarrow> set xs \<subseteq> set ys"
  by (metis set_nths_subset subseq_conv_nths)

lemma judge_total:
  assumes "i < length samples" and "\<forall>s \<in> set samples. rule_values s"
  shows "\<exists>js. judge_sample scores samples i = Inr js"
proof -
  have "take (i + 1) samples \<noteq> []" using assms(1) by (cases samples) auto
  then have "\<exists>v. threshold_or_sensor_rule (take (i + 1) samples) = Inr v"
    using assms(2) by (intro threshold_rule_total) (auto dest: in_set_takeD)
  then show ?thesis by (auto simp: judge_sample_def split: option.splits)
qed

lemma regime_total:
  assumes "scorable b" "answers lib (mb_estimator b)" "ordered_samples samples = samples" "\<forall>s \<in> set samples. rule_values s"
  shows "\<exists>part. evaluate_regime lib b regime samples = Inr part"
proof -
  obtain rows where f: "default_features (ml_numpy lib) False samples = Inr rows" using default_features_total by blast
  obtain results where r: "score_rows lib b rows = Inr results"
    using scores_exist [OF f assms(1)] assms(2) unfolding answers_def by blast
  have "subseq (map fr_sample_id rows) (map ts_sample_id samples)"
    using feature_ids f assms(3) unfolding default_features_def by metis
  from subseq_subset [OF this] have ids: "set (map fr_sample_id rows) \<subseteq> ts_sample_id ` set samples" by simp
  have "\<exists>js. collect (judge_sample (keyed sr_sample_id results) samples) [0 ..< length samples] = Inr js"
    using assms(4) by (intro collect_total judge_total) auto
  then obtain js where js: "collect (judge_sample (keyed sr_sample_id results) samples) [0 ..< length samples] = Inr js" ..
  show ?thesis
    using delay_total [OF ids, of "predictions_by_id jd_deterministic js"] delay_total [OF ids, of "predictions_by_id jd_model js"]
    by (auto simp: evaluate_regime_def f r js Let_def)
qed

lemma groups_total:
  assumes "scorable b" "answers lib (mb_estimator b)"
  shows "\<forall>(k, xs) \<in> set groups. ordered_samples xs = xs \<and> (\<forall>s \<in> set xs. rule_values s) \<Longrightarrow>
     \<exists>ev'. evaluate_groups lib b groups ev = Inr ev'"
proof (induction groups arbitrary: ev)
  case (Cons g groups)
  obtain k xs where g: "g = (k, xs)" by (cases g)
  with Cons.prems regime_total [OF assms, of xs k] obtain part where "evaluate_regime lib b k xs = Inr part" by auto
  with Cons show ?case by (simp add: g)
qed simp

text \<open>Evaluation returns for finite or missing readings and a usable bundle: no lookup, rule, score or rate fails.\<close>

lemma evaluation_returns:
  assumes "scorable b" "answers lib (mb_estimator b)" "distinct (map ts_sample_id samples)" "\<forall>s \<in> set samples. rule_values s"
  shows "\<exists>report. evaluate_detectors lib b samples = Inr report"
proof -
  have "set xs \<subseteq> set samples" if "(k, xs) \<in> set (grouped samples)" for k xs
    using that by (auto simp: grouped_eq ordered_samples_def)
  then have g: "\<forall>(k, xs) \<in> set (grouped samples). ordered_samples xs = xs \<and> (\<forall>s \<in> set xs. rule_values s)"
    using group_ordered [OF _ assms(3)] assms(4) by blast
  from groups_total [OF assms(1,2) this] obtain ev where ev: "evaluate_groups lib b (grouped samples) no_evaluation = Inr ev" by blast
  have "tallied no_evaluation" by (simp add: tallied_def no_evaluation_def judged_count_def normal_count_def)
  from groups_tallied [OF ev this] group_ordered [OF _ assms(3)] have "tallied ev" by auto
  then show ?thesis
    using metrics_total [of "ev_truth ev" "ev_deterministic ev"] metrics_total [of "ev_truth ev" "ev_model ev"]
    by (auto simp: evaluate_detectors_def ev tallied_def)
qed

theorem report_is_complete_witness:
  "\<exists>report ev dm mm. evaluate_detectors flat_ml flat_bundle (resting 12) = Inr report \<and> report = report_json flat_bundle ev dm mm
     \<and> rates_ok dm \<and> map so_scenario (ev_outcomes ev) = [''normal'']"
proof -
  have ids: "distinct (map ts_sample_id (resting 12))" by (simp add: resting_def steady_def comp_def distinct_map)
  have "answers flat_ml (mb_estimator flat_bundle)" using flat_estimator by (simp add: answers_def)
  moreover have "\<forall>s \<in> set (resting 12). rule_values s" by (auto simp: resting_def steady_def rule_values_def finite_value_def)
  ultimately obtain report where r: "evaluate_detectors flat_ml flat_bundle (resting 12) = Inr report"
    using evaluation_returns [OF flat_scorable _ ids] by blast
  have "distinct_first (map ts_regime (ordered_samples (resting 12))) = [''normal'']"
    unfolding ordered_resting by (simp add: resting_def steady_def distinct_first_def upt_rec)
  with report_is_complete [OF r ids] r show ?thesis by metis
qed

end
