(* ===== verification/DemoData.thy ===== *)
theory DemoData
  imports Evaluation Simulator WorkerLaws
begin

text \<open>
  The synthetic fixtures of \<open>services/anomaly_worker/demo_data.py\<close> and the commands of
  \<open>services/anomaly_worker/main.py\<close> that use them: training on a simulated baseline, evaluating
  both detectors on five simulated days and writing the report, and the worker's polling loop.
  The theory follows a demonstration from the simulator to the report: no gate, rule, score or
  rate fails on the way, and the report counts 55 samples of each scenario.
\<close>

section \<open>Samples of a scenario\<close>

definition utc_instant :: "int \<Rightarrow> int \<Rightarrow> int \<Rightarrow> int \<Rightarrow> int" where
  "utc_instant y m d h = days (ymd2ord y m d - ymd2ord 1970 1 1) + hours h"

definition demo_sample :: "string \<Rightarrow> int \<Rightarrow> int \<Rightarrow> nat \<times> scenario_value \<Rightarrow> telemetry_sample" where
  "demo_sample name sample_id_start start x =
     (case x of (offset, v) \<Rightarrow>
        \<lparr>ts_sample_id = sample_id_start + int offset, ts_timestamp = start + seconds (10 * int offset),
         ts_temperature_c = Some (sv_temperature_c v), ts_vibration_rms_mps2 = Some (sv_vibration_rms_mps2 v),
         ts_vibration_peak_mps2 = Some (sv_vibration_peak_mps2 v),
         ts_vibration_crest_factor = Some (sv_vibration_crest_factor v), ts_current_a = Some (sv_current_a v),
         ts_quality = sv_quality v, ts_fault_flags = sv_fault_flags v, ts_regime = name\<rparr>)"

definition scenario_samples :: "sim_lib \<Rightarrow> string \<Rightarrow> nat \<Rightarrow> int \<Rightarrow> int \<Rightarrow> int \<Rightarrow> telemetry_sample list res" where
  "scenario_samples lib name n sample_id_start start rseed =
     bindE (scenario_values lib name n rseed) (\<lambda>vs.
     Inr (map (demo_sample name sample_id_start start) (enumerate 0 vs)))"

definition demo_training_samples :: "sim_lib \<Rightarrow> telemetry_sample list res" where
  "demo_training_samples lib = scenario_samples lib ''normal'' 360 1 (utc_instant 2026 8 1 8) 20260811"

definition demo_scenarios :: "string list" where
  "demo_scenarios = [''normal'', ''rising-temperature'', ''vibration-imbalance'', ''current-overload'', ''sensor-stuck'']"

definition demo_day :: "sim_lib \<Rightarrow> nat \<Rightarrow> telemetry_sample list res" where
  "demo_day lib index =
     scenario_samples lib (demo_scenarios ! index) 60 (10000 + int index * 1000)
       (utc_instant 2026 8 (2 + int index) 8) (20260811 + int index)"

definition demo_evaluation_samples :: "sim_lib \<Rightarrow> telemetry_sample list res" where
  "demo_evaluation_samples lib =
     bindE (mapE (demo_day lib) [0 ..< length demo_scenarios]) (\<lambda>days. Inr (concat days))"

section \<open>The commands\<close>

text \<open>\<open>_timestamp\<close>; a time without an offset is refused by the argument parser.\<close>

definition timestamp_argument :: "'e codec \<Rightarrow> string \<Rightarrow> pydatetime res" where
  "timestamp_argument cd value =
     bindE (cd_fromisoformat cd (replace_z value)) (\<lambda>parsed.
     case parsed of
       Naive _ \<Rightarrow> Inl (OtherException ''ArgumentTypeError'')
     | Aware t \<Rightarrow> Inr (Aware t))"

definition evaluate_demo ::
  "sim_lib \<Rightarrow> 'e ml \<Rightarrow> 'e codec \<Rightarrow> path \<Rightarrow> string \<Rightarrow> fs \<Rightarrow> fs res" where
  "evaluate_demo sim lib cd directory name files =
     bindE (demo_training_samples sim) (\<lambda>training.
     bindE (raise_if (training = []) IndexError) (\<lambda>_.
     bindE (train_model lib training ''motor-01'' ''dc-motor'' (Aware (ts_timestamp (hd training)))
              (Aware (ts_timestamp (last training))) 200 (lit (2/100)) DEFAULT_RANDOM_SEED
              (Aware (utc_instant 2026 8 11 0))) (\<lambda>bundle.
     bindE (demo_evaluation_samples sim) (\<lambda>samples.
     bindE (evaluate_detectors lib bundle samples) (\<lambda>report.
     write_evaluation cd report directory name files)))))"

text \<open>
  One turn of \<open>_run\<close>: a pass over all devices in its own session, the mark of readiness after
  the first pass that succeeds, and every exception of the two caught and reported.
\<close>

record poller =
  pw_db :: db
  pw_files :: fs
  pw_marked_ready :: bool
  pw_errors :: "exc list"

definition mark_ready :: "fs \<Rightarrow> fs res" where
  "mark_ready files =
     bindE (mkdir_exist_ok [''run''] files) (\<lambda>made.
     bindE (raise_if (made [''run'', ''anomaly-worker-ready''] = Some Dir) OSError) (\<lambda>_.
     Inr (write_file [''run'', ''anomaly-worker-ready''] (''ready'' @ [CHR 0x0A]) made)))"

definition worker_turn ::
  "'e worker \<Rightarrow> runtime \<Rightarrow> settings \<Rightarrow> (string \<Rightarrow> nat \<Rightarrow> int) \<Rightarrow> poller \<Rightarrow> poller" where
  "worker_turn w rt cfg clks p =
     (case run_once w rt cfg (pw_files p) clks (pw_db p) of
        (d, Inl e) \<Rightarrow> p\<lparr>pw_db := d, pw_errors := pw_errors p @ [e]\<rparr>
      | (d, Inr _) \<Rightarrow>
          if pw_marked_ready p then p\<lparr>pw_db := d\<rparr>
          else (case mark_ready (pw_files p) of
                  Inl e \<Rightarrow> p\<lparr>pw_db := d, pw_errors := pw_errors p @ [e]\<rparr>
                | Inr files \<Rightarrow> p\<lparr>pw_db := d, pw_files := files, pw_marked_ready := True\<rparr>))"

section \<open>What the fixtures hold\<close>

text \<open>Values inside the contract's ranges; NumPy's statistics of such values do not overflow.\<close>

definition in_range :: "telemetry_sample \<Rightarrow> bool" where
  "in_range s = (\<exists>t r p c i. ts_temperature_c s = Some t \<and> ts_vibration_rms_mps2 s = Some r
     \<and> ts_vibration_peak_mps2 s = Some p \<and> ts_vibration_crest_factor s = Some c \<and> ts_current_a s = Some i
     \<and> ge_le (- 80) 200 t \<and> ge_le 0 2000 r \<and> ge_le 0 4000 p \<and> ge_le 0 100 c \<and> ge_le (- (1/10)) 10 i)"

definition numpy_ok :: "numpy \<Rightarrow> bool" where
  "numpy_ok np = finite_windows np {s. in_range s}"

lemma ge_le_finite: "ge_le lo hi x \<Longrightarrow> \<bar>lo\<bar> \<le> 2 ^ 53 \<Longrightarrow> \<bar>hi\<bar> \<le> 2 ^ 53 \<Longrightarrow> flt_finite x"
  by (cases x) (simp_all add: ge_le_def of_exact_small)

lemmas contract_finite = ge_le_finite [of "- 80" 200] ge_le_finite [of 0 2000] ge_le_finite [of 0 4000]
  ge_le_finite [of 0 100] ge_le_finite [of "- (1/10)" 10]

lemma in_range_finite:
  assumes "in_range s"
  shows "measurements_are_finite s" and "rule_values s"
  using assms by (auto simp: in_range_def measurements_are_finite_def rule_values_def finite_value_def contract_finite)

text \<open>A block of samples: identifiers and times in arithmetic progression, one regime, values in range.\<close>

definition block :: "string \<Rightarrow> nat \<Rightarrow> int \<Rightarrow> int \<Rightarrow> telemetry_sample list \<Rightarrow> bool" where
  "block name n first start xs =
     (map ts_sample_id xs = map (\<lambda>i. first + int i) [0 ..< n]
      \<and> map ts_timestamp xs = map (\<lambda>i. start + seconds (10 * int i)) [0 ..< n]
      \<and> (\<forall>s \<in> set xs. ts_regime s = name \<and> in_range s \<and> (name = ''normal'' \<longrightarrow> is_healthy s)))"

lemma scenario_value_in_range:
  assumes "name \<in> set SCENARIOS" "lib_ok lib" "i < n" "n \<le> 2 ^ 53"
  obtains v where "scenario_value_at lib name n rseed i = Inr v"
    "\<And>first start k. in_range (demo_sample name first start (k, v))
       \<and> (name = ''normal'' \<longrightarrow> is_healthy (demo_sample name first start (k, v)))"
proof -
  obtain w where w: "scenario_reading name (phase_of n i) i (healthy_reading lib rseed i) = Inr w" "tame w"
    by (rule scenario_tame [OF assms])
  obtain v where v: "emitted w = Inr v" "ge_le (- 80) 200 (sv_temperature_c v)" "ge_le 0 2000 (sv_vibration_rms_mps2 v)"
    "ge_le 0 4000 (sv_vibration_peak_mps2 v)" "ge_le 0 100 (sv_vibration_crest_factor v)"
    "ge_le (- (1/10)) 10 (sv_current_a v)" "sv_quality v = rw_quality w" "sv_fault_flags v = rw_fault_flags w"
    by (rule emitted_fits [OF w(2)])
  have q: "sv_quality v = ''good'' \<and> sv_fault_flags v = []" if "name = ''normal''"
  proof -
    have "w = healthy_reading lib rseed i" using w(1) unfolding that by (simp add: scenario_reading_def)
    then show ?thesis by (simp add: v(7,8) healthy_reading_def Let_def)
  qed
  show thesis
  proof (rule that)
    show "scenario_value_at lib name n rseed i = Inr v" using w(1) v(1) by (simp add: scenario_value_at_def)
    fix first start k
    have r: "in_range (demo_sample name first start (k, v))"
      using v(2-6) by (simp add: in_range_def demo_sample_def)
    with q in_range_finite(1) [OF r] have "name = ''normal'' \<longrightarrow> is_healthy (demo_sample name first start (k, v))"
      unfolding is_healthy_def by (auto simp: demo_sample_def)
    with r show "in_range (demo_sample name first start (k, v))
       \<and> (name = ''normal'' \<longrightarrow> is_healthy (demo_sample name first start (k, v)))" ..
  qed
qed

lemma scenario_block:
  assumes "name \<in> set SCENARIOS" "lib_ok lib" "n \<le> 2 ^ 53"
  shows "\<exists>xs. scenario_samples lib name n first start rseed = Inr xs \<and> block name n first start xs"
proof -
  have each: "\<exists>v. scenario_value_at lib name n rseed i = Inr v \<and> (\<forall>k. in_range (demo_sample name first start (k, v))
      \<and> (name = ''normal'' \<longrightarrow> is_healthy (demo_sample name first start (k, v))))" if "i \<in> set [0 ..< n]" for i
    using scenario_value_in_range [OF assms(1,2) _ assms(3), of i rseed] that by (metis atLeastLessThan_iff set_upt)
  then obtain vs where vs: "scenario_values lib name n rseed = Inr vs"
    unfolding scenario_values_def using mapE_total [of "[0 ..< n]"] by metis
  then have all: "list_all2 (\<lambda>i v. scenario_value_at lib name n rseed i = Inr v) [0 ..< n] vs"
    by (simp add: scenario_values_def mapE_all)
  then have len: "length vs = n" using list_all2_lengthD by fastforce
  let ?xs = "map (demo_sample name first start) (enumerate 0 vs)"
  have "in_range s \<and> (name = ''normal'' \<longrightarrow> is_healthy s) \<and> ts_regime s = name" if "s \<in> set ?xs" for s
  proof -
    from that obtain k v where s: "s = demo_sample name first start (k, v)" and "v \<in> set vs" by (auto simp: in_set_enumerate_eq)
    then obtain i where "i < n" "scenario_value_at lib name n rseed i = Inr v"
      using all len by (auto simp: list_all2_conv_all_nth in_set_conv_nth)
    with each [of i] show ?thesis by (auto simp: s demo_sample_def)
  qed
  moreover have "map ts_sample_id ?xs = map (\<lambda>i. first + int i) [0 ..< n]"
    "map ts_timestamp ?xs = map (\<lambda>i. start + seconds (10 * int i)) [0 ..< n]"
    by (rule nth_equalityI; simp add: len nth_enumerate_eq demo_sample_def)+
  ultimately show ?thesis by (simp add: scenario_samples_def vs block_def)
qed

section \<open>Training on the baseline\<close>

lemma ten_second_steps: "close_enough (lit 30) a b" if "ts_timestamp b - ts_timestamp a = seconds 10"
  by (simp add: close_enough_def that seconds_def ten_seconds of_exact_small rnd_numeral)

lemma block_nth:
  assumes "block name n first start xs" and "i < n"
  shows "ts_sample_id (xs ! i) = first + int i \<and> ts_timestamp (xs ! i) = start + seconds (10 * int i)"
    and "length xs = n"
proof -
  from assms(1) have ids: "map ts_sample_id xs = map (\<lambda>i. first + int i) [0 ..< n]"
    and ts: "map ts_timestamp xs = map (\<lambda>i. start + seconds (10 * int i)) [0 ..< n]" by (simp_all add: block_def)
  from arg_cong [OF ids, of length] show len: "length xs = n" by simp
  with assms(2) arg_cong [OF ids, of "\<lambda>l. l ! i"] arg_cong [OF ts, of "\<lambda>l. l ! i"]
  show "ts_sample_id (xs ! i) = first + int i \<and> ts_timestamp (xs ! i) = start + seconds (10 * int i)" by simp
qed

lemma block_length: "block name n first start xs \<Longrightarrow> length xs = n"
  unfolding block_def by (metis diff_zero length_map length_upt)

lemma block_ordered:
  assumes "block name n first start xs"
  shows "ordered_samples xs = xs" and "distinct (map ts_sample_id xs)" and "successively (close_enough (lit 30)) xs"
proof -
  note len = block_length [OF assms] and at = block_nth(1) [OF assms]
  have "sorted (map (\<lambda>s. (ts_timestamp s, ts_sample_id s)) xs)"
    by (rule sorted_iff_nth_mono [THEN iffD2]) (auto simp: len at less_eq_prod_def seconds_def)
  then show "ordered_samples xs = xs" unfolding ordered_samples_def by (intro properties_for_sort_key) simp_all
  show "distinct (map ts_sample_id xs)" by (simp add: distinct_conv_nth len at)
  show "successively (close_enough (lit 30)) xs"
    unfolding successively_conv_nth len
  proof (intro allI impI ten_second_steps)
    fix i assume "Suc i < n"
    then show "ts_timestamp (xs ! Suc i) - ts_timestamp (xs ! i) = seconds 10"
      using at [of i] at [of "Suc i"] by (simp add: seconds_def)
  qed
qed

lemma block_features:
  assumes "block name n first start xs" and "numpy_ok np" and "h \<longrightarrow> name = ''normal''"
  shows "\<exists>rows. default_features np h xs = Inr rows \<and> length rows = n - 5"
proof -
  have all: "\<forall>s \<in> set xs. in_range s \<and> (name = ''normal'' \<longrightarrow> is_healthy s)" using assms(1) by (simp add: block_def)
  then have "set xs \<subseteq> {s. in_range s}" by blast
  then have "finite_windows np (set xs)"
    using assms(2) unfolding numpy_ok_def finite_windows_def by (metis order_trans)
  moreover have "\<forall>s \<in> set xs. measurements_are_finite s" using all by (simp add: in_range_finite)
  moreover have "h \<longrightarrow> (\<forall>s \<in> set xs. is_healthy s)" using all assms(3) by simp
  ultimately obtain rows where "default_features np h xs = Inr rows"
    "map fr_sample_id rows = map ts_sample_id (drop 5 xs)"
    using regular_features [of xs 6 12 "lit 30" h np] block_ordered [OF assms(1)] by (auto simp: default_features_def)
  moreover from this(2) have "length rows = n - 5"
    using block_length [OF assms(1)] by (auto dest: map_eq_imp_length_eq)
  ultimately show ?thesis by blast
qed

text \<open>What the documentation of the learner promises.\<close>

definition learner_ok :: "'e ml \<Rightarrow> bool" where
  "learner_ok lib =
     (numpy_ok (ml_numpy lib)
      \<and> (\<forall>c rseed m. m \<noteq> [] \<longrightarrow> (\<exists>e. ml_fit lib 200 c rseed m = Inr e \<and> answers lib e))
      \<and> (\<forall>xs. \<exists>low median high. ml_quantile lib xs [lit (1/100), lit (5/10), lit (99/100)] = [low, median, high]))"

lemma quantiles_total:
  assumes "learner_ok lib"
  shows "\<exists>q. feature_quantiles lib m i names = Inr q"
proof (induction names arbitrary: i)
  case (Cons name names)
  obtain low median high where "ml_quantile lib (map (\<lambda>r. r ! i) m) [lit (1/100), lit (5/10), lit (99/100)] = [low, median, high]"
    using assms unfolding learner_ok_def by blast
  with Cons [of "i + 1"] show ?case by auto
qed simp

lemma two_percent: "contamination_ok (lit (2/100))"
proof -
  have "lit (1/1000) = Fin (rnd (1/1000))" "lit (2/100) = Fin (rnd (2/100))" "lit (2/10) = Fin (rnd (2/10))"
    by (rule of_exact_small, simp)+
  then show ?thesis by (simp add: contamination_ok_def rnd_mono)
qed

lemma demo_split: "training_split 355 200 = Inr 284"
proof -
  have f: "rnd (355 * rnd (8/10)) = 284" by code_simp
  have "rnd (8/10) \<le> 1" using rnd_le_float [of "8/10" 1] by simp
  moreover have "0 \<le> rnd (8/10)" by (simp add: rnd_nonneg)
  ultimately have "flt_mul (lit 355) (lit (8/10)) = Fin 284" using f by (simp add: of_exact_small rnd_numeral)
  then show ?thesis by (simp add: training_split_def)
qed

lemma block_ends:
  assumes "block name (Suc n) first start xs"
  shows "xs \<noteq> [] \<and> ts_timestamp (hd xs) = start \<and> ts_timestamp (last xs) = start + seconds (10 * int n)
     \<and> (\<forall>s \<in> set xs. start \<le> ts_timestamp s \<and> ts_timestamp s \<le> start + seconds (10 * int n))"
proof -
  note len = block_length [OF assms] and at = block_nth(1) [OF assms]
  have ne: "xs \<noteq> []" using len by auto
  then have "hd xs = xs ! 0" "last xs = xs ! n" using len by (simp_all add: hd_conv_nth last_conv_nth)
  moreover have "start \<le> ts_timestamp s \<and> ts_timestamp s \<le> start + seconds (10 * int n)" if "s \<in> set xs" for s
    using that at by (auto simp: in_set_conv_nth len seconds_def)
  ultimately show ?thesis using ne at [of 0] at [of n] by (simp add: seconds_def)
qed

lemma baseline_trains:
  assumes xs: "block ''normal'' 360 first start xs" and lib: "learner_ok lib" and c: "contamination_ok c"
  shows "\<exists>b. train_model lib xs ''motor-01'' ''dc-motor'' (Aware (ts_timestamp (hd xs))) (Aware (ts_timestamp (last xs)))
      200 c DEFAULT_RANDOM_SEED (Aware now) = Inr b \<and> scorable b \<and> answers lib (mb_estimator b)
      \<and> md_training_sample_count (mb_metadata b) = 284 \<and> md_validation_sample_count (mb_metadata b) = 71"
proof -
  note ends = block_ends [of _ 359, simplified, OF xs]
  let ?t = "ts_timestamp (hd xs)" let ?u = "ts_timestamp (last xs)"
  have np: "numpy_ok (ml_numpy lib)" using lib by (simp add: learner_ok_def)
  have sel: "selected_samples (Aware ?t) (Aware ?u) xs = Inr xs"
    unfolding selected_inside using ends by (auto intro!: filter_True)
  obtain rows where rows: "default_features (ml_numpy lib) True xs = Inr rows" "length rows = 355"
    using block_features [OF xs np] by auto
  let ?tr = "feature_matrix (take 284 rows)" let ?va = "feature_matrix (drop 284 rows)"
  have "?tr \<noteq> []" using rows(2) by (cases rows) (auto simp: feature_matrix_def)
  then obtain e where e: "ml_fit lib 200 c DEFAULT_RANDOM_SEED ?tr = Inr e" "answers lib e"
    using lib unfolding learner_ok_def by blast
  then obtain sc where sc: "ml_score_samples lib e ?va = Inr sc" unfolding answers_def by blast
  obtain q where q: "feature_quantiles lib ?tr 0 FEATURE_NAMES = Inr q" using quantiles_total [OF lib] by blast
  have order: "\<not> ?u \<le> ?t" using ends by (simp add: seconds_def)
  obtain b where b: "train_model lib xs ''motor-01'' ''dc-motor'' (Aware ?t) (Aware ?u) 200 c
      DEFAULT_RANDOM_SEED (Aware now) = Inr b" "mb_estimator b = e"
      "md_training_sample_count (mb_metadata b) = 284" "md_validation_sample_count (mb_metadata b) = 71"
    by (simp add: train_model_def order c sel model_version_def Let_def rows e(1) sc q demo_split)
      (simp add: feature_matrix_def rows(2) e(1) sc [unfolded feature_matrix_def])
  from trained_bundle_shape(1) [OF b(1)] have "fst ` set (mb_feature_quantiles b) = set FEATURE_NAMES"
    by (metis list.set_map)
  with trained_gates [OF b(1)] have "scorable b" by (auto simp: scorable_def)
  with b e(2) show ?thesis by blast
qed

section \<open>Five days of evaluation samples\<close>

lemma sorted_blocks:
  fixes f :: "nat \<Rightarrow> nat \<Rightarrow> int"
  assumes "\<And>k i j. i < j \<Longrightarrow> j < m \<Longrightarrow> f k i < f k j" and "\<And>k l i j. k < l \<Longrightarrow> i < m \<Longrightarrow> j < m \<Longrightarrow> f k i < f l j"
  shows "sorted_wrt (<) (concat (map (\<lambda>k. map (f k) [0 ..< m]) [0 ..< n]))"
proof (induction n)
  case (Suc n)
  have "sorted_wrt (<) (map (f n) [0 ..< m])" by (simp add: sorted_wrt_iff_nth_less assms(1))
  with Suc show ?case by (auto simp: sorted_wrt_append intro: assms(2))
qed simp

definition day_start :: "nat \<Rightarrow> int" where
  "day_start k = utc_instant 2026 8 (2 + int k) 8"

lemma day_start_eq: "day_start k = day_start 0 + days (int k)"
  by (simp add: day_start_def utc_instant_def ymd2ord_def days_def seconds_def)

definition demo_block :: "nat \<Rightarrow> telemetry_sample list \<Rightarrow> bool" where
  "demo_block k xs = block (demo_scenarios ! k) 60 (10000 + int k * 1000) (day_start k) xs"

lemma demo_scenarios_five: "length demo_scenarios = 5" "distinct demo_scenarios" "set demo_scenarios = set SCENARIOS"
  by (simp_all add: demo_scenarios_def SCENARIOS_def)

lemma demo_days:
  assumes "lib_ok lib"
  obtains dys where "mapE (demo_day lib) [0 ..< 5] = Inr dys" "length dys = 5" "\<forall>k < 5. demo_block k (dys ! k)"
proof -
  have day: "\<exists>xs. demo_day lib k = Inr xs \<and> demo_block k xs" if "k < 5" for k
  proof -
    have "demo_scenarios ! k \<in> set SCENARIOS" using that demo_scenarios_five by (metis nth_mem)
    from scenario_block [OF this assms] show ?thesis by (simp add: demo_day_def demo_block_def day_start_def)
  qed
  then obtain dys where m: "mapE (demo_day lib) [0 ..< 5] = Inr dys"
    using mapE_total [of "[0 ..< 5]" "demo_day lib"] by (metis atLeastLessThan_iff set_upt)
  then have all: "list_all2 (\<lambda>k xs. demo_day lib k = Inr xs) [0 ..< 5] dys" by (rule mapE_all)
  show thesis
  proof (rule that [OF m])
    show "length dys = 5" using list_all2_lengthD [OF all] by simp
    show "\<forall>k < 5. demo_block k (dys ! k)" using day list_all2_nthD [OF all] by fastforce
  qed
qed

lemma map_concat_blocks:
  assumes "length xss = n" and "\<And>k. k < n \<Longrightarrow> map f (xss ! k) = g k"
  shows "map f (concat xss) = concat (map g [0 ..< n])"
proof -
  have "map (map f) xss = map g [0 ..< n]" using assms by (intro nth_equalityI) simp_all
  then show ?thesis by (simp only: map_concat)
qed

lemma demo_sorted:
  assumes "length dys = 5" "\<forall>k < 5. demo_block k (dys ! k)"
  shows "ordered_samples (concat dys) = concat dys" "distinct (map ts_sample_id (concat dys))"
proof -
  have ids: "map ts_sample_id (concat dys) = concat (map (\<lambda>k. map (\<lambda>i. 10000 + int k * 1000 + int i) [0 ..< 60]) [0 ..< 5])"
    by (rule map_concat_blocks [OF assms(1)]) (drule assms(2) [rule_format], unfold demo_block_def block_def, elim conjE, assumption)
  have ts: "map ts_timestamp (concat dys) = concat (map (\<lambda>k. map (\<lambda>i. day_start k + seconds (10 * int i)) [0 ..< 60]) [0 ..< 5])"
    by (rule map_concat_blocks [OF assms(1)]) (drule assms(2) [rule_format], unfold demo_block_def block_def, elim conjE, assumption)
  have "sorted_wrt (<) (map ts_sample_id (concat dys))" unfolding ids by (rule sorted_blocks) linarith+
  then show "distinct (map ts_sample_id (concat dys))" by (simp add: strict_sorted_iff)
  have "sorted_wrt (<) (map ts_timestamp (concat dys))"
    unfolding ts
  proof (rule sorted_blocks)
    fix k l i j :: nat assume "k < l" "i < 60" "j < 60"
    then show "day_start k + seconds (10 * int i) < day_start l + seconds (10 * int j)"
      using day_start_eq [of k] day_start_eq [of l] unfolding days_def seconds_def by linarith
  qed (simp add: seconds_def)
  then have "sorted_wrt (\<lambda>s t. ts_timestamp s < ts_timestamp t) (concat dys)" by (simp add: sorted_wrt_map)
  then have "sorted_wrt (\<lambda>s t. (ts_timestamp s, ts_sample_id s) \<le> (ts_timestamp t, ts_sample_id t)) (concat dys)"
    by (rule sorted_wrt_mono_rel [rotated]) (simp add: less_eq_prod_def)
  then show "ordered_samples (concat dys) = concat dys"
    unfolding ordered_samples_def by (intro properties_for_sort_key) (simp_all only: sorted_wrt_map)
qed

lemma demo_block_regime:
  assumes "demo_block k xs" "s \<in> set xs"
  shows "ts_regime s = demo_scenarios ! k" "in_range s"
  using assms by (auto simp: demo_block_def block_def)

lemma filter_concat_block:
  assumes "k < length xss" and "\<And>x. x \<in> set (xss ! k) \<Longrightarrow> P x" and "\<And>j x. j < length xss \<Longrightarrow> j \<noteq> k \<Longrightarrow> x \<in> set (xss ! j) \<Longrightarrow> \<not> P x"
  shows "filter P (concat xss) = xss ! k"
proof -
  have "filter P (xss ! j) = (if j = k then xss ! k else [])" if "j < length xss" for j
    using assms(2,3) that by (auto intro: filter_True filter_False)
  then have f: "map (filter P) xss = map (\<lambda>j. if j = k then xss ! k else []) [0 ..< length xss]"
    by (intro nth_equalityI) simp_all
  have "concat (map (\<lambda>j. if j = k then xss ! k else []) [a ..< b]) = (if a \<le> k \<and> k < b then xss ! k else [])" for a b
    by (induction b) auto
  with assms(1) f show ?thesis by (simp add: filter_concat)
qed

section \<open>From the simulator to the report\<close>

lemma distinct_first_replicate:
  "x \<notin> set ys \<Longrightarrow> distinct_first (ys @ replicate (Suc m) x) = distinct_first ys @ [x]"
proof (induction m)
  case (Suc m)
  have "ys @ replicate (Suc (Suc m)) x = (ys @ replicate (Suc m) x) @ [x]" by (simp add: replicate_append_same)
  then show ?case using Suc by (simp only: distinct_first_snoc) simp
qed (simp add: distinct_first_snoc)

lemma distinct_first_blocks: "distinct xs \<Longrightarrow> distinct_first (concat (map (replicate (Suc m)) xs)) = xs"
proof (induction xs rule: rev_induct)
  case (snoc x xs)
  then have "x \<notin> set (concat (map (replicate (Suc m)) xs))" by auto
  from distinct_first_replicate [OF this, of m] snoc.IH snoc.prems show ?case
    by (simp del: replicate.simps)
qed (simp add: distinct_first_def)

lemma demo_groups:
  assumes "length dys = 5" "\<forall>k < 5. demo_block k (dys ! k)"
  shows "distinct_first (map ts_regime (ordered_samples (concat dys))) = demo_scenarios"
    and "(name, xs) \<in> set (grouped (concat dys)) \<Longrightarrow> \<exists>k < 5. demo_block k xs"
proof -
  note ordered = demo_sorted(1) [OF assms]
  have "map ts_regime (dys ! k) = replicate 60 (demo_scenarios ! k)" if "k < 5" for k
  proof (rule replicate_eqI)
    show "length (map ts_regime (dys ! k)) = 60"
      using block_length assms(2) [rule_format, OF that] unfolding demo_block_def by (metis length_map)
  qed (use demo_block_regime(1) [OF assms(2) [rule_format, OF that]] in auto)
  then have "map ts_regime (concat dys) = concat (map (\<lambda>k. replicate 60 (demo_scenarios ! k)) [0 ..< 5])"
    by (rule map_concat_blocks [OF assms(1)])
  also have "\<dots> = concat (map (replicate (Suc 59)) (map ((!) demo_scenarios) [0 ..< 5]))" by (simp only: map_map comp_def) simp
  also have "map ((!) demo_scenarios) [0 ..< 5] = demo_scenarios" using demo_scenarios_five(1) by (metis map_nth)
  finally have flat: "map ts_regime (concat dys) = concat (map (replicate (Suc 59)) demo_scenarios)" .
  show first: "distinct_first (map ts_regime (ordered_samples (concat dys))) = demo_scenarios"
    unfolding ordered flat by (rule distinct_first_blocks [OF demo_scenarios_five(2)])
  assume "(name, xs) \<in> set (grouped (concat dys))"
  then have "name \<in> set demo_scenarios" and xs: "xs = filter (\<lambda>s. ts_regime s = name) (concat dys)"
    unfolding grouped_eq first unfolding ordered by auto
  then obtain k where k: "k < 5" "name = demo_scenarios ! k" using demo_scenarios_five(1) by (metis in_set_conv_nth)
  have "xs = dys ! k"
    unfolding xs
  proof (rule filter_concat_block)
    fix j and x :: telemetry_sample assume "j < length dys" "j \<noteq> k" "x \<in> set (dys ! j)"
    then show "ts_regime x \<noteq> name"
      using demo_block_regime(1) [OF assms(2) [rule_format, of j]] k demo_scenarios_five(1,2) assms(1) by (metis nth_eq_iff_index_eq)
  qed (use demo_block_regime(1) [OF assms(2) [rule_format, OF k(1)]] k assms(1) in auto)
  with assms(2) k(1) show "\<exists>k < 5. demo_block k xs" by blast
qed

definition writable :: "path \<Rightarrow> string \<Rightarrow> fs \<Rightarrow> bool" where
  "writable directory name files = (\<not> list_ex (is_file files) (prefixes directory)
     \<and> files (directory @ [name]) \<noteq> Some Dir \<and> files (directory @ [name @ ''.tmp'']) \<noteq> Some Dir)"

lemma written:
  assumes "writable directory name files"
  shows "\<exists>files'. write_evaluation cd report directory name files = Inr files'
     \<and> files' (directory @ [name]) = Some (File (cd_json_text cd report)) \<and> files' (directory @ [name @ ''.tmp'']) = None"
proof -
  have "\<not> is_file files directory" using assms by (auto simp: writable_def list_ex_iff)
  moreover have "directory @ [x] \<notin> set (prefixes directory)" for x
    by (auto simp: in_set_prefixes dest: prefix_length_le)
  ultimately show ?thesis using assms by (simp add: write_evaluation_def mkdir_exist_ok_def writable_def Let_def)
qed

lemma filtered_sum:
  "(\<Sum>x \<leftarrow> filter (\<lambda>x. f x = k) xs. g x) = sum_list (map snd (filter (\<lambda>y. fst y = k) (zip (map f xs) (map g xs))))"
  by (induction xs) simp_all


section \<open>Examples\<close>

lemma flat_windows: "numpy_ok flat_numpy"
  unfolding numpy_ok_def finite_windows_def
proof (intro allI impI)
  fix seg assume "seg \<noteq> []" "set seg \<subseteq> {s. in_range s}"
  then have "in_range (last seg)" using last_in_set by blast
  then have "flt_finite (last (column ts_temperature_c seg))"
    using \<open>seg \<noteq> []\<close> by (auto simp: column_def last_map in_range_def contract_finite)
  then show "list_all flt_finite (segment_values flat_numpy seg)"
    by (simp add: segment_values_def slope_per_minute_def flat_numpy_def Let_def np_divide_def flt_max_def
        of_exact_small rnd_twentieth rnd_numeral)
qed

lemma flat_learner: "learner_ok flat_ml"
  using flat_windows flat_estimator by (simp add: learner_ok_def answers_def) (simp add: flat_ml_def)


section \<open>The polling loop\<close>

definition marked :: "poller \<Rightarrow> bool" where
  "marked p = (pw_marked_ready p \<longrightarrow> pw_files p [''run'', ''anomaly-worker-ready''] = Some (File (''ready'' @ [CHR 0x0A])))"

lemma turn_marked: "marked p \<Longrightarrow> marked (worker_turn w rt cfg clks p)"
  by (auto simp: marked_def worker_turn_def mark_ready_def mkdir_exist_ok_def write_file_def split: prod.splits sum.splits)

text \<open>Whatever passes fail, the loop goes on; the ready file exists once, and only once, a pass has succeeded.\<close>

lemma polling_loop:
  assumes "\<not> pw_marked_ready p"
  shows "marked (fold (worker_turn w rt cfg) clkss p)"
    and "pw_marked_ready (fold (worker_turn w rt cfg) clkss p) \<Longrightarrow>
       \<exists>clks d files n d'. run_once w rt cfg files clks d = (d', Inr n)"
proof -
  have "marked (fold (worker_turn w rt cfg) clkss q)" if "marked q" for q
    using that by (induction clkss arbitrary: q) (simp_all add: turn_marked)
  then show "marked (fold (worker_turn w rt cfg) clkss p)" using assms by (simp add: marked_def)
  have step: "pw_marked_ready (worker_turn w rt cfg clks q) \<Longrightarrow> pw_marked_ready q
      \<or> (\<exists>n d'. run_once w rt cfg (pw_files q) clks (pw_db q) = (d', Inr n))" for clks q
    by (auto simp: worker_turn_def split: prod.splits sum.splits if_splits)
  have "pw_marked_ready (fold (worker_turn w rt cfg) clkss q) \<Longrightarrow> pw_marked_ready q
      \<or> (\<exists>clks d files n d'. run_once w rt cfg files clks d = (d', Inr n))" for q
  proof (induction clkss arbitrary: q)
    case (Cons clks clkss)
    from Cons.IH [of "worker_turn w rt cfg clks q"] Cons.prems step [of clks q] show ?case unfolding fold_Cons comp_def by blast
  qed simp
  then show "pw_marked_ready (fold (worker_turn w rt cfg) clkss p) \<Longrightarrow>
       \<exists>clks d files n d'. run_once w rt cfg files clks d = (d', Inr n)" using assms by blast
qed

end
