(* ===== verification/Pipeline.thy ===== *)
theory Pipeline
  imports Ingestor DemoData
begin

text \<open>
  The way of a reading through the platform: the scenario publisher of
  \<open>simulator/telemetry_generator/main.py\<close>, the ingestor's \<open>handle_message\<close>, the telemetry table,
  and \<open>_telemetry_sample\<close> of the anomaly worker. Each component has its own theory; here
  their definitions are composed, message by message, and the result is compared with
  \<open>scenario_samples\<close>, the fixtures on which the worker's training and evaluation run.
\<close>

section \<open>Delivery\<close>

text \<open>\<open>json.dumps(...)\<close> is ASCII text, which the client encodes.\<close>

definition ascii_bytes :: "string \<Rightarrow> bytes" where
  "ascii_bytes s = map of_char s"

text \<open>The messages reach the ingestor one after the other; \<open>clks k\<close> is the clock of the \<open>k\<close>-th.\<close>

fun deliver_sent ::
  "runtime \<Rightarrow> decoder \<Rightarrow> (nat \<Rightarrow> nat \<Rightarrow> int) \<Rightarrow> nat \<Rightarrow> sent_message list \<Rightarrow> db \<Rightarrow> (db \<times> string list) res" where
  "deliver_sent rt dec clks k [] d = Inr (d, [])"
| "deliver_sent rt dec clks k (m # ms) d =
     bindE (handle_message rt dec (clks k) (sm_topic m) (ascii_bytes (sm_payload m)) d) (\<lambda>(d1, s).
     bindE (deliver_sent rt dec clks (Suc k) ms d1) (\<lambda>(d2, ss). Inr (d2, s # ss)))"

section \<open>Sizes\<close>

text \<open>The shortest text of a float has at most 24 characters.\<close>

definition short_repr :: "(flt \<Rightarrow> string) \<Rightarrow> bool" where
  "short_repr r = (\<forall>x. length (r x) \<le> 32)"

text \<open>A bound on the text of a value, with and without spaces after the separators.\<close>

fun json_size :: "json \<Rightarrow> nat" where
  "json_size JNull = 4"
| "json_size (JBool b) = 5"
| "json_size (JInt i) = length (str_of_int i)"
| "json_size (JNum x) = 32"
| "json_size (JStr s) = 6 * length s + 2"
| "json_size (JArr js) = 2 + sum_list (map (\<lambda>j. json_size j + 2) js)"
| "json_size (JObj kvs) = 2 + sum_list (map (\<lambda>(k, v). 6 * length k + json_size v + 6) kvs)"

lemma length_join_max: "length (join_with sep ps) \<le> sum_list (map (\<lambda>p. length p + length sep) ps)"
  by (induction sep ps rule: join_with.induct) simp_all

lemma length_join_map:
  assumes "\<And>x. x \<in> set xs \<Longrightarrow> length (f x) + length sep \<le> g x"
  shows "length (join_with sep (map f xs)) \<le> sum_list (map g xs)"
proof -
  have "sum_list (map (\<lambda>x. length (f x) + length sep) xs) \<le> sum_list (map g xs)"
    using assms by (intro sum_list_mono)
  with length_join_max [of sep "map f xs"] show ?thesis by (simp add: comp_def)
qed

lemma json_string_size: "length (json_string s) \<le> Suc (Suc (6 * length s))"
  using json_string_max [of s] by simp

lemma json_text_size: "short_repr r \<Longrightarrow> length (json_text r j) \<le> json_size j"
proof (induction r j rule: json_text.induct)
  case (6 r js)
  then have "length (join_with '', '' (map (json_text r) js)) \<le> sum_list (map (\<lambda>j. json_size j + 2) js)"
    by (intro length_join_map) simp
  then show ?case by simp
next
  case (7 r kvs)
  have "length (join_with '', '' (map (\<lambda>(k, v). json_string k @ '': '' @ json_text r v) kvs))
      \<le> sum_list (map (\<lambda>(k, v). 6 * length k + json_size v + 6) kvs)"
  proof (rule length_join_map, clarify)
    fix k v assume "(k, v) \<in> set kvs"
    with 7 have "length (json_text r v) \<le> json_size v" by blast
    with json_string_max [of k]
    show "length (json_string k @ '': '' @ json_text r v) + length '', '' \<le> 6 * length k + json_size v + 6" by simp
  qed
  then show ?case by simp
qed (simp_all add: short_repr_def json_string_size)

lemma json_dumps_size: "short_repr r \<Longrightarrow> length (json_dumps r j) \<le> json_size j"
proof (induction r j rule: json_dumps.induct)
  case (6 r js)
  then have "length (join_with '','' (map (json_dumps r) js)) \<le> sum_list (map (\<lambda>j. json_size j + 2) js)"
    by (intro length_join_map) fastforce
  then show ?case by simp
next
  case (7 r kvs)
  have "length (join_with '','' (map (\<lambda>(k, v). json_string k @ '':'' @ json_dumps r v) kvs))
      \<le> sum_list (map (\<lambda>(k, v). 6 * length k + json_size v + 6) kvs)"
  proof (rule length_join_map, clarify)
    fix k v assume "(k, v) \<in> set kvs"
    with 7 have "length (json_dumps r v) \<le> json_size v" by blast
    with json_string_max [of k]
    show "length (json_string k @ '':'' @ json_dumps r v) + length '','' \<le> 6 * length k + json_size v + 6" by simp
  qed
  then show ?case by simp
qed (simp_all add: short_repr_def json_string_size)

lemma digits_length: "0 < k \<Longrightarrow> n < 10 ^ k \<Longrightarrow> length (digits_of n) \<le> k"
proof (induction n arbitrary: k rule: digits_of.induct)
  case (1 n)
  show ?case
  proof (cases "n < 10")
    case False
    obtain j where k: "k = Suc j" using "1.prems"(1) by (cases k) auto
    have j: "0 < j" using False "1.prems"(2) unfolding k by (cases j) simp_all
    have "n div 10 < 10 ^ j" using "1.prems"(2) unfolding k by (simp add: div_less_iff_less_mult mult.commute)
    with "1.IH" [OF False j] show ?thesis by (simp add: digits_of.simps [of n] False k)
  qed (use "1.prems" in \<open>simp add: digits_of.simps [of n]\<close>)
qed

lemma str_of_int_length:
  assumes "0 \<le> i" "i < 2 ^ 63"
  shows "length (str_of_int i) \<le> 19"
proof -
  have "nat i < 10 ^ 19" using assms by (simp add: nat_less_iff)
  from digits_length [OF _ this] assms(1) show ?thesis by (simp add: str_of_int_def)
qed

text \<open>The instants that \<open>datetime\<close> represents, from year 1 to year 9999.\<close>

definition datetime_ok :: "int \<Rightarrow> bool" where
  "datetime_ok t = (- days 719162 \<le> t \<and> t < days 2932897)"

lemma padded_length:
  assumes "0 < k" "w \<le> k" "n < 10 ^ k"
  shows "length (zero_padded w n) \<le> k"
proof -
  have "nat n < 10 ^ k" using assms(3) by (cases "0 \<le> n") (simp_all add: nat_less_iff)
  from digits_length [OF assms(1) this] assms(2) show ?thesis by (simp add: zero_padded_def Let_def)
qed

lemma month_day_bounds:
  "0 \<le> n \<Longrightarrow> \<forall>l \<in> set ls. 0 \<le> l \<Longrightarrow> month_day m ls n = (m', d) \<Longrightarrow> m' \<le> m + int (length ls) \<and> d \<le> n + 1"
  by (induction m ls n rule: month_day.induct) (fastforce split: if_splits)+

lemma ord2ymd_bounds:
  assumes "n \<le> 3652059" and "ord2ymd n = (y, m, d)"
  shows "y < 10 ^ 5" "m < 10 ^ 2" "d < 10 ^ 3"
proof -
  define n400 r400 where "n400 = (n - 1) div 146097" and "r400 = (n - 1) mod 146097"
  define n100 r100 where "n100 = r400 div 36524" and "r100 = r400 mod 36524"
  define n4 r4 where "n4 = r100 div 1461" and "r4 = r100 mod 1461"
  define n1 r where "n1 = r4 div 365" and "r = r4 mod 365"
  note defs = n400_def r400_def n100_def r100_def n4_def r4_def n1_def r_def
  have b: "n400 \<le> 24" "r400 < 146097" "0 \<le> r400" using assms(1) unfolding n400_def r400_def by simp_all
  then have c: "n100 \<le> 4" "r100 < 36524" "0 \<le> r100" unfolding n100_def r100_def by simp_all
  then have e: "n4 \<le> 24" "r4 < 1461" "0 \<le> r4" unfolding n4_def r4_def by simp_all
  then have f: "n1 \<le> 4" "r < 365" "0 \<le> r" unfolding n1_def r_def by simp_all
  let ?y = "n400 * 400 + 1 + n100 * 100 + n4 * 4 + n1" and ?leap = "n1 = 3 \<and> (n4 \<noteq> 24 \<or> n100 = 3)"
  have eq: "ord2ymd n = (if n1 = 4 \<or> n100 = 4 then (?y - 1, 12, 31)
      else let (m, d) = month_day 1 (month_lengths ?leap) r in (?y, m, d))"
    by (simp add: ord2ymd_def Let_def defs)
  have "y \<le> ?y \<and> m \<le> 13 \<and> d \<le> 366"
  proof (cases "n1 = 4 \<or> n100 = 4")
    case False
    obtain m' d' where md: "month_day 1 (month_lengths ?leap) r = (m', d')" by (cases "month_day 1 (month_lengths ?leap) r")
    with False eq assms(2) have "y = ?y" "m = m'" "d = d'" by simp_all
    moreover have "m' \<le> 13 \<and> d' \<le> r + 1"
      using month_day_bounds [OF f(3) _ md] by (auto simp: month_lengths_def)
    ultimately show ?thesis using f by simp
  qed (use eq assms(2) in auto)
  then show "y < 10 ^ 5" "m < 10 ^ 2" "d < 10 ^ 3" using b c e f by simp_all
qed

lemma iso_parts_length:
  "length y \<le> 5 \<Longrightarrow> length m \<le> 2 \<Longrightarrow> length d \<le> 3 \<Longrightarrow> length h \<le> 2 \<Longrightarrow> length mi \<le> 2 \<Longrightarrow> length s \<le> 2 \<Longrightarrow> length us \<le> 6 \<Longrightarrow>
     length ((y @ ''-'' @ m @ ''-'' @ d @ ''T'' @ h @ '':'' @ mi @ '':'' @ s @ (if c then [] else ''.'' @ us)) @ ''Z'') \<le> 40"
  by simp

lemma isoformat_length:
  assumes "datetime_ok t"
  shows "length (isoformat_z t) \<le> 40"
proof -
  obtain y m d where ymd: "ord2ymd (t div 86400000000 + 719163) = (y, m, d)" by (metis prod_cases3)
  have "t div 86400000000 + 719163 \<le> 3652059" using assms by (simp add: datetime_ok_def days_def seconds_def) linarith
  note b = ord2ymd_bounds [OF this ymd]
  define us where "us = t mod 86400000000"
  define s where "s = us div 1000000"
  have "us < 86400000000" by (simp add: us_def)
  then have "s div 3600 < 10 ^ 2" unfolding s_def by simp
  moreover have "s div 60 mod 60 < 10 ^ 2" "s mod 60 < 10 ^ 2" "us mod 1000000 < 10 ^ 6"
    using pos_mod_bound [of 60 "s div 60"] pos_mod_bound [of 60 s] pos_mod_bound [of 1000000 us] by simp_all
  note bounds = calculation this
  show ?thesis
    unfolding isoformat_z_def iso_utc_def ymd Let_def prod.case us_def [symmetric] s_def [symmetric]
    by (intro iso_parts_length padded_length b bounds) simp_all
qed

section \<open>The envelope of a reading\<close>

text \<open>\<open>build_envelope\<close> as a value of the contract's model; the texts of a reading are those of its two literal types.\<close>

definition quality_of :: "string \<Rightarrow> quality" where
  "quality_of s = (case find (\<lambda>q. quality_str q = s) [Good, Degraded] of Some q \<Rightarrow> q | None \<Rightarrow> Bad)"

definition status_of :: "string \<Rightarrow> sensor_status" where
  "status_of s = (case find (\<lambda>q. sensor_status_str q = s) [SGood, SMissing, SStuck, SOutOfRange, SNoisy, SRateInvalid] of
     Some q \<Rightarrow> q | None \<Rightarrow> SDriverError)"

lemma literal_texts [simp]: "quality_of (quality_str q) = q" "status_of (sensor_status_str st) = st"
  by (cases q; simp add: quality_of_def) (cases st; simp add: status_of_def)

definition steady_quality :: "sensor_status \<Rightarrow> int \<Rightarrow> sensor_quality" where
  "steady_quality s n = \<lparr>sq_status = s, sq_valid_samples = n, sq_expected_samples = n, sq_error_code = None\<rparr>"

definition simulated_envelope :: "sim_lib \<Rightarrow> publish_args \<Rightarrow> int \<Rightarrow> nat \<Rightarrow> scenario_value \<Rightarrow> telemetry_envelope" where
  "simulated_envelope lib args start k v =
     (let n = pa_sequence_start args + int k in
      \<lparr>te_schema_version = 1,
       te_message_id = sl_uuid5 lib (''iiot:'' @ pa_session_id args @ '':'' @ ''motor-01'' @ '':'' @ str_of_int n),
       te_site_id = ''workshop-demo'', te_device_id = ''motor-01'', te_sequence = n,
       te_device_time = Some (Aware (start + seconds (10 * int k))), te_clock_synchronized = True,
       te_uptime_ms = (n + 1) * 10000, te_firmware_version = ''0.1.0-sim'', te_quality = quality_of (sv_quality v),
       te_replayed = False,
       te_measurements = \<lparr>temperature_c = Some (sv_temperature_c v), vibration_rms_mps2 = Some (sv_vibration_rms_mps2 v),
         vibration_peak_mps2 = Some (sv_vibration_peak_mps2 v), vibration_crest_factor = Some (sv_vibration_crest_factor v),
         current_a = Some (sv_current_a v)\<rparr>,
       te_sample_quality = \<lparr>spl_temperature = steady_quality (status_of (sv_temperature_status v)) 10,
         spl_vibration = steady_quality SGood 256, spl_current = steady_quality SGood 50\<rparr>,
       te_fault_flags = sv_fault_flags v\<rparr>)"

text \<open>What a generated reading holds, as far as the way to the table needs it.\<close>

definition sendable :: "scenario_value \<Rightarrow> bool" where
  "sendable v =
     (ge_le (- 80) 200 (sv_temperature_c v) \<and> ge_le 0 2000 (sv_vibration_rms_mps2 v)
      \<and> ge_le 0 4000 (sv_vibration_peak_mps2 v) \<and> ge_le 0 100 (sv_vibration_crest_factor v)
      \<and> ge_le (- (1/10)) 10 (sv_current_a v)
      \<and> (\<exists>q. sv_quality v = quality_str q) \<and> (\<exists>s. sv_temperature_status v = sensor_status_str s)
      \<and> length (sv_fault_flags v) \<le> 1 \<and> (\<forall>f \<in> set (sv_fault_flags v). length f \<le> 24))"

lemma scenario_flags:
  "scenario_reading name phase i (healthy_reading lib s i) = Inr w \<Longrightarrow>
     length (rw_fault_flags w) \<le> 1 \<and> (\<forall>f \<in> set (rw_fault_flags w). length f \<le> 24)"
  by (auto simp: scenario_reading_def healthy_reading_def warned_def Let_def split: if_splits)

lemma readings_sendable:
  assumes "name \<in> set SCENARIOS" "lib_ok lib" "i < n" "n \<le> 2 ^ 53"
    and "scenario_value_at lib name n rseed i = Inr v"
  shows "sendable v"
proof -
  obtain w where w: "scenario_reading name (phase_of n i) i (healthy_reading lib rseed i) = Inr w" "tame w"
    by (rule scenario_tame [OF assms(1-4)])
  then have v: "emitted w = Inr v" using assms(5) by (simp add: scenario_value_at_def)
  obtain q st where q: "quality_str q = rw_quality w" "sensor_status_str st = rw_temperature_status w"
    using scenario_labelled [OF w(1)] by (auto simp: labelled_def)
  show ?thesis
    by (rule emitted_fits [OF w(2)])
      (use v scenario_flags [OF w(1)] in \<open>auto simp: sendable_def simp flip: q\<close>)
qed

lemma simulated_valid:
  assumes "sendable v" "0 \<le> pa_sequence_start args"
  shows "telemetry_envelope_ok (simulated_envelope lib args start k v)"
proof -
  have "identifier_ok ''workshop-demo''" "identifier_ok ''motor-01''" by code_simp+
  with assms show ?thesis
    by (simp add: sendable_def simulated_envelope_def Let_def steady_quality_def telemetry_envelope_ok_def measurements_ok_def
        opt_ge_le_def sample_quality_ok_def sensor_quality_ok_def opt_max_length_def clock_state_is_consistent_def)
qed

lemma simulated_members:
  assumes "sendable v"
  shows "build_envelope lib v (pa_sequence_start args + int k) (start + seconds (10 * int k)) (pa_session_id args)
    = envelope_members (simulated_envelope lib args start k v)"
proof -
  obtain q st where "sv_quality v = quality_str q" "sv_temperature_status v = sensor_status_str st"
    using assms by (auto simp: sendable_def)
  then show ?thesis
    by (simp add: build_envelope_def envelope_members_def simulated_envelope_def Let_def steady_quality_def measurements_json_def
        sample_quality_json_def sensor_quality_json_def steady_sensor_def)
qed

lemma literal_lengths: "length (quality_str q) \<le> 8" "length (sensor_status_str st) \<le> 12"
  by (cases q; simp) (cases st; simp)

lemma flags_size:
  assumes "length fs \<le> 1" "\<forall>f \<in> set fs. length f \<le> 24"
  shows "json_size (jstrs fs) \<le> 150"
  using assms by (cases fs) (auto simp: jstrs_def)

lemma simulated_sizes:
  assumes v: "sendable v" and uuid: "length (te_message_id (simulated_envelope lib args start k v)) \<le> 36"
    and n: "0 \<le> pa_sequence_start args" "(pa_sequence_start args + int k + 1) * 10000 < 2 ^ 63"
    and t: "datetime_ok (start + seconds (10 * int k))"
  defines "e \<equiv> simulated_envelope lib args start k v"
  shows "json_size (JObj (envelope_members e)) \<le> 5000" and "json_size (telemetry_event e) \<le> 2000"
proof -
  have "pa_sequence_start args + int k < 2 ^ 63" using n by simp
  then have nums: "length (str_of_int (te_sequence e)) \<le> 19" "length (str_of_int (te_uptime_ms e)) \<le> 19"
    using n by (simp_all add: e_def simulated_envelope_def Let_def str_of_int_length)
  have "length (isoformat_z (start + seconds (10 * int k))) \<le> 40" by (rule isoformat_length [OF t])
  then have time: "json_size (jopt (\<lambda>t. JStr (isoformat_z (dt_us t))) (te_device_time e)) \<le> 242"
    by (simp add: e_def simulated_envelope_def Let_def)
  have "json_size (jstrs (sv_fault_flags v)) \<le> 150" using v flags_size by (simp add: sendable_def)
  then have flags: "json_size (jstrs (te_fault_flags e)) \<le> 150" by (simp add: e_def simulated_envelope_def Let_def)
  have "json_size (sensor_quality_json (steady_quality s m)) \<le> 430"
    if "0 \<le> m" "m < 2 ^ 63" for s m
    using str_of_int_length [OF that] literal_lengths(2) [of s] by (simp add: sensor_quality_json_def steady_quality_def)
  from this [of 10 "status_of (sv_temperature_status v)"] this [of 256 SGood] this [of 50 SGood]
  have quality: "json_size (sample_quality_json (te_sample_quality e)) \<le> 1600"
    by (simp add: e_def simulated_envelope_def Let_def sample_quality_json_def)
  have numbers: "json_size (measurements_json (te_measurements e)) \<le> 900"
    by (simp add: e_def simulated_envelope_def Let_def measurements_json_def)
  have fields: "te_schema_version e = 1" "te_site_id e = ''workshop-demo''" "te_device_id e = ''motor-01''"
    "te_firmware_version e = ''0.1.0-sim''" by (simp_all add: e_def simulated_envelope_def Let_def)
  have one: "length (str_of_int 1) \<le> 19" by (rule str_of_int_length) simp_all
  note parts = uuid [folded e_def] nums time flags quality numbers one literal_lengths(1) [of "te_quality e"]
  show "json_size (JObj (envelope_members e)) \<le> 5000"
    using parts by (simp add: envelope_members_def fields)
  show "json_size (telemetry_event e) \<le> 2000"
    using parts by (simp add: telemetry_event_def fields)
qed

section \<open>Handling the messages of a run\<close>

definition decodes :: "decoder \<Rightarrow> (flt \<Rightarrow> string) \<Rightarrow> telemetry_envelope \<Rightarrow> bool" where
  "decodes dec repr e =
     (\<exists>raw. json_loads dec (ascii_bytes (json_text repr (JObj (envelope_members e)))) = Inr raw
        \<and> read_telemetry dec raw = Some e)"

text \<open>An envelope that nothing but the store can refuse.\<close>

definition deliverable :: "runtime \<Rightarrow> decoder \<Rightarrow> (flt \<Rightarrow> string) \<Rightarrow> telemetry_envelope \<Rightarrow> bool" where
  "deliverable rt dec repr e =
     (telemetry_envelope_ok e \<and> decodes dec repr e \<and> int64_ok (te_sequence e) \<and> int64_ok (te_uptime_ms e)
      \<and> length (json_text repr (JObj (envelope_members e))) \<le> MAX_PAYLOAD_BYTES
      \<and> \<not> event_too_large rt (telemetry_event e) \<and> te_device_time e \<noteq> None)"

definition message_of :: "(flt \<Rightarrow> string) \<Rightarrow> string \<Rightarrow> telemetry_envelope \<Rightarrow> sent_message" where
  "message_of repr t e =
     \<lparr>sm_topic = t, sm_payload = json_text repr (JObj (envelope_members e)), sm_qos = 1, sm_retain = False\<rparr>"

text \<open>No row has the message's identity or its sequence, and the device is not registered at another site.\<close>

definition unseen :: "telemetry_envelope \<Rightarrow> db \<Rightarrow> bool" where
  "unseen e d = (get_telemetry (te_message_id e) d = None \<and> sequence_owner (te_device_id e) (te_sequence e) d = None
     \<and> \<not> site_mismatch (te_device_id e) (te_site_id e) d)"

lemma delivered_message:
  assumes e: "deliverable rt dec repr e" and t: "topic (te_site_id e) (te_device_id e) TELEMETRY = Inr t"
    and new: "unseen e d"
  shows "handle_message rt dec clk t (ascii_bytes (json_text repr (JObj (envelope_members e)))) d
    = Inr (with_event rt (telemetry_event e) (telemetry_writes clk e d d), ''inserted'')"
proof -
  note topic = parse_topic_topic [OF t]
  have "decode_payload dec t (ascii_bytes (json_text repr (JObj (envelope_members e)))) = Inr e"
    using e topic by (auto simp: decoders deliverable_def decodes_def ascii_bytes_def)
  moreover have "telemetry_flush_error e d d = None"
    using e new by (simp add: telemetry_flush_error_None telemetry_conflict_same deliverable_def unseen_def)
  then have "persist_telemetry rt clk e d
      = Inr (with_event rt (telemetry_event e) (telemetry_writes clk e d d), inserted_of (te_message_id e))"
    using e new by (simp add: persist_telemetry_def telemetry_txn_eq deliverable_def unseen_def)
  ultimately show ?thesis by (simp add: handle_message_def persist_message_def topic)
qed

text \<open>What the worker reads back from the row of an envelope with a device time.\<close>

definition stored_sample :: "nat \<Rightarrow> telemetry_envelope \<Rightarrow> telemetry_sample" where
  "stored_sample i e = telemetry_sample_of ((telemetry_row_of e (Aware 0) [])\<lparr>tel_id := i\<rparr>)"

lemma stored_row:
  "te_device_time e \<noteq> None \<Longrightarrow>
     telemetry_sample_of (telemetry_row_of e now rows) = stored_sample (row_fresh tel_id rows) e"
  by (auto simp: stored_sample_def telemetry_sample_of_def telemetry_row_of_def)

lemma row_fresh_snoc:
  assumes "key r = row_fresh key rs"
  shows "row_fresh key (rs @ [r]) = Suc (row_fresh key rs)"
proof -
  have "foldr (\<lambda>r m. max (key r) m) rs a = max (foldr (\<lambda>r m. max (key r) m) rs 0) a" for a
    by (induction rs) (simp_all add: max.assoc)
  from this [of "key r"] show ?thesis using assms by (simp add: row_fresh_def)
qed

lemma unseen_after:
  assumes "unseen e d" "unseen e' d" "te_message_id e' \<noteq> te_message_id e" "te_sequence e' \<noteq> te_sequence e"
    and "te_device_id e' = te_device_id e" "te_site_id e' = te_site_id e"
  shows "unseen e' (with_event rt ev (telemetry_writes clk e d d))"
proof -
  have "\<not> site_mismatch (te_device_id e) (te_site_id e) (telemetry_writes clk e d d)"
  proof -
    have "get_device (te_device_id e) (telemetry_writes clk e d d) = get_device (te_device_id e)
        (upsert_device (get_device (te_device_id e) d = None) (te_device_id e) (te_site_id e) (Aware (clk 4))
          (device_after_telemetry e (Aware (clk 0))) d)"
      by (rule get_device_cong) simp
    then show ?thesis
      using assms(1) by (auto simp: get_device_upsert unseen_def site_mismatch_def new_device_def split: option.splits)
  qed
  with assms show ?thesis
    by (auto simp: unseen_def get_telemetry_None sequence_owner_None) (auto simp: site_mismatch_def)
qed

lemma run_delivered:
  assumes "\<forall>e \<in> set es. deliverable rt dec repr e \<and> te_site_id e = site \<and> te_device_id e = did \<and> unseen e d"
    and t: "topic site did TELEMETRY = Inr t"
    and "distinct (map te_message_id es)" "distinct (map te_sequence es)"
  shows "\<exists>d' rows. deliver_sent rt dec clks k (map (message_of repr t) es) d = Inr (d', replicate (length es) ''inserted'')
     \<and> db_telemetry d' = db_telemetry d @ rows \<and> db_errors d' = db_errors d
     \<and> map telemetry_sample_of rows = map (\<lambda>(i, e). stored_sample i e) (enumerate (row_fresh tel_id (db_telemetry d)) es)"
  using assms(1,3,4)
proof (induction es arbitrary: k d)
  case (Cons e es)
  let ?d = "with_event rt (telemetry_event e) (telemetry_writes (clks k) e d d)"
  let ?row = "telemetry_row_of e (Aware (clks k 0)) (db_telemetry d)"
  have e: "deliverable rt dec repr e" "topic (te_site_id e) (te_device_id e) TELEMETRY = Inr t" "unseen e d"
    using Cons.prems t by simp_all
  note one = delivered_message [OF e, of "clks k"]
  have rest: "\<forall>x \<in> set es. deliverable rt dec repr x \<and> te_site_id x = site \<and> te_device_id x = did \<and> unseen x ?d"
  proof
    fix x assume x: "x \<in> set es"
    then have "te_message_id x \<noteq> te_message_id e" "te_sequence x \<noteq> te_sequence e"
      using Cons.prems(2,3) by (simp_all, metis imageI)+
    with x Cons.prems(1) show "deliverable rt dec repr x \<and> te_site_id x = site \<and> te_device_id x = did \<and> unseen x ?d"
      using unseen_after [OF e(3)] by simp
  qed
  have "distinct (map te_message_id es)" "distinct (map te_sequence es)" using Cons.prems(2,3) by simp_all
  from Cons.IH [OF rest this, of "Suc k"] obtain d' rows where
    ih: "deliver_sent rt dec clks (Suc k) (map (message_of repr t) es) ?d = Inr (d', replicate (length es) ''inserted'')"
      "db_telemetry d' = db_telemetry ?d @ rows" "db_errors d' = db_errors ?d"
      "map telemetry_sample_of rows = map (\<lambda>(i, e). stored_sample i e) (enumerate (row_fresh tel_id (db_telemetry ?d)) es)" by blast
  have fresh: "row_fresh tel_id (db_telemetry ?d) = Suc (row_fresh tel_id (db_telemetry d))"
    by (simp add: row_fresh_snoc telemetry_row_of_def)
  have "deliver_sent rt dec clks k (map (message_of repr t) (e # es)) d = Inr (d', replicate (length (e # es)) ''inserted'')"
    using one ih(1) by (simp add: message_of_def)
  moreover have "db_telemetry d' = db_telemetry d @ ?row # rows" "db_errors d' = db_errors d" using ih(2,3) by simp_all
  moreover have "map telemetry_sample_of (?row # rows)
      = map (\<lambda>(i, e). stored_sample i e) (enumerate (row_fresh tel_id (db_telemetry d)) (e # es))"
  proof -
    have "te_device_time e \<noteq> None" using e(1) by (simp add: deliverable_def)
    from stored_row [OF this] ih(4) show ?thesis unfolding fresh by simp
  qed
  ultimately show ?case by blast
qed simp

section \<open>From the generator to the worker\<close>

text \<open>
  A run of the publisher against a store: the sequence and the instants fit their types, the
  name-based UUIDs of the run are 36 characters long and distinct, and the store has not seen
  the run before.
\<close>

definition run_fits :: "sim_lib \<Rightarrow> publish_args \<Rightarrow> int \<Rightarrow> bool" where
  "run_fits lib args start =
     (pa_scenario args \<in> set SCENARIOS \<and> pa_count args \<le> 2 ^ 53
      \<and> 0 \<le> pa_sequence_start args \<and> (pa_sequence_start args + int (pa_count args)) * 10000 < 2 ^ 63
      \<and> (\<forall>k < pa_count args. datetime_ok (start + seconds (10 * int k)))
      \<and> (let uuid = (\<lambda>k. sl_uuid5 lib (''iiot:'' @ pa_session_id args @ '':'' @ ''motor-01'' @ '':''
              @ str_of_int (pa_sequence_start args + int k)))
         in (\<forall>k < pa_count args. length (uuid k) \<le> 36) \<and> inj_on uuid {..<pa_count args}))"

definition run_unseen :: "sim_lib \<Rightarrow> publish_args \<Rightarrow> int \<Rightarrow> db \<Rightarrow> bool" where
  "run_unseen lib args start d = (\<forall>k < pa_count args. \<forall>v. unseen (simulated_envelope lib args start k v) d)"

definition run_decodes :: "sim_lib \<Rightarrow> decoder \<Rightarrow> (flt \<Rightarrow> string) \<Rightarrow> publish_args \<Rightarrow> int \<Rightarrow> bool" where
  "run_decodes lib dec repr args start =
     (\<forall>k < pa_count args. \<forall>v. scenario_value_at lib (pa_scenario args) (pa_count args) (pa_seed args) k = Inr v
        \<longrightarrow> decodes dec repr (simulated_envelope lib args start k v))"

lemma simulated_fields [simp]:
  "te_site_id (simulated_envelope lib args start k v) = ''workshop-demo''"
  "te_device_id (simulated_envelope lib args start k v) = ''motor-01''"
  "te_sequence (simulated_envelope lib args start k v) = pa_sequence_start args + int k"
  "te_uptime_ms (simulated_envelope lib args start k v) = (pa_sequence_start args + int k + 1) * 10000"
  "te_device_time (simulated_envelope lib args start k v) = Some (Aware (start + seconds (10 * int k)))"
  "te_message_id (simulated_envelope lib args start k v)
     = sl_uuid5 lib (''iiot:'' @ pa_session_id args @ '':'' @ ''motor-01'' @ '':'' @ str_of_int (pa_sequence_start args + int k))"
  by (simp_all add: simulated_envelope_def Let_def)

lemma simulated_deliverable:
  assumes lib: "lib_ok lib" and fits: "run_fits lib args start" and k: "k < pa_count args"
    and v: "scenario_value_at lib (pa_scenario args) (pa_count args) (pa_seed args) k = Inr v"
    and dec: "run_decodes lib dec repr args start" and r: "short_repr repr" "short_repr (rt_float_repr rt)"
  shows "sendable v" and "deliverable rt dec repr (simulated_envelope lib args start k v)"
proof -
  let ?e = "simulated_envelope lib args start k v"
  show ok: "sendable v" using readings_sendable [OF _ lib k _ v] fits by (simp add: run_fits_def)
  have n: "0 \<le> pa_sequence_start args" "(pa_sequence_start args + int k + 1) * 10000 < 2 ^ 63"
    using fits k by (simp_all add: run_fits_def)
  have "length (te_message_id ?e) \<le> 36" "datetime_ok (start + seconds (10 * int k))"
    using fits k by (simp_all add: run_fits_def Let_def)
  note size = simulated_sizes [OF ok this(1) n this(2)]
  have "\<not> event_too_large rt (telemetry_event ?e)"
    using size(2) json_dumps_size [OF r(2), of "telemetry_event ?e"] by (simp add: event_too_large_def)
  moreover have "length (json_text repr (JObj (envelope_members ?e))) \<le> MAX_PAYLOAD_BYTES"
    using le_trans [OF json_text_size [OF r(1)] size(1)] by (simp only: MAX_PAYLOAD_BYTES_def)
  moreover have "int64_ok (te_sequence ?e)" "int64_ok (te_uptime_ms ?e)" using n by (simp_all add: int64_ok_def)
  moreover have "decodes dec repr ?e" using dec k v by (simp add: run_decodes_def)
  ultimately show "deliverable rt dec repr ?e"
    using simulated_valid [OF ok n(1)] unfolding deliverable_def by simp
qed

lemma stored_is_demo:
  assumes "sendable v"
  shows "stored_sample (first + k) (simulated_envelope lib args start k v)
    = (demo_sample name (int first) start (k, v))\<lparr>ts_regime := ''unknown''\<rparr>"
proof -
  obtain q where "sv_quality v = quality_str q" using assms by (auto simp: sendable_def)
  then show ?thesis
    by (simp add: stored_sample_def telemetry_sample_of_def telemetry_row_of_def demo_sample_def simulated_envelope_def
        Let_def aware_def)
qed

definition sent_envelopes :: "sim_lib \<Rightarrow> publish_args \<Rightarrow> int \<Rightarrow> scenario_value list \<Rightarrow> telemetry_envelope list" where
  "sent_envelopes lib args start vs = map (\<lambda>(k, v). simulated_envelope lib args start k v) (enumerate 0 vs)"

lemma sent_envelopes_messages:
  assumes "\<forall>v \<in> set vs. sendable v"
  shows "map2 (scenario_message lib repr args start t) [0 ..< length vs] vs = map (message_of repr t) (sent_envelopes lib args start vs)"
  using assms
  by (auto simp: sent_envelopes_def enumerate_eq_zip scenario_message_def message_of_def simulated_members dest: set_zip_rightD)

lemma sent_envelopes_samples:
  assumes "\<forall>v \<in> set vs. sendable v"
  shows "map (\<lambda>(i, e). stored_sample i e) (enumerate first (sent_envelopes lib args start vs))
    = map (\<lambda>s. s\<lparr>ts_regime := ''unknown''\<rparr>) (map (demo_sample name (int first) start) (enumerate 0 vs))"
  by (rule nth_equalityI) (use assms stored_is_demo in \<open>simp_all add: sent_envelopes_def nth_enumerate_eq\<close>)

lemma take_enumerate: "take m (enumerate n xs) = enumerate n (take m xs)"
  by (rule nth_equalityI) (simp_all add: nth_enumerate_eq)

lemma published_messages:
  assumes lib: "lib_ok lib" and fits: "run_fits lib args start"
    and sent: "publish_scenario lib repr broker args (Inr start) = (sent, r)"
  obtains t vs where "topic ''workshop-demo'' ''motor-01'' TELEMETRY = Inr t"
    "length vs \<le> pa_count args" "r = Inr () \<Longrightarrow> length vs = pa_count args"
    "\<forall>k < length vs. scenario_value_at lib (pa_scenario args) (pa_count args) (pa_seed args) k = Inr (vs ! k)"
    "sent = map (message_of repr t) (sent_envelopes lib args start vs)"
proof -
  have "topic ''workshop-demo'' ''motor-01'' TELEMETRY = Inr ''iiot/v1/workshop-demo/motor-01/telemetry''" by code_simp
  note t = this
  let ?t = "''iiot/v1/workshop-demo/motor-01/telemetry''"
  have "publish_loop lib repr broker args start ?t [0 ..< pa_count args] [] = (sent, r)"
    using sent by (simp only: publish_scenario_def t bindE_simps sum.case prod.case)
  from publish_loop_sends [OF this] obtain n vs where vs: "n \<le> pa_count args"
    "list_all2 (\<lambda>k v. scenario_value_at lib (pa_scenario args) (pa_count args) (pa_seed args) k = Inr v) (take n [0 ..< pa_count args]) vs"
    "sent = map2 (scenario_message lib repr args start ?t) (take n [0 ..< pa_count args]) vs" "r = Inr () \<longrightarrow> n = pa_count args"
    unfolding length_upt append_Nil diff_zero by blast
  then have len: "length vs = n" and up: "take n [0 ..< pa_count args] = [0 ..< length vs]"
    by (auto dest: list_all2_lengthD)
  have at: "\<forall>k < length vs. scenario_value_at lib (pa_scenario args) (pa_count args) (pa_seed args) k = Inr (vs ! k)"
    using vs(2) unfolding up by (simp add: list_all2_conv_all_nth)
  have "\<forall>v \<in> set vs. sendable v"
  proof
    fix v assume "v \<in> set vs"
    then obtain k where k: "k < length vs" "v = vs ! k" by (auto simp: in_set_conv_nth)
    show "sendable v"
      by (rule readings_sendable [OF _ lib, of "pa_scenario args" k "pa_count args" "pa_seed args"])
        (use fits k len vs(1) at in \<open>auto simp: run_fits_def\<close>)
  qed
  from sent_envelopes_messages [OF this] have "sent = map (message_of repr ?t) (sent_envelopes lib args start vs)"
    using vs(3) unfolding up by simp
  with that [OF t _ _ at] len vs(1,4) show thesis by blast
qed


section \<open>Examples\<close>

definition pair_args :: publish_args where
  "pair_args = \<lparr>pa_scenario = ''normal'', pa_count = 2, pa_sequence_start = 0, pa_seed = 7, pa_session_id = ''s''\<rparr>"

definition pair_envelope :: "nat \<Rightarrow> telemetry_envelope" where
  "pair_envelope k = simulated_envelope still_lib pair_args 0 k (projr (scenario_value_at still_lib ''normal'' 2 7 k))"

text \<open>It tells the two messages apart by the last digit of their identity.\<close>

definition pair_decoder :: decoder where
  "pair_decoder =
     \<lparr>json_loads = (\<lambda>b. Inr (JInt (uint (b ! 53)))),
      read_telemetry = (\<lambda>j. Some (pair_envelope (if j = JInt 48 then 0 else 1))),
      read_health = (\<lambda>_. None), read_command_ack = (\<lambda>_. None),
      json_error_count = (\<lambda>_. 1), bytes_error_count = (\<lambda>_. 1)\<rparr>"

lemma pair_fits: "run_fits still_lib pair_args 0"
proof -
  have "str_of_int 0 = ''0''" "str_of_int 1 = ''1''" by code_simp+
  then show ?thesis
    by (auto simp: run_fits_def pair_args_def still_lib_def SCENARIOS_def datetime_ok_def days_def seconds_def Let_def
        less_2_cases_iff inj_on_def)
qed

lemma pair_unseen: "run_unseen still_lib pair_args 0 empty_db"
  by (simp add: run_unseen_def unseen_def site_mismatch_def)

lemma pair_text:
  assumes "k < 2"
  shows "ascii_bytes (json_text repr (JObj (envelope_members (simulated_envelope still_lib pair_args 0 k v)))) ! 53 = 48 + of_nat k"
proof -
  have "str_of_int 0 = ''0''" "str_of_int 1 = ''1''" by code_simp+
  moreover have "k = 0 \<or> k = 1" using assms by auto
  ultimately show ?thesis
    by (elim disjE) (simp_all add: ascii_bytes_def envelope_members_def simulated_envelope_def Let_def pair_args_def still_lib_def
        json_string_def json_char_def)
qed

lemma pair_decodes: "run_decodes still_lib pair_decoder (\<lambda>_. ''0'') pair_args 0"
  unfolding run_decodes_def
proof (intro allI impI)
  fix k v assume k: "k < pa_count pair_args"
    and "scenario_value_at still_lib (pa_scenario pair_args) (pa_count pair_args) (pa_seed pair_args) k = Inr v"
  then have "pair_envelope k = simulated_envelope still_lib pair_args 0 k v" and "k < 2" and "k = 0 \<or> k = 1"
    by (auto simp: pair_envelope_def pair_args_def)
  with pair_text [OF this(2), of "\<lambda>_. ''0''" v] show "decodes pair_decoder (\<lambda>_. ''0'') (simulated_envelope still_lib pair_args 0 k v)"
    by (auto simp: decodes_def pair_decoder_def)
qed


end
