(* ===== verification/Migrations.thy ===== *)
theory Migrations
  imports Prelude
begin

text \<open>
  The schema migrations under \<open>services/api/alembic/versions\<close> and the schema that
  \<open>services/api/app/models.py\<close> declares. A migration is the list of its DDL operations, as the
  file writes them; \<open>run_ddl\<close> is what SQL does with one (with the dependency checks of
  PostgreSQL): a name is created once, a foreign key needs its target, a referenced table is not
  dropped, and a dropped table takes its indexes along. The theory shows that the migrations
  lead to the declared schema and which of them can be taken back.
\<close>

section \<open>Schemas\<close>

datatype sql_type =
    SQLInteger
  | SQLBigInteger
  | SQLString nat
  | SQLText
  | SQLBoolean
  | SQLFloat
  | SQLDateTime
  | SQLJSON

record sql_column =
  cl_name :: string
  cl_type :: sql_type
  cl_nullable :: bool
  cl_primary_key :: bool
  cl_unique :: bool
  cl_references :: "(string \<times> string) option"

record sql_table =
  tb_columns :: "sql_column list"
  tb_unique :: "(string option \<times> string list) list"

record sql_index =
  ix_name :: string
  ix_table :: string
  ix_columns :: "string list"
  ix_unique :: bool

record schema =
  sc_tables :: "(string \<times> sql_table) list"
  sc_indexes :: "sql_index list"

definition empty_schema :: schema where
  "empty_schema = \<lparr>sc_tables = [], sc_indexes = []\<rparr>"

text \<open>\<open>Column(name, type, nullable=False)\<close>, one that may be null, and their attributes; every foreign key cascades.\<close>

definition column_of :: "string \<Rightarrow> sql_type \<Rightarrow> sql_column" where
  "column_of n t = \<lparr>cl_name = n, cl_type = t, cl_nullable = False, cl_primary_key = False, cl_unique = False, cl_references = None\<rparr>"

definition optional_column :: "string \<Rightarrow> sql_type \<Rightarrow> sql_column" where
  "optional_column n t = (column_of n t)\<lparr>cl_nullable := True\<rparr>"

definition primary_key :: "sql_column \<Rightarrow> sql_column" where
  "primary_key c = c\<lparr>cl_primary_key := True\<rparr>"

definition unique_column :: "sql_column \<Rightarrow> sql_column" where
  "unique_column c = c\<lparr>cl_unique := True\<rparr>"

definition references :: "string \<Rightarrow> string \<Rightarrow> sql_column \<Rightarrow> sql_column" where
  "references t k c = c\<lparr>cl_references := Some (t, k)\<rparr>"

definition index_of :: "string \<Rightarrow> string \<Rightarrow> string list \<Rightarrow> bool \<Rightarrow> sql_index" where
  "index_of n t cs u = \<lparr>ix_name = n, ix_table = t, ix_columns = cs, ix_unique = u\<rparr>"

section \<open>Operations\<close>

datatype ddl =
    CreateTable string sql_table
  | CreateIndex sql_index
  | AlterColumn string string sql_type sql_type
  | DropTable string

definition column_names :: "sql_table \<Rightarrow> string list" where
  "column_names t = map cl_name (tb_columns t)"

definition has_column :: "schema \<Rightarrow> string \<Rightarrow> string \<Rightarrow> bool" where
  "has_column s t c = (case map_of (sc_tables s) t of None \<Rightarrow> False | Some tb \<Rightarrow> c \<in> set (column_names tb))"

definition foreign_keys :: "sql_table \<Rightarrow> (string \<times> string) list" where
  "foreign_keys t = List.map_filter cl_references (tb_columns t)"

definition referenced :: "string \<Rightarrow> (string \<times> sql_table) list \<Rightarrow> bool" where
  "referenced n ts = list_ex (\<lambda>(m, tb). m \<noteq> n \<and> n \<in> fst ` set (foreign_keys tb)) ts"

abbreviation ProgrammingError :: exc where
  "ProgrammingError \<equiv> OtherException ''ProgrammingError''"

definition retyped :: "string \<Rightarrow> sql_type \<Rightarrow> sql_table \<Rightarrow> sql_table" where
  "retyped c t tb = tb\<lparr>tb_columns := map (\<lambda>k. if cl_name k = c then k\<lparr>cl_type := t\<rparr> else k) (tb_columns tb)\<rparr>"

fun run_ddl :: "ddl \<Rightarrow> schema \<Rightarrow> schema res" where
  "run_ddl (CreateTable n tb) s =
     bindE (raise_if (n \<in> fst ` set (sc_tables s)) ProgrammingError) (\<lambda>_.
     bindE (raise_if (\<not> list_all (\<lambda>(t, c). has_column s t c) (foreign_keys tb)) ProgrammingError) (\<lambda>_.
     Inr (s\<lparr>sc_tables := sc_tables s @ [(n, tb)]\<rparr>)))"
| "run_ddl (CreateIndex ix) s =
     bindE (raise_if (ix_name ix \<in> ix_name ` set (sc_indexes s)) ProgrammingError) (\<lambda>_.
     bindE (raise_if (\<not> list_all (has_column s (ix_table ix)) (ix_columns ix) \<or> ix_columns ix = []) ProgrammingError) (\<lambda>_.
     Inr (s\<lparr>sc_indexes := sc_indexes s @ [ix]\<rparr>)))"
| "run_ddl (AlterColumn n c existing t) s =
     bindE (raise_if (\<not> has_column s n c) ProgrammingError) (\<lambda>_.
     Inr (s\<lparr>sc_tables := map (\<lambda>(m, tb). (m, if m = n then retyped c t tb else tb)) (sc_tables s)\<rparr>))"
| "run_ddl (DropTable n) s =
     bindE (raise_if (n \<notin> fst ` set (sc_tables s)) ProgrammingError) (\<lambda>_.
     bindE (raise_if (referenced n (sc_tables s)) ProgrammingError) (\<lambda>_.
     Inr \<lparr>sc_tables = filter (\<lambda>(m, _). m \<noteq> n) (sc_tables s), sc_indexes = filter (\<lambda>ix. ix_table ix \<noteq> n) (sc_indexes s)\<rparr>))"

fun run_all :: "ddl list \<Rightarrow> schema \<Rightarrow> schema res" where
  "run_all [] s = Inr s"
| "run_all (op # ops) s = bindE (run_ddl op s) (run_all ops)"

section \<open>The migrations\<close>

definition users_ddl :: "ddl list" where
  "users_ddl =
     [CreateTable ''users''
        \<lparr>tb_columns =
           [primary_key (column_of ''id'' SQLInteger),
            column_of ''username'' (SQLString 80),
            column_of ''password_hash'' (SQLString 255),
            column_of ''role'' (SQLString 32),
            column_of ''active'' SQLBoolean,
            column_of ''created_at'' SQLDateTime],
         tb_unique = [(None, [''username''])]\<rparr>,
      CreateIndex (index_of ''ix_users_username'' ''users'' [''username''] True)]"

definition devices_ddl :: "ddl list" where
  "devices_ddl =
     [CreateTable ''devices''
        \<lparr>tb_columns =
           [primary_key (column_of ''id'' (SQLString 63)),
            column_of ''site_id'' (SQLString 63),
            column_of ''display_name'' (SQLString 120),
            column_of ''asset_class'' (SQLString 80),
            column_of ''simulated'' SQLBoolean,
            optional_column ''firmware_version'' (SQLString 48),
            column_of ''reported_status'' (SQLString 20),
            optional_column ''last_seen_at'' SQLDateTime,
            optional_column ''rssi_dbm'' SQLInteger,
            optional_column ''reset_reason'' (SQLString 48),
            column_of ''reset_count'' SQLInteger,
            column_of ''queue_depth'' SQLInteger,
            column_of ''queue_capacity'' SQLInteger,
            column_of ''dropped_message_count'' SQLInteger,
            column_of ''modbus_status'' (SQLString 20),
            column_of ''active_faults'' SQLJSON,
            column_of ''created_at'' SQLDateTime],
         tb_unique = []\<rparr>,
      CreateIndex (index_of ''ix_devices_site_id'' ''devices'' [''site_id''] False),
      CreateIndex (index_of ''ix_devices_last_seen_at'' ''devices'' [''last_seen_at''] False)]"

definition telemetry_ddl :: "ddl list" where
  "telemetry_ddl =
     [CreateTable ''telemetry''
        \<lparr>tb_columns =
           [primary_key (column_of ''id'' SQLInteger),
            column_of ''message_id'' (SQLString 36),
            references ''devices'' ''id'' (column_of ''device_id'' (SQLString 63)),
            column_of ''site_id'' (SQLString 63),
            column_of ''sequence'' SQLBigInteger,
            optional_column ''device_time'' SQLDateTime,
            column_of ''received_at'' SQLDateTime,
            column_of ''clock_synchronized'' SQLBoolean,
            column_of ''uptime_ms'' SQLBigInteger,
            column_of ''firmware_version'' (SQLString 48),
            column_of ''quality'' (SQLString 20),
            column_of ''replayed'' SQLBoolean,
            optional_column ''temperature_c'' SQLFloat,
            optional_column ''vibration_rms_mps2'' SQLFloat,
            optional_column ''vibration_peak_mps2'' SQLFloat,
            optional_column ''vibration_crest_factor'' SQLFloat,
            optional_column ''current_a'' SQLFloat,
            column_of ''sample_quality'' SQLJSON,
            column_of ''fault_flags'' SQLJSON,
            optional_column ''anomaly_score'' SQLFloat,
            optional_column ''anomaly_percentile'' SQLFloat,
            optional_column ''anomaly_reason'' (SQLString 300)],
         tb_unique = [(None, [''message_id'']), (Some ''uq_telemetry_device_sequence'', [''device_id'', ''sequence''])]\<rparr>,
      CreateIndex (index_of ''ix_telemetry_message_id'' ''telemetry'' [''message_id''] True),
      CreateIndex (index_of ''ix_telemetry_site_id'' ''telemetry'' [''site_id''] False),
      CreateIndex (index_of ''ix_telemetry_device_received'' ''telemetry'' [''device_id'', ''received_at''] False),
      CreateIndex (index_of ''ix_telemetry_device_device_time'' ''telemetry'' [''device_id'', ''device_time''] False)]"

definition health_snapshots_ddl :: "ddl list" where
  "health_snapshots_ddl =
     [CreateTable ''health_snapshots''
        \<lparr>tb_columns =
           [primary_key (column_of ''id'' SQLInteger),
            unique_column (column_of ''message_id'' (SQLString 36)),
            references ''devices'' ''id'' (column_of ''device_id'' (SQLString 63)),
            column_of ''received_at'' SQLDateTime,
            column_of ''payload'' SQLJSON],
         tb_unique = []\<rparr>,
      CreateIndex (index_of ''ix_health_device_received'' ''health_snapshots'' [''device_id'', ''received_at''] False)]"

definition alarms_ddl :: "ddl list" where
  "alarms_ddl =
     [CreateTable ''alarms''
        \<lparr>tb_columns =
           [primary_key (column_of ''id'' SQLInteger),
            references ''devices'' ''id'' (column_of ''device_id'' (SQLString 63)),
            column_of ''code'' (SQLString 48),
            column_of ''severity'' (SQLString 16),
            column_of ''source'' (SQLString 24),
            column_of ''state'' (SQLString 16),
            column_of ''summary'' (SQLString 240),
            column_of ''opened_at'' SQLDateTime,
            optional_column ''cleared_at'' SQLDateTime,
            optional_column ''acknowledged_at'' SQLDateTime,
            optional_column ''acknowledged_by'' (SQLString 80)],
         tb_unique = []\<rparr>,
      CreateIndex (index_of ''ix_alarm_device_opened'' ''alarms'' [''device_id'', ''opened_at''] False)]"

definition calibrations_ddl :: "ddl list" where
  "calibrations_ddl =
     [CreateTable ''calibrations''
        \<lparr>tb_columns =
           [primary_key (column_of ''id'' SQLInteger),
            references ''devices'' ''id'' (column_of ''device_id'' (SQLString 63)),
            column_of ''sensor'' (SQLString 32),
            column_of ''previous_coefficients'' SQLJSON,
            column_of ''new_coefficients'' SQLJSON,
            column_of ''reason'' (SQLString 240),
            column_of ''operator'' (SQLString 80),
            column_of ''performed_at'' SQLDateTime],
         tb_unique = []\<rparr>,
      CreateIndex (index_of ''ix_calibrations_device_id'' ''calibrations'' [''device_id''] False)]"

definition maintenance_records_ddl :: "ddl list" where
  "maintenance_records_ddl =
     [CreateTable ''maintenance_records''
        \<lparr>tb_columns =
           [primary_key (column_of ''id'' SQLInteger),
            references ''devices'' ''id'' (column_of ''device_id'' (SQLString 63)),
            column_of ''status'' (SQLString 24),
            column_of ''notes'' SQLText,
            column_of ''performed_at'' SQLDateTime,
            optional_column ''next_due_at'' SQLDateTime,
            column_of ''created_by'' (SQLString 80),
            column_of ''updated_at'' SQLDateTime],
         tb_unique = []\<rparr>,
      CreateIndex (index_of ''ix_maintenance_records_device_id'' ''maintenance_records'' [''device_id''] False)]"

definition audit_events_ddl :: "ddl list" where
  "audit_events_ddl =
     [CreateTable ''audit_events''
        \<lparr>tb_columns =
           [primary_key (column_of ''id'' SQLInteger),
            column_of ''actor'' (SQLString 80),
            column_of ''action'' (SQLString 80),
            column_of ''target_type'' (SQLString 48),
            column_of ''target_id'' (SQLString 80),
            column_of ''details'' SQLJSON,
            column_of ''created_at'' SQLDateTime],
         tb_unique = []\<rparr>,
      CreateIndex (index_of ''ix_audit_actor_created'' ''audit_events'' [''actor'', ''created_at''] False)]"

definition error_logs_ddl :: "ddl list" where
  "error_logs_ddl =
     [CreateTable ''error_logs''
        \<lparr>tb_columns =
           [primary_key (column_of ''id'' SQLInteger),
            column_of ''component'' (SQLString 48),
            column_of ''error_code'' (SQLString 48),
            column_of ''severity'' (SQLString 16),
            optional_column ''device_id'' (SQLString 63),
            column_of ''detail'' (SQLString 300),
            column_of ''created_at'' SQLDateTime],
         tb_unique = []\<rparr>,
      CreateIndex (index_of ''ix_error_component_created'' ''error_logs'' [''component'', ''created_at''] False)]"

definition threshold_configs_ddl :: "ddl list" where
  "threshold_configs_ddl =
     [CreateTable ''threshold_configs''
        \<lparr>tb_columns =
           [primary_key (references ''devices'' ''id'' (column_of ''device_id'' (SQLString 63))),
            column_of ''temperature_warning_c'' SQLFloat,
            column_of ''temperature_critical_c'' SQLFloat,
            column_of ''vibration_warning_mps2'' SQLFloat,
            column_of ''vibration_critical_mps2'' SQLFloat,
            column_of ''current_warning_a'' SQLFloat,
            column_of ''current_critical_a'' SQLFloat,
            column_of ''hysteresis_percent'' SQLFloat,
            column_of ''updated_by'' (SQLString 80),
            column_of ''updated_at'' SQLDateTime],
         tb_unique = []\<rparr>]"

definition device_commands_ddl :: "ddl list" where
  "device_commands_ddl =
     [CreateTable ''device_commands''
        \<lparr>tb_columns =
           [primary_key (column_of ''command_id'' (SQLString 36)),
            references ''devices'' ''id'' (column_of ''device_id'' (SQLString 63)),
            column_of ''kind'' (SQLString 48),
            column_of ''parameters'' SQLJSON,
            column_of ''status'' (SQLString 24),
            optional_column ''result_code'' (SQLString 48),
            optional_column ''detail'' (SQLString 240),
            column_of ''issued_by'' (SQLString 80),
            column_of ''issued_at'' SQLDateTime,
            column_of ''expires_at'' SQLDateTime,
            optional_column ''acknowledged_at'' SQLDateTime],
         tb_unique = []\<rparr>,
      CreateIndex (index_of ''ix_command_device_issued'' ''device_commands'' [''device_id'', ''issued_at''] False)]"

definition anomaly_models_ddl :: "ddl list" where
  "anomaly_models_ddl =
     [CreateTable ''anomaly_models''
        \<lparr>tb_columns =
           [primary_key (column_of ''id'' SQLInteger),
            references ''devices'' ''id'' (column_of ''device_id'' (SQLString 63)),
            column_of ''model_version'' (SQLString 80),
            column_of ''status'' (SQLString 24),
            column_of ''feature_schema'' SQLJSON,
            column_of ''training_start'' SQLDateTime,
            column_of ''training_end'' SQLDateTime,
            column_of ''training_sample_count'' SQLInteger,
            column_of ''validation_sample_count'' SQLInteger,
            column_of ''contamination'' SQLFloat,
            column_of ''random_seed'' SQLInteger,
            column_of ''sklearn_version'' (SQLString 32),
            column_of ''artifact_path'' (SQLString 300),
            column_of ''artifact_checksum'' (SQLString 80),
            column_of ''created_at'' SQLDateTime,
            optional_column ''last_scored_at'' SQLDateTime,
            optional_column ''diagnostic'' (SQLString 300)],
         tb_unique = [(Some ''uq_anomaly_device_version'', [''device_id'', ''model_version''])]\<rparr>,
      CreateIndex (index_of ''ix_anomaly_device_created'' ''anomaly_models'' [''device_id'', ''created_at''] False)]"

definition baseline_upgrade :: "ddl list" where
  "baseline_upgrade = users_ddl @ devices_ddl @ telemetry_ddl @ health_snapshots_ddl @ alarms_ddl @ calibrations_ddl
     @ maintenance_records_ddl @ audit_events_ddl @ error_logs_ddl"

definition baseline_downgrade :: "ddl list" where
  "baseline_downgrade = map DropTable
     [''error_logs'', ''audit_events'', ''maintenance_records'', ''calibrations'', ''alarms'', ''health_snapshots'',
      ''telemetry'', ''devices'', ''users'']"

definition operations_upgrade :: "ddl list" where
  "operations_upgrade = threshold_configs_ddl @ device_commands_ddl"

definition operations_downgrade :: "ddl list" where
  "operations_downgrade = map DropTable [''device_commands'', ''threshold_configs'']"

definition counters_upgrade :: "ddl list" where
  "counters_upgrade =
     [AlterColumn ''telemetry'' ''sequence'' SQLInteger SQLBigInteger,
      AlterColumn ''telemetry'' ''uptime_ms'' SQLInteger SQLBigInteger]"

definition counters_downgrade :: "ddl list" where
  "counters_downgrade =
     [AlterColumn ''telemetry'' ''uptime_ms'' SQLBigInteger SQLInteger,
      AlterColumn ''telemetry'' ''sequence'' SQLBigInteger SQLInteger]"

definition models_upgrade :: "ddl list" where
  "models_upgrade = anomaly_models_ddl"

definition models_downgrade :: "ddl list" where
  "models_downgrade = [DropTable ''anomaly_models'']"

text \<open>A revision names the one it follows; Alembic runs them from the one that follows none.\<close>

record migration =
  mg_revision :: string
  mg_down_revision :: "string option"
  mg_upgrade :: "ddl list"
  mg_downgrade :: "ddl list"

definition baseline_migration :: migration where
  "baseline_migration = \<lparr>mg_revision = ''20260811_0001'', mg_down_revision = None,
     mg_upgrade = baseline_upgrade, mg_downgrade = baseline_downgrade\<rparr>"

definition operations_migration :: migration where
  "operations_migration = \<lparr>mg_revision = ''20260811_0002'', mg_down_revision = Some ''20260811_0001'',
     mg_upgrade = operations_upgrade, mg_downgrade = operations_downgrade\<rparr>"

definition counters_migration :: migration where
  "counters_migration = \<lparr>mg_revision = ''20260811_0003'', mg_down_revision = Some ''20260811_0002'',
     mg_upgrade = counters_upgrade, mg_downgrade = counters_downgrade\<rparr>"

definition models_migration :: migration where
  "models_migration = \<lparr>mg_revision = ''20260811_0004'', mg_down_revision = Some ''20260811_0003'',
     mg_upgrade = models_upgrade, mg_downgrade = models_downgrade\<rparr>"

definition migrations :: "migration list" where
  "migrations = [baseline_migration, operations_migration, counters_migration, models_migration]"

fun chained :: "string option \<Rightarrow> migration list \<Rightarrow> bool" where
  "chained r [] = True"
| "chained r (m # ms) = (mg_down_revision m = r \<and> chained (Some (mg_revision m)) ms)"

definition upgrade_head :: "schema \<Rightarrow> schema res" where
  "upgrade_head = run_all (concat (map mg_upgrade migrations))"

definition downgrade_base :: "schema \<Rightarrow> schema res" where
  "downgrade_base = run_all (concat (map mg_downgrade (rev migrations)))"

section \<open>The declared schema\<close>

text \<open>
  One mapped class of \<open>models.py\<close>: its table, its columns and constraints, and its indexes. A
  column with \<open>index=True\<close> has an index named after it, which is the unique one when the column
  is unique.
\<close>

type_synonym table_model = "string \<times> sql_table \<times> sql_index list"

definition User_model :: table_model where
  "User_model =
     (''users'', \<lparr>tb_columns =
           [primary_key (column_of ''id'' SQLInteger),
            column_of ''username'' (SQLString 80),
            column_of ''password_hash'' (SQLString 255),
            column_of ''role'' (SQLString 32),
            column_of ''active'' SQLBoolean,
            column_of ''created_at'' SQLDateTime],
         tb_unique = []\<rparr>,
      [index_of ''ix_users_username'' ''users'' [''username''] True])"

definition Device_model :: table_model where
  "Device_model =
     (''devices'', \<lparr>tb_columns =
           [primary_key (column_of ''id'' (SQLString 63)),
            column_of ''site_id'' (SQLString 63),
            column_of ''display_name'' (SQLString 120),
            column_of ''asset_class'' (SQLString 80),
            column_of ''simulated'' SQLBoolean,
            optional_column ''firmware_version'' (SQLString 48),
            column_of ''reported_status'' (SQLString 20),
            optional_column ''last_seen_at'' SQLDateTime,
            optional_column ''rssi_dbm'' SQLInteger,
            optional_column ''reset_reason'' (SQLString 48),
            column_of ''reset_count'' SQLInteger,
            column_of ''queue_depth'' SQLInteger,
            column_of ''queue_capacity'' SQLInteger,
            column_of ''dropped_message_count'' SQLInteger,
            column_of ''modbus_status'' (SQLString 20),
            column_of ''active_faults'' SQLJSON,
            column_of ''created_at'' SQLDateTime],
         tb_unique = []\<rparr>,
      [index_of ''ix_devices_site_id'' ''devices'' [''site_id''] False,
       index_of ''ix_devices_last_seen_at'' ''devices'' [''last_seen_at''] False])"

definition AnomalyModel_model :: table_model where
  "AnomalyModel_model =
     (''anomaly_models'', \<lparr>tb_columns =
           [primary_key (column_of ''id'' SQLInteger),
            references ''devices'' ''id'' (column_of ''device_id'' (SQLString 63)),
            column_of ''model_version'' (SQLString 80),
            column_of ''status'' (SQLString 24),
            column_of ''feature_schema'' SQLJSON,
            column_of ''training_start'' SQLDateTime,
            column_of ''training_end'' SQLDateTime,
            column_of ''training_sample_count'' SQLInteger,
            column_of ''validation_sample_count'' SQLInteger,
            column_of ''contamination'' SQLFloat,
            column_of ''random_seed'' SQLInteger,
            column_of ''sklearn_version'' (SQLString 32),
            column_of ''artifact_path'' (SQLString 300),
            column_of ''artifact_checksum'' (SQLString 80),
            column_of ''created_at'' SQLDateTime,
            optional_column ''last_scored_at'' SQLDateTime,
            optional_column ''diagnostic'' (SQLString 300)],
         tb_unique = [(Some ''uq_anomaly_device_version'', [''device_id'', ''model_version''])]\<rparr>,
      [index_of ''ix_anomaly_device_created'' ''anomaly_models'' [''device_id'', ''created_at''] False])"

definition ThresholdConfig_model :: table_model where
  "ThresholdConfig_model =
     (''threshold_configs'', \<lparr>tb_columns =
           [primary_key (references ''devices'' ''id'' (column_of ''device_id'' (SQLString 63))),
            column_of ''temperature_warning_c'' SQLFloat,
            column_of ''temperature_critical_c'' SQLFloat,
            column_of ''vibration_warning_mps2'' SQLFloat,
            column_of ''vibration_critical_mps2'' SQLFloat,
            column_of ''current_warning_a'' SQLFloat,
            column_of ''current_critical_a'' SQLFloat,
            column_of ''hysteresis_percent'' SQLFloat,
            column_of ''updated_by'' (SQLString 80),
            column_of ''updated_at'' SQLDateTime],
         tb_unique = []\<rparr>,
      [])"

definition Telemetry_model :: table_model where
  "Telemetry_model =
     (''telemetry'', \<lparr>tb_columns =
           [primary_key (column_of ''id'' SQLInteger),
            column_of ''message_id'' (SQLString 36),
            references ''devices'' ''id'' (column_of ''device_id'' (SQLString 63)),
            column_of ''site_id'' (SQLString 63),
            column_of ''sequence'' SQLBigInteger,
            optional_column ''device_time'' SQLDateTime,
            column_of ''received_at'' SQLDateTime,
            column_of ''clock_synchronized'' SQLBoolean,
            column_of ''uptime_ms'' SQLBigInteger,
            column_of ''firmware_version'' (SQLString 48),
            column_of ''quality'' (SQLString 20),
            column_of ''replayed'' SQLBoolean,
            optional_column ''temperature_c'' SQLFloat,
            optional_column ''vibration_rms_mps2'' SQLFloat,
            optional_column ''vibration_peak_mps2'' SQLFloat,
            optional_column ''vibration_crest_factor'' SQLFloat,
            optional_column ''current_a'' SQLFloat,
            column_of ''sample_quality'' SQLJSON,
            column_of ''fault_flags'' SQLJSON,
            optional_column ''anomaly_score'' SQLFloat,
            optional_column ''anomaly_percentile'' SQLFloat,
            optional_column ''anomaly_reason'' (SQLString 300)],
         tb_unique = [(Some ''uq_telemetry_device_sequence'', [''device_id'', ''sequence''])]\<rparr>,
      [index_of ''ix_telemetry_message_id'' ''telemetry'' [''message_id''] True,
       index_of ''ix_telemetry_site_id'' ''telemetry'' [''site_id''] False,
       index_of ''ix_telemetry_device_received'' ''telemetry'' [''device_id'', ''received_at''] False,
       index_of ''ix_telemetry_device_device_time'' ''telemetry'' [''device_id'', ''device_time''] False])"

definition HealthSnapshot_model :: table_model where
  "HealthSnapshot_model =
     (''health_snapshots'', \<lparr>tb_columns =
           [primary_key (column_of ''id'' SQLInteger),
            unique_column (column_of ''message_id'' (SQLString 36)),
            references ''devices'' ''id'' (column_of ''device_id'' (SQLString 63)),
            column_of ''received_at'' SQLDateTime,
            column_of ''payload'' SQLJSON],
         tb_unique = []\<rparr>,
      [index_of ''ix_health_device_received'' ''health_snapshots'' [''device_id'', ''received_at''] False])"

definition Alarm_model :: table_model where
  "Alarm_model =
     (''alarms'', \<lparr>tb_columns =
           [primary_key (column_of ''id'' SQLInteger),
            references ''devices'' ''id'' (column_of ''device_id'' (SQLString 63)),
            column_of ''code'' (SQLString 48),
            column_of ''severity'' (SQLString 16),
            column_of ''source'' (SQLString 24),
            column_of ''state'' (SQLString 16),
            column_of ''summary'' (SQLString 240),
            column_of ''opened_at'' SQLDateTime,
            optional_column ''cleared_at'' SQLDateTime,
            optional_column ''acknowledged_at'' SQLDateTime,
            optional_column ''acknowledged_by'' (SQLString 80)],
         tb_unique = []\<rparr>,
      [index_of ''ix_alarm_device_opened'' ''alarms'' [''device_id'', ''opened_at''] False])"

definition Calibration_model :: table_model where
  "Calibration_model =
     (''calibrations'', \<lparr>tb_columns =
           [primary_key (column_of ''id'' SQLInteger),
            references ''devices'' ''id'' (column_of ''device_id'' (SQLString 63)),
            column_of ''sensor'' (SQLString 32),
            column_of ''previous_coefficients'' SQLJSON,
            column_of ''new_coefficients'' SQLJSON,
            column_of ''reason'' (SQLString 240),
            column_of ''operator'' (SQLString 80),
            column_of ''performed_at'' SQLDateTime],
         tb_unique = []\<rparr>,
      [index_of ''ix_calibrations_device_id'' ''calibrations'' [''device_id''] False])"

definition MaintenanceRecord_model :: table_model where
  "MaintenanceRecord_model =
     (''maintenance_records'', \<lparr>tb_columns =
           [primary_key (column_of ''id'' SQLInteger),
            references ''devices'' ''id'' (column_of ''device_id'' (SQLString 63)),
            column_of ''status'' (SQLString 24),
            column_of ''notes'' SQLText,
            column_of ''performed_at'' SQLDateTime,
            optional_column ''next_due_at'' SQLDateTime,
            column_of ''created_by'' (SQLString 80),
            column_of ''updated_at'' SQLDateTime],
         tb_unique = []\<rparr>,
      [index_of ''ix_maintenance_records_device_id'' ''maintenance_records'' [''device_id''] False])"

definition AuditEvent_model :: table_model where
  "AuditEvent_model =
     (''audit_events'', \<lparr>tb_columns =
           [primary_key (column_of ''id'' SQLInteger),
            column_of ''actor'' (SQLString 80),
            column_of ''action'' (SQLString 80),
            column_of ''target_type'' (SQLString 48),
            column_of ''target_id'' (SQLString 80),
            column_of ''details'' SQLJSON,
            column_of ''created_at'' SQLDateTime],
         tb_unique = []\<rparr>,
      [index_of ''ix_audit_actor_created'' ''audit_events'' [''actor'', ''created_at''] False])"

definition ErrorLog_model :: table_model where
  "ErrorLog_model =
     (''error_logs'', \<lparr>tb_columns =
           [primary_key (column_of ''id'' SQLInteger),
            column_of ''component'' (SQLString 48),
            column_of ''error_code'' (SQLString 48),
            column_of ''severity'' (SQLString 16),
            optional_column ''device_id'' (SQLString 63),
            column_of ''detail'' (SQLString 300),
            column_of ''created_at'' SQLDateTime],
         tb_unique = []\<rparr>,
      [index_of ''ix_error_component_created'' ''error_logs'' [''component'', ''created_at''] False])"

definition DeviceCommand_model :: table_model where
  "DeviceCommand_model =
     (''device_commands'', \<lparr>tb_columns =
           [primary_key (column_of ''command_id'' (SQLString 36)),
            references ''devices'' ''id'' (column_of ''device_id'' (SQLString 63)),
            column_of ''kind'' (SQLString 48),
            column_of ''parameters'' SQLJSON,
            column_of ''status'' (SQLString 24),
            optional_column ''result_code'' (SQLString 48),
            optional_column ''detail'' (SQLString 240),
            column_of ''issued_by'' (SQLString 80),
            column_of ''issued_at'' SQLDateTime,
            column_of ''expires_at'' SQLDateTime,
            optional_column ''acknowledged_at'' SQLDateTime],
         tb_unique = []\<rparr>,
      [index_of ''ix_command_device_issued'' ''device_commands'' [''device_id'', ''issued_at''] False])"

definition metadata_tables :: "table_model list" where
  "metadata_tables =
     [User_model, Device_model, AnomalyModel_model, ThresholdConfig_model, Telemetry_model, HealthSnapshot_model,
      Alarm_model, Calibration_model, MaintenanceRecord_model, AuditEvent_model, ErrorLog_model, DeviceCommand_model]"

section \<open>The migrations lead to the declared schema\<close>

text \<open>The keys under which the rows of a table are unique, however they are declared.\<close>

definition unique_keys :: "schema \<Rightarrow> string \<times> sql_table \<Rightarrow> string list set" where
  "unique_keys s t = (case t of (n, tb) \<Rightarrow>
     (\<lambda>c. [cl_name c]) ` set (filter (\<lambda>c. cl_primary_key c \<or> cl_unique c) (tb_columns tb)) \<union> snd ` set (tb_unique tb)
       \<union> ix_columns ` set (filter (\<lambda>ix. ix_table ix = n \<and> ix_unique ix) (sc_indexes s)))"

definition table_view :: "schema \<Rightarrow> string \<times> sql_table \<Rightarrow> string \<times> sql_column list \<times> string list set" where
  "table_view s t = (fst t, tb_columns (snd t), unique_keys s t)"

definition declared_schema :: schema where
  "declared_schema = \<lparr>sc_tables = map (\<lambda>(n, tb, _). (n, tb)) metadata_tables,
     sc_indexes = concat (map (\<lambda>(_, _, ixs). ixs) metadata_tables)\<rparr>"

lemmas ddl_lists = users_ddl_def devices_ddl_def telemetry_ddl_def health_snapshots_ddl_def alarms_ddl_def calibrations_ddl_def
  maintenance_records_ddl_def audit_events_ddl_def error_logs_ddl_def threshold_configs_ddl_def device_commands_ddl_def
  anomaly_models_ddl_def

lemmas model_tables = User_model_def Device_model_def AnomalyModel_model_def ThresholdConfig_model_def Telemetry_model_def
  HealthSnapshot_model_def Alarm_model_def Calibration_model_def MaintenanceRecord_model_def AuditEvent_model_def
  ErrorLog_model_def DeviceCommand_model_def

definition head_schema :: schema where
  "head_schema = (case upgrade_head empty_schema of Inr s \<Rightarrow> s | Inl _ \<Rightarrow> empty_schema)"

lemma upgrade_head_runs: "upgrade_head empty_schema = Inr head_schema"
  by code_simp

lemma head_views: "set (map (table_view head_schema) (sc_tables head_schema))
    = set (map (table_view declared_schema) (sc_tables declared_schema))"
  by code_simp

lemma head_indexes: "set (sc_indexes head_schema) = set (sc_indexes declared_schema)"
  by code_simp

section \<open>Taking a migration back\<close>

text \<open>Tables reference only tables created before them, and indexes belong to tables.\<close>

fun refs_back :: "string set \<Rightarrow> (string \<times> sql_table) list \<Rightarrow> bool" where
  "refs_back seen [] = True"
| "refs_back seen ((n, tb) # ts) = (fst ` set (foreign_keys tb) \<subseteq> seen \<and> refs_back (insert n seen) ts)"

definition schema_ok :: "schema \<Rightarrow> bool" where
  "schema_ok s = (distinct (map fst (sc_tables s)) \<and> refs_back {} (sc_tables s)
     \<and> ix_table ` set (sc_indexes s) \<subseteq> fst ` set (sc_tables s))"

lemma refs_back_append: "refs_back seen (xs @ ys) \<longleftrightarrow> refs_back seen xs \<and> refs_back (seen \<union> fst ` set xs) ys"
  by (induction seen xs rule: refs_back.induct) auto

lemma refs_back_targets: "refs_back seen xs \<Longrightarrow> (m, tb) \<in> set xs \<Longrightarrow> fst ` set (foreign_keys tb) \<subseteq> seen \<union> fst ` set xs"
proof (induction seen xs rule: refs_back.induct)
  case (2 seen n tb' ts)
  show ?case
  proof (cases "(m, tb) = (n, tb')")
    case False
    then have "fst ` set (foreign_keys tb) \<subseteq> insert n seen \<union> fst ` set ts" using 2 by auto
    then show ?thesis by auto
  qed (use 2 in auto)
qed simp

lemma has_column_table: "has_column s t c \<Longrightarrow> t \<in> fst ` set (sc_tables s)"
  by (auto simp: has_column_def split: option.splits dest!: map_of_SomeD intro: rev_image_eqI)

definition created :: "ddl list \<Rightarrow> string list" where
  "created ops = List.map_filter (\<lambda>op. case op of CreateTable n _ \<Rightarrow> Some n | _ \<Rightarrow> None) ops"

definition indexed :: "ddl list \<Rightarrow> string set" where
  "indexed ops = {ix_table ix | ix. CreateIndex ix \<in> set ops}"

definition creating :: "ddl \<Rightarrow> bool" where
  "creating op = (case op of CreateTable _ _ \<Rightarrow> True | CreateIndex _ \<Rightarrow> True | _ \<Rightarrow> False)"

lemma created_simps [simp]:
  "created [] = []" "created (CreateTable n tb # ops) = n # created ops" "created (CreateIndex ix # ops) = created ops"
  "indexed [] = {}" "indexed (CreateTable n tb # ops) = indexed ops" "indexed (CreateIndex ix # ops) = insert (ix_table ix) (indexed ops)"
  by (auto simp: created_def indexed_def map_filter_simps)

text \<open>Creating only appends.\<close>

lemma run_creates:
  "list_all creating ops \<Longrightarrow> run_all ops s = Inr s' \<Longrightarrow> schema_ok s \<Longrightarrow>
     schema_ok s' \<and> (\<exists>ts ixs. s' = \<lparr>sc_tables = sc_tables s @ ts, sc_indexes = sc_indexes s @ ixs\<rparr>
       \<and> map fst ts = created ops \<and> ix_table ` set ixs \<subseteq> indexed ops)"
proof (induction ops arbitrary: s)
  case (Cons op ops)
  from Cons.prems obtain s1 where op: "run_ddl op s = Inr s1" and rest: "run_all ops s1 = Inr s'" by auto
  show ?case
  proof (cases op)
    case (CreateTable n tb)
    have s1: "s1 = s\<lparr>sc_tables := sc_tables s @ [(n, tb)]\<rparr>" and new: "n \<notin> fst ` set (sc_tables s)"
      and fk: "list_all (\<lambda>(t, c). has_column s t c) (foreign_keys tb)" using op by (auto simp: CreateTable)
    have "fst ` set (foreign_keys tb) \<subseteq> fst ` set (sc_tables s)" using fk has_column_table by (fastforce simp: list_all_iff)
    with new Cons.prems(3) have "schema_ok s1" by (auto simp: schema_ok_def s1 refs_back_append)
    with Cons.IH [OF _ rest] Cons.prems(1) obtain ts ixs where "schema_ok s'"
      "s' = \<lparr>sc_tables = sc_tables s1 @ ts, sc_indexes = sc_indexes s1 @ ixs\<rparr>" "map fst ts = created ops"
      "ix_table ` set ixs \<subseteq> indexed ops" by auto
    then show ?thesis by (intro conjI exI [of _ "(n, tb) # ts"] exI [of _ ixs]) (simp_all add: s1 CreateTable)
  next
    case (CreateIndex ix)
    have s1: "s1 = s\<lparr>sc_indexes := sc_indexes s @ [ix]\<rparr>" and cols: "list_all (has_column s (ix_table ix)) (ix_columns ix)"
      "ix_columns ix \<noteq> []" using op by (auto simp: CreateIndex)
    then have "ix_table ix \<in> fst ` set (sc_tables s)" using has_column_table by (cases "ix_columns ix") auto
    with Cons.prems(3) have "schema_ok s1" by (auto simp: schema_ok_def s1)
    with Cons.IH [OF _ rest] Cons.prems(1) obtain ts ixs where "schema_ok s'"
      "s' = \<lparr>sc_tables = sc_tables s1 @ ts, sc_indexes = sc_indexes s1 @ ixs\<rparr>" "map fst ts = created ops"
      "ix_table ` set ixs \<subseteq> indexed ops" by auto
    then show ?thesis by (intro conjI exI [of _ ts] exI [of _ "ix # ixs"]) (auto simp: s1 CreateIndex)
  qed (use Cons.prems in \<open>simp_all add: creating_def\<close>)
qed simp

text \<open>Dropping the last tables, latest first, restores what was before.\<close>

lemma drop_tables:
  "schema_ok \<lparr>sc_tables = T @ ts, sc_indexes = I\<rparr> \<Longrightarrow>
     run_all (map DropTable (rev (map fst ts))) \<lparr>sc_tables = T @ ts, sc_indexes = I\<rparr>
       = Inr \<lparr>sc_tables = T, sc_indexes = filter (\<lambda>ix. ix_table ix \<notin> fst ` set ts) I\<rparr>"
proof (induction ts arbitrary: I rule: rev_induct)
  case (snoc t ts)
  obtain n tb where t: "t = (n, tb)" by (cases t)
  from snoc.prems have ok: "distinct (map fst (T @ ts))" "n \<notin> fst ` set (T @ ts)" "refs_back {} (T @ ts)"
    "ix_table ` set I \<subseteq> insert n (fst ` set (T @ ts))"
    by (auto simp: schema_ok_def t refs_back_append)
  have "\<not> referenced n ((T @ ts) @ [(n, tb)])"
  proof
    assume "referenced n ((T @ ts) @ [(n, tb)])"
    then obtain m tb' where m: "(m, tb') \<in> set (T @ ts)" "n \<in> fst ` set (foreign_keys tb')"
      by (auto simp: referenced_def list_ex_iff)
    from refs_back_targets [OF ok(3) m(1)] m(2) ok(2) show False by blast
  qed
  moreover have "filter (\<lambda>(m, _). m \<noteq> n) (T @ ts) = T @ ts"
    using ok(2) by (intro filter_True) force
  ultimately have drop: "run_ddl (DropTable n) \<lparr>sc_tables = T @ ts @ [t], sc_indexes = I\<rparr>
      = Inr \<lparr>sc_tables = T @ ts, sc_indexes = filter (\<lambda>ix. ix_table ix \<noteq> n) I\<rparr>"
    by (simp add: t image_Un)
  have "schema_ok \<lparr>sc_tables = T @ ts, sc_indexes = filter (\<lambda>ix. ix_table ix \<noteq> n) I\<rparr>"
    using ok by (auto simp: schema_ok_def)
  from snoc.IH [OF this] drop show ?case by (simp add: t conj_commute)
qed simp

lemma creations_reverse:
  assumes "list_all creating ops" "indexed ops \<subseteq> set (created ops)" "schema_ok s" "run_all ops s = Inr s'"
  shows "schema_ok s' \<and> run_all (map DropTable (rev (created ops))) s' = Inr s"
proof -
  from run_creates [OF assms(1,4,3)] obtain ts ixs where ok: "schema_ok s'"
    and s': "s' = \<lparr>sc_tables = sc_tables s @ ts, sc_indexes = sc_indexes s @ ixs\<rparr>"
    and ts: "map fst ts = created ops" and ixs: "ix_table ` set ixs \<subseteq> indexed ops" by blast
  have new: "fst ` set ts = set (created ops)" using arg_cong [OF ts, of set] by simp
  have "filter (\<lambda>ix. ix_table ix \<notin> fst ` set ts) ixs = []" using ixs assms(2) new by (auto simp: filter_empty_conv)
  moreover have "filter (\<lambda>ix. ix_table ix \<notin> fst ` set ts) (sc_indexes s) = sc_indexes s"
  proof (rule filter_True, rule ballI)
    fix ix assume "ix \<in> set (sc_indexes s)"
    then have "ix_table ix \<in> fst ` set (sc_tables s)" using assms(3) by (auto simp: schema_ok_def)
    moreover have "fst ` set (sc_tables s) \<inter> fst ` set ts = {}" using ok by (auto simp: schema_ok_def s')
    ultimately show "ix_table ix \<notin> fst ` set ts" by blast
  qed
  ultimately show ?thesis using ok drop_tables [OF ok [unfolded s']] ts by (simp add: s')
qed

lemma creating_migrations:
  assumes "m \<in> {baseline_migration, operations_migration, models_migration}"
  shows "list_all creating (mg_upgrade m) \<and> indexed (mg_upgrade m) \<subseteq> set (created (mg_upgrade m))
     \<and> mg_downgrade m = map DropTable (rev (created (mg_upgrade m)))"
  using assms
  by (elim insertE emptyE) (simp_all add: baseline_migration_def operations_migration_def models_migration_def
      baseline_upgrade_def operations_upgrade_def models_upgrade_def baseline_downgrade_def operations_downgrade_def
      models_downgrade_def ddl_lists creating_def index_of_def)

section \<open>Properties\<close>


text \<open>The migrations that create tables can be taken back: on any well-formed schema, after the upgrade the downgrade restores exactly the tables and indexes there were before, whatever other tables exist.\<close>

theorem creating_migrations_reverse:
  assumes "m \<in> {baseline_migration, operations_migration, models_migration}" and "schema_ok s"
    and "run_all (mg_upgrade m) s = Inr s'"
  shows "schema_ok s' \<and> run_all (mg_downgrade m) s' = Inr s"
  using creations_reverse [OF _ _ assms(2,3)] creating_migrations [OF assms(1)] by simp

definition column_type :: "string \<Rightarrow> string \<Rightarrow> schema \<Rightarrow> sql_type option" where
  "column_type t c s = (case map_of (sc_tables s) t of None \<Rightarrow> None
     | Some tb \<Rightarrow> map_option cl_type (find (\<lambda>k. cl_name k = c) (tb_columns tb)))"

definition revision_two :: schema where
  "revision_two = (case run_all (baseline_upgrade @ operations_upgrade) empty_schema of Inr s \<Rightarrow> s | Inl _ \<Rightarrow> empty_schema)"

lemma revision_two_runs: "run_all (baseline_upgrade @ operations_upgrade) empty_schema = Inr revision_two"
  by code_simp

definition narrowed_schema :: schema where
  "narrowed_schema = (case run_all counters_downgrade revision_two of Inr s \<Rightarrow> s | Inl _ \<Rightarrow> empty_schema)"

text \<open>The migration of the counters cannot be taken back: the baseline already creates them as 64-bit columns, so its upgrade changes nothing, and its downgrade leaves 32-bit counters where the revision before it had 64-bit ones.\<close>

theorem counters_downgrade_narrows:
  "run_all (baseline_upgrade @ operations_upgrade) empty_schema = Inr revision_two
   \<and> run_all counters_upgrade revision_two = Inr revision_two
   \<and> (\<exists>s. run_all counters_downgrade revision_two = Inr s
        \<and> column_type ''telemetry'' ''sequence'' revision_two = Some SQLBigInteger
        \<and> column_type ''telemetry'' ''sequence'' s = Some SQLInteger
        \<and> column_type ''telemetry'' ''uptime_ms'' s = Some SQLInteger)"
proof -
  note revision_two_runs
  moreover have "run_all counters_upgrade revision_two = Inr revision_two" by code_simp
  moreover have "run_all counters_downgrade revision_two = Inr narrowed_schema" by code_simp
  moreover have "column_type ''telemetry'' ''sequence'' revision_two = Some SQLBigInteger" by code_simp
  moreover have "column_type ''telemetry'' ''sequence'' narrowed_schema = Some SQLInteger" by code_simp
  moreover have "column_type ''telemetry'' ''uptime_ms'' narrowed_schema = Some SQLInteger" by code_simp
  ultimately show ?thesis by blast
qed

theorem creating_migrations_reverse_witness:
  "\<exists>s. run_all (mg_upgrade models_migration) revision_two = Inr s \<and> schema_ok s
     \<and> run_all (mg_downgrade models_migration) s = Inr revision_two"
proof -
  have "list_all creating (baseline_upgrade @ operations_upgrade)" by code_simp
  moreover have "schema_ok empty_schema" by (simp add: schema_ok_def empty_schema_def)
  ultimately have ok: "schema_ok revision_two" using run_creates [OF _ revision_two_runs] by blast
  have "(case run_all (mg_upgrade models_migration) revision_two of Inr _ \<Rightarrow> True | Inl _ \<Rightarrow> False)" by code_simp
  then obtain s where s: "run_all (mg_upgrade models_migration) revision_two = Inr s" by (auto split: sum.splits)
  from creating_migrations_reverse [OF _ ok s] s show ?thesis by auto
qed

end
