(* ===== verification/Licenses.thy ===== *)
theory Licenses
  imports Artifacts "HOL-Library.List_Lexorder"
begin

text \<open>
  The gate on dependencies, \<open>scripts/check_dependency_licenses.py\<close>: the pinned Python
  packages of two lock files, the reviewed license policy (a CSV file), the npm lock file, and
  the inventory that is built from them and compared with the committed one. Paths are
  relative to the root of the repository, which \<open>rt\<close> writes out in messages; \<open>json.loads\<close> is a
  parameter. Text is ASCII, as the files are: \<open>upper\<close> and \<open>lower\<close> change nothing else.
\<close>

section \<open>Reading text\<close>

abbreviation LF :: char where "LF \<equiv> CHR 0x0A"
abbreviation CR :: char where "CR \<equiv> CHR 0x0D"
abbreviation QUOTE :: char where "QUOTE \<equiv> CHR 0x22"

text \<open>\<open>read_text\<close> translates every line end to a newline; \<open>splitlines\<close> ends a line at any line boundary.\<close>

fun universal_newlines :: "string \<Rightarrow> string" where
  "universal_newlines [] = []"
| "universal_newlines [c] = [if c = CR then LF else c]"
| "universal_newlines (c # d # s) =
     (if c = CR \<and> d = LF then LF # universal_newlines s
      else (if c = CR then LF else c) # universal_newlines (d # s))"

definition read_text :: "fs \<Rightarrow> path \<Rightarrow> string res" where
  "read_text files p = bindE (read_file files p) (\<lambda>s. Inr (universal_newlines s))"

definition line_boundary :: "char \<Rightarrow> bool" where
  "line_boundary c = ((of_char c :: nat) \<in> {10, 11, 12, 13, 28, 29, 30, 133})"

fun splitlines :: "string \<Rightarrow> string list" where
  "splitlines [] = []"
| "splitlines (c # s) =
     (if c = CR \<and> s \<noteq> [] \<and> hd s = LF then splitlines s
      else if line_boundary c then [] # splitlines s
      else (case splitlines s of [] \<Rightarrow> [[c]] | l # ls \<Rightarrow> (c # l) # ls))"

definition str_upper :: "string \<Rightarrow> string" where
  "str_upper s = map upper_char s"

fun str_contains :: "string \<Rightarrow> string \<Rightarrow> bool" where
  "str_contains p [] = (p = [])"
| "str_contains p (c # s) = (starts_with p (c # s) \<or> str_contains p s)"

section \<open>\<open>csv.reader\<close>\<close>

text \<open>The default dialect, with the file opened with \<open>newline=""\<close>; a blank line is an empty record.\<close>

datatype reader_state = StartRecord | AfterCR | StartField | InField | InQuoted | QuoteInQuoted

abbreviation at_start :: "reader_state \<Rightarrow> bool" where
  "at_start st \<equiv> st = StartRecord \<or> st = AfterCR"

fun csv_machine :: "reader_state \<Rightarrow> string \<Rightarrow> string list \<Rightarrow> string list list \<Rightarrow> string \<Rightarrow> string list list" where
  "csv_machine st f fs rows [] = (if at_start st then rev rows else rev (rev (rev f # fs) # rows))"
| "csv_machine st f fs rows (c # s) =
     (if st = AfterCR \<and> c = LF then csv_machine StartRecord [] [] rows s
      else if st = InQuoted then
        (if c = QUOTE then csv_machine QuoteInQuoted f fs rows s else csv_machine InQuoted (c # f) fs rows s)
      else if c = LF \<or> c = CR then
        csv_machine (if c = CR then AfterCR else StartRecord) [] []
          ((if at_start st then [] else rev (rev f # fs)) # rows) s
      else if c = CHR '','' then csv_machine StartField [] (rev f # fs) rows s
      else if c = QUOTE \<and> st = QuoteInQuoted then csv_machine InQuoted (c # f) fs rows s
      else if c = QUOTE \<and> st \<noteq> InField then csv_machine InQuoted f fs rows s
      else csv_machine InField (c # f) fs rows s)"

definition csv_reader :: "string \<Rightarrow> string list list" where
  "csv_reader s = csv_machine StartRecord [] [] [] s"

text \<open>A row of \<open>csv.DictReader\<close>: a later column of the same name wins, a missing cell is \<open>None\<close>.\<close>

definition dict_row :: "string list \<Rightarrow> string list \<Rightarrow> string \<Rightarrow> string option res" where
  "dict_row names cells k =
     lookup (rev (zip names (map Some cells @ replicate (length names - length cells) None))) k"

definition stripped_cell :: "string list \<Rightarrow> string list \<Rightarrow> string \<Rightarrow> string res" where
  "stripped_cell names cells k =
     bindE (dict_row names cells k) (\<lambda>v. case v of None \<Rightarrow> Inl AttributeError | Some s \<Rightarrow> Inr (str_strip s))"

section \<open>Messages\<close>

definition path_str :: "string \<Rightarrow> path \<Rightarrow> string" where
  "path_str rt p = join_with ''/'' (rt # p)"

text \<open>\<open>repr\<close> of a string and of a list of strings.\<close>

definition repr_char :: "char \<Rightarrow> char \<Rightarrow> string" where
  "repr_char q c =
     (if c = q \<or> c = CHR 0x5C then [CHR 0x5C, c]
      else if c = LF then [CHR 0x5C, CHR ''n'']
      else if c = CR then [CHR 0x5C, CHR ''r'']
      else if c = CHR 0x09 then [CHR 0x5C, CHR ''t'']
      else let n = (of_char c :: nat) in
        if n < 32 \<or> 127 \<le> n then [CHR 0x5C, CHR ''x'', hex_digit (n div 16), hex_digit (n mod 16)] else [c])"

definition str_repr :: "string \<Rightarrow> string" where
  "str_repr s = (let q = (if CHR 0x27 \<in> set s \<and> QUOTE \<notin> set s then QUOTE else CHR 0x27)
                 in q # concat (map (repr_char q) s) @ [q])"

definition list_repr :: "string list \<Rightarrow> string" where
  "list_repr xs = ''['' @ join_with '', '' (map str_repr xs) @ '']''"

section \<open>Names and licenses\<close>

definition PYTHON_LOCK :: path where "PYTHON_LOCK = [''requirements'', ''runtime.lock'']"
definition CI_LOCK :: path where "CI_LOCK = [''requirements'', ''ci.lock'']"
definition PYTHON_POLICY :: path where "PYTHON_POLICY = [''requirements'', ''python-license-policy.csv'']"
definition NODE_LOCK :: path where "NODE_LOCK = [''web'', ''package-lock.json'']"
definition INVENTORY :: path where "INVENTORY = [''docs'', ''dependency-license-inventory.csv'']"

definition INVALID_LICENSE_MARKERS :: "string list" where
  "INVALID_LICENSE_MARKERS = [''UNKNOWN'', ''UNLICENSED'', ''SEE LICENSE IN'']"

definition POLICY_DISPOSITIONS :: "string list" where
  "POLICY_DISPOSITIONS = [''accepted'', ''reviewed'']"

definition DOCUMENTATION_PACKAGES :: "string list" where
  "DOCUMENTATION_PACKAGES = [''charset-normalizer'', ''cryptography'', ''pdfminer-six'', ''pdfplumber'', ''pillow'', ''pypdf'',
     ''pypdfium2'', ''reportlab'']"

text \<open>\<open>re.sub(r"[-_.]+", "-", name).lower()\<close>; the flag says that the character before was a separator.\<close>

definition separator :: "char \<Rightarrow> bool" where
  "separator c = (c \<in> {CHR ''-'', CHR ''_'', CHR ''.''})"

fun dashed :: "bool \<Rightarrow> string \<Rightarrow> string" where
  "dashed b [] = []"
| "dashed b (c # s) = (if separator c then (if b then dashed True s else CHR ''-'' # dashed True s) else c # dashed False s)"

definition normalize_package :: "string \<Rightarrow> string" where
  "normalize_package name = str_lower (dashed False name)"

text \<open>
  \<open>PIN.fullmatch\<close>: a name cannot contain \<open>=\<close>, so it ends at the first character outside its
  class and \<open>==\<close> follows.
\<close>

definition pin_char :: "char \<Rightarrow> bool" where
  "pin_char c = (upper_ascii c \<or> lower_ascii c \<or> digit_ascii c \<or> c = CHR ''_'' \<or> c = CHR ''.'' \<or> c = CHR ''-'')"

definition parse_pin :: "string \<Rightarrow> (string \<times> string) option" where
  "parse_pin line =
     (let name = takeWhile pin_char line; rest = dropWhile pin_char line; version = drop 2 rest in
      if name \<noteq> [] \<and> starts_with ''=='' rest \<and> version \<noteq> [] \<and> \<not> list_ex is_space version
      then Some (name, version) else None)"

text \<open>\<open>STRONG_COPYLEFT.search\<close>: \<open>GPL-2.0\<close> or \<open>GPL-3.0\<close> with no \<open>L\<close> before it.\<close>

fun strong_copyleft :: "bool \<Rightarrow> string \<Rightarrow> bool" where
  "strong_copyleft after_L [] = False"
| "strong_copyleft after_L (c # s) =
     (\<not> after_L \<and> (starts_with ''GPL-2.0'' (c # s) \<or> starts_with ''GPL-3.0'' (c # s)) \<or> strong_copyleft (c = CHR ''L'') s)"

definition validate_license :: "string \<Rightarrow> string \<Rightarrow> unit res" where
  "validate_license expression package =
     (let upper = str_upper expression in
      bindE (raise_if (expression = [] \<or> list_ex (\<lambda>m. str_contains m upper) INVALID_LICENSE_MARKERS)
        (ValueError (''missing or non-specific license for '' @ package @ '': '' @ str_repr expression))) (\<lambda>_.
      raise_if (str_contains ''AGPL'' upper \<or> strong_copyleft False upper)
        (ValueError (''strong-copyleft dependency requires an explicit policy change: '' @ package))))"

section \<open>The Python packages\<close>

type_synonym packages = "(string \<times> string \<times> string) list"

fun lock_lines :: "string \<Rightarrow> bool \<Rightarrow> int \<Rightarrow> string list \<Rightarrow> packages \<Rightarrow> packages res" where
  "lock_lines p allow_runtime_include n [] packages = Inr packages"
| "lock_lines p allow_runtime_include n (raw # raws) packages =
     (let line = str_strip raw in
      if line = [] \<or> starts_with ''#'' line \<or> allow_runtime_include \<and> line = ''-r runtime.lock''
      then lock_lines p allow_runtime_include (n + 1) raws packages
      else
        (case parse_pin line of
           None \<Rightarrow> Inl (ValueError (p @ '':'' @ str_of_int n @ '': dependency must be exactly pinned''))
         | Some (display_name, version) \<Rightarrow>
             let normalized = normalize_package display_name in
             bindE (raise_if (normalized \<in> fst ` set packages)
               (ValueError (''duplicate Python dependency: '' @ display_name))) (\<lambda>_.
             lock_lines p allow_runtime_include (n + 1) raws (packages @ [(normalized, display_name, version)]))))"

definition read_python_lock :: "string \<Rightarrow> fs \<Rightarrow> path \<Rightarrow> bool \<Rightarrow> packages res" where
  "read_python_lock rt files p allow_runtime_include =
     bindE (read_text files p) (\<lambda>text. lock_lines (path_str rt p) allow_runtime_include 1 (splitlines text) [])"

record policy_row =
  pol_package :: string
  pol_license_expression :: string
  pol_disposition :: string
  pol_notes :: string

type_synonym policies = "(string \<times> policy_row) list"

definition policy_row_of :: "string list \<Rightarrow> string list \<Rightarrow> policy_row res" where
  "policy_row_of names cells =
     bindE (stripped_cell names cells ''package'') (\<lambda>package.
     bindE (stripped_cell names cells ''license_expression'') (\<lambda>license_expression.
     bindE (stripped_cell names cells ''disposition'') (\<lambda>disposition.
     bindE (stripped_cell names cells ''notes'') (\<lambda>notes.
     Inr \<lparr>pol_package = package, pol_license_expression = license_expression,
          pol_disposition = disposition, pol_notes = notes\<rparr>))))"

text \<open>The loop over the reader, which skips empty records.\<close>

fun policy_rows :: "string list \<Rightarrow> string list list \<Rightarrow> policies \<Rightarrow> policies res" where
  "policy_rows names [] policy = Inr policy"
| "policy_rows names (cells # rows) policy =
     (if cells = [] then policy_rows names rows policy
      else
        bindE (policy_row_of names cells) (\<lambda>typed.
        let normalized = normalize_package (pol_package typed) in
        bindE (raise_if (normalized \<in> fst ` set policy)
          (ValueError (''duplicate Python policy row: '' @ pol_package typed))) (\<lambda>_.
        bindE (validate_license (pol_license_expression typed) (pol_package typed)) (\<lambda>_.
        bindE (raise_if (pol_disposition typed \<notin> set POLICY_DISPOSITIONS)
          (ValueError (''unapproved disposition for '' @ pol_package typed))) (\<lambda>_.
        policy_rows names rows (policy @ [(normalized, typed)]))))))"

definition read_python_policy :: "string \<Rightarrow> fs \<Rightarrow> policies res" where
  "read_python_policy rt files =
     bindE (read_file files PYTHON_POLICY) (\<lambda>text.
     let records = csv_reader text; names = (case records of [] \<Rightarrow> [] | r # _ \<Rightarrow> r) in
     bindE (raise_if (set names \<noteq> {''package'', ''license_expression'', ''disposition'', ''notes''})
       (ValueError (''unexpected columns in '' @ path_str rt PYTHON_POLICY))) (\<lambda>_.
     policy_rows names (tl records) []))"

section \<open>The npm packages\<close>

text \<open>\<open>path.rsplit(marker, 1)[1]\<close>: what follows the last occurrence.\<close>

fun after_last :: "string \<Rightarrow> string \<Rightarrow> string option" where
  "after_last marker [] = None"
| "after_last marker (c # s) =
     (case after_last marker s of
        Some t \<Rightarrow> Some t
      | None \<Rightarrow> if starts_with marker (c # s) then Some (drop (length marker) (c # s)) else None)"

definition node_package_name :: "string \<Rightarrow> string res" where
  "node_package_name p =
     (case after_last ''node_modules/'' p of
        None \<Rightarrow> Inl (ValueError (''unexpected npm package path: '' @ p))
      | Some name \<Rightarrow> Inr name)"

definition is_true :: "json option \<Rightarrow> bool" where
  "is_true v = (v = Some (JBool True))"

definition node_row :: "string \<times> json \<Rightarrow> string list res" where
  "node_row entry =
     (case entry of (package_path, metadata) \<Rightarrow>
       (case metadata of
          JObj members \<Rightarrow>
            (case (map_of members ''version'', map_of members ''license'') of
               (Some (JStr version), Some (JStr expression)) \<Rightarrow>
                 bindE (node_package_name package_path) (\<lambda>package_name.
                 bindE (validate_license expression package_name) (\<lambda>_.
                 let scope = (if is_true (map_of members ''dev'') then ''development'' else ''runtime'')
                       @ (if is_true (map_of members ''optional'') then ''+optional'' else []);
                     disposition = (if list_ex (\<lambda>x. str_contains x expression) [''LGPL'', ''MPL'']
                       then ''reviewed'' else ''accepted'')
                 in Inr [''javascript'', package_path, package_name, version, expression, scope, disposition,
                         ''License metadata recorded in npm lockfile.'']))
             | _ \<Rightarrow> Inl (ValueError (''npm package lacks version/license metadata: '' @ package_path)))
        | _ \<Rightarrow> Inl (ValueError (''invalid npm metadata for '' @ package_path))))"

text \<open>\<open>lock.get("lockfileVersion") != 3\<close>: a float may equal 3, nothing else does.\<close>

definition equals_three :: "json option \<Rightarrow> bool" where
  "equals_three v = (v = Some (JInt 3) \<or> v = Some (JNum (Fin 3)))"

definition node_rows :: "json \<Rightarrow> string list list res" where
  "node_rows lock =
     (case lock of
        JObj members \<Rightarrow>
          bindE (raise_if (\<not> equals_three (map_of members ''lockfileVersion''))
            (ValueError ''web/package-lock.json must use lockfileVersion 3'')) (\<lambda>_.
          (case map_of members ''packages'' of
             Some (JObj packages) \<Rightarrow> mapE node_row (filter (\<lambda>m. fst m \<noteq> []) (sort_key fst packages))
           | _ \<Rightarrow> Inl (ValueError ''web/package-lock.json has no packages object'')))
      | _ \<Rightarrow> Inl AttributeError)"

section \<open>The inventory\<close>

definition python_row :: "packages \<Rightarrow> policies \<Rightarrow> string \<times> string \<times> string \<Rightarrow> string list res" where
  "python_row runtime_packages policy package =
     (case package of (normalized, display_name, version) \<Rightarrow>
        bindE (lookup policy normalized) (\<lambda>row.
        let (locked_path, scope) =
              (if normalized \<in> fst ` set runtime_packages then (''requirements/runtime.lock'', ''runtime'')
               else if normalized \<in> set DOCUMENTATION_PACKAGES then (''requirements/ci.lock'', ''documentation'')
               else (''requirements/ci.lock'', ''development''))
        in Inr [''python'', locked_path, display_name, version, pol_license_expression row, scope,
                pol_disposition row, pol_notes row]))"

definition inventory_header :: "string list" where
  "inventory_header = [''ecosystem'', ''locked_path'', ''package'', ''version'', ''license_expression'', ''scope'',
     ''disposition'', ''notes'']"

definition python_inventory :: "string \<Rightarrow> fs \<Rightarrow> string list list res" where
  "python_inventory rt files =
     bindE (read_python_lock rt files PYTHON_LOCK False) (\<lambda>runtime_packages.
     bindE (read_python_lock rt files CI_LOCK True) (\<lambda>ci_packages.
     let overlap = sort (filter (\<lambda>k. k \<in> fst ` set ci_packages) (map fst runtime_packages));
         python_packages = runtime_packages @ ci_packages in
     bindE (raise_if (overlap \<noteq> [])
       (ValueError (''CI-only lock duplicates runtime dependencies: '' @ list_repr overlap))) (\<lambda>_.
     bindE (read_python_policy rt files) (\<lambda>python_policy.
     let missing = sort (filter (\<lambda>k. k \<notin> fst ` set python_policy) (map fst python_packages));
         stale = sort (filter (\<lambda>k. k \<notin> fst ` set python_packages) (map fst python_policy)) in
     bindE (raise_if (missing \<noteq> [] \<or> stale \<noteq> [])
       (ValueError (''Python license policy mismatch; missing='' @ list_repr missing @ '', stale='' @ list_repr stale))) (\<lambda>_.
     mapE (python_row runtime_packages python_policy) (sort_key fst python_packages))))))"

definition build_inventory :: "string \<Rightarrow> (string \<Rightarrow> json res) \<Rightarrow> fs \<Rightarrow> string res" where
  "build_inventory rt loads files =
     bindE (python_inventory rt files) (\<lambda>python.
     bindE (read_text files NODE_LOCK) (\<lambda>text.
     bindE (loads text) (\<lambda>lock.
     bindE (node_rows lock) (\<lambda>node.
     Inr (concat (map csv_row (inventory_header # python @ node)))))))"

text \<open>
  \<open>main\<close>: with \<open>--write\<close> the inventory is written, without it the committed one has to be the
  generated one; the result is the file system and what is printed.
\<close>

definition stale_inventory :: exc where
  "stale_inventory = OtherException ''SystemExit''"

definition check_licenses :: "string \<Rightarrow> (string \<Rightarrow> json res) \<Rightarrow> bool \<Rightarrow> fs \<Rightarrow> (fs \<times> string) res" where
  "check_licenses rt loads write files =
     bindE (build_inventory rt loads files) (\<lambda>generated.
     if write then
       bindE (raise_if (files [''docs''] \<noteq> Some Dir \<or> files INVENTORY = Some Dir) OSError) (\<lambda>_.
       Inr (write_file INVENTORY generated files, ''wrote '' @ join_with ''/'' INVENTORY))
     else
       bindE (if files INVENTORY = None then Inl stale_inventory else read_text files INVENTORY) (\<lambda>committed.
       bindE (raise_if (committed \<noteq> generated) stale_inventory) (\<lambda>_.
       Inr (files, ''dependency/license inventory passed: ''
              @ str_of_int (int (length (filter (\<lambda>c. c = LF) generated)) - 1) @ '' locked package rows''))))"

section \<open>What is written is read back\<close>

lemma machine_quoted:
  "csv_machine InQuoted f fs rows (concat (map (\<lambda>c. if c = QUOTE then [c, c] else [c]) s) @ t)
     = csv_machine InQuoted (rev s @ f) fs rows t"
  by (induction s arbitrary: f) auto

lemma machine_plain:
  "\<not> list_ex csv_special s \<Longrightarrow> csv_machine InField f fs rows (s @ t) = csv_machine InField (rev s @ f) fs rows t"
  by (induction s arbitrary: f) (auto simp: csv_special_def)

lemma machine_unquoted:
  assumes "\<not> list_ex csv_special s" and "s \<noteq> []" and "st = StartRecord \<or> st = StartField"
  shows "csv_machine st [] fs rows (s @ t) = csv_machine InField (rev s) fs rows t"
proof (cases s)
  case (Cons c cs)
  with assms have "csv_machine st [] fs rows (s @ t) = csv_machine InField [c] fs rows (cs @ t)"
    by (auto simp: csv_special_def)
  with assms Cons machine_plain [of cs "[c]" fs rows t] show ?thesis by simp
qed (use assms in simp)

lemma machine_field:
  assumes "st = StartRecord \<or> st = StartField"
  shows "csv_machine st [] fs rows (csv_field s @ CHR '','' # t) = csv_machine StartField [] (s # fs) rows t"
    and "st = StartField \<Longrightarrow> csv_machine st [] fs rows (csv_field s @ LF # t) = csv_machine StartRecord [] [] (rev (s # fs) # rows) t"
proof -
  have quoted: "csv_machine st [] fs rows (csv_field s @ t') = csv_machine QuoteInQuoted (rev s) fs rows t'"
    if "list_ex csv_special s" for t'
    using that assms machine_quoted [of "[]" fs rows s "QUOTE # t'"] by (auto simp: csv_field_def)
  have plain: "csv_machine st [] fs rows (csv_field s @ t') = csv_machine InField (rev s) fs rows t'"
    if "\<not> list_ex csv_special s" "s \<noteq> []" for t'
    using that assms by (simp add: csv_field_def machine_unquoted)
  show "csv_machine st [] fs rows (csv_field s @ CHR '','' # t) = csv_machine StartField [] (s # fs) rows t"
    using assms quoted [of "CHR '','' # t"] plain [of "CHR '','' # t"]
    by (cases "list_ex csv_special s"; cases "s = []") (auto simp: csv_field_def)
  show "csv_machine st [] fs rows (csv_field s @ LF # t) = csv_machine StartRecord [] [] (rev (s # fs) # rows) t" if "st = StartField"
    using that quoted [of "LF # t"] plain [of "LF # t"]
    by (cases "list_ex csv_special s"; cases "s = []") (auto simp: csv_field_def)
qed

lemma machine_cells:
  "cells \<noteq> [] \<Longrightarrow> csv_machine StartField [] fs rows (join_with '','' (map csv_field cells) @ LF # t)
     = csv_machine StartRecord [] [] ((rev fs @ cells) # rows) t"
proof (induction cells arbitrary: fs)
  case (Cons c cells)
  show ?case
  proof (cases "cells = []")
    case False
    then show ?thesis using Cons.IH [of "c # fs"] machine_field(1) [of StartField fs rows c] by (simp add: join_Cons)
  qed (simp add: machine_field)
qed simp

text \<open>A row of two or more cells; a single empty cell would be written as a blank line.\<close>

lemma machine_row:
  assumes "2 \<le> length cells"
  shows "csv_machine StartRecord [] [] rows (csv_row cells @ t) = csv_machine StartRecord [] [] (cells # rows) t"
proof -
  obtain c d ds where c: "cells = c # d # ds" using assms by (cases cells; cases "tl cells") auto
  have "csv_row cells @ t = csv_field c @ CHR '','' # (join_with '','' (map csv_field (d # ds)) @ LF # t)"
    by (simp add: csv_row_def c)
  then show ?thesis
    using machine_field(1) [of StartRecord "[]" rows c] machine_cells [of "d # ds" "[c]" rows t] by (simp add: c)
qed

lemma csv_reader_reads_back:
  assumes "\<forall>cells \<in> set table. 2 \<le> length cells"
  shows "csv_reader (concat (map csv_row table)) = table"
proof -
  have "csv_machine StartRecord [] [] rows (concat (map csv_row table)) = rev rows @ table" for rows
    using assms by (induction table arbitrary: rows) (auto simp: machine_row)
  then show ?thesis by (simp add: csv_reader_def)
qed

section \<open>Licenses that pass\<close>

lemma str_contains_iff: "str_contains p s \<longleftrightarrow> (\<exists>a b. s = a @ p @ b)"
proof (induction s)
  case (Cons c s)
  have "starts_with p (c # s) \<longleftrightarrow> (\<exists>b. c # s = p @ b)"
    unfolding starts_with_def by (metis append_eq_conv_conj append_take_drop_id)
  moreover have "(\<exists>a b. c # s = a @ p @ b) \<longleftrightarrow> (\<exists>b. c # s = p @ b) \<or> (\<exists>a b. s = a @ p @ b)"
    by (metis Cons_eq_append_conv append_Cons append_Nil)
  ultimately show ?case using Cons.IH by simp
qed simp

definition gpl_at :: "string \<Rightarrow> bool" where
  "gpl_at s = (starts_with ''GPL-2.0'' s \<or> starts_with ''GPL-3.0'' s)"

lemma strong_copyleft_iff:
  "strong_copyleft b s \<longleftrightarrow> (\<exists>p q. s = p @ q \<and> gpl_at q \<and> (if p = [] then \<not> b else last p \<noteq> CHR ''L''))"
proof (induction s arbitrary: b)
  case (Cons c s)
  have "(\<exists>p q. c # s = p @ q \<and> gpl_at q \<and> (if p = [] then \<not> b else last p \<noteq> CHR ''L''))
      \<longleftrightarrow> gpl_at (c # s) \<and> \<not> b \<or> (\<exists>p q. s = p @ q \<and> gpl_at q \<and> (if p = [] then c \<noteq> CHR ''L'' else last p \<noteq> CHR ''L''))"
    (is "?l \<longleftrightarrow> ?r1 \<or> ?r2")
  proof
    assume ?l
    then obtain p q where "c # s = p @ q" "gpl_at q" "if p = [] then \<not> b else last p \<noteq> CHR ''L''" by blast
    then show "?r1 \<or> ?r2" by (cases p) (auto split: if_splits)
  next
    assume "?r1 \<or> ?r2"
    then show ?l
    proof
      assume ?r2
      then obtain p q where "s = p @ q" "gpl_at q" "if p = [] then c \<noteq> CHR ''L'' else last p \<noteq> CHR ''L''" by blast
      then show ?l by (intro exI [of _ "c # p"] exI [of _ q]) auto
    qed (use append_Nil in \<open>metis\<close>)
  qed
  with Cons.IH [of "c = CHR ''L''"] show ?case by (auto simp: gpl_at_def)
qed (simp add: gpl_at_def starts_with_def)

text \<open>Specific, and not a strong copyleft license: an AGPL, or a GPL 2 or 3 that is not an LGPL.\<close>

definition permissive :: "string \<Rightarrow> bool" where
  "permissive e =
     (e \<noteq> [] \<and> (\<forall>m \<in> set INVALID_LICENSE_MARKERS. \<not> (\<exists>a b. str_upper e = a @ m @ b))
      \<and> \<not> (\<exists>a b. str_upper e = a @ ''AGPL'' @ b)
      \<and> \<not> (\<exists>p q. str_upper e = p @ q \<and> gpl_at q \<and> (p = [] \<or> last p \<noteq> CHR ''L'')))"

lemma raise_if_Inr: "raise_if b e = Inr u \<longleftrightarrow> \<not> b"
  by (simp add: raise_if_def)

lemma validate_license_iff: "validate_license e p = Inr u \<longleftrightarrow> permissive e"
  unfolding validate_license_def permissive_def Let_def strong_copyleft_iff
  by (auto simp: raise_if_def list_ex_iff str_contains_iff)

section \<open>Names are unique whatever their spelling\<close>

lemma separator_code: "separator c \<longleftrightarrow> (of_char c :: nat) \<in> {45, 46, 95}"
proof -
  have code: "c = d \<longleftrightarrow> (of_char c :: nat) = of_char d" for d by (metis char_of_char)
  have "c = CHR ''-'' \<longleftrightarrow> (of_char c :: nat) = 45" "c = CHR ''.'' \<longleftrightarrow> (of_char c :: nat) = 46"
    "c = CHR ''_'' \<longleftrightarrow> (of_char c :: nat) = 95" unfolding code by simp_all
  then show ?thesis unfolding separator_def by blast
qed

lemma lower_code: "(of_char (lower_char c) :: nat) = (if upper_ascii c then of_char c + 32 else of_char c)"
  by (auto simp: lower_char_def upper_ascii_def less_eq_char_def)

lemma upper_code: "upper_ascii c \<longleftrightarrow> 65 \<le> (of_char c :: nat) \<and> (of_char c :: nat) \<le> 90"
  by (simp add: upper_ascii_def less_eq_char_def)

lemma separator_lower: "separator (lower_char c) \<longleftrightarrow> separator c"
  by (auto simp: separator_code lower_code upper_code split: if_splits)

lemma lower_separator: "separator c \<Longrightarrow> lower_char c = c"
  by (auto simp: separator_code lower_char_def upper_code)

lemma dashed_no_separators: "dashed b (map lower_char (dashed b s)) = map lower_char (dashed b s)"
proof (induction b s rule: dashed.induct)
  case (2 b c s)
  have "separator (CHR ''-'')" by (simp add: separator_def)
  with 2 show ?case by (auto simp: separator_lower lower_separator)
qed simp

lemma normalize_idempotent: "normalize_package (normalize_package n) = normalize_package n"
proof -
  have "lower_char (lower_char c) = lower_char c" for c
    by (auto simp: lower_char_def upper_ascii_def less_eq_char_def)
  then have "str_lower (map lower_char s) = map lower_char s" for s by (simp add: str_lower_def)
  then show ?thesis by (simp add: normalize_package_def str_lower_def dashed_no_separators comp_def)
qed

definition packages_ok :: "packages \<Rightarrow> bool" where
  "packages_ok ps = (distinct (map fst ps) \<and> (\<forall>(k, n, v) \<in> set ps. k = normalize_package n))"

lemma packages_ok_name: "packages_ok ps \<Longrightarrow> x \<in> set ps \<Longrightarrow> fst x = normalize_package (fst (snd x))"
  by (cases x) (auto simp: packages_ok_def)

lemma lock_lines_ok:
  "lock_lines p inc n raws packages = Inr ps \<Longrightarrow> packages_ok packages \<Longrightarrow> packages_ok ps"
proof (induction p inc n raws packages rule: lock_lines.induct)
  case (2 p inc n raw raws packages)
  let ?line = "str_strip raw"
  show ?case
  proof (cases "?line = [] \<or> starts_with ''#'' ?line \<or> inc \<and> ?line = ''-r runtime.lock''")
    case True
    with 2 show ?thesis by (simp add: Let_def)
  next
    case False
    then obtain name version where pin: "parse_pin ?line = Some (name, version)"
      using 2(3) by (auto simp: Let_def split: option.splits)
    with False 2(3) have new: "normalize_package name \<notin> fst ` set packages"
      and rest: "lock_lines p inc (n + 1) raws (packages @ [(normalize_package name, name, version)]) = Inr ps"
      by (auto simp: Let_def raise_if_def split: if_splits)
    from new 2(4) have "packages_ok (packages @ [(normalize_package name, name, version)])" by (auto simp: packages_ok_def)
    with 2(2) [OF refl False pin refl refl] new rest show ?thesis by simp
  qed
qed simp

lemma read_lock_ok: "read_python_lock rt files p inc = Inr ps \<Longrightarrow> packages_ok ps"
  unfolding read_python_lock_def by (elim bindE_InrE) (erule lock_lines_ok, simp add: packages_ok_def)

definition policies_ok :: "policies \<Rightarrow> bool" where
  "policies_ok qs = (distinct (map fst qs)
     \<and> (\<forall>(k, q) \<in> set qs. permissive (pol_license_expression q) \<and> pol_disposition q \<in> set POLICY_DISPOSITIONS))"

lemma policy_rows_ok:
  "policy_rows names rows policy = Inr qs \<Longrightarrow> policies_ok policy \<Longrightarrow> policies_ok qs"
proof (induction names rows policy rule: policy_rows.induct)
  case (2 names cells rows policy)
  show ?case
  proof (cases "cells = []")
    case False
    with 2(3) obtain typed where typed: "policy_row_of names cells = Inr typed"
      and new: "normalize_package (pol_package typed) \<notin> fst ` set policy"
      and ok: "permissive (pol_license_expression typed)" "pol_disposition typed \<in> set POLICY_DISPOSITIONS"
      and rest: "policy_rows names rows (policy @ [(normalize_package (pol_package typed), typed)]) = Inr qs"
      by (auto simp: Let_def validate_license_iff raise_if_Inr)
    from new ok 2(4) have "policies_ok (policy @ [(normalize_package (pol_package typed), typed)])" by (auto simp: policies_ok_def)
    with 2(2) False rest show ?thesis by simp
  qed (use 2 in simp)
qed simp

lemma read_policy_ok: "read_python_policy rt files = Inr qs \<Longrightarrow> policies_ok qs"
proof -
  assume "read_python_policy rt files = Inr qs"
  then obtain names rows where "policy_rows names rows [] = Inr qs"
    unfolding read_python_policy_def Let_def by (elim bindE_InrE) blast
  then show "policies_ok qs" by (rule policy_rows_ok) (simp add: policies_ok_def)
qed

section \<open>The inventory is complete and approved\<close>

definition approved_row :: "string list \<Rightarrow> bool" where
  "approved_row r = (length r = 8 \<and> permissive (r ! 4) \<and> r ! 6 \<in> set POLICY_DISPOSITIONS)"

definition pinned :: "string list \<Rightarrow> string \<times> string \<times> string" where
  "pinned r = (normalize_package (r ! 2), r ! 2, r ! 3)"

lemma mapE_map:
  assumes "mapE f xs = Inr ys" and "\<And>x y. x \<in> set xs \<Longrightarrow> f x = Inr y \<Longrightarrow> P y \<and> g y = h x"
  shows "list_all P ys \<and> map g ys = map h xs"
  using mapE_all [OF assms(1)] assms(2)
proof (induction xs ys rule: list_all2_induct)
  case (Cons x xs y ys)
  then show ?case by (metis (no_types, lifting) list.pred_inject(2) list.set_intros(1,2) list.simps(9))
qed simp

lemma python_row_approved:
  assumes "python_row runtime policy x = Inr r" and "policies_ok policy" and "fst x = normalize_package (fst (snd x))"
  shows "approved_row r \<and> pinned r = x"
proof -
  obtain k n v where x: "x = (k, n, v)" by (cases x)
  with assms(1) obtain q where q: "map_of policy k = Some q"
    and r: "\<exists>path scope. r = [''python'', path, n, v, pol_license_expression q, scope, pol_disposition q, pol_notes q]"
    by (auto simp: python_row_def lookup_def Let_def split: option.splits prod.splits)
  from map_of_SomeD [OF q] assms(2) have "permissive (pol_license_expression q)" "pol_disposition q \<in> set POLICY_DISPOSITIONS"
    by (auto simp: policies_ok_def)
  with r assms(3) show ?thesis by (auto simp: approved_row_def pinned_def x)
qed

lemma node_row_approved:
  assumes "node_row x = Inr r"
  shows "approved_row r \<and> r ! 1 = fst x"
proof -
  obtain package_path members where x: "x = (package_path, JObj members)"
    using assms by (cases x; cases "snd x") (auto simp: node_row_def)
  with assms obtain version expression name where "validate_license expression name = Inr ()"
    and r: "\<exists>scope disposition. r = [''javascript'', package_path, name, version, expression, scope, disposition,
        ''License metadata recorded in npm lockfile.''] \<and> disposition \<in> set POLICY_DISPOSITIONS"
    by (auto simp: node_row_def Let_def POLICY_DISPOSITIONS_def split: option.splits json.splits)
  then show ?thesis by (auto simp: validate_license_iff approved_row_def x)
qed

lemma python_inventory_parts:
  assumes "python_inventory rt files = Inr python"
  obtains runtime ci where "read_python_lock rt files PYTHON_LOCK False = Inr runtime"
    "read_python_lock rt files CI_LOCK True = Inr ci" "packages_ok (runtime @ ci)"
    "list_all approved_row python" "map pinned python = sort_key fst (runtime @ ci)"
proof -
  from assms obtain runtime ci policy where run: "read_python_lock rt files PYTHON_LOCK False = Inr runtime"
    and ci: "read_python_lock rt files CI_LOCK True = Inr ci"
    and overlap: "sort (filter (\<lambda>k. k \<in> fst ` set ci) (map fst runtime)) = []"
    and policy: "read_python_policy rt files = Inr policy"
    and rows: "mapE (python_row runtime policy) (sort_key fst (runtime @ ci)) = Inr python"
    unfolding python_inventory_def Let_def raise_if_def by (auto split: if_splits)
  have "filter (\<lambda>k. k \<in> fst ` set ci) (map fst runtime) = []" using arg_cong [OF overlap, of length] by (simp add: filter_map)
  then have "fst ` set runtime \<inter> fst ` set ci = {}" by (auto simp: filter_empty_conv)
  with read_lock_ok [OF run] read_lock_ok [OF ci] have ok: "packages_ok (runtime @ ci)"
    by (auto simp: packages_ok_def)
  have "list_all approved_row python \<and> map pinned python = map (\<lambda>x. x) (sort_key fst (runtime @ ci))"
    using rows
  proof (rule mapE_map)
    fix x y assume "x \<in> set (sort_key fst (runtime @ ci))" "python_row runtime policy x = Inr y"
    moreover from this have "x \<in> set (runtime @ ci)" by simp
    with ok have "fst x = normalize_package (fst (snd x))" by (rule packages_ok_name)
    ultimately show "approved_row y \<and> pinned y = x" using python_row_approved read_policy_ok [OF policy] by blast
  qed
  with that [OF run ci ok] show thesis by simp
qed

lemma node_rows_parts:
  assumes "node_rows lock = Inr node"
  obtains members packages where "lock = JObj members" "map_of members ''packages'' = Some (JObj packages)"
    "list_all approved_row node" "map (\<lambda>r. r ! 1) node = map fst (filter (\<lambda>m. fst m \<noteq> []) (sort_key fst packages))"
proof -
  from assms obtain members where lock: "lock = JObj members" by (cases lock) (simp_all add: node_rows_def)
  with assms obtain packages where packages: "map_of members ''packages'' = Some (JObj packages)"
    and rows: "mapE node_row (filter (\<lambda>m. fst m \<noteq> []) (sort_key fst packages)) = Inr node"
    by (auto simp: node_rows_def split: option.splits json.splits)
  from mapE_map [OF rows, of approved_row "\<lambda>r. r ! 1" fst] node_row_approved that [OF lock packages] show thesis by blast
qed


section \<open>The committed inventory\<close>

lemma universal_newlines_id: "CR \<notin> set s \<Longrightarrow> universal_newlines s = s"
  by (induction s rule: universal_newlines.induct) auto

lemma inventory_not_read: "build_inventory rt loads (files(INVENTORY := x)) = build_inventory rt loads files"
proof -
  have "read_file (files(INVENTORY := x)) p = read_file files p" if "p \<noteq> INVENTORY" for p
    using that by (simp add: read_file_def)
  then show ?thesis
    by (simp add: build_inventory_def python_inventory_def read_python_lock_def read_python_policy_def read_text_def
        PYTHON_LOCK_def CI_LOCK_def PYTHON_POLICY_def NODE_LOCK_def INVENTORY_def)
qed


section \<open>Examples\<close>

definition lines :: "string list \<Rightarrow> string" where
  "lines ls = concat (map (\<lambda>l. l @ [LF]) ls)"

definition sample_tree :: fs where
  "sample_tree = map_of
     [(PYTHON_LOCK, File (lines [''# pinned'', ''Flask_Login==0.6.3''])),
      (CI_LOCK, File (lines [''-r runtime.lock'', [], ''pillow==11.3.0''])),
      (PYTHON_POLICY, File (lines [''package,license_expression,disposition,notes'',
         ''flask-login,LGPL-3.0,reviewed,'' @ [QUOTE] @ ''dynamic, unmodified'' @ [QUOTE], [], ''pillow,MIT-CMU,accepted,''])),
      (NODE_LOCK, File ''{}''), ([''docs''], Dir)]"

definition sample_lock :: json where
  "sample_lock = JObj [(''lockfileVersion'', JInt 3), (''packages'', JObj
     [([], JObj []),
      (''node_modules/a/node_modules/b'', JObj [(''version'', JStr ''1.0.0''), (''license'', JStr ''MPL-2.0''), (''dev'', JBool True)])])]"

lemma sample_builds: "(case build_inventory ''/r'' (\<lambda>_. Inr sample_lock) sample_tree of
    Inr out \<Rightarrow> CR \<notin> set out \<and> length (csv_reader out) = 4 | Inl _ \<Rightarrow> False)"
  by code_simp



end
