(* ===== verification/Hygiene.thy ===== *)
theory Hygiene
  imports Licenses
begin

text \<open>
  The gate on the public repository, \<open>scripts/check_repository_hygiene.py\<close>: required files,
  identity, forbidden text and copyright headers, Markdown links, pinned workflow actions and
  the provenance of the bundled fonts. \<open>entries\<close> is what \<open>ROOT.rglob\<close> yields, paths are
  relative to \<open>repo\<close>, the repository's absolute path, and \<open>sha256\<close> is the digest of a file's
  content. Regular expressions are scanners: a search tries every position from the left with
  the character before it, and \<open>finditer\<close> goes on behind the last match.
\<close>

section \<open>Which files are read\<close>

definition IGNORED_PARTS :: "string list" where
  "IGNORED_PARTS = [''.git'', ''.mypy_cache'', ''.next'', ''.pytest_cache'', ''.ruff_cache'', ''.venv'', ''build'',
     ''node_modules'', ''tmp'']"

definition TEXT_SUFFIXES :: "string list" where
  "TEXT_SUFFIXES = [''.c'', ''.cff'', ''.cmake'', ''.conf'', ''.csv'', ''.h'', ''.html'', ''.json'', ''.md'', ''.mjs'',
     ''.py'', ''.sch'', ''.sh'', ''.toml'', ''.ts'', ''.tsx'', ''.txt'', ''.yaml'', ''.yml'']"

definition SOURCE_SUFFIXES :: "string list" where
  "SOURCE_SUFFIXES = [''.c'', ''.h'', ''.mjs'', ''.py'', ''.sh'', ''.ts'', ''.tsx'']"

definition SPDX_COPYRIGHT :: string where
  "SPDX_COPYRIGHT = ''SPDX-FileCopyrightText: 2026 Amin Zoroufi <aminn.zoroufi@gmail.com>''"

definition REQUIRED_FILES :: "string list" where
  "REQUIRED_FILES = [''AUTHORS.md'', ''CITATION.cff'', ''CONTRIBUTING.md'', ''LICENSE.md'', ''NOTICE.md'', ''SECURITY.md'',
     ''THIRD_PARTY_NOTICES.md'', ''compose.yaml'', ''docs/dependency-license-inventory.csv'',
     ''docs/report/Intelligent_Industrial_IoT_Monitoring_Platform_EN.pdf'',
     ''docs/report/Intelligent_Industrial_IoT_Monitoring_Platform_FA.pdf'', ''docs/report/checksums.sha256'',
     ''hardware/model-provenance.csv'', ''web/app/fonts/OFL.txt'', ''web/app/fonts/provenance.csv'',
     ''web/package-lock.json'']"

definition quoted :: "string \<Rightarrow> string" where
  "quoted s = QUOTE # s @ [QUOTE]"

definition IDENTITY_SNIPPETS :: "(string \<times> string) list" where
  "IDENTITY_SNIPPETS =
     [(''AUTHORS.md'', ''Amin Zoroufi <aminn.zoroufi@gmail.com>''),
      (''CITATION.cff'', ''email: '' @ quoted ''aminn.zoroufi@gmail.com''),
      (''LICENSE.md'', ''Copyright (c) 2026 Amin Zoroufi <aminn.zoroufi@gmail.com>''),
      (''NOTICE.md'', ''Copyright (c) 2026 Amin Zoroufi <aminn.zoroufi@gmail.com>''),
      (''README.md'', ''Amin Zoroufi''),
      (''pyproject.toml'', ''name = '' @ quoted ''Amin Zoroufi''),
      (''web/package.json'', quoted ''name'' @ '': '' @ quoted ''Amin Zoroufi'')]"

text \<open>\<open>path.suffix\<close>: from the last dot of the name, unless it is its first or last character.\<close>

definition suffix_of :: "path \<Rightarrow> string" where
  "suffix_of p =
     (let name = (if p = [] then [] else last p);
          extension = rev (takeWhile (\<lambda>c. c \<noteq> CHR ''.'') (rev name)) in
      if CHR ''.'' \<in> set name \<and> extension \<noteq> [] \<and> length extension + 1 < length name then CHR ''.'' # extension else [])"

definition ignored :: "path \<Rightarrow> bool" where
  "ignored p = (list_ex (\<lambda>part. part \<in> set IGNORED_PARTS) p \<or> 2 \<le> length p \<and> take 2 p = [''data'', ''models''])"

definition text_files :: "fs \<Rightarrow> path list \<Rightarrow> path list" where
  "text_files files entries =
     sort (filter (\<lambda>p. is_file files p \<and> \<not> ignored p \<and> suffix_of p \<in> set TEXT_SUFFIXES) entries)"

text \<open>\<open>ROOT / relative\<close> and \<open>str\<close> of a relative path.\<close>

definition parts_of :: "string \<Rightarrow> path" where
  "parts_of s = filter (\<lambda>p. p \<noteq> [] \<and> p \<noteq> ''.'') (split_on (CHR ''/'') s)"

definition rel_str :: "path \<Rightarrow> string" where
  "rel_str p = join_with ''/'' p"

definition check_required_files :: "fs \<Rightarrow> string list" where
  "check_required_files files =
     map ((@) ''missing required public artifact: '') (filter (\<lambda>f. \<not> is_file files (parts_of f)) REQUIRED_FILES)"

definition has_snippet :: "fs \<Rightarrow> string \<times> string \<Rightarrow> bool" where
  "has_snippet files x =
     (case x of (relative, snippet) \<Rightarrow>
       (case read_text files (parts_of relative) of Inr content \<Rightarrow> str_contains snippet content | Inl _ \<Rightarrow> False))"

definition check_identity :: "fs \<Rightarrow> string list" where
  "check_identity files =
     map (\<lambda>x. ''identity metadata missing from '' @ fst x) (filter (\<lambda>x. \<not> has_snippet files x) IDENTITY_SNIPPETS)"

section \<open>Forbidden text\<close>

type_synonym scanner = "char option \<Rightarrow> string \<Rightarrow> bool"

fun searches :: "scanner \<Rightarrow> char option \<Rightarrow> string \<Rightarrow> bool" where
  "searches p prev [] = p prev []"
| "searches p prev (c # s) = (p prev (c # s) \<or> searches p (Some c) s)"

definition one_of :: "string list \<Rightarrow> string \<Rightarrow> bool" where
  "one_of words s = list_ex (\<lambda>w. starts_with w s) words"

text \<open>\<open>\[(?:REQUIRED[^]]*|AUTHOR[^]]*|GITHUB_USERNAME[^]]*)]\<close> or one of two names.\<close>

definition identity_placeholder :: scanner where
  "identity_placeholder prev s =
     (one_of [''[REQUIRED'', ''[AUTHOR'', ''[GITHUB_USERNAME''] s \<and> CHR '']'' \<in> set s
      \<or> one_of [''AUTHOR_FULL_LEGAL_NAME'', ''AUTHOR_PUBLIC_EMAIL''] s)"

definition machine_path :: scanner where
  "machine_path prev s =
     (one_of [''/Users/'', ''/home/runner/work/''] s
      \<or> (case s of [] \<Rightarrow> False
         | c # r \<Rightarrow> (upper_ascii c \<or> lower_ascii c) \<and> starts_with ([CHR '':'', CHR 0x5C] @ ''Users'' @ [CHR 0x5C]) r))"

text \<open>A run of a class, then a word: the run may end wherever the word begins.\<close>

fun run_then :: "(char \<Rightarrow> bool) \<Rightarrow> string \<Rightarrow> string \<Rightarrow> bool" where
  "run_then class word [] = starts_with word []"
| "run_then class word (c # s) = (starts_with word (c # s) \<or> class c \<and> run_then class word s)"

definition private_key :: scanner where
  "private_key prev s =
     (starts_with ''-----BEGIN '' s
      \<and> run_then (\<lambda>c. upper_ascii c \<or> c = CHR '' '') ''PRIVATE KEY-----'' (drop 11 s))"

definition credential_char :: "char \<Rightarrow> bool" where
  "credential_char c = (upper_ascii c \<or> lower_ascii c \<or> digit_ascii c \<or> c = CHR ''_'')"

definition credential :: scanner where
  "credential prev s =
     list_ex (\<lambda>w. starts_with w s \<and> 16 \<le> length (takeWhile credential_char (drop (length w) s))) [''ghp_'', ''github_pat_'']"

text \<open>The class \<open>\w\<close> below code point 256, and a word between two of its boundaries.\<close>

definition word_char :: "char \<Rightarrow> bool" where
  "word_char c =
     (let n = (of_char c :: nat) in
      upper_ascii c \<or> lower_ascii c \<or> digit_ascii c \<or> c = CHR ''_''
      \<or> n \<in> {170, 178, 179, 181, 185, 186, 188, 189, 190} \<or> 192 \<le> n \<and> n \<noteq> 215 \<and> n \<noteq> 247)"

definition whole_word :: "string \<Rightarrow> scanner" where
  "whole_word w prev s =
     (starts_with w s \<and> \<not> (case prev of None \<Rightarrow> False | Some c \<Rightarrow> word_char c)
      \<and> \<not> (case drop (length w) s of [] \<Rightarrow> False | c # _ \<Rightarrow> word_char c))"

definition unfinished_marker :: scanner where
  "unfinished_marker prev s = list_ex (\<lambda>w. whole_word w prev s) [''TODO'', ''FIXME'', ''TBD'']"

definition residue :: scanner where
  "residue prev s =
     one_of ([''master build prompt'', ''generated by chatgpt'', ''generated by codex'', ''ai assistance'']
       @ [''chain'' @ [a] @ ''of'' @ [b] @ ''thought''. a \<leftarrow> ''- '', b \<leftarrow> ''- '']) (str_lower s)"

definition FORBIDDEN :: "(string \<times> scanner) list" where
  "FORBIDDEN =
     [(''unresolved identity placeholder'', identity_placeholder),
      (''machine-specific absolute path'', machine_path),
      (''private-key material'', private_key),
      (''GitHub credential'', credential),
      (''unfinished implementation marker'', unfinished_marker),
      (''prompt or assistant residue'', residue)]"

definition carries_header :: "string \<Rightarrow> bool" where
  "carries_header content = str_contains SPDX_COPYRIGHT (join_with [LF] (take 6 (splitlines content)))"

definition needs_header :: "path \<Rightarrow> bool" where
  "needs_header p = (suffix_of p \<in> set SOURCE_SUFFIXES \<and> last p \<noteq> ''next-env.d.ts'')"

definition check_text :: "fs \<Rightarrow> path \<Rightarrow> string list res" where
  "check_text files p =
     bindE (read_text files p) (\<lambda>content.
     Inr (map (\<lambda>x. fst x @ '': '' @ rel_str p) (filter (\<lambda>x. searches (snd x) None content) FORBIDDEN)
       @ (if needs_header p \<and> \<not> carries_header content
          then [''missing project SPDX copyright header: '' @ rel_str p] else [])))"

section \<open>Markdown links\<close>

text \<open>\<open>(?<!!)\[[^]]*]\((?P<target>[^)]+)\)\<close>: the target and what follows the match.\<close>

definition link_at :: "char option \<Rightarrow> string \<Rightarrow> (string \<times> string) option" where
  "link_at prev s =
     (if prev = Some (CHR ''!'') \<or> \<not> starts_with ''['' s then None
      else
        let tail = dropWhile (\<lambda>c. c \<noteq> CHR '']'') (tl s) in
        if \<not> starts_with ''](''  tail then None
        else
          let target = takeWhile (\<lambda>c. c \<noteq> CHR '')'') (drop 2 tail);
              rest = dropWhile (\<lambda>c. c \<noteq> CHR '')'') (drop 2 tail) in
          if target = [] \<or> rest = [] then None else Some (target, tl rest))"

lemma link_at_shorter: "link_at prev s = Some (target, rest) \<Longrightarrow> length rest < length s"
proof -
  assume link: "link_at prev s = Some (target, rest)"
  then have s: "s \<noteq> []" by (auto simp: link_at_def starts_with_def)
  let ?tail = "dropWhile (\<lambda>c. c \<noteq> CHR '']'') (tl s)"
  have "length ?tail \<le> length (tl s)" by (rule length_dropWhile_le)
  moreover have "length (dropWhile (\<lambda>c. c \<noteq> CHR '')'') (drop 2 ?tail)) \<le> length (drop 2 ?tail)" by (rule length_dropWhile_le)
  moreover have "rest = tl (dropWhile (\<lambda>c. c \<noteq> CHR '')'') (drop 2 ?tail))"
    using link by (auto simp: link_at_def Let_def split: if_splits)
  ultimately show ?thesis using s by (cases s) auto
qed

function markdown_links :: "char option \<Rightarrow> string \<Rightarrow> string list" where
  "markdown_links prev s =
     (case link_at prev s of
        Some (target, rest) \<Rightarrow> target # markdown_links (Some (CHR '')'')) rest
      | None \<Rightarrow> (case s of [] \<Rightarrow> [] | c # t \<Rightarrow> markdown_links (Some c) t))"
  by pat_completeness auto
termination by (relation "measure (\<lambda>(b, s). length s)") (auto dest: link_at_shorter)

declare markdown_links.simps [simp del]

text \<open>\<open>target.strip().strip("<>")\<close> and its first word; without one, \<open>[0]\<close> raises.\<close>

definition strip_angles :: "string \<Rightarrow> string" where
  "strip_angles s = (let angle = (\<lambda>c. c = CHR ''<'' \<or> c = CHR ''>'') in rev (dropWhile angle (rev (dropWhile angle s))))"

definition link_target :: "string \<Rightarrow> string res" where
  "link_target raw =
     (let word = takeWhile (\<lambda>c. \<not> is_space c) (dropWhile is_space (strip_angles (str_strip raw))) in
      bindE (raise_if (word = []) IndexError) (\<lambda>_. Inr word))"

text \<open>\<open>(path.parent / target).resolve()\<close> in a tree without symbolic links; an absolute target never gets here.\<close>

definition resolve :: "path \<Rightarrow> path" where
  "resolve parts = foldl (\<lambda>done part. if part = ''..'' then butlast done else done @ [part]) [] parts"

definition check_link :: "path \<Rightarrow> fs \<Rightarrow> path \<Rightarrow> string \<Rightarrow> string list res" where
  "check_link repo files p raw =
     bindE (link_target raw) (\<lambda>target.
       if one_of [''#'', ''http://'', ''https://'', ''mailto:''] target then Inr []
       else
         let local_target = takeWhile (\<lambda>c. c \<noteq> CHR ''#'') target in
         if local_target = [] then Inr []
         else if starts_with ''/'' local_target
         then Inr [''absolute local Markdown link in '' @ rel_str p @ '': '' @ target]
         else
           let resolved = resolve (repo @ butlast p @ parts_of local_target) in
           if \<not> prefix repo resolved
           then Inr [''Markdown link escapes repository in '' @ rel_str p @ '': '' @ target]
           else if resolved \<noteq> repo \<and> files (drop (length repo) resolved) = None
           then Inr [''broken Markdown link in '' @ rel_str p @ '': '' @ target]
           else Inr [])"

definition check_markdown_links :: "path \<Rightarrow> fs \<Rightarrow> path list \<Rightarrow> string list res" where
  "check_markdown_links repo files scanned =
     bindE (mapE (\<lambda>p. bindE (read_text files p) (\<lambda>content.
              bindE (mapE (check_link repo files p) (markdown_links None content)) (\<lambda>es. Inr (concat es))))
            (filter (\<lambda>p. suffix_of p = ''.md'') scanned)) (\<lambda>es. Inr (concat es))"

section \<open>Workflow actions\<close>

text \<open>
  \<open>^\s*-?\s*uses:\s*[^@\s]+@(?P<revision>[^\s#]+)\<close> at the beginning of a line; no part can give
  back what it took, so every repetition is maximal.
\<close>

definition use_key :: "string \<Rightarrow> string" where
  "use_key s =
     (let item = dropWhile is_space s in if starts_with ''-'' item then dropWhile is_space (tl item) else item)"

definition use_at :: "string \<Rightarrow> (string \<times> string) option" where
  "use_at s =
     (if \<not> starts_with ''uses:'' (use_key s) then None
      else
        let action = dropWhile is_space (drop 5 (use_key s));
            name_char = (\<lambda>c. c \<noteq> CHR ''@'' \<and> \<not> is_space c);
            mark = dropWhile name_char action;
            revision_char = (\<lambda>c. \<not> is_space c \<and> c \<noteq> CHR ''#'') in
        if takeWhile name_char action = [] \<or> \<not> starts_with ''@'' mark \<or> takeWhile revision_char (tl mark) = [] then None
        else Some (takeWhile revision_char (tl mark), dropWhile revision_char (tl mark)))"

lemma dropped_length: "length (dropWhile P (tl (dropWhile Q (dropWhile R s)))) \<le> length s"
  using length_dropWhile_le [of P "tl (dropWhile Q (dropWhile R s))"] length_dropWhile_le [of Q "dropWhile R s"]
    length_dropWhile_le [of R s] by simp

lemma use_at_shorter: "use_at s = Some (revision, rest) \<Longrightarrow> length rest < length s"
proof -
  assume use: "use_at s = Some (revision, rest)"
  have "length (use_key s) \<le> length s"
    using length_dropWhile_le [of is_space s] length_dropWhile_le [of is_space "tl (dropWhile is_space s)"]
    by (cases "starts_with ''-'' (dropWhile is_space s)") (simp_all add: use_key_def Let_def)
  moreover have "starts_with ''uses:'' (use_key s)" using use by (auto simp: use_at_def Let_def split: if_splits)
  then have "5 \<le> length (use_key s)" by (auto simp: starts_with_def dest: arg_cong [of _ _ length])
  moreover have "length rest \<le> length (drop 5 (use_key s))"
    using use dropped_length by (auto simp: use_at_def Let_def simp del: length_drop split: if_splits)
  ultimately show ?thesis by simp
qed

text \<open>A match begins at the beginning of the text or behind a newline; it ends inside a line.\<close>

function action_uses :: "bool \<Rightarrow> string \<Rightarrow> string list" where
  "action_uses at_line s =
     (case (if at_line then use_at s else None) of
        Some (revision, rest) \<Rightarrow> revision # action_uses False rest
      | None \<Rightarrow> (case s of [] \<Rightarrow> [] | c # t \<Rightarrow> action_uses (c = LF) t))"
  by pat_completeness auto
termination by (relation "measure (\<lambda>(b, s). length s)") (auto dest: use_at_shorter split: if_splits)

declare action_uses.simps [simp del]

definition full_sha :: "string \<Rightarrow> bool" where
  "full_sha s = (length s = 40 \<and> list_all (\<lambda>c. digit_ascii c \<or> CHR ''a'' \<le> c \<and> c \<le> CHR ''f'') s)"

definition is_workflow :: "path \<Rightarrow> bool" where
  "is_workflow p = (p \<noteq> [] \<and> butlast p = [''.github'', ''workflows''] \<and> suffix_of p = ''.yml'')"

definition check_workflow :: "fs \<Rightarrow> path \<Rightarrow> string list res" where
  "check_workflow files p =
     bindE (read_text files p) (\<lambda>content.
     Inr (map (\<lambda>_. ''GitHub Action is not pinned to a full commit SHA: '' @ rel_str p)
       (filter (\<lambda>revision. \<not> full_sha revision) (action_uses True content))))"

definition check_action_pins :: "fs \<Rightarrow> path list \<Rightarrow> string list res" where
  "check_action_pins files scanned =
     (let workflow_files = filter is_workflow scanned in
      if workflow_files = [] then Inr [''no GitHub Actions workflows found'']
      else bindE (mapE (check_workflow files) workflow_files) (\<lambda>es. Inr (concat es)))"

section \<open>Fonts\<close>

definition FONTS :: path where "FONTS = [''web'', ''app'', ''fonts'']"

definition expected_names :: "string list" where
  "expected_names = [''geist-latin.woff2'', ''geist-mono-latin.woff2'']"

text \<open>\<open>row.get(k)\<close>: a column that the file does not have gives \<open>None\<close>, as a missing cell does.\<close>

definition cell :: "string list \<Rightarrow> string list \<Rightarrow> string \<Rightarrow> string option" where
  "cell names cells k = (case dict_row names cells k of Inl _ \<Rightarrow> None | Inr v \<Rightarrow> v)"

definition check_font :: "(string \<Rightarrow> string) \<Rightarrow> fs \<Rightarrow> string list \<Rightarrow> string list \<Rightarrow> string list" where
  "check_font sha256 files names cells =
     (case cell names cells ''file'' of
        None \<Rightarrow> []
      | Some filename \<Rightarrow>
          (case read_file files (FONTS @ parts_of filename) of
             Inl _ \<Rightarrow> [''missing dashboard font binary: '' @ filename]
           | Inr content \<Rightarrow>
               (if Some (sha256 content) \<noteq> cell names cells ''sha256''
                then [''dashboard font checksum mismatch: '' @ filename] else [])
               @ (if cell names cells ''license'' \<noteq> Some ''SIL-OFL-1.1''
                  then [''unexpected dashboard font license: '' @ filename] else [])))"

definition font_table :: "string \<Rightarrow> string list \<times> string list list" where
  "font_table text = (case csv_reader text of [] \<Rightarrow> ([], []) | names # rows \<Rightarrow> (names, filter (\<lambda>r. r \<noteq> []) rows))"

definition check_font_provenance :: "(string \<Rightarrow> string) \<Rightarrow> fs \<Rightarrow> string list" where
  "check_font_provenance sha256 files =
     (case read_file files (FONTS @ [''provenance.csv'']) of
        Inl _ \<Rightarrow> []
      | Inr text \<Rightarrow>
          (case font_table text of (names, rows) \<Rightarrow>
             if set (map (\<lambda>r. cell names r ''file'') rows) \<noteq> Some ` set expected_names
             then [''dashboard font provenance does not list the exact bundled font set'']
             else concat (map (check_font sha256 files names) rows)))"

section \<open>The gate\<close>

definition hygiene_errors :: "(string \<Rightarrow> string) \<Rightarrow> path \<Rightarrow> fs \<Rightarrow> path list \<Rightarrow> string list res" where
  "hygiene_errors sha256 repo files entries =
     (let scanned = text_files files entries in
      bindE (mapE (check_text files) scanned) (\<lambda>texts.
      bindE (check_markdown_links repo files scanned) (\<lambda>links.
      bindE (check_action_pins files scanned) (\<lambda>pins.
      Inr (check_required_files files @ check_identity files @ concat texts @ links @ pins
           @ check_font_provenance sha256 files)))))"

text \<open>The exit status and the lines printed.\<close>

definition check_hygiene :: "(string \<Rightarrow> string) \<Rightarrow> path \<Rightarrow> fs \<Rightarrow> path list \<Rightarrow> (int \<times> string list) res" where
  "check_hygiene sha256 repo files entries =
     bindE (hygiene_errors sha256 repo files entries) (\<lambda>errors.
     if errors \<noteq> [] then Inr (1, map (\<lambda>e. ''ERROR: '' @ e) (sort (remdups errors)))
     else Inr (0, [''repository hygiene passed: '' @ str_of_int (int (length (text_files files entries)))
                   @ '' public text files inspected'']))"

section \<open>What a clean repository guarantees\<close>

definition scans_clean :: "fs \<Rightarrow> path \<Rightarrow> bool" where
  "scans_clean files p =
     (\<forall>content. read_text files p = Inr content \<longrightarrow>
        (\<forall>(label, pattern) \<in> set FORBIDDEN. \<not> searches pattern None content)
        \<and> (needs_header p \<longrightarrow> carries_header content)
        \<and> (is_workflow p \<longrightarrow> list_all full_sha (action_uses True content)))"

text \<open>A link that leads somewhere: out to the web, into the same page, or to an existing file of the repository.\<close>

definition leads_somewhere :: "path \<Rightarrow> fs \<Rightarrow> path \<Rightarrow> string \<Rightarrow> bool" where
  "leads_somewhere repo files p raw =
     (\<exists>target. link_target raw = Inr target \<and>
        (one_of [''#'', ''http://'', ''https://'', ''mailto:''] target
         \<or> (\<exists>q. resolve (repo @ butlast p @ parts_of (takeWhile (\<lambda>c. c \<noteq> CHR ''#'') target)) = repo @ q
              \<and> (q = [] \<or> files q \<noteq> None))))"

definition links_lead_somewhere :: "path \<Rightarrow> fs \<Rightarrow> path \<Rightarrow> bool" where
  "links_lead_somewhere repo files p =
     (suffix_of p = ''.md'' \<longrightarrow>
        (\<forall>content. read_text files p = Inr content \<longrightarrow> list_all (leads_somewhere repo files p) (markdown_links None content)))"

definition fonts_authentic :: "(string \<Rightarrow> string) \<Rightarrow> fs \<Rightarrow> bool" where
  "fonts_authentic sha256 files =
     (\<exists>text. read_file files (FONTS @ [''provenance.csv'']) = Inr text
       \<and> (\<forall>name \<in> set expected_names. \<exists>cells \<in> set (snd (font_table text)). \<exists>content.
            cell (fst (font_table text)) cells ''file'' = Some name \<and> read_file files (FONTS @ [name]) = Inr content
            \<and> cell (fst (font_table text)) cells ''sha256'' = Some (sha256 content)))"

lemma check_link_clean:
  assumes "check_link repo files p raw = Inr []"
  shows "leads_somewhere repo files p raw"
proof -
  obtain target where t: "link_target raw = Inr target" using assms by (auto simp: check_link_def)
  let ?local = "takeWhile (\<lambda>c. c \<noteq> CHR ''#'') target"
  consider "one_of [''#'', ''http://'', ''https://'', ''mailto:''] target" | "?local = []"
    | "prefix repo (resolve (repo @ butlast p @ parts_of ?local))"
      "resolve (repo @ butlast p @ parts_of ?local) = repo \<or> files (drop (length repo) (resolve (repo @ butlast p @ parts_of ?local))) \<noteq> None"
    using assms t by (auto simp: check_link_def Let_def split: if_splits)
  then show ?thesis
  proof cases
    case 2
    obtain c s where "target = c # s" using t by (cases target) (auto simp: link_target_def Let_def)
    with 2 have "one_of [''#''] target" by (auto simp: one_of_def starts_with_def split: if_splits)
    with t show ?thesis by (auto simp: leads_somewhere_def one_of_def)
  next
    case 3
    then show ?thesis using t by (auto simp: leads_somewhere_def prefix_def)
  qed (use t in \<open>auto simp: leads_somewhere_def\<close>)
qed

lemma mapE_concat_Nil:
  "mapE f xs = Inr yss \<Longrightarrow> concat yss = [] \<Longrightarrow> \<forall>x \<in> set xs. f x = Inr []"
  by (induction xs arbitrary: yss) auto

lemma mapE_each: "mapE f xs = Inr ys \<Longrightarrow> x \<in> set xs \<Longrightarrow> \<exists>y. f x = Inr y"
  by (induction xs arbitrary: ys) auto

lemma required_present:
  "check_required_files files = [] \<longleftrightarrow> (\<forall>f \<in> set REQUIRED_FILES. is_file files (parts_of f))"
  unfolding check_required_files_def by (simp add: filter_empty_conv)

lemma check_text_clean:
  assumes "check_text files p = Inr []" and "is_workflow p \<Longrightarrow> check_workflow files p = Inr []"
  shows "scans_clean files p"
  using assms unfolding scans_clean_def check_text_def check_workflow_def
  by (auto simp: filter_empty_conv list_all_iff split: if_splits)

lemma links_clean:
  assumes "check_markdown_links repo files scanned = Inr []" and "p \<in> set scanned"
  shows "links_lead_somewhere repo files p"
  unfolding links_lead_somewhere_def
proof (intro impI allI)
  fix content assume md: "suffix_of p = ''.md''" and content: "read_text files p = Inr content"
  from assms md have "bindE (read_text files p) (\<lambda>content.
      bindE (mapE (check_link repo files p) (markdown_links None content)) (\<lambda>es. Inr (concat es))) = Inr []"
    unfolding check_markdown_links_def by (auto dest!: mapE_concat_Nil)
  then obtain es where "mapE (check_link repo files p) (markdown_links None content) = Inr es" "concat es = []"
    using content by auto
  from mapE_concat_Nil [OF this] show "list_all (leads_somewhere repo files p) (markdown_links None content)"
    by (simp add: list_all_iff check_link_clean)
qed

lemma fonts_clean:
  assumes "check_font_provenance sha256 files = []" and "is_file files (FONTS @ [''provenance.csv''])"
  shows "fonts_authentic sha256 files"
proof -
  obtain table where tbl: "read_file files (FONTS @ [''provenance.csv'']) = Inr table"
    using assms(2) by (auto simp: is_file_def read_file_def split: option.splits node.splits)
  obtain names rows where t: "font_table table = (names, rows)" by (rule prod.exhaust)
  from assms(1) tbl t have names_read: "(\<lambda>r. cell names r ''file'') ` set rows = Some ` set expected_names"
    and rows: "\<forall>r \<in> set rows. check_font sha256 files names r = []"
    by (auto simp: check_font_provenance_def split: if_splits)
  have "\<exists>cells \<in> set rows. \<exists>content. cell names cells ''file'' = Some name \<and> read_file files (FONTS @ [name]) = Inr content
      \<and> cell names cells ''sha256'' = Some (sha256 content)" if name: "name \<in> set expected_names" for name
  proof -
    have "Some name \<in> (\<lambda>r. cell names r ''file'') ` set rows" unfolding names_read using name by (rule imageI)
    then obtain r where r: "r \<in> set rows" "cell names r ''file'' = Some name" by auto
    have "list_all (\<lambda>name. parts_of name = [name]) expected_names" by code_simp
    then have one: "parts_of name = [name]" using name by (simp add: list_all_iff)
    have "check_font sha256 files names r = []" using r(1) rows by blast
    then obtain content where "read_file files (FONTS @ [name]) = Inr content" "cell names r ''sha256'' = Some (sha256 content)"
      using r(2) one by (auto simp: check_font_def split: sum.splits if_splits)
    with r show ?thesis by blast
  qed
  with tbl t show ?thesis unfolding fonts_authentic_def by auto
qed


section \<open>Examples\<close>

definition tidy_tree :: "(string \<times> string) list" where
  "tidy_tree =
     IDENTITY_SNIPPETS @ map (\<lambda>f. (f, [])) (filter (\<lambda>f. f \<noteq> ''web/app/fonts/provenance.csv'') REQUIRED_FILES)
     @ [(''docs/index.md'', ''[a](../README.md#top)''),
        (''.github/workflows/ci.yml'', ''- uses: a/b@'' @ replicate 40 (CHR ''0'')),
        (''web/app/fonts/provenance.csv'', ''file,sha256,license'' @ [LF] @ ''geist-latin.woff2,d,SIL-OFL-1.1'' @ [LF]
          @ ''geist-mono-latin.woff2,d,SIL-OFL-1.1'' @ [LF]),
        (''web/app/fonts/geist-latin.woff2'', []), (''web/app/fonts/geist-mono-latin.woff2'', [])]"

definition tidy_files :: fs where
  "tidy_files p = map_option File (map_of (map (\<lambda>(f, s). (parts_of f, s)) tidy_tree) p)"

definition tidy_entries :: "path list" where
  "tidy_entries = map parts_of [''README.md'', ''docs/index.md'', ''.github/workflows/ci.yml'']"

lemma tidy_passes:
  "\<exists>out. check_hygiene (\<lambda>_. ''d'') [''srv'', ''repo''] tidy_files tidy_entries = Inr (0, out)"
proof -
  have "case mapE (check_text tidy_files) (text_files tidy_files tidy_entries) of Inr es \<Rightarrow> concat es = [] | Inl _ \<Rightarrow> False"
    by code_simp
  then obtain es where "mapE (check_text tidy_files) (text_files tidy_files tidy_entries) = Inr es" "concat es = []"
    by (auto split: sum.splits)
  moreover have "check_markdown_links [''srv'', ''repo''] tidy_files (text_files tidy_files tidy_entries) = Inr []" by code_simp
  moreover have "check_action_pins tidy_files (text_files tidy_files tidy_entries) = Inr []" by code_simp
  moreover have "check_required_files tidy_files = []" "check_identity tidy_files = []" by code_simp+
  moreover have "check_font_provenance (\<lambda>_. ''d'') tidy_files = []" by code_simp
  ultimately show ?thesis by (simp add: check_hygiene_def hygiene_errors_def Let_def)
qed


section \<open>What it lets through\<close>

text \<open>A link whose target is blank makes the gate itself fail, with an exception instead of an error line.\<close>

lemma blank_link_raises:
  assumes "link_target raw = Inl IndexError" and "raw \<in> set (markdown_links None content)"
    and "read_text files p = Inr content" "suffix_of p = ''.md''" "p \<in> set scanned"
  shows "\<nexists>es. check_markdown_links repo files scanned = Inr es"
proof
  assume "\<exists>es. check_markdown_links repo files scanned = Inr es"
  then obtain ess where "mapE (\<lambda>p. bindE (read_text files p) (\<lambda>content.
      bindE (mapE (check_link repo files p) (markdown_links None content)) (\<lambda>es. Inr (concat es))))
      (filter (\<lambda>p. suffix_of p = ''.md'') scanned) = Inr ess" by (auto simp: check_markdown_links_def)
  from mapE_each [OF this, of p] assms(4,5) obtain e where "bindE (read_text files p) (\<lambda>content.
      bindE (mapE (check_link repo files p) (markdown_links None content)) (\<lambda>es. Inr (concat es))) = Inr e" by auto
  then obtain es where "mapE (check_link repo files p) (markdown_links None content) = Inr es" using assms(3) by auto
  from mapE_each [OF this assms(2)] have "\<exists>e. check_link repo files p raw = Inr e" .
  then show False using assms(1) by (simp add: check_link_def)
qed

lemma blank_link: "markdown_links None ''[x]( )'' = ['' '']" "link_target '' '' = Inl IndexError"
  by code_simp+

text \<open>Only \<open>.yml\<close> files count as workflows: an action used at a branch in a \<open>.yaml\<close> workflow is not reported.\<close>

lemma yaml_workflow_unseen:
  "action_uses True ''uses: a/b@main'' = [''main''] \<and> \<not> full_sha ''main''
   \<and> \<not> is_workflow [''.github'', ''workflows'', ''release.yaml'']"
  by code_simp

end
