(* ===== verification/Hardware.thy ===== *)
theory Hardware
  imports Hygiene Evaluation "HOL-Library.Multiset"
begin

text \<open>
  The hardware review artifacts, \<open>scripts/generate_hardware_artifacts.py\<close>: the bill of materials
  and the placement table, the nets, the legacy schematic with its symbol library, the board
  file, the STEP and STL geometry of boxes, the review layers, the provenance of the 3D models,
  and the validation. \<open>hardware/design.json\<close> is a record with the fields that it has; a missing
  field would raise \<open>KeyError\<close> where it is first read (validation reads the procurement fields
  with a default, the empty text). \<open>repr\<close> is the shortest text of a float, \<open>dumps\<close> and \<open>loads\<close> are
  JSON's with sorted keys, \<open>sha256\<close> is the digest of a file. Files hold the texts as they are
  written, before their encoding (for a component of width or height zero Python prints a minus sign before
  some zeros, which \<open>fmt_f\<close> does not).
\<close>

section \<open>The design\<close>

record component =
  cp_ref :: string
  cp_value :: string
  cp_mpn :: string
  cp_manufacturer :: string
  cp_package :: string
  cp_role :: string
  cp_rating :: string
  cp_x :: int
  cp_y :: int
  cp_rotation :: int
  cp_width :: flt
  cp_height :: flt
  cp_model :: "string option"
  cp_pins :: "(string \<times> string) list"

record engineering_model =
  em_name :: string
  em_applies_to :: string
  em_kind :: string
  em_source :: string
  em_source_url :: string
  em_license :: string
  em_retrieved :: string
  em_dimensions :: "flt \<times> flt \<times> flt"

record design =
  ds_title :: string
  ds_revision :: string
  ds_author :: string
  ds_email :: string
  ds_safety_note :: string
  ds_release_approved :: "json option"
  ds_width :: flt
  ds_height :: flt
  ds_thickness :: flt
  ds_mounting_holes :: "(flt \<times> flt) list"
  ds_nets :: "string list"
  ds_components :: "component list"
  ds_models :: "engineering_model list"

definition text_of_lines :: "string list \<Rightarrow> string" where
  "text_of_lines ls = join_with [LF] ls @ [LF]"

text \<open>\<open>write\<close>: the directory is made, the file replaced.\<close>

definition write_out :: "path \<Rightarrow> string \<Rightarrow> fs \<Rightarrow> fs res" where
  "write_out p s files =
     bindE (mkdir_exist_ok (butlast p) files) (\<lambda>made.
     bindE (raise_if (made p = Some Dir) OSError) (\<lambda>_. Inr (write_file p s made)))"

text \<open>\<open>re.sub(r"[^A-Za-z0-9_]+", "_", value).strip("_")\<close>; the flag says that a run is being replaced.\<close>

fun underscored :: "bool \<Rightarrow> string \<Rightarrow> string" where
  "underscored b [] = []"
| "underscored b (c # s) =
     (if credential_char c then c # underscored False s
      else if b then underscored True s else CHR ''_'' # underscored True s)"

definition safe_name :: "string \<Rightarrow> string" where
  "safe_name value =
     (let u = (\<lambda>c. c = CHR ''_'') in rev (dropWhile u (rev (dropWhile u (underscored False value)))))"

definition all_nets :: "design \<Rightarrow> string list" where
  "all_nets d =
     sort (remdups (ds_nets d
       @ filter (\<lambda>n. n \<notin> {''NC'', ''ALERT_NC''}) (concat (map (\<lambda>c. map snd (cp_pins c)) (ds_components d)))))"

section \<open>Bill of materials and placement\<close>

type_synonym procurement = "string \<times> string \<times> string \<times> string \<times> string \<times> string"

definition procurement_of :: "component \<Rightarrow> procurement" where
  "procurement_of c = (cp_manufacturer c, cp_mpn c, cp_value c, cp_package c, cp_rating c, cp_role c)"

fun add_reference :: "procurement \<Rightarrow> string \<Rightarrow> (procurement \<times> string list) list \<Rightarrow> (procurement \<times> string list) list" where
  "add_reference k r [] = [(k, [r])]"
| "add_reference k r ((k', rs) # groups) =
     (if k = k' then (k', rs @ [r]) # groups else (k', rs) # add_reference k r groups)"

definition grouped_components :: "component list \<Rightarrow> (procurement \<times> string list) list" where
  "grouped_components cs = fold (\<lambda>c. add_reference (procurement_of c) (cp_ref c)) cs []"

definition bom_header :: "string list" where
  "bom_header = [''references'', ''quantity'', ''manufacturer'', ''manufacturer_part_number'', ''value'', ''package'', ''rating'',
     ''role'', ''sourcing_note'']"

definition bom_row :: "procurement \<times> string list \<Rightarrow> string list" where
  "bom_row g =
     (case g of ((manufacturer, mpn, val, package, rating, role), refs) \<Rightarrow>
        [join_with '' '' (sort refs), str_of_int (int (length refs)), manufacturer, mpn, val, package, rating, role,
         ''Verify lifecycle, authorized source, stock, and current datasheet before build''])"

definition bom_groups :: "component list \<Rightarrow> (procurement \<times> string list) list" where
  "bom_groups cs = sort_key (\<lambda>g. hd (snd g)) (grouped_components cs)"

definition bom_csv :: "design \<Rightarrow> string" where
  "bom_csv d = concat (map csv_row (bom_header # map bom_row (bom_groups (ds_components d))))"

definition positions_csv :: "design \<Rightarrow> string" where
  "positions_csv d =
     concat (map csv_row ([''Ref'', ''Val'', ''Package'', ''PosX(mm)'', ''PosY(mm)'', ''Rot(deg)'', ''Side'']
       # map (\<lambda>c. [cp_ref c, cp_value c, cp_package c, str_of_int (cp_x c), str_of_int (cp_y c), str_of_int (cp_rotation c), ''top''])
           (ds_components d)))"

section \<open>Symbols and schematic\<close>

definition half_of :: "nat \<Rightarrow> nat" where
  "half_of n = (n + 1) div 2"

definition body_half_height :: "nat \<Rightarrow> int" where
  "body_half_height n = max 300 (int (half_of n) * 60)"

definition side_index :: "nat \<Rightarrow> nat \<Rightarrow> nat" where
  "side_index n index = (if index < half_of n then index else index - half_of n)"

definition pin_y :: "nat \<Rightarrow> nat \<Rightarrow> int" where
  "pin_y n index = body_half_height n - 100 - int (side_index n index) * 120"

definition symbol_pin :: "nat \<Rightarrow> nat \<Rightarrow> string \<times> string \<Rightarrow> string" where
  "symbol_pin n index pin =
     (case pin of (number, net) \<Rightarrow>
        ''X '' @ safe_name net @ '' '' @ number
        @ (if index < half_of n then '' -500 '' @ str_of_int (pin_y n index) @ '' 200 R 40 40 1 1 B''
           else '' 500 '' @ str_of_int (pin_y n index) @ '' 200 L 40 40 1 1 B''))"

definition symbol_definition :: "component \<Rightarrow> string res" where
  "symbol_definition c =
     (let name = safe_name (cp_value c); n = length (cp_pins c); bh = body_half_height n in
      bindE (raise_if (cp_ref c = []) IndexError) (\<lambda>_.
      Inr (join_with [LF]
        ([''# '' @ name, ''#'', ''DEF '' @ name @ '' '' @ [hd (cp_ref c)] @ '' 0 40 Y Y 1 F N'',
          ''F0 '' @ quoted (cp_ref c) @ '' 0 '' @ str_of_int (bh + 150) @ '' 50 H V C CNN'',
          ''F1 '' @ quoted (cp_value c) @ '' 0 '' @ str_of_int (- bh - 150) @ '' 50 H V C CNN'',
          ''DRAW'', ''S -300 '' @ str_of_int bh @ '' 300 '' @ str_of_int (- bh) @ '' 0 1 10 f'']
         @ map (\<lambda>(index, pin). symbol_pin n index pin) (enumerate 0 (cp_pins c))
         @ [''ENDDRAW'', ''ENDDEF'', ''#'']))))"

text \<open>\<open>unique.setdefault(safe_name(value), component)\<close>: the first component of each name.\<close>

fun first_of_name :: "string set \<Rightarrow> component list \<Rightarrow> component list" where
  "first_of_name seen [] = []"
| "first_of_name seen (c # cs) =
     (if safe_name (cp_value c) \<in> seen then first_of_name seen cs
      else c # first_of_name (insert (safe_name (cp_value c)) seen) cs)"

definition symbol_library :: "design \<Rightarrow> string res" where
  "symbol_library d =
     bindE (mapE symbol_definition (first_of_name {} (ds_components d))) (\<lambda>symbols.
     Inr (text_of_lines ([''EESchema-LIBRARY Version 2.4'', ''#encoding utf-8'', ''#''] @ symbols @ [''#End Library''])))"

definition sheet_origin :: "nat \<Rightarrow> int \<times> int" where
  "sheet_origin index = (1600 + int (index mod 5) * 3100, 1300 + int (index div 5) * 1200)"

definition label_position :: "int \<times> int \<Rightarrow> nat \<Rightarrow> nat \<Rightarrow> int \<times> int" where
  "label_position origin n index =
     (if index < half_of n then fst origin - 500 else fst origin + 500, snd origin + pin_y n index)"

definition padded_number :: "nat \<Rightarrow> nat \<Rightarrow> string" where
  "padded_number w n = pad_left w (digits_of n)"

definition net_labels :: "int \<times> int \<Rightarrow> component \<Rightarrow> string list" where
  "net_labels origin c =
     concat (map (\<lambda>(index, pin). let (px, py) = label_position origin (length (cp_pins c)) index in
         [''Text Label '' @ str_of_int px @ '' '' @ str_of_int py @ '' 0    40   ~ 0'', snd pin]) (enumerate 0 (cp_pins c)))"

definition placed_component :: "nat \<times> component \<Rightarrow> string list" where
  "placed_component x =
     (case x of (index, c) \<Rightarrow>
       let (x, y) = sheet_origin index; sx = str_of_int x; sy = str_of_int y in
       [''$Comp'', ''L iiot-monitor-cache:'' @ safe_name (cp_value c) @ '' '' @ cp_ref c,
        ''U 1 1 6'' @ padded_number 7 (index + 1), ''P '' @ sx @ '' '' @ sy,
        ''F 0 '' @ quoted (cp_ref c) @ '' H '' @ sx @ '' '' @ str_of_int (y - 120) @ '' 50  0000 C CNN'',
        ''F 1 '' @ quoted (cp_value c) @ '' H '' @ sx @ '' '' @ str_of_int (y + 120) @ '' 50  0000 C CNN'',
        ''F 2 '' @ quoted (''Custom:'' @ cp_package c) @ '' H '' @ sx @ '' '' @ sy @ '' 50  0001 C CNN'',
        ''F 3 '' @ quoted (cp_mpn c) @ '' H '' @ sx @ '' '' @ sy @ '' 50  0001 C CNN'',
        CHR 0x09 # ''1    '' @ sx @ '' '' @ sy, CHR 0x09 # ''1    0    0    -1'', ''$EndComp'']
       @ net_labels (x, y) c)"

definition schematic :: "design \<Rightarrow> string" where
  "schematic d =
     text_of_lines
       ([''EESchema Schematic File Version 4'', ''LIBS:iiot-monitor-cache'', ''EELAYER 29 0'', ''EELAYER END'',
         ''$Descr A3 16535 11693'', ''encoding utf-8'', ''Sheet 1 1'', ''Title '' @ quoted (ds_title d),
         ''Date '' @ quoted ''2026-08-11'', ''Rev '' @ quoted (ds_revision d),
         ''Comp '' @ quoted (ds_author d @ '' <'' @ ds_email d @ ''>''),
         ''Comment1 '' @ quoted ''EXTRA-LOW-VOLTAGE DEMONSTRATOR ONLY - NO MAINS'',
         ''Comment2 '' @ quoted ''UNVERIFIED: import into KiCad 10, run ERC, and review before layout use'',
         ''$EndDescr'', ''Text Notes 700 450 0    100  ~ 20'', ds_safety_note d]
        @ concat (map placed_component (enumerate 0 (ds_components d)))
        @ [''Text Notes 700 11100 0    60   ~ 12'',
           ''Labels define electrical nets. Component pin numbering and ratings require KiCad ERC and datasheet review.'',
           ''$EndSCHEMATC''])"

section \<open>The board\<close>

definition net_numbers :: "design \<Rightarrow> (string \<times> nat) list" where
  "net_numbers d = map (\<lambda>(index, name). (name, index + 1)) (enumerate 0 (all_nets d))"

definition net_number :: "(string \<times> nat) list \<Rightarrow> string \<Rightarrow> nat" where
  "net_number numbers net = (case map_of numbers net of None \<Rightarrow> 0 | Some n \<Rightarrow> n)"

definition through_hole :: "component \<Rightarrow> bool" where
  "through_hole c =
     list_ex (\<lambda>key. str_contains key (cp_package c)) [''TerminalBlock'', ''PinHeader'', ''Relay_THT'', ''TestPoint'']"

definition pad_pitch :: "component \<Rightarrow> flt res" where
  "pad_pitch c =
     bindE (flt_div (cp_height c) (lit (of_nat (max (length (cp_pins c) div 2) 1)))) (\<lambda>q.
     Inr (flt_min (lit 2) (flt_max (lit (7/10)) q)))"

definition halved :: "flt \<Rightarrow> flt" where
  "halved x = flt_mul x (lit (1/2))"

definition pad_line :: "(string \<times> nat) list \<Rightarrow> component \<Rightarrow> flt \<Rightarrow> nat \<Rightarrow> string \<times> string \<Rightarrow> string" where
  "pad_line numbers c pitch index pin =
     (case pin of (number, net) \<Rightarrow>
       let half = half_of (length (cp_pins c)); side = side_index (length (cp_pins c)) index;
           x = (if index < half then halved (flt_neg (cp_width c)) else halved (cp_width c));
           y = flt_mul (lit (of_nat side - (of_nat half - 1) / 2)) pitch;
           spot = '' (at '' @ fmt_f 3 x @ '' '' @ fmt_f 3 y @ '') '';
           net_text = ''(net '' @ digits_of (net_number numbers net) @ '' '' @ quoted net @ ''))'' in
       ''    (pad '' @ quoted number @
       (if through_hole c
        then '' thru_hole circle'' @ spot @ ''(size 1.8 1.8) (drill 1.0) (layers '' @ quoted ''*.Cu'' @ '' '' @ quoted ''*.Mask'' @ '') '' @ net_text
        else '' smd rect'' @ spot @ ''(size 1.2 0.7) (layers '' @ quoted ''F.Cu'' @ '' '' @ quoted ''F.Paste'' @ '' '' @ quoted ''F.Mask'' @ '') ''
          @ net_text))"

definition pad_lines :: "component \<Rightarrow> (string \<times> nat) list \<Rightarrow> string list res" where
  "pad_lines c numbers =
     bindE (pad_pitch c) (\<lambda>pitch.
     Inr (map (\<lambda>(index, pin). pad_line numbers c pitch index pin) (enumerate 0 (cp_pins c))))"

definition fmt3 :: "flt \<Rightarrow> string" where "fmt3 = fmt_f 3"

definition footprint :: "(string \<times> nat) list \<Rightarrow> component \<Rightarrow> string list res" where
  "footprint numbers c =
     bindE (pad_lines c numbers) (\<lambda>pads.
     let x = flt_add (lit 20) (lit (of_int (cp_x c))); y = flt_add (lit 20) (lit (of_int (cp_y c)));
         w = halved (cp_width c); h = halved (cp_height c); mw = halved (flt_neg (cp_width c)); mh = halved (flt_neg (cp_height c)) in
     Inr ([''  (footprint '' @ quoted (''Custom:'' @ cp_package c) @ '' (layer '' @ quoted ''F.Cu'' @ '')'',
           ''    (at '' @ fmt3 x @ '' '' @ fmt3 y @ '' '' @ str_of_int (cp_rotation c) @ '')'',
           ''    (property '' @ quoted ''Reference'' @ '' '' @ quoted (cp_ref c) @ '' (at 0 '' @ fmt3 (flt_sub mh (lit 1)) @ '' 0) (layer ''
             @ quoted ''F.SilkS'' @ ''))'',
           ''    (property '' @ quoted ''Value'' @ '' '' @ quoted (cp_value c) @ '' (at 0 '' @ fmt3 (flt_add h (lit 1)) @ '' 0) (layer ''
             @ quoted ''F.Fab'' @ ''))'',
           ''    (fp_rect (start '' @ fmt3 mw @ '' '' @ fmt3 mh @ '') (end '' @ fmt3 w @ '' '' @ fmt3 h
             @ '') (stroke (width 0.25) (type default)) (fill none) (layer '' @ quoted ''F.SilkS'' @ ''))'']
          @ pads @ [''  )'']))"

definition mounting_hole :: "nat \<times> flt \<times> flt \<Rightarrow> string list" where
  "mounting_hole hole =
     (case hole of (index, x, y) \<Rightarrow>
       [''  (footprint '' @ quoted ''MountingHole:MountingHole_3.2mm_M3'' @ '' (layer '' @ quoted ''F.Cu'' @ '')'',
        ''    (at '' @ fmt3 (flt_add (lit 20) x) @ '' '' @ fmt3 (flt_add (lit 20) y) @ '')'',
        ''    (property '' @ quoted ''Reference'' @ '' '' @ quoted (''H'' @ digits_of index) @ '' (at 0 -4 0) (layer '' @ quoted ''F.SilkS'' @ ''))'',
        ''    (fp_circle (center 0 0) (end 3 0) (stroke (width 0.3) (type default)) (fill none) (layer '' @ quoted ''F.SilkS'' @ ''))'',
        ''    (pad '' @ quoted [] @ '' np_thru_hole circle (at 0 0) (size 3.2 3.2) (drill 3.2) (layers '' @ quoted ''*.Cu'' @ '' ''
          @ quoted ''*.Mask'' @ ''))'',
        ''  )''])"

definition board_file :: "(flt \<Rightarrow> string) \<Rightarrow> design \<Rightarrow> string res" where
  "board_file repr d =
     (let numbers = net_numbers d in
      bindE (mapE (footprint numbers) (ds_components d)) (\<lambda>footprints.
      Inr (text_of_lines
        ([''(kicad_pcb (version 20240108) (generator pcbnew)'', ''  (general (thickness 1.6))'', ''  (paper '' @ quoted ''A4'' @ '')'',
          ''  (layers'', ''    (0 '' @ quoted ''F.Cu'' @ '' signal)'', ''    (31 '' @ quoted ''B.Cu'' @ '' signal)'',
          ''    (36 '' @ quoted ''B.SilkS'' @ '' user '' @ quoted ''b.silkscreen'' @ '')'',
          ''    (37 '' @ quoted ''F.SilkS'' @ '' user '' @ quoted ''f.silkscreen'' @ '')'',
          ''    (44 '' @ quoted ''Edge.Cuts'' @ '' user)'', ''  )'', ''  (setup (pad_to_mask_clearance 0))'',
          ''  (net 0 '' @ quoted [] @ '')'']
         @ map (\<lambda>(name, number). ''  (net '' @ digits_of number @ '' '' @ quoted name @ '')'') numbers
         @ concat footprints @ concat (map mounting_hole (enumerate 1 (ds_mounting_holes d)))
         @ [''  (gr_rect (start 20 20) (end '' @ repr (flt_add (lit 20) (ds_width d)) @ '' '' @ repr (flt_add (lit 20) (ds_height d))
              @ '') (stroke (width 0.1) (type default)) (fill none) (layer '' @ quoted ''Edge.Cuts'' @ ''))'',
            ''  (gr_text '' @ quoted (ds_title d @ '' '' @ ds_revision d) @ '' (at 70 23) (layer '' @ quoted ''F.SilkS'' @ ''))'',
            ''  (gr_text '' @ quoted ''SELV/PELV ONLY - NO MAINS - UNVERIFIED'' @ '' (at 70 87) (layer '' @ quoted ''F.SilkS'' @ ''))'',
            '')'']))))"

definition kicad_project :: "design \<Rightarrow> json" where
  "kicad_project d = JObj
     [(''board'', JObj [(''design_settings'', JObj [(''defaults'', JObj [(''board_outline_line_width'', JNum (lit (1/10)))])])]),
      (''cvpcb'', JObj []), (''erc'', JObj []), (''libraries'', JObj []),
      (''meta'', JObj [(''filename'', JStr ''iiot-monitor.kicad_pro''), (''version'', JInt 1)]),
      (''net_settings'', JObj []), (''pcbnew'', JObj []), (''schematic'', JObj []),
      (''text_variables'', JObj [(''AUTHOR'', JStr (ds_author d @ '' <'' @ ds_email d @ ''>'')), (''SAFETY'', JStr (ds_safety_note d))])]"

section \<open>Boxes in STEP and STL\<close>

text \<open>An entity with the numbers of those it refers to; entities are numbered from 1 as they are added.\<close>

datatype step_entity =
    Cartesian_point flt flt flt
  | Poly_loop "nat list"
  | Face_outer_bound nat
  | Face nat
  | Closed_shell "nat list"
  | Faceted_brep string nat

type_synonym step_file = "step_entity list"

definition hash_refs :: "nat list \<Rightarrow> string" where
  "hash_refs ns = join_with '','' (map (\<lambda>n. CHR 0x23 # digits_of n) ns)"

definition apostrophes :: string where "apostrophes = [CHR 0x27, CHR 0x27]"

fun entity_text :: "step_entity \<Rightarrow> string" where
  "entity_text (Cartesian_point x y z) =
     ''CARTESIAN_POINT('' @ apostrophes @ '',('' @ fmt_f 4 x @ '','' @ fmt_f 4 y @ '','' @ fmt_f 4 z @ ''))''"
| "entity_text (Poly_loop ps) = ''POLY_LOOP('' @ apostrophes @ '',('' @ hash_refs ps @ ''))''"
| "entity_text (Face_outer_bound l) = ''FACE_OUTER_BOUND('' @ apostrophes @ '','' @ hash_refs [l] @ '',.T.)''"
| "entity_text (Face b) = ''FACE('' @ apostrophes @ '',('' @ hash_refs [b] @ ''))''"
| "entity_text (Closed_shell fs) = ''CLOSED_SHELL('' @ apostrophes @ '',('' @ hash_refs fs @ ''))''"
| "entity_text (Faceted_brep name s) = ''FACETED_BREP('' @ [CHR 0x27] @ name @ [CHR 0x27] @ '','' @ hash_refs [s] @ '')''"

definition add_entity :: "step_entity \<Rightarrow> step_file \<Rightarrow> step_file \<times> nat" where
  "add_entity e entities = (entities @ [e], length (entities @ [e]))"

fun add_points :: "(flt \<times> flt \<times> flt) list \<Rightarrow> step_file \<Rightarrow> step_file \<times> nat list" where
  "add_points [] entities = (entities, [])"
| "add_points ((x, y, z) # ps) entities =
     (let (entities, n) = add_entity (Cartesian_point x y z) entities; (entities, ns) = add_points ps entities
      in (entities, n # ns))"

type_synonym box = "flt \<times> flt \<times> flt \<times> flt \<times> flt \<times> flt"

definition corners :: "('a \<Rightarrow> 'a \<Rightarrow> 'a) \<Rightarrow> 'a \<times> 'a \<times> 'a \<times> 'a \<times> 'a \<times> 'a \<Rightarrow> ('a \<times> 'a \<times> 'a) list" where
  "corners add b =
     (case b of (x, y, z, dx, dy, dz) \<Rightarrow>
       [(x, y, z), (add x dx, y, z), (add x dx, add y dy, z), (x, add y dy, z),
        (x, y, add z dz), (add x dx, y, add z dz), (add x dx, add y dy, add z dz), (x, add y dy, add z dz)])"

definition quads :: "nat list list" where
  "quads = [[0, 3, 2, 1], [4, 5, 6, 7], [0, 1, 5, 4], [1, 2, 6, 5], [2, 3, 7, 6], [3, 0, 4, 7]]"

fun add_faces :: "nat list \<Rightarrow> nat list list \<Rightarrow> step_file \<Rightarrow> step_file \<times> nat list" where
  "add_faces points [] entities = (entities, [])"
| "add_faces points (indices # rest) entities =
     (let (entities, loop) = add_entity (Poly_loop (map ((!) points) indices)) entities;
          (entities, bound) = add_entity (Face_outer_bound loop) entities;
          (entities, face) = add_entity (Face bound) entities;
          (entities, faces) = add_faces points rest entities
      in (entities, face # faces))"

definition step_box :: "string \<Rightarrow> box \<Rightarrow> step_file \<Rightarrow> step_file" where
  "step_box name b entities =
     (let (entities, points) = add_points (corners flt_add b) entities;
          (entities, faces) = add_faces points quads entities;
          (entities, shell) = add_entity (Closed_shell faces) entities
      in fst (add_entity (Faceted_brep name shell) entities))"

definition step_boxes :: "(string \<times> box) list \<Rightarrow> step_file" where
  "step_boxes boxes = fold (\<lambda>(name, b). step_box name b) boxes []"

definition in_apostrophes :: "string \<Rightarrow> string" where
  "in_apostrophes s = CHR 0x27 # s @ [CHR 0x27]"

definition step_content :: "string \<Rightarrow> step_file \<Rightarrow> string" where
  "step_content filename entities =
     join_with [LF]
       ([''ISO-10303-21;'', ''HEADER;'',
         ''FILE_DESCRIPTION(('' @ in_apostrophes ''Project-authored engineering envelope'' @ ''),'' @ in_apostrophes ''2;1'' @ '');'',
         ''FILE_NAME('' @ in_apostrophes filename @ '','' @ in_apostrophes ''2026-08-11T00:00:00Z'' @ '',('' @ in_apostrophes ''Amin Zoroufi''
           @ ''),('' @ apostrophes @ ''),'' @ apostrophes @ '', '' @ apostrophes @ '', '' @ apostrophes @ '');'',
         ''FILE_SCHEMA(('' @ in_apostrophes ''CONFIG_CONTROL_DESIGN'' @ ''));'', ''ENDSEC;'', ''DATA;'',
         join_with [LF] (map (\<lambda>(index, e). CHR 0x23 # digits_of index @ ''='' @ entity_text e @ '';'') (enumerate 1 entities)),
         ''ENDSEC;'', ''END-ISO-10303-21;'', []])"

text \<open>Each quadrilateral is cut along a diagonal.\<close>

definition triangle_indices :: "nat list list" where
  "triangle_indices = concat (map (\<lambda>q. [[q ! 0, q ! 1, q ! 2], [q ! 0, q ! 2, q ! 3]]) quads)"

definition box_triangles :: "box \<Rightarrow> (flt \<times> flt \<times> flt) list list" where
  "box_triangles b = map (map ((!) (corners flt_add b))) triangle_indices"

definition facet_lines :: "(flt \<times> flt \<times> flt) list \<Rightarrow> string list" where
  "facet_lines triangle =
     [''  facet normal 0 0 0'' @ [LF] @ ''    outer loop'']
     @ map (\<lambda>(x, y, z). ''      vertex '' @ fmt_f 4 x @ '' '' @ fmt_f 4 y @ '' '' @ fmt_f 4 z) triangle
     @ [''    endloop'' @ [LF] @ ''  endfacet'']"

definition stl :: "string \<Rightarrow> box list \<Rightarrow> string" where
  "stl name boxes =
     text_of_lines ([''solid '' @ name] @ concat (map (\<lambda>b. concat (map facet_lines (box_triangles b))) boxes) @ [''endsolid '' @ name])"

section \<open>Models, enclosure and fabrication layers\<close>

definition model_path :: "engineering_model \<Rightarrow> path" where
  "model_path m = [''hardware'', ''3d-models''] @ parts_of (em_name m @ ''.step'')"

definition model_box :: "engineering_model \<Rightarrow> string \<times> box" where
  "model_box m = (case em_dimensions m of (w, h, t) \<Rightarrow> (em_name m, (lit 0, lit 0, lit 0, w, h, t)))"

definition model_output :: "engineering_model \<Rightarrow> path \<times> string" where
  "model_output m = (model_path m, step_content (last (model_path m)) (step_boxes [model_box m]))"

definition component_box :: "design \<Rightarrow> component \<Rightarrow> string \<times> box" where
  "component_box d c =
     (cp_ref c @ ''-'' @ safe_name (cp_value c),
      (flt_sub (lit (of_int (cp_x c))) (halved (cp_width c)), flt_sub (lit (of_int (cp_y c))) (halved (cp_height c)),
       ds_thickness d, cp_width c, cp_height c, if cp_model c = None then lit 3 else lit 6))"

definition board_envelope :: "design \<Rightarrow> (string \<times> box) list" where
  "board_envelope d =
     (''PCB'', (lit 0, lit 0, lit 0, ds_width d, ds_height d, ds_thickness d)) # map (component_box d) (ds_components d)"

definition base_boxes :: "design \<Rightarrow> box list" where
  "base_boxes d =
     (let enclosure_width = flt_add (ds_width d) (lit 8); enclosure_depth = flt_add (ds_height d) (lit 8);
          wall = lit (24/10); ground = lit 3; height = lit 28; inner = flt_sub enclosure_width (flt_mul (lit 2) wall) in
      [(lit 0, lit 0, lit 0, enclosure_width, enclosure_depth, ground),
       (lit 0, lit 0, ground, wall, enclosure_depth, height),
       (flt_sub enclosure_width wall, lit 0, ground, wall, enclosure_depth, height),
       (wall, lit 0, ground, inner, wall, height),
       (wall, flt_sub enclosure_depth wall, ground, inner, wall, height)])"

definition lid_box :: "design \<Rightarrow> flt \<Rightarrow> box" where
  "lid_box d z = (lit 0, lit 0, z, flt_add (ds_width d) (lit 8), flt_add (ds_height d) (lit 8), lit (24/10))"

definition enclosure_boxes :: "design \<Rightarrow> (string \<times> box) list" where
  "enclosure_boxes d =
     map (\<lambda>(index, b). (''base-'' @ digits_of index, b)) (enumerate 0 (base_boxes d)) @ [(''lid-exploded'', lid_box d (lit 40))]"

definition hardware :: "string list \<Rightarrow> path" where "hardware p = ''hardware'' # p"

definition step_output :: "string list \<Rightarrow> (string \<times> box) list \<Rightarrow> path \<times> string" where
  "step_output p boxes = (hardware p, step_content (last p) (step_boxes boxes))"

text \<open>The quotation marks of a drawing are written \<open>~\<close> in its texts here; every margin is 50 and the scale 8.\<close>

definition dq :: "string \<Rightarrow> string" where
  "dq s = map (\<lambda>c. if c = CHR ''~'' then CHR 0x22 else c) s"

definition freecad_macro :: "(flt \<Rightarrow> string) \<Rightarrow> design \<Rightarrow> string" where
  "freecad_macro repr d = text_of_lines
     [''# FreeCAD 1.x parametric rebuild script; generated from hardware/design.json'',
      ''import FreeCAD as App'',
      ''import Part'',
      [],
      dq ''doc = App.newDocument(~IIoT_Enclosure~)'',
      ''width = '' @ repr (flt_add (ds_width d) (lit 8)),
      ''depth = '' @ repr (flt_add (ds_height d) (lit 8)),
      ''wall = '' @ ''2.4'',
      ''floor = '' @ ''3.0'',
      ''height = '' @ ''28.0'',
      ''outer = Part.makeBox(width, depth, height + floor)'',
      ''inner = Part.makeBox(width - 2 * wall, depth - 2 * wall, height + 1, App.Vector(wall, wall, floor))'',
      ''base_shape = outer.cut(inner)'',
      dq ''base = doc.addObject(~PartDesign::Feature~, ~Base~)'',
      dq ''base.Label = ~Parametric enclosure base~'',
      ''base.Shape = base_shape'',
      dq ''lid = doc.addObject(~PartDesign::Feature~, ~Lid~)'',
      dq ''lid.Label = ~Exploded lid~'',
      ''lid.Shape = Part.makeBox(width, depth, 2.4, App.Vector(0, 0, height + 12))'',
      ''doc.recompute()'',
      dq ''doc.saveAs(App.getUserAppDataDir() + ~iiot-enclosure.FCStd~)'',
      dq ''Part.export([base, lid], App.getUserAppDataDir() + ~iiot-enclosure-assembly.step~)'']"

definition geometry_outputs :: "(flt \<Rightarrow> string) \<Rightarrow> design \<Rightarrow> (path \<times> string) list" where
  "geometry_outputs repr d =
     [step_output [''fabrication'', ''iiot-monitor-board-engineering-envelope.step''] (board_envelope d),
      (hardware [''enclosure'', ''iiot-enclosure-base.stl''], stl ''iiot_base'' (base_boxes d)),
      (hardware [''enclosure'', ''iiot-enclosure-lid.stl''], stl ''iiot_lid'' [lid_box d (lit 0)]),
      step_output [''enclosure'', ''iiot-enclosure-assembly.step''] (enclosure_boxes d),
      (hardware [''enclosure'', ''iiot-enclosure.FCMacro''], freecad_macro repr d)]"

definition gerber_header :: "string \<Rightarrow> string list" where
  "gerber_header file_function =
     [''G04 Generated review artifact; NOT RELEASED FOR FABRICATION*'', ''%FSLAX46Y46*%'', ''%MOMM*%'',
      ''%TF.FileFunction,'' @ file_function @ ''*%'', ''%TF.Part,Single*%'', ''%ADD10C,0.200000*%'', ''D10*'']"

definition board_outline :: "design \<Rightarrow> string res" where
  "board_outline d =
     bindE (int_of_flt (flt_mul (ds_width d) (lit 1000000))) (\<lambda>width.
     bindE (int_of_flt (flt_mul (ds_height d) (lit 1000000))) (\<lambda>height.
     let w = str_of_int width; h = str_of_int height in
     Inr (text_of_lines (gerber_header ''Profile,NP''
       @ [''X0Y0D02*'', ''X'' @ w @ ''Y0D01*'', ''X'' @ w @ ''Y'' @ h @ ''D01*'', ''X0Y'' @ h @ ''D01*'', ''X0Y0D01*'', ''M02*'']))))"

definition review_layers :: "(string \<times> string) list" where
  "review_layers =
     [(''iiot-monitor-F_Cu.gtl'', ''Copper,L1,Top''), (''iiot-monitor-B_Cu.gbl'', ''Copper,L2,Bot''),
      (''iiot-monitor-F_Mask.gts'', ''Soldermask,Top''), (''iiot-monitor-B_Mask.gbs'', ''Soldermask,Bot''),
      (''iiot-monitor-F_Silkscreen.gto'', ''Legend,Top'')]"

definition layer_output :: "string \<times> string \<Rightarrow> path \<times> string" where
  "layer_output layer =
     (case layer of (filename, file_function) \<Rightarrow>
       (hardware [''fabrication'', filename],
        text_of_lines (gerber_header file_function @ [''G04 Layer intentionally contains no approved production geometry*'', ''M02*''])))"

definition drill_file :: "design \<Rightarrow> string" where
  "drill_file d =
     join_with [LF] ([''M48'', ''; DRILL file - review only; NOT RELEASED'', ''METRIC,TZ'', ''T1C3.200'', ''%'', ''T1'']
       @ map (\<lambda>(x, y). ''X'' @ fmt_f 3 x @ ''Y'' @ fmt_f 3 y) (ds_mounting_holes d) @ [''M30'', []])"

text \<open>The members in the order of \<open>sort_keys\<close>.\<close>

definition fabrication_status :: "design \<Rightarrow> json" where
  "fabrication_status d = JObj
     [(''fabrication_release_approved'', JBool False),
      (''generated_outputs'', JStr ''review-only geometry generated from hardware/design.json''),
      (''kicad_drc'', JStr ''NOT_RUN_TOOL_UNAVAILABLE''), (''kicad_erc'', JStr ''NOT_RUN_TOOL_UNAVAILABLE''),
      (''required_before_fabrication'', jstrs
         [''import and save the legacy schematic in KiCad 10'',
          ''review symbols, footprints, pin numbers, ratings, and net labels against current datasheets'',
          ''route power, signals, differential bus, and planes'', ''run ERC and DRC with zero unexplained violations'',
          ''regenerate all fabrication and 3D outputs using kicad-cli'', ''independent electrical and safety review'']),
      (''revision'', JStr (ds_revision d)), (''routing_status'', JStr ''UNROUTED_REVIEW_PLACEMENT''), (''schema_version'', JInt 1)]"

definition rule_report :: string where
  "rule_report = text_of_lines
     [''Status: NOT RUN'', ''Tool: kicad-cli 10.0.4'', ''Reason: tool is unavailable in the execution environment.'',
      ''This file is not a passing report and must be replaced by actual tool output.'']"

definition STATUS_PATH :: path where "STATUS_PATH = hardware [''fabrication'', ''fabrication-status.json'']"
definition PROVENANCE_PATH :: path where "PROVENANCE_PATH = hardware [''model-provenance.csv'']"

definition fabrication_outputs :: "(json \<Rightarrow> string) \<Rightarrow> design \<Rightarrow> (path \<times> string) list res" where
  "fabrication_outputs dumps d =
     bindE (board_outline d) (\<lambda>outline.
     Inr ([(hardware [''fabrication'', ''iiot-monitor-Edge_Cuts.gm1''], outline)] @ map layer_output review_layers
       @ [(hardware [''fabrication'', ''iiot-monitor-PTH.drl''], drill_file d),
          (STATUS_PATH, dumps (fabrication_status d) @ [LF]),
          (hardware [''fabrication'', ''erc-report.txt''], rule_report), (hardware [''fabrication'', ''drc-report.txt''], rule_report)]))"

definition placed_box :: "component \<Rightarrow> string list" where
  "placed_box c =
     (let x = flt_add (lit 50) (flt_mul (flt_sub (lit (of_int (cp_x c))) (halved (cp_width c))) (lit 8));
          y = flt_add (lit 50) (flt_mul (flt_sub (lit (of_int (cp_y c))) (halved (cp_height c))) (lit 8));
          w = flt_max (flt_mul (cp_width c) (lit 8)) (lit 12); h = flt_max (flt_mul (cp_height c) (lit 8)) (lit 10) in
      [dq ''<rect x=~'' @ fmt_f 1 x @ dq ''~ y=~'' @ fmt_f 1 y @ dq ''~ width=~'' @ fmt_f 1 w @ dq ''~ height=~'' @ fmt_f 1 h @ dq ''~ fill=~#d7e5dc~ stroke=~#16231c~/>'',
       dq ''<text x=~'' @ fmt_f 1 (flt_add x (lit 2)) @ dq ''~ y=~'' @ fmt_f 1 (flt_add y (flt_min (flt_sub h (lit 2)) (lit 12))) @ dq ''~ fill=~#101915~ font-family=~monospace~ font-size=~9~>'' @ cp_ref c @ ''</text>''])"

definition placement_svg :: "(flt \<Rightarrow> string) \<Rightarrow> design \<Rightarrow> string" where
  "placement_svg repr d =
     (let width = flt_mul (ds_width d) (lit 8); height = flt_mul (ds_height d) (lit 8);
          outer_width = repr (flt_add width (lit 100)); outer_height = repr (flt_add height (lit 120)) in
      text_of_lines
        ([dq ''<svg xmlns=~http://www.w3.org/2000/svg~ width=~'' @ outer_width @ dq ''~ height=~'' @ outer_height @ dq ''~ viewBox=~0 0 '' @ outer_width @ '' '' @ outer_height @ dq ''~>'',
          dq ''<rect width=~100%~ height=~100%~ fill=~#0b1116~/>'',
          dq ''<rect x=~'' @ ''50'' @ dq ''~ y=~'' @ ''50'' @ dq ''~ width=~'' @ repr width @ dq ''~ height=~'' @ repr height @ dq ''~ rx=~8~ fill=~#164d3a~ stroke=~#7ee0b0~ stroke-width=~3~/>'',
          dq ''<text x=~'' @ ''50'' @ dq ''~ y=~28~ fill=~#eef7f1~ font-family=~sans-serif~ font-size=~18~>'' @ ds_title d @ '' '' @ [CHR 0xB7] @ '' '' @ ds_revision d @ '' '' @ [CHR 0xB7] @ '' review placement</text>'']
         @ concat (map placed_box (ds_components d))
         @ [dq ''<text x=~'' @ ''50'' @ dq ''~ y=~'' @ repr (flt_add height (lit 78)) @ dq ''~ fill=~#ffcf70~ font-family=~sans-serif~ font-size=~16~>100 '' @ [CHR 0xD7] @ '' 70 '' @ [CHR 0xD7] @ '' 1.6 mm '' @ [CHR 0xB7] @ '' UNROUTED '' @ [CHR 0xB7] @ '' NOT RELEASED FOR FABRICATION</text>'',
            dq ''<text x=~'' @ ''50'' @ dq ''~ y=~'' @ repr (flt_add height (lit 102)) @ dq ''~ fill=~#ff8f8f~ font-family=~sans-serif~ font-size=~15~>'' @ ds_safety_note d @ ''</text>'',
            ''</svg>'']))"

definition assembly_svg :: "design \<Rightarrow> string" where
  "assembly_svg d = text_of_lines
     [dq ''<svg xmlns=~http://www.w3.org/2000/svg~ width=~960~ height=~600~ viewBox=~0 0 960 600~>'',
      dq ''<rect width=~960~ height=~600~ fill=~#0b1116~/>'',
      dq ''<text x=~50~ y=~42~ fill=~#eef7f1~ font-family=~sans-serif~ font-size=~24~>Parametric enclosure assembly '' @ [CHR 0xB7] @ '' engineering render</text>'',
      dq ''<path d=~M180 330 L600 330 L760 430 L340 430 Z~ fill=~#284b63~ stroke=~#86c5da~ stroke-width=~3~/>'',
      dq ''<path d=~M180 330 L180 490 L340 575 L340 430 Z~ fill=~#183447~ stroke=~#86c5da~ stroke-width=~3~/>'',
      dq ''<path d=~M340 430 L760 430 L760 520 L340 575 Z~ fill=~#1d3f54~ stroke=~#86c5da~ stroke-width=~3~/>'',
      dq ''<path d=~M250 245 L570 245 L695 320 L375 320 Z~ fill=~#19624a~ stroke=~#7ee0b0~ stroke-width=~3~/>'',
      dq ''<text x=~390~ y=~290~ fill=~#eef7f1~ font-family=~sans-serif~ font-size=~18~>PCB 100 '' @ [CHR 0xD7] @ '' 70 mm</text>'',
      dq ''<path d=~M150 90 L630 90 L800 190 L320 190 Z~ fill=~#b9c9d2~ fill-opacity=~0.72~ stroke=~#eef7f1~ stroke-width=~3~/>'',
      dq ''<text x=~350~ y=~145~ fill=~#14212a~ font-family=~sans-serif~ font-size=~18~>Exploded lid</text>'',
      dq ''<line x1=~700~ y1=~200~ x2=~700~ y2=~310~ stroke=~#ffcf70~ stroke-width=~3~ stroke-dasharray=~8 8~/>'',
      dq ''<text x=~720~ y=~260~ fill=~#ffcf70~ font-family=~sans-serif~ font-size=~16~>assembly axis</text>'',
      dq ''<text x=~50~ y=~555~ fill=~#eef7f1~ font-family=~sans-serif~ font-size=~17~>Internal envelope '' @ fmt_f 1 (flt_add (ds_width d) (lit 8)) @ '' '' @ [CHR 0xD7] @ '' '' @ fmt_f 1 (flt_add (ds_height d) (lit 8)) @ '' mm; base wall 2.4 mm; no thermal/IP rating claimed.</text>'',
      ''</svg>'']"

definition drawings :: "(flt \<Rightarrow> string) \<Rightarrow> design \<Rightarrow> (path \<times> string) list" where
  "drawings repr d =
     [(hardware [''fabrication'', ''board-placement-review.svg''], placement_svg repr d),
      (hardware [''enclosure'', ''enclosure-assembly-review.svg''], assembly_svg d)]"

section \<open>Provenance, validation, generation\<close>

definition provenance_header :: "string list" where
  "provenance_header = [''file'', ''applies_to'', ''kind'', ''source'', ''source_url'', ''license'', ''retrieval_date'', ''sha256'']"

definition provenance_row :: "(string \<Rightarrow> string) \<Rightarrow> fs \<Rightarrow> engineering_model \<Rightarrow> string list res" where
  "provenance_row sha256 files m =
     bindE (read_file files (model_path m)) (\<lambda>content.
     Inr [rel_str (model_path m), em_applies_to m, em_kind m, em_source m, em_source_url m, em_license m, em_retrieved m, sha256 content])"

definition write_provenance :: "(string \<Rightarrow> string) \<Rightarrow> engineering_model list \<Rightarrow> fs \<Rightarrow> fs res" where
  "write_provenance sha256 ms files =
     bindE (raise_if (files [''hardware''] \<noteq> Some Dir \<or> files PROVENANCE_PATH = Some Dir) OSError) (\<lambda>_.
     bindE (mapE (provenance_row sha256 files) ms) (\<lambda>rows.
     Inr (write_file PROVENANCE_PATH (concat (map csv_row (provenance_header # rows))) files)))"

definition required_roles :: "string list" where
  "required_roles = [''relay coil driver'', ''flyback'', ''RS-485 transient'', ''termination'', ''decoupling'', ''current shunt'']"

definition complete_procurement :: "component \<Rightarrow> bool" where
  "complete_procurement c =
     list_all (\<lambda>s. str_strip s \<noteq> []) [cp_mpn c, cp_manufacturer c, cp_package c, cp_rating c, cp_role c]"

definition approves :: "json option \<Rightarrow> bool" where
  "approves v = (v \<noteq> Some (JBool False))"

definition status_errors :: "(string \<Rightarrow> json res) \<Rightarrow> fs \<Rightarrow> string list res" where
  "status_errors loads files =
     (if files STATUS_PATH = None then Inr [''fabrication status is missing'']
      else
        bindE (read_text files STATUS_PATH) (\<lambda>content.
        bindE (loads content) (\<lambda>status.
        (case status of
           JObj members \<Rightarrow> Inr (if approves (map_of members ''fabrication_release_approved'')
                                then [''fabrication status incorrectly approves release''] else [])
         | _ \<Rightarrow> Inl AttributeError))))"

text \<open>\<open>row[k]\<close> where the text is used: a cell that the row lacks is \<open>None\<close>, which no path or search accepts.\<close>

definition text_cell :: "string list \<Rightarrow> string list \<Rightarrow> string \<Rightarrow> string res" where
  "text_cell names cells k = bindE (dict_row names cells k) (\<lambda>v. case v of None \<Rightarrow> Inl TypeError | Some s \<Rightarrow> Inr s)"

definition model_errors :: "(string \<Rightarrow> string) \<Rightarrow> fs \<Rightarrow> string list \<Rightarrow> string list \<Rightarrow> string list res" where
  "model_errors sha256 files names cells =
     bindE (text_cell names cells ''file'') (\<lambda>file.
     bindE (case read_file files (parts_of file) of
              Inl _ \<Rightarrow> Inr False
            | Inr content \<Rightarrow> bindE (dict_row names cells ''sha256'') (\<lambda>v. Inr (v = Some (sha256 content)))) (\<lambda>matching.
     bindE (text_cell names cells ''kind'') (\<lambda>kind.
     Inr ((if matching then [] else [''model checksum mismatch: '' @ file])
       @ (if str_contains ''engineering envelope'' kind then [] else [''model kind is not explicit: '' @ file])))))"

definition provenance_errors :: "(string \<Rightarrow> string) \<Rightarrow> fs \<Rightarrow> string list res" where
  "provenance_errors sha256 files =
     (if files PROVENANCE_PATH = None then Inr [''3D model provenance is missing'']
      else
        bindE (read_text files PROVENANCE_PATH) (\<lambda>content.
        case font_table content of (names, rows) \<Rightarrow>
          bindE (mapE (model_errors sha256 files names) rows) (\<lambda>es. Inr (concat es))))"

definition design_errors :: "design \<Rightarrow> string list" where
  "design_errors d =
     (if distinct (map cp_ref (ds_components d)) then [] else [''component references must be unique''])
     @ map ((@) ''missing required role: '')
         (filter (\<lambda>role. \<not> str_contains role (join_with '' '' (map cp_role (ds_components d)))) required_roles)
     @ map (\<lambda>c. cp_ref c @ '' has incomplete procurement metadata'') (filter (\<lambda>c. \<not> complete_procurement c) (ds_components d))
     @ (if approves (ds_release_approved d) then [''unverified A0 hardware must not be fabrication-approved''] else [])"

definition validate :: "(string \<Rightarrow> string) \<Rightarrow> (string \<Rightarrow> json res) \<Rightarrow> design \<Rightarrow> fs \<Rightarrow> string list res" where
  "validate sha256 loads d files =
     bindE (status_errors loads files) (\<lambda>status.
     bindE (provenance_errors sha256 files) (\<lambda>provenance.
     Inr (design_errors d @ status @ provenance)))"

fun write_all :: "(path \<times> string) list \<Rightarrow> fs \<Rightarrow> fs res" where
  "write_all [] files = Inr files"
| "write_all ((p, s) # outputs) files = bindE (write_out p s files) (write_all outputs)"

definition tables_and_kicad :: "(flt \<Rightarrow> string) \<Rightarrow> (json \<Rightarrow> string) \<Rightarrow> design \<Rightarrow> fs \<Rightarrow> fs res" where
  "tables_and_kicad repr dumps d files =
     bindE (write_all [(hardware [''bom'', ''bom.csv''], bom_csv d),
                       (hardware [''fabrication'', ''iiot-monitor-all-pos.csv''], positions_csv d)] files) (\<lambda>files.
     bindE (symbol_library d) (\<lambda>library.
     bindE (write_all [(hardware [''kicad'', ''iiot-monitor-cache.lib''], library),
                       (hardware [''kicad'', ''iiot-monitor.sch''], schematic d)] files) (\<lambda>files.
     bindE (board_file repr d) (\<lambda>board.
     write_all [(hardware [''kicad'', ''iiot-monitor.kicad_pcb''], board),
                (hardware [''kicad'', ''iiot-monitor.kicad_pro''], dumps (kicad_project d) @ [LF])] files))))"

text \<open>\<open>generate\<close>: the files left and the errors of the final validation.\<close>

definition generate ::
  "(flt \<Rightarrow> string) \<Rightarrow> (json \<Rightarrow> string) \<Rightarrow> (string \<Rightarrow> json res) \<Rightarrow> (string \<Rightarrow> string) \<Rightarrow> design \<Rightarrow> fs \<Rightarrow> (fs \<times> string list) res" where
  "generate repr dumps loads sha256 d files =
     bindE (tables_and_kicad repr dumps d files) (\<lambda>files.
     bindE (write_all (map model_output (ds_models d)) files) (\<lambda>files.
     bindE (write_all (geometry_outputs repr d) files) (\<lambda>files.
     bindE (write_provenance sha256 (ds_models d) files) (\<lambda>files.
     bindE (fabrication_outputs dumps d) (\<lambda>outputs.
     bindE (write_all outputs files) (\<lambda>files.
     bindE (write_all (drawings repr d) files) (\<lambda>files.
     bindE (validate sha256 loads d files) (\<lambda>errors. Inr (files, errors)))))))))"

section \<open>The bill of materials lists every part once\<close>

lemma add_reference_mset:
  "mset (concat (map snd (add_reference k r g))) = add_mset r (mset (concat (map snd g)))"
  by (induction k r g rule: add_reference.induct) simp_all

lemma add_reference_keys:
  "map fst (add_reference k r g) = (if k \<in> fst ` set g then map fst g else map fst g @ [k])"
  by (induction k r g rule: add_reference.induct) auto

lemma add_reference_nonempty: "[] \<notin> snd ` set g \<Longrightarrow> [] \<notin> snd ` set (add_reference k r g)"
  by (induction k r g rule: add_reference.induct) auto

definition listed :: "procurement \<Rightarrow> string \<Rightarrow> (procurement \<times> string list) list \<Rightarrow> bool" where
  "listed k r g = (\<exists>rs. (k, rs) \<in> set g \<and> r \<in> set rs)"

lemma add_reference_listed: "listed k' r' (add_reference k r g) \<longleftrightarrow> k' = k \<and> r' = r \<or> listed k' r' g"
  by (induction k r g rule: add_reference.induct) (auto simp: listed_def)

lemma grouped_snoc:
  "grouped_components (cs @ [c]) = add_reference (procurement_of c) (cp_ref c) (grouped_components cs)"
  by (simp add: grouped_components_def)

lemma grouped_components_facts:
  "mset (concat (map snd (grouped_components cs))) = mset (map cp_ref cs)"
  "distinct (map fst (grouped_components cs))" "[] \<notin> snd ` set (grouped_components cs)"
  "listed k r (grouped_components cs) \<longleftrightarrow> (\<exists>c \<in> set cs. procurement_of c = k \<and> cp_ref c = r)"
proof (induction cs rule: rev_induct)
  case Nil
  show "mset (concat (map snd (grouped_components []))) = mset (map cp_ref [])" "distinct (map fst (grouped_components []))"
    "[] \<notin> snd ` set (grouped_components [])"
    "listed k r (grouped_components []) \<longleftrightarrow> (\<exists>c \<in> set []. procurement_of c = k \<and> cp_ref c = r)"
    by (simp_all add: grouped_components_def listed_def)
next
  case (snoc c cs)
  show "mset (concat (map snd (grouped_components (cs @ [c])))) = mset (map cp_ref (cs @ [c]))"
    using snoc.IH(1) by (simp add: grouped_snoc add_reference_mset)
  show "distinct (map fst (grouped_components (cs @ [c])))"
    using snoc.IH(2) unfolding grouped_snoc add_reference_keys by auto
  show "[] \<notin> snd ` set (grouped_components (cs @ [c]))"
    using snoc.IH(3) add_reference_nonempty unfolding grouped_snoc by blast
  show "listed k r (grouped_components (cs @ [c])) \<longleftrightarrow> (\<exists>c \<in> set (cs @ [c]). procurement_of c = k \<and> cp_ref c = r)"
    using snoc.IH(4) unfolding grouped_snoc add_reference_listed by auto
qed

lemma bom_groups_facts:
  "mset (concat (map snd (bom_groups cs))) = mset (map cp_ref cs)"
  "set (bom_groups cs) = set (grouped_components cs)" "distinct (map fst (bom_groups cs))"
proof -
  show "set (bom_groups cs) = set (grouped_components cs)" by (simp add: bom_groups_def)
  have m: "mset (bom_groups cs) = mset (grouped_components cs)" by (simp add: bom_groups_def)
  then have "mset (map fst (bom_groups cs)) = mset (map fst (grouped_components cs))" by (simp only: mset_map)
  then show "distinct (map fst (bom_groups cs))" using grouped_components_facts(2) mset_eq_imp_distinct_iff by blast
  have "mset (concat (map snd gs)) = sum_mset (image_mset (mset \<circ> snd) (mset gs))" for gs :: "(procurement \<times> string list) list"
    by (induction gs) simp_all
  with m grouped_components_facts(1) show "mset (concat (map snd (bom_groups cs))) = mset (map cp_ref cs)" by metis
qed

lemma references_split:
  assumes "rs \<noteq> []" "\<forall>r \<in> set rs. CHR '' '' \<notin> set r"
  shows "split_on (CHR '' '') (join_with '' '' (sort rs)) = sort rs"
proof (rule split_on_join)
  show "sort rs \<noteq> []" using assms(1) by (metis set_empty set_sort)
  show "\<forall>r \<in> set (sort rs). CHR '' '' \<notin> set r" using assms(2) by simp
qed

text \<open>C39: The bill of materials, read back from its file: its rows name each reference of the design exactly once, state how many they name, and give with it the part that the design has under this reference; no part has two rows.\<close>

theorem bom_reads_back:
  assumes refs: "\<forall>c \<in> set (ds_components d). CHR '' '' \<notin> set (cp_ref c)"
  shows "\<exists>rows. csv_reader (bom_csv d) = bom_header # rows
    \<and> mset (concat (map (\<lambda>row. split_on (CHR '' '') (row ! 0)) rows)) = mset (map cp_ref (ds_components d))
    \<and> (\<forall>row \<in> set rows. row ! 1 = str_of_int (int (length (split_on (CHR '' '') (row ! 0)))))
    \<and> (\<forall>c \<in> set (ds_components d). \<exists>row \<in> set rows. cp_ref c \<in> set (split_on (CHR '' '') (row ! 0))
         \<and> take 6 (drop 2 row) = [cp_manufacturer c, cp_mpn c, cp_value c, cp_package c, cp_rating c, cp_role c])
    \<and> distinct (map (\<lambda>row. take 6 (drop 2 row)) rows)"
proof -
  let ?g = "bom_groups (ds_components d)"
  let ?rows = "map bom_row ?g"
  have in_design: "r \<in> set (map cp_ref (ds_components d))" if "g \<in> set ?g" "r \<in> set (snd g)" for g r
  proof -
    have "r \<in># mset (concat (map snd ?g))" using that by auto
    then show ?thesis unfolding bom_groups_facts(1) by simp
  qed
  have split: "split_on (CHR '' '') (bom_row g ! 0) = sort (snd g)" if "g \<in> set ?g" for g
  proof -
    have "snd g \<noteq> []" using that grouped_components_facts(3) bom_groups_facts(2) by (metis imageI)
    moreover have "\<forall>r \<in> set (snd g). CHR '' '' \<notin> set r" using in_design [OF that] refs by auto
    ultimately show ?thesis using references_split by (cases g) (simp add: bom_row_def split: prod.splits)
  qed
  have "csv_reader (bom_csv d) = bom_header # ?rows"
    unfolding bom_csv_def by (rule csv_reader_reads_back) (auto simp: bom_header_def bom_row_def split: prod.splits)
  moreover have "mset (concat (map (\<lambda>row. split_on (CHR '' '') (row ! 0)) ?rows)) = mset (map cp_ref (ds_components d))"
  proof -
    have "mset (concat (map (\<lambda>g. split_on (CHR '' '') (bom_row g ! 0)) gs)) = mset (concat (map snd gs))"
      if "set gs \<subseteq> set ?g" for gs
      using that split by (induction gs) simp_all
    from this [of ?g] show ?thesis by (simp add: comp_def bom_groups_facts(1))
  qed
  moreover have "\<forall>row \<in> set ?rows. row ! 1 = str_of_int (int (length (split_on (CHR '' '') (row ! 0))))"
    using split by (auto simp: bom_row_def split: prod.splits)
  moreover have "\<forall>c \<in> set (ds_components d). \<exists>row \<in> set ?rows. cp_ref c \<in> set (split_on (CHR '' '') (row ! 0))
      \<and> take 6 (drop 2 row) = [cp_manufacturer c, cp_mpn c, cp_value c, cp_package c, cp_rating c, cp_role c]"
  proof
    fix c assume "c \<in> set (ds_components d)"
    then have "listed (procurement_of c) (cp_ref c) (grouped_components (ds_components d))"
      using grouped_components_facts(4) by blast
    then obtain rs where rs: "(procurement_of c, rs) \<in> set ?g" "cp_ref c \<in> set rs" by (auto simp: listed_def bom_groups_facts(2))
    from split [OF rs(1)] rs show "\<exists>row \<in> set ?rows. cp_ref c \<in> set (split_on (CHR '' '') (row ! 0))
      \<and> take 6 (drop 2 row) = [cp_manufacturer c, cp_mpn c, cp_value c, cp_package c, cp_rating c, cp_role c]"
    proof (intro bexI [of _ "bom_row (procurement_of c, rs)"])
      show "bom_row (procurement_of c, rs) \<in> set ?rows" using rs(1) by (simp only: set_map) (rule imageI)
    qed (auto simp: bom_row_def procurement_of_def)
  qed
  moreover have "distinct (map (\<lambda>row. take 6 (drop 2 row)) ?rows)"
  proof -
    let ?f = "\<lambda>k :: procurement. case k of (a, b, c, e, f, h) \<Rightarrow> [a, b, c, e, f, h]"
    have "take 6 (drop 2 (bom_row g)) = ?f (fst g)" for g by (cases g) (simp add: bom_row_def split: prod.splits)
    then have eq: "map (\<lambda>row. take 6 (drop 2 row)) ?rows = map ?f (map fst ?g)" by (simp only: map_map comp_def)
    have "inj ?f" by (rule injI) (auto split: prod.splits)
    then have "inj_on ?f (set (map fst ?g))" by (rule inj_on_subset) simp
    with bom_groups_facts(3) show ?thesis unfolding eq distinct_map [of ?f] by blast
  qed
  ultimately show ?thesis by blast
qed

section \<open>Boxes are closed surfaces\<close>

fun entity_refs :: "step_entity \<Rightarrow> nat list" where
  "entity_refs (Cartesian_point x y z) = []"
| "entity_refs (Poly_loop ps) = ps"
| "entity_refs (Face_outer_bound l) = [l]"
| "entity_refs (Face b) = [b]"
| "entity_refs (Closed_shell fs) = fs"
| "entity_refs (Faceted_brep name s) = [s]"

definition entity :: "step_file \<Rightarrow> nat \<Rightarrow> step_entity option" where
  "entity file n = (if 1 \<le> n \<and> n \<le> length file then Some (file ! (n - 1)) else None)"

definition edges_of :: "'a list \<Rightarrow> ('a \<times> 'a) list" where
  "edges_of ps = zip ps (rotate1 ps)"

text \<open>Every edge belongs to one face, and to a second one in the opposite direction.\<close>

definition closed_surface :: "'a list list \<Rightarrow> bool" where
  "closed_surface loops =
     (let edges = concat (map edges_of loops) in distinct edges \<and> list_all (\<lambda>(a, b). (b, a) \<in> set edges) edges)"

definition face_loop :: "step_file \<Rightarrow> nat \<Rightarrow> nat list \<Rightarrow> bool" where
  "face_loop file f ps =
     (\<exists>b l. entity file f = Some (Face b) \<and> entity file b = Some (Face_outer_bound l) \<and> entity file l = Some (Poly_loop ps))"

fun entity_ok :: "step_file \<Rightarrow> step_entity \<Rightarrow> bool" where
  "entity_ok file (Cartesian_point x y z) = True"
| "entity_ok file (Poly_loop ps) = (\<forall>p \<in> set ps. \<exists>x y z. entity file p = Some (Cartesian_point x y z))"
| "entity_ok file (Face_outer_bound l) = (\<exists>ps. entity file l = Some (Poly_loop ps))"
| "entity_ok file (Face b) = (\<exists>l. entity file b = Some (Face_outer_bound l))"
| "entity_ok file (Closed_shell fs) = (\<exists>loops. list_all2 (face_loop file) fs loops \<and> closed_surface loops)"
| "entity_ok file (Faceted_brep name s) = (\<exists>fs. entity file s = Some (Closed_shell fs))"

definition step_ok :: "step_file \<Rightarrow> bool" where
  "step_ok file = (\<forall>i < length file. entity_ok file (file ! i) \<and> (\<forall>r \<in> set (entity_refs (file ! i)). 1 \<le> r \<and> r \<le> i))"

lemma entity_append: "entity file n = Some e \<Longrightarrow> entity (file @ rest) n = Some e"
  by (auto simp: entity_def nth_append split: if_splits)

lemma entity_block: "j < length new \<Longrightarrow> entity (file @ new) (Suc (length file + j)) = Some (new ! j)"
  by (simp add: entity_def nth_append)

lemma face_loop_append: "face_loop file f ps \<Longrightarrow> face_loop (file @ rest) f ps"
  unfolding face_loop_def using entity_append by blast

lemma entity_ok_append: "entity_ok file e \<Longrightarrow> entity_ok (file @ rest) e"
proof (cases e)
  case (Closed_shell fs)
  assume "entity_ok file e"
  with Closed_shell obtain loops where "list_all2 (face_loop file) fs loops" "closed_surface loops" by auto
  then show ?thesis using list_all2_mono [of "face_loop file" fs loops "face_loop (file @ rest)"] face_loop_append Closed_shell by auto
qed (use entity_append in \<open>fastforce+\<close>)

lemma step_ok_append:
  assumes "step_ok file"
    and "\<And>j. j < length new \<Longrightarrow> entity_ok (file @ new) (new ! j) \<and> (\<forall>r \<in> set (entity_refs (new ! j)). 1 \<le> r \<and> r \<le> length file + j)"
  shows "step_ok (file @ new)"
  unfolding step_ok_def
proof (intro allI impI)
  fix i assume i: "i < length (file @ new)"
  show "entity_ok (file @ new) ((file @ new) ! i) \<and> (\<forall>r \<in> set (entity_refs ((file @ new) ! i)). 1 \<le> r \<and> r \<le> i)"
  proof (cases "i < length file")
    case True
    then show ?thesis using assms(1) by (simp add: step_ok_def nth_append entity_ok_append)
  next
    case False
    with i assms(2) [of "i - length file"] show ?thesis by (simp add: nth_append)
  qed
qed

text \<open>What a box adds to a file of \<open>n\<close> entities.\<close>

definition face_block :: "nat \<Rightarrow> nat \<Rightarrow> nat list \<Rightarrow> step_entity list" where
  "face_block n k q = [Poly_loop (map (\<lambda>i. Suc (n + i)) q), Face_outer_bound (Suc (n + 8 + 3 * k)), Face (Suc (n + 9 + 3 * k))]"

definition box_block :: "nat \<Rightarrow> string \<Rightarrow> box \<Rightarrow> step_entity list" where
  "box_block n name b =
     map (\<lambda>(x, y, z). Cartesian_point x y z) (corners flt_add b)
     @ concat (map (\<lambda>(k, q). face_block n k q) (enumerate 0 quads))
     @ [Closed_shell (map (\<lambda>k. Suc (n + 10 + 3 * k)) [0 ..< 6]), Faceted_brep name (Suc (n + 26))]"

lemma step_box_block: "step_box name b file = file @ box_block (length file) name b"
  by (cases b) (simp add: step_box_def box_block_def face_block_def corners_def quads_def add_entity_def Let_def upt_rec numeral_eq_Suc)

lemma quads_closed: "closed_surface quads" "closed_surface triangle_indices"
  by code_simp+

lemma closed_surface_map:
  assumes "inj f" and "closed_surface loops"
  shows "closed_surface (map (map f) loops)"
proof -
  have e: "edges_of (map f ps) = map (map_prod f f) (edges_of ps)" for ps
    by (simp add: edges_of_def rotate1_map zip_map_map map_prod_def)
  have "concat (map edges_of (map (map f) loops)) = map (map_prod f f) (concat (map edges_of loops))"
    by (simp add: map_concat comp_def e)
  moreover have "inj (map_prod f f)" using assms(1) by (simp add: prod.inj_map)
  ultimately show ?thesis
    using assms(2) unfolding closed_surface_def Let_def
    by (auto simp: distinct_map list_all_iff inj_on_subset [OF _ subset_UNIV] image_iff) force
qed

lemma box_block_parts:
  "length (box_block n name b) = 28"
  "j < 8 \<Longrightarrow> \<exists>x y z. box_block n name b ! j = Cartesian_point x y z"
  "k < 6 \<Longrightarrow> box_block n name b ! (8 + 3 * k) = Poly_loop (map (\<lambda>i. Suc (n + i)) (quads ! k))"
  "k < 6 \<Longrightarrow> box_block n name b ! (9 + 3 * k) = Face_outer_bound (Suc (n + 8 + 3 * k))"
  "k < 6 \<Longrightarrow> box_block n name b ! (10 + 3 * k) = Face (Suc (n + 9 + 3 * k))"
  "box_block n name b ! 26 = Closed_shell (map (\<lambda>k. Suc (n + 10 + 3 * k)) [0 ..< 6])"
  "box_block n name b ! 27 = Faceted_brep name (Suc (n + 26))"
  by (cases b; force simp: box_block_def face_block_def corners_def quads_def upt_rec numeral_eq_Suc less_Suc_eq)+

lemma quads_small: "k < 6 \<Longrightarrow> \<forall>i \<in> set (quads ! k). i < 8" "length quads = 6"
  by (force simp: quads_def numeral_eq_Suc less_Suc_eq)+

lemma index_cases:
  assumes "(j :: nat) < 28"
  obtains "j < 8" | k where "k < 6" "j = 8 + 3 * k" | k where "k < 6" "j = 9 + 3 * k" | k where "k < 6" "j = 10 + 3 * k"
    | "j = 26" | "j = 27"
proof -
  have "j < 8 \<or> j = 26 \<or> j = 27 \<or> (\<exists>k < 6. j = 8 + 3 * k \<or> j = 9 + 3 * k \<or> j = 10 + 3 * k)"
    using assms by presburger
  with that show thesis by blast
qed

lemma box_block_ok:
  assumes "step_ok file"
  shows "step_ok (file @ box_block (length file) name b)"
proof (rule step_ok_append [OF assms])
  let ?new = "box_block (length file) name b"
  let ?file = "file @ ?new"
  note part = box_block_parts [where n = "length file" and name = name and b = b]
  have at: "entity ?file (Suc (length file + j)) = Some (?new ! j)" if "j < 28" for j
    using entity_block [of j ?new "file"] that by (simp add: part)
  have loop: "face_loop ?file (Suc (length file + 10 + 3 * k)) (map (\<lambda>i. Suc (length file + i)) (quads ! k))" if "k < 6" for k
    using at [of "10 + 3 * k"] at [of "9 + 3 * k"] at [of "8 + 3 * k"] part(3-5) [OF that] that
    unfolding face_loop_def by (simp add: add.assoc)
  have loops: "list_all2 (face_loop ?file) (map (\<lambda>k. Suc (length file + 10 + 3 * k)) [0 ..< 6]) (map (map (\<lambda>i. Suc (length file + i))) quads)"
    by (rule list_all2_all_nthI) (use loop quads_small(2) in simp_all)
  fix j assume "j < length ?new"
  then have "j < 28" by (simp add: part)
  then show "entity_ok ?file (?new ! j) \<and> (\<forall>r \<in> set (entity_refs (?new ! j)). 1 \<le> r \<and> r \<le> length file + j)"
  proof (cases rule: index_cases)
    case 1
    then show ?thesis using part(2) [of j] by auto
  next
    case (2 k)
    have "\<exists>x y z. entity ?file (Suc (length file + i)) = Some (Cartesian_point x y z)" if "i \<in> set (quads ! k)" for i
      using at [of i] part(2) [of i] quads_small(1) [OF 2(1)] that by fastforce
    then show ?thesis using part(3) [OF 2(1)] quads_small(1) [OF 2(1)] 2 by auto
  next
    case (3 k)
    then show ?thesis using part(3,4) [OF 3(1)] at [of "8 + 3 * k"] by (simp add: add.assoc)
  next
    case (4 k)
    then show ?thesis using part(4,5) [OF 4(1)] at [of "9 + 3 * k"] by (simp add: add.assoc)
  next
    case 5
    have "closed_surface (map (map (\<lambda>i. Suc (length file + i))) quads)"
      by (rule closed_surface_map [OF _ quads_closed(1)]) (simp add: inj_def)
    with loops show ?thesis by (auto simp: part 5)
  next
    case 6
    then show ?thesis using at [of 26] by (simp add: part)
  qed
qed

fun brep_names :: "step_file \<Rightarrow> string list" where
  "brep_names [] = []"
| "brep_names (Faceted_brep name s # es) = name # brep_names es"
| "brep_names (e # es) = brep_names es"

lemma brep_names_append: "brep_names (xs @ ys) = brep_names xs @ brep_names ys"
  by (induction xs rule: brep_names.induct) simp_all

lemma brep_names_block: "brep_names (box_block n name b) = [name]"
  by (cases b) (simp add: box_block_def face_block_def corners_def quads_def)


text \<open>With exact coordinates the triangles of a box enclose its volume, positively: their normals point outwards.\<close>

definition signed_volume :: "(rat \<times> rat \<times> rat) list \<Rightarrow> rat" where
  "signed_volume t =
     (case (t ! 0, t ! 1, t ! 2) of ((a, b, c), (d, e, f), (g, h, i)) \<Rightarrow>
       a * (e * i - f * h) - b * (d * i - f * g) + c * (d * h - e * g)) / 6"

lemma triangles_enclose_box:
  "sum_list (map (\<lambda>t. signed_volume (map ((!) (corners (+) (x, y, z, dx, dy, dz))) t)) triangle_indices) = dx * dy * dz"
proof -
  have t: "triangle_indices = [[0, 3, 2], [0, 2, 1], [4, 5, 6], [4, 6, 7], [0, 1, 5], [0, 5, 4], [1, 2, 6], [1, 6, 5],
      [2, 3, 7], [2, 7, 6], [3, 0, 4], [3, 4, 7]]"
    by code_simp
  show ?thesis unfolding t corners_def signed_volume_def by (simp add: algebra_simps)
qed

section \<open>Pins and labels\<close>

text \<open>No two labels of a component are at the same point.\<close>

lemma pins_apart:
  assumes "i < n" "j < n" "label_position origin n i = label_position origin n j"
  shows "i = j"
proof -
  have x: "i < half_of n \<longleftrightarrow> j < half_of n" using assms(3) by (simp add: label_position_def split: if_splits)
  have "pin_y n i = pin_y n j" using assms(3) by (simp add: label_position_def split: if_splits)
  then have "side_index n i = side_index n j" by (simp add: pin_y_def)
  with x show ?thesis by (simp add: side_index_def split: if_splits)
qed

text \<open>
  The schematic writes \<open>1 0 0 -1\<close> as the transformation of every symbol, so a pin at \<open>(px, py)\<close> of the
  library is drawn at the symbol's position plus \<open>(px, - py)\<close>, while its label is written at the position
  plus \<open>(px, py)\<close>.
\<close>

definition drawn_at :: "int \<times> int \<Rightarrow> int \<times> int \<Rightarrow> int \<times> int" where
  "drawn_at origin p = (fst origin + 1 * fst p + 0 * snd p, snd origin + 0 * fst p + (- 1) * snd p)"

definition library_pin :: "nat \<Rightarrow> nat \<Rightarrow> int \<times> int" where
  "library_pin n index = (if index < half_of n then - 500 else 500, pin_y n index)"

lemma labels_miss_pins:
  "label_position origin n i \<noteq> drawn_at origin (library_pin n j)"
proof
  assume "label_position origin n i = drawn_at origin (library_pin n j)"
  then have "pin_y n i + pin_y n j = 0"
    by (simp add: label_position_def drawn_at_def library_pin_def split: if_splits)
  then have e: "2 * body_half_height n - 200 = 120 * (int (side_index n i) + int (side_index n j))" by (simp add: pin_y_def)
  have "body_half_height n = 300 \<or> body_half_height n = int (half_of n) * 60" by (simp add: body_half_height_def max_def)
  then show False
  proof
    assume "body_half_height n = 300"
    with e show False by presburger
  next
    assume "body_half_height n = int (half_of n) * 60"
    with e show False by presburger
  qed
qed

end
