(* ===== verification/HardwareLaws.thy ===== *)
theory HardwareLaws
  imports Hardware
begin

text \<open>
  What one run of \<open>generate\<close> leaves behind: its own validation finds the provenance table and the
  release status that it has just written, and finds them in order, so that every error it reports
  is one of the design.
\<close>

section \<open>Writes keep the other files\<close>

lemma read_file_cong: "files' q = files q \<Longrightarrow> read_file files' q = read_file files q"
  by (simp add: read_file_def)

lemma write_out_keeps:
  assumes "write_out p s files = Inr files'"
  shows "files' p = Some (File s)" and "q \<noteq> p \<Longrightarrow> is_file files q \<Longrightarrow> files' q = files q"
proof -
  obtain made where made: "mkdir_exist_ok (butlast p) files = Inr made" and w: "files' = write_file p s made"
    using assms by (auto simp: write_out_def)
  show "files' p = Some (File s)" by (simp add: w write_file_def)
  assume "q \<noteq> p" "is_file files q"
  with made show "files' q = files q" by (auto simp: w write_file_def mkdir_exist_ok_def list_ex_iff)
qed

lemma write_all_keeps:
  "write_all outputs files = Inr files' \<Longrightarrow> q \<notin> fst ` set outputs \<Longrightarrow> is_file files q \<Longrightarrow> files' q = files q"
proof (induction outputs files rule: write_all.induct)
  case (2 p s outputs files)
  then obtain mid where mid: "write_out p s files = Inr mid" "write_all outputs mid = Inr files'" by auto
  from 2 have "q \<noteq> p" by auto
  then have "mid q = files q" using write_out_keeps(2) [OF mid(1)] 2 by blast
  with 2 mid show ?case by (simp add: is_file_def)
qed simp

lemma write_all_writes:
  "write_all outputs files = Inr files' \<Longrightarrow> distinct (map fst outputs) \<Longrightarrow> (p, s) \<in> set outputs \<Longrightarrow> files' p = Some (File s)"
proof (induction outputs files rule: write_all.induct)
  case (2 p' s' outputs files)
  then obtain mid where mid: "write_out p' s' files = Inr mid" "write_all outputs mid = Inr files'" by auto
  show ?case
  proof (cases "(p, s) \<in> set outputs")
    case False
    then have eq: "p = p'" "s = s'" using 2 by auto
    have at: "mid p = Some (File s)" using write_out_keeps(1) [OF mid(1)] eq by simp
    then have "files' p = mid p" using write_all_keeps [OF mid(2), of p] 2 eq by (simp add: is_file_def)
    with at show ?thesis by simp
  qed (use 2 mid in auto)
qed simp

section \<open>The provenance table is found as it was written\<close>

lemma csv_row_no_CR: "\<forall>s \<in> set cells. CR \<notin> set s \<Longrightarrow> CR \<notin> set (csv_row cells)"
proof -
  have f: "CR \<notin> set (csv_field s)" if "CR \<notin> set s" for s using that by (auto simp: csv_field_def)
  have j: "CR \<notin> set (join_with '','' ts)" if "\<forall>t \<in> set ts. CR \<notin> set t" for ts
    using that by (induction "'',''" ts rule: join_with.induct) auto
  assume "\<forall>s \<in> set cells. CR \<notin> set s"
  then show ?thesis using j [of "map csv_field cells"] f by (auto simp: csv_row_def)
qed

lemma parts_of_rel_str:
  assumes "p \<noteq> []" "\<forall>n \<in> set p. n \<noteq> [] \<and> n \<noteq> ''.'' \<and> CHR ''/'' \<notin> set n"
  shows "parts_of (rel_str p) = p"
  using assms by (simp add: parts_of_def rel_str_def split_on_join)

lemma parts_of_facts: "n \<in> set (parts_of s) \<Longrightarrow> n \<noteq> [] \<and> n \<noteq> ''.'' \<and> CHR ''/'' \<notin> set n"
  using split_on_parts_no_sep [of n] by (auto simp: parts_of_def)

definition row_of :: "(string \<Rightarrow> string) \<Rightarrow> engineering_model \<Rightarrow> string \<Rightarrow> string list" where
  "row_of sha256 m content =
     [rel_str (model_path m), em_applies_to m, em_kind m, em_source m, em_source_url m, em_license m, em_retrieved m, sha256 content]"

definition kind_errors :: "engineering_model \<Rightarrow> string list" where
  "kind_errors m =
     (if str_contains ''engineering envelope'' (em_kind m) then [] else [''model kind is not explicit: '' @ rel_str (model_path m)])"

definition line_text :: "string \<Rightarrow> bool" where
  "line_text s = (CR \<notin> set s)"

definition plain_model :: "engineering_model \<Rightarrow> bool" where
  "plain_model m =
     (CHR ''/'' \<notin> set (em_name m)
      \<and> list_all line_text [em_name m, em_applies_to m, em_kind m, em_source m, em_source_url m, em_license m, em_retrieved m])"

lemma dict_row_provenance:
  "dict_row provenance_header (row_of sha256 m content) ''file'' = Inr (Some (rel_str (model_path m)))"
  "dict_row provenance_header (row_of sha256 m content) ''kind'' = Inr (Some (em_kind m))"
  "dict_row provenance_header (row_of sha256 m content) ''sha256'' = Inr (Some (sha256 content))"
  by (simp_all add: dict_row_def provenance_header_def row_of_def lookup_def)

lemma model_path_read: "parts_of (rel_str (model_path m)) = model_path m"
  by (rule parts_of_rel_str) (auto simp: model_path_def dest: parts_of_facts)

lemma model_errors_row:
  assumes "read_file files (model_path m) = Inr content"
  shows "model_errors sha256 files provenance_header (row_of sha256 m content) = Inr (kind_errors m)"
  by (simp add: model_errors_def text_cell_def dict_row_provenance model_path_read assms kind_errors_def)

lemma model_path_plain:
  assumes "plain_model m"
  shows "model_path m = [''hardware'', ''3d-models'', em_name m @ ''.step'']"
proof -
  have "split_on (CHR ''/'') (em_name m @ ''.step'') = [em_name m @ ''.step'']"
    by (rule split_on_no_sep) (use assms in \<open>simp add: plain_model_def\<close>)
  moreover have "em_name m @ ''.step'' \<noteq> ''.''" by (cases "em_name m") auto
  ultimately show ?thesis by (simp add: model_path_def parts_of_def)
qed

lemma row_no_CR:
  assumes "plain_model m" "line_text (sha256 content)"
  shows "CR \<notin> set (csv_row (row_of sha256 m content))"
proof (rule csv_row_no_CR)
  have "CR \<notin> set (rel_str (model_path m))"
    using assms(1) by (simp add: model_path_plain rel_str_def) (simp add: plain_model_def line_text_def)
  then show "\<forall>s \<in> set (row_of sha256 m content). CR \<notin> set s"
    using assms by (simp add: row_of_def plain_model_def line_text_def)
qed

lemma provenance_table:
  assumes "mapE (provenance_row sha256 files) ms = Inr rows"
  shows "list_all2 (\<lambda>m row. \<exists>content. read_file files (model_path m) = Inr content \<and> row = row_of sha256 m content) ms rows"
  using mapE_all [OF assms] by (rule list_all2_mono) (auto simp: provenance_row_def row_of_def)

text \<open>Later writes that leave the models alone do not change the outcome.\<close>

lemma provenance_found:
  assumes written: "write_provenance sha256 ms files = Inr mid"
    and plain: "\<forall>m \<in> set ms. plain_model m" and digest: "\<And>content. line_text (sha256 content)"
    and kept: "files' PROVENANCE_PATH = mid PROVENANCE_PATH" "\<forall>m \<in> set ms. files' (model_path m) = mid (model_path m)"
  shows "provenance_errors sha256 files' = Inr (concat (map kind_errors ms))"
proof -
  obtain rows where rows: "mapE (provenance_row sha256 files) ms = Inr rows"
    and mid: "mid = write_file PROVENANCE_PATH (concat (map csv_row (provenance_header # rows))) files"
    using written by (auto simp: write_provenance_def)
  note table = provenance_table [OF rows]
  let ?text = "concat (map csv_row (provenance_header # rows))"
  have row: "\<exists>m \<in> set ms. \<exists>content. row = row_of sha256 m content" if "row \<in> set rows" for row
    using that table by (auto simp: in_set_conv_nth list_all2_conv_all_nth) (metis nth_mem)
  have cr: "CR \<notin> set (csv_row row)" if "row \<in> set rows" for row
    using row [OF that] row_no_CR plain digest by blast
  have header: "CR \<notin> set (csv_row provenance_header)" by code_simp
  have "CR \<notin> set ?text" using cr header by auto
  then have read: "read_text files' PROVENANCE_PATH = Inr ?text"
    by (simp only: read_text_def read_file_def kept(1) mid write_file_def) (simp add: universal_newlines_id)
  have shape: "\<forall>row \<in> set rows. length row = 8"
    using row by (fastforce simp: row_of_def)
  have "csv_reader ?text = provenance_header # rows"
    by (rule csv_reader_reads_back) (use shape in \<open>auto simp: provenance_header_def\<close>)
  moreover have "filter (\<lambda>r. r \<noteq> []) rows = rows" using shape by (auto simp: filter_id_conv)
  ultimately have font: "font_table ?text = (provenance_header, rows)" unfolding font_table_def by simp
  have other: "model_path m \<noteq> PROVENANCE_PATH" for m by (simp add: model_path_def PROVENANCE_PATH_def hardware_def)
  have "list_all2 (\<lambda>m row. model_errors sha256 files' provenance_header row = Inr (kind_errors m)) ms rows"
  proof (rule list_all2_all_nthI)
    show "length ms = length rows" using table by (rule list_all2_lengthD)
    fix i assume i: "i < length ms"
    then obtain content where c: "read_file files (model_path (ms ! i)) = Inr content" "rows ! i = row_of sha256 (ms ! i) content"
      using table by (auto simp: list_all2_conv_all_nth)
    have "files' (model_path (ms ! i)) = files (model_path (ms ! i))"
      using kept(2) i other by (simp add: mid write_file_def)
    then have "read_file files' (model_path (ms ! i)) = Inr content" using c(1) by (simp add: read_file_def)
    then show "model_errors sha256 files' provenance_header (rows ! i) = Inr (kind_errors (ms ! i))"
      unfolding c(2) by (rule model_errors_row)
  qed
  then have "mapE (model_errors sha256 files' provenance_header) rows = Inr (map kind_errors ms)"
    by (induction rule: list_all2_induct) simp_all
  then show ?thesis using kept(1) read font by (simp add: provenance_errors_def mid write_file_def)
qed

section \<open>The run\<close>

definition review_path :: "path \<Rightarrow> bool" where
  "review_path p = (take 2 p = [''hardware'', ''fabrication''] \<or> take 2 p = [''hardware'', ''enclosure''])"

lemma write_all_append: "write_all (xs @ ys) files = bindE (write_all xs files) (write_all ys)"
proof (induction xs arbitrary: files)
  case (Cons x xs)
  then have "write_all (xs @ ys) = (\<lambda>files. bindE (write_all xs files) (write_all ys))" by (rule ext)
  then show ?case by (cases x) (simp add: bindE_assoc)
qed simp

lemma fabrication_paths:
  assumes "fabrication_outputs dumps d = Inr outputs"
  shows "map fst (outputs @ drawings repr d) = map (\<lambda>f. hardware [''fabrication'', f])
      [''iiot-monitor-Edge_Cuts.gm1'', ''iiot-monitor-F_Cu.gtl'', ''iiot-monitor-B_Cu.gbl'', ''iiot-monitor-F_Mask.gts'',
       ''iiot-monitor-B_Mask.gbs'', ''iiot-monitor-F_Silkscreen.gto'', ''iiot-monitor-PTH.drl'', ''fabrication-status.json'',
       ''erc-report.txt'', ''drc-report.txt'', ''board-placement-review.svg'']
      @ [hardware [''enclosure'', ''enclosure-assembly-review.svg'']]"
    and "(STATUS_PATH, dumps (fabrication_status d) @ [LF]) \<in> set (outputs @ drawings repr d)"
  using assms by (auto simp: fabrication_outputs_def layer_output_def review_layers_def STATUS_PATH_def drawings_def)

lemma fabrication_apart:
  assumes "fabrication_outputs dumps d = Inr outputs"
  shows "distinct (map fst (outputs @ drawings repr d))" "p \<in> fst ` set (outputs @ drawings repr d) \<Longrightarrow> review_path p"
proof -
  show "distinct (map fst (outputs @ drawings repr d))" unfolding fabrication_paths(1) [OF assms] by (simp add: hardware_def)
  assume "p \<in> fst ` set (outputs @ drawings repr d)"
  then have "p \<in> set (map fst (outputs @ drawings repr d))" by (simp only: set_map)
  then show "review_path p" unfolding fabrication_paths(1) [OF assms] by (auto simp: hardware_def review_path_def)
qed

lemma last_steps_validate:
  assumes prov: "write_provenance sha256 (ds_models d) before = Inr mid"
    and out: "fabrication_outputs dumps d = Inr outputs" and w: "write_all (outputs @ drawings repr d) mid = Inr files'"
    and models: "\<forall>m \<in> set (ds_models d). plain_model m" and digest: "\<And>content. line_text (sha256 content)"
    and codec: "line_text (dumps (fabrication_status d))" "loads (dumps (fabrication_status d) @ [LF]) = Inr (fabrication_status d)"
  shows "validate sha256 loads d files' = Inr (design_errors d @ concat (map kind_errors (ds_models d)))"
proof -
  have keeps: "files' q = mid q" if "\<not> review_path q" "is_file mid q" for q
    using write_all_keeps [OF w] fabrication_apart(2) [OF out] that by blast
  obtain rows where rows: "mapE (provenance_row sha256 before) (ds_models d) = Inr rows"
    and mid: "\<exists>t. mid = write_file PROVENANCE_PATH t before"
    using prov by (auto simp: write_provenance_def)
  have "is_file mid (model_path m)" if m: "m \<in> set (ds_models d)" for m
  proof -
    obtain i where "i < length (ds_models d)" "m = ds_models d ! i" using m by (auto simp: in_set_conv_nth)
    then obtain content where "read_file before (model_path m) = Inr content"
      using provenance_table [OF rows] by (auto simp: list_all2_conv_all_nth)
    then show ?thesis using mid by (auto simp: read_file_def is_file_def write_file_def split: option.splits node.splits)
  qed
  then have kept: "\<forall>m \<in> set (ds_models d). files' (model_path m) = mid (model_path m)"
    using keeps by (simp add: review_path_def model_path_def)
  have "files' PROVENANCE_PATH = mid PROVENANCE_PATH"
    by (rule keeps) (use mid in \<open>auto simp: review_path_def PROVENANCE_PATH_def hardware_def is_file_def write_file_def\<close>)
  from provenance_found [OF prov models digest this kept]
  have p: "provenance_errors sha256 files' = Inr (concat (map kind_errors (ds_models d)))" .
  have "files' STATUS_PATH = Some (File (dumps (fabrication_status d) @ [LF]))"
    by (rule write_all_writes [OF w fabrication_apart(1) [OF out] fabrication_paths(2) [OF out]])
  then have "status_errors loads files' = Inr []"
    using codec by (simp add: status_errors_def read_text_def read_file_def universal_newlines_id line_text_def)
      (simp add: fabrication_status_def approves_def)
  with p show ?thesis by (simp add: validate_def)
qed

text \<open>C37: When a run of the generator ends, its own checks of the provenance table and of the release status have passed: what it reports are the errors of the design and the models whose kind is not declared an engineering envelope.\<close>

theorem generated_files_validate:
  assumes "generate repr dumps loads sha256 d files = Inr (files', errors)"
    and "\<forall>m \<in> set (ds_models d). plain_model m" and "\<And>content. line_text (sha256 content)"
    and "line_text (dumps (fabrication_status d))" "loads (dumps (fabrication_status d) @ [LF]) = Inr (fabrication_status d)"
  shows "errors = design_errors d @ concat (map kind_errors (ds_models d))"
proof -
  obtain before mid outputs where "write_provenance sha256 (ds_models d) before = Inr mid"
    "fabrication_outputs dumps d = Inr outputs" "write_all (outputs @ drawings repr d) mid = Inr files'" and v: "validate sha256 loads d files' = Inr errors"
    using assms(1) by (auto simp: generate_def write_all_append)
  from last_steps_validate [of sha256 d before mid dumps outputs repr files' loads, OF this(1,2,3) assms(2-5)] v show ?thesis by simp
qed

section \<open>A run on a tree of directories and their files\<close>

text \<open>Files are three names deep, except the provenance table; directories are above them.\<close>

definition shallow :: "fs \<Rightarrow> bool" where
  "shallow files =
     (\<forall>q. (is_file files q \<longrightarrow> 3 \<le> length q \<or> q = PROVENANCE_PATH) \<and> (files q = Some Dir \<longrightarrow> length q \<le> 2 \<and> q \<noteq> PROVENANCE_PATH))"

definition leaf_path :: "path \<Rightarrow> bool" where
  "leaf_path p = (length p = 3 \<and> hd p = ''hardware'' \<and> butlast p \<noteq> PROVENANCE_PATH)"

lemma write_out_shallow:
  assumes s: "shallow files" and p: "leaf_path p"
  shows "\<exists>files'. write_out p s files = Inr files' \<and> shallow files' \<and> files' [''hardware''] = Some Dir"
proof -
  have short: "length q \<le> 2 \<and> q \<noteq> PROVENANCE_PATH" if "prefix q (butlast p)" for q
  proof
    have l: "length (butlast p) = 2" using p by (simp add: leaf_path_def)
    with prefix_length_le [OF that] show "length q \<le> 2" by simp
    show "q \<noteq> PROVENANCE_PATH"
    proof
      assume q: "q = PROVENANCE_PATH"
      with l have "length q = length (butlast p)" by (simp add: PROVENANCE_PATH_def hardware_def)
      with that have "q = butlast p" by (metis append_eq_conv_conj prefix_def take_all order_refl)
      with p q show False by (simp add: leaf_path_def)
    qed
  qed
  then have none: "\<not> is_file files q" if "prefix q (butlast p)" for q
    using that s unfolding shallow_def by fastforce
  let ?made = "\<lambda>q. if prefix q (butlast p) then Some Dir else files q"
  have made: "mkdir_exist_ok (butlast p) files = Inr ?made"
    using none by (auto simp: mkdir_exist_ok_def list_ex_iff)
  have deep: "\<not> prefix p (butlast p)" using p prefix_length_le [of p "butlast p"] by (auto simp: leaf_path_def)
  then have "?made p \<noteq> Some Dir" using s p unfolding shallow_def leaf_path_def by auto
  then have w: "write_out p s files = Inr (write_file p s ?made)" unfolding write_out_def made by simp
  have "shallow (write_file p s ?made)"
    using s p short unfolding shallow_def is_file_def write_file_def leaf_path_def by (auto split: option.splits node.splits if_splits)
  moreover have "write_file p s ?made [''hardware''] = Some Dir"
    using p by (auto simp: leaf_path_def write_file_def length_Suc_conv numeral_eq_Suc)
  ultimately show ?thesis using w by blast
qed

lemma write_all_shallow:
  "shallow files \<Longrightarrow> list_all leaf_path (map fst outputs)
    \<Longrightarrow> \<exists>files'. write_all outputs files = Inr files' \<and> shallow files' \<and> (outputs \<noteq> [] \<longrightarrow> files' [''hardware''] = Some Dir)"
proof (induction outputs files rule: write_all.induct)
  case (2 p s outputs files)
  then obtain mid where mid: "write_out p s files = Inr mid" "shallow mid" "mid [''hardware''] = Some Dir"
    using write_out_shallow by fastforce
  show ?case
  proof (cases "outputs = []")
    case False
    have rest: "list_all leaf_path (map fst outputs)" using 2 by simp
    from 2(1) [OF mid(2) rest] False mid(1) show ?thesis by auto
  qed (use mid in auto)
qed simp

lemma write_all_files:
  assumes "write_all outputs files = Inr files'" and "is_file files q \<or> q \<in> fst ` set outputs"
  shows "is_file files' q"
  using assms
proof (induction outputs files rule: write_all.induct)
  case (2 p s outputs files)
  then obtain mid where mid: "write_out p s files = Inr mid" "write_all outputs mid = Inr files'" by auto
  have "is_file mid q" if "q = p \<or> is_file files q"
    using write_out_keeps [OF mid(1)] that by (cases "q = p") (auto simp: is_file_def)
  then show ?case using 2 mid by auto
qed simp

lemma provenance_written:
  assumes "shallow files" "files [''hardware''] = Some Dir" "\<forall>m \<in> set ms. is_file files (model_path m)"
  shows "\<exists>files'. write_provenance sha256 ms files = Inr files' \<and> shallow files'"
proof -
  have "\<exists>row. provenance_row sha256 files m = Inr row" if "m \<in> set ms" for m
    using assms(3) that by (fastforce simp: provenance_row_def read_file_def is_file_def split: option.splits node.splits)
  then obtain rows where "mapE (provenance_row sha256 files) ms = Inr rows" using mapE_total by blast
  moreover have "files PROVENANCE_PATH \<noteq> Some Dir" using assms(1) by (auto simp: shallow_def)
  ultimately have "write_provenance sha256 ms files
      = Inr (write_file PROVENANCE_PATH (concat (map csv_row (provenance_header # rows))) files)"
    using assms(2) by (simp add: write_provenance_def)
  moreover have "shallow (write_file PROVENANCE_PATH t files)" for t
    using assms(1) by (auto simp: shallow_def write_file_def is_file_def)
  ultimately show ?thesis by blast
qed

lemma models_leaf: "\<forall>m \<in> set ms. plain_model m \<Longrightarrow> list_all leaf_path (map fst (map model_output ms))"
  by (auto simp: list_all_iff leaf_path_def model_output_def model_path_plain PROVENANCE_PATH_def hardware_def)

lemma outputs_leaf:
  "list_all leaf_path (map fst (geometry_outputs repr d))"
  "fabrication_outputs dumps d = Inr outputs \<Longrightarrow> list_all leaf_path (map fst (outputs @ drawings repr d))"
  using fabrication_paths(1) [of dumps d outputs repr]
  by (simp_all add: geometry_outputs_def step_output_def leaf_path_def PROVENANCE_PATH_def hardware_def)

lemma tables_written:
  assumes "shallow files" "symbol_library d = Inr library" "board_file repr d = Inr board"
  shows "\<exists>files'. tables_and_kicad repr dumps d files = Inr files' \<and> shallow files'"
proof -
  let ?first = "[(hardware [''bom'', ''bom.csv''], bom_csv d), (hardware [''fabrication'', ''iiot-monitor-all-pos.csv''], positions_csv d)]"
  let ?second = "[(hardware [''kicad'', ''iiot-monitor-cache.lib''], library), (hardware [''kicad'', ''iiot-monitor.sch''], schematic d)]"
  let ?third = "[(hardware [''kicad'', ''iiot-monitor.kicad_pcb''], board), (hardware [''kicad'', ''iiot-monitor.kicad_pro''], dumps (kicad_project d) @ [LF])]"
  have l: "list_all leaf_path (map fst ?first)" "list_all leaf_path (map fst ?second)"
    "list_all leaf_path (map fst ?third)"
    by (simp_all add: leaf_path_def PROVENANCE_PATH_def hardware_def)
  obtain f1 where f1: "write_all ?first files = Inr f1" "shallow f1" using write_all_shallow [OF assms(1) l(1)] by blast
  obtain f2 where f2: "write_all ?second f1 = Inr f2" "shallow f2" using write_all_shallow [OF f1(2) l(2)] by blast
  obtain f3 where "write_all ?third f2 = Inr f3" "shallow f3" using write_all_shallow [OF f2(2) l(3)] by blast
  with assms(2,3) f1(1) f2(1) show ?thesis unfolding tables_and_kicad_def by (simp del: write_all.simps)
qed

text \<open>On such a tree a run ends whenever the texts can be formed: every file can be written.\<close>

lemma generation_ends:
  assumes fresh: "shallow files" and models: "\<forall>m \<in> set (ds_models d). plain_model m" and digest: "\<And>content. line_text (sha256 content)"
    and texts: "symbol_library d = Inr library" "board_file repr d = Inr board" "board_outline d = Inr outline"
    and codec: "line_text (dumps (fabrication_status d))" "loads (dumps (fabrication_status d) @ [LF]) = Inr (fabrication_status d)"
  shows "\<exists>files' errors. generate repr dumps loads sha256 d files = Inr (files', errors)"
proof -
  obtain f1 where f1: "tables_and_kicad repr dumps d files = Inr f1" "shallow f1" using tables_written [OF fresh texts(1,2)] by blast
  obtain f2 where f2: "write_all (map model_output (ds_models d)) f1 = Inr f2" "shallow f2"
    using write_all_shallow [OF f1(2) models_leaf [OF models]] by blast
  obtain f3 where f3: "write_all (geometry_outputs repr d) f2 = Inr f3" "shallow f3" "f3 [''hardware''] = Some Dir"
    using write_all_shallow [OF f2(2) outputs_leaf(1)] by (auto simp: geometry_outputs_def)
  have present: "\<forall>m \<in> set (ds_models d). is_file f3 (model_path m)"
    using write_all_files [OF f3(1)] write_all_files [OF f2(1)] by (auto simp: model_output_def image_iff)
  obtain f4 where f4: "write_provenance sha256 (ds_models d) f3 = Inr f4" "shallow f4"
    using provenance_written [OF f3(2,3) present] by blast
  obtain outputs where outputs: "fabrication_outputs dumps d = Inr outputs" using texts(3) by (simp add: fabrication_outputs_def)
  obtain f5 where f5: "write_all (outputs @ drawings repr d) f4 = Inr f5" using write_all_shallow [OF f4(2) outputs_leaf(2) [OF outputs]] by blast
  from last_steps_validate [of sha256 d f3 f4 dumps outputs repr f5 loads, OF f4(1) outputs f5 models digest codec]
  show ?thesis using f1(1) f2(1) f3(1) f4(1) outputs f5 by (auto simp: generate_def write_all_append simp del: write_all.simps)
qed

section \<open>Examples\<close>

definition relay :: component where
  "relay = \<lparr>cp_ref = ''K1'', cp_value = ''G5V-1'', cp_mpn = ''G5V-1-DC5'', cp_manufacturer = ''Omron'', cp_package = ''Relay_THT'',
     cp_role = ''relay coil driver'', cp_rating = ''1 A'', cp_x = 8, cp_y = 10, cp_rotation = 90, cp_width = lit 12,
     cp_height = lit 8, cp_model = Some ''G5V-1'', cp_pins = [(''1'', ''+5V''), (''2'', ''NC'')]\<rparr>"

definition relay_model :: engineering_model where
  "relay_model = \<lparr>em_name = ''G5V-1-envelope'', em_applies_to = ''K1'', em_kind = ''engineering envelope, boxes'', em_source = ''project'',
     em_source_url = ''x'', em_license = ''MIT'', em_retrieved = ''2026-08-11'', em_dimensions = (lit 12, lit 8, lit 6)\<rparr>"

definition carrier :: design where
  "carrier = \<lparr>ds_title = ''Carrier'', ds_revision = ''A0'', ds_author = ''A'', ds_email = ''a@b'', ds_safety_note = ''SELV'',
     ds_release_approved = Some (JBool False), ds_width = lit 100, ds_height = lit 80, ds_thickness = lit (16/10),
     ds_mounting_holes = [(lit 4, lit 4)], ds_nets = [''GND''],
     ds_components = [relay, relay\<lparr>cp_ref := ''R1'', cp_role := ''termination''\<rparr>, relay\<lparr>cp_ref := ''K3''\<rparr>],
     ds_models = [relay_model]\<rparr>"

lemma carrier_outline: "\<exists>outline. board_outline carrier = Inr outline"
proof -
  have "int_of_flt (flt_mul (lit 100) (lit 1000000)) = Inr 100000000" "int_of_flt (flt_mul (lit 80) (lit 1000000)) = Inr 80000000"
    by (simp_all add: of_exact_small rnd_numeral)
  then show ?thesis by (simp add: board_outline_def carrier_def Let_def)
qed

lemma carrier_texts: "\<exists>library. symbol_library carrier = Inr library" "\<exists>board. board_file repr carrier = Inr board"
proof -
  have "\<exists>ss. mapE symbol_definition (first_of_name {} (ds_components carrier)) = Inr ss"
    by (rule mapE_total) (auto simp: carrier_def relay_def symbol_definition_def Let_def split: if_splits)
  then show "\<exists>library. symbol_library carrier = Inr library" by (auto simp: symbol_library_def)
  have pitch: "\<exists>pitch. pad_pitch c = Inr pitch" if "cp_height c = lit 8" "length (cp_pins c) = 2" for c
  proof -
    have "\<exists>q. flt_div (lit 8) (lit 1) = Inr q" by (simp add: of_exact_small rnd_numeral)
    with that show ?thesis by (auto simp: pad_pitch_def)
  qed
  have "\<exists>fs. mapE (footprint (net_numbers carrier)) (ds_components carrier) = Inr fs"
    by (rule mapE_total) (use pitch in \<open>auto simp: carrier_def relay_def footprint_def pad_lines_def Let_def\<close>)
  then show "\<exists>board. board_file repr carrier = Inr board" by (auto simp: board_file_def)
qed

theorem generated_files_validate_witness:
  "\<exists>files'. generate (\<lambda>_. ''1'') (\<lambda>_. ''{}'') (\<lambda>_. Inr (fabrication_status carrier)) (\<lambda>_. ''d'') carrier Map.empty
     = Inr (files', map ((@) ''missing required role: '') [''flyback'', ''RS-485 transient'', ''decoupling'', ''current shunt''])"
proof -
  have models: "\<forall>m \<in> set (ds_models carrier). plain_model m"
    by (simp add: carrier_def relay_model_def plain_model_def line_text_def)
  have shallow: "shallow Map.empty" by (simp add: shallow_def is_file_def)
  have digest: "line_text ((\<lambda>_. ''d'') content)" "line_text ((\<lambda>_. ''{}'') status)" for content :: string and status :: json
    by (simp_all add: line_text_def)
  from carrier_texts carrier_outline obtain files' errors where
    g: "generate (\<lambda>_. ''1'') (\<lambda>_. ''{}'') (\<lambda>_. Inr (fabrication_status carrier)) (\<lambda>_. ''d'') carrier Map.empty = Inr (files', errors)"
    using generation_ends [OF shallow models digest(1) _ _ _ digest(2), where loads = "\<lambda>_. Inr (fabrication_status carrier)"] by blast
  have "errors = design_errors carrier @ concat (map kind_errors (ds_models carrier))"
    by (rule generated_files_validate [OF g models digest(1) digest(2)]) simp
  moreover have "concat (map kind_errors (ds_models carrier)) = []" by (simp add: carrier_def relay_model_def kind_errors_def starts_with_def)
  moreover have "map cp_role (ds_components carrier) = [''relay coil driver'', ''termination'', ''relay coil driver'']"
    "map cp_ref (ds_components carrier) = [''K1'', ''R1'', ''K3'']" "ds_release_approved carrier = Some (JBool False)"
    by (simp_all add: carrier_def relay_def)
  moreover have "list_all (\<lambda>s. str_strip s \<noteq> []) [''G5V-1-DC5'', ''Omron'', ''Relay_THT'', ''1 A'', ''relay coil driver'', ''termination'']"
    by code_simp
  then have "list_all complete_procurement (ds_components carrier)" by (simp add: carrier_def relay_def complete_procurement_def)
  moreover have "filter (\<lambda>role. \<not> str_contains role (join_with '' '' [''relay coil driver'', ''termination'', ''relay coil driver'']))
      required_roles = [''flyback'', ''RS-485 transient'', ''decoupling'', ''current shunt'']" by code_simp
  ultimately have "errors = map ((@) ''missing required role: '') [''flyback'', ''RS-485 transient'', ''decoupling'', ''current shunt'']"
    unfolding design_errors_def by (simp add: approves_def list_all_iff)
  with g show ?thesis by blast
qed

theorem bom_reads_back_witness:
  "\<exists>rows. csv_reader (bom_csv carrier) = bom_header # rows
     \<and> mset (concat (map (\<lambda>row. split_on (CHR '' '') (row ! 0)) rows)) = {#''K1'', ''R1'', ''K3''#}"
  using bom_reads_back [of carrier] by (auto simp: carrier_def relay_def)

end
