(* ===== verification/Spec2Isabelle.thy ===== *)
theory Spec2Isabelle
  imports Responses Gateway Modbus Pipeline Migrations HardwareLaws
begin

text \<open>
  A model of the industrial IoT monitoring platform, and what makes it correct.

  \<^bold>\<open>The program.\<close> A motor's sensors are sampled by a gateway (here the simulated one under
  \<open>simulator/\<close>), which publishes readings, health and acknowledgements over MQTT. The ingestor
  (\<open>services/mqtt_ingestor\<close>) validates each message against its contract and stores it with
  \<open>services/api/app/ingestion.py\<close>, which also runs the threshold alarms. The API
  (\<open>services/api/app\<close>) serves devices, readings, alarms, calibrations, maintenance and
  thresholds, issues relay commands and pushes live updates. The anomaly worker
  (\<open>services/anomaly_worker\<close>) derives features from stored readings, checks them for sensor
  failures, trains and loads models, and scores the backlog. The processes share one
  relational store and nothing else; the gateway is reached through the broker only.

  \<^bold>\<open>The theories\<close>, each with the source it models, in the order in which they build on one another.
  \<^item> \<open>Prelude\<close>, \<open>Texts\<close>, \<open>PyFloat\<close>, \<open>Formats\<close>, \<open>Calendar\<close>: what Python provides. Exceptions are values
    (\<open>exc\<close>) and a fallible function returns \<open>exc + 'a\<close>, sequenced by \<open>bindE\<close>; text is a list of
    characters; a float is a binary64 value with explicit rounding; times are microseconds,
    naive or aware.
  \<^item> \<open>Topics\<close> (\<open>contracts/mqtt_topics.py\<close>), \<open>Schemas\<close> (\<open>schemas.py\<close>, \<open>settings.py\<close>): the contracts as
    records with executable validity predicates, and the configuration.
  \<^item> \<open>Store\<close> (\<open>models.py\<close>): a record of tables, each the list of its rows; \<open>Alarms\<close>, \<open>Ingestion\<close>,
    \<open>IngestionLaws\<close> (\<open>ingestion.py\<close>, \<open>events.py\<close>): the transactions, with their constraints, and what
    redelivery, races and other sessions do to them; \<open>Ingestor\<close> (\<open>mqtt_ingestor/main.py\<close>): decoding,
    the message handler and the client callbacks as a step relation.
  \<^item> \<open>Commands\<close> (\<open>command_service.py\<close>), \<open>Security\<close> (\<open>security.py\<close>, \<open>seed.py\<close>), \<open>Live\<close> (\<open>live.py\<close> and the
    WebSocket), \<open>ApiViews\<close>, \<open>Api\<close>, \<open>ApiLaws\<close> (\<open>main.py\<close> of the API): one definition per handler, and
    \<open>handle\<close>, which authenticates and validates as the framework does.
  \<^item> \<open>Features\<close>, \<open>SensorRules\<close>, \<open>Modeling\<close>, \<open>Artifacts\<close>, \<open>Worker\<close>, \<open>WorkerLaws\<close>
    (\<open>services/anomaly_worker\<close>): feature windows, rules, training, scoring, artifacts with their
    integrity checks, and the scoring pass of a device with its commit.
  \<^item> \<open>Evaluation\<close> (\<open>evaluation.py\<close>) and \<open>DemoData\<close> (\<open>demo_data.py\<close>, \<open>main.py\<close> of the worker): the
    comparison of both detectors, the synthetic fixtures, and the worker's polling loop.
  \<^item> \<open>Simulator\<close>, \<open>Gateway\<close>, \<open>Modbus\<close> (\<open>simulator/\<close>): the scenarios, the gateway with its relay, and the
    Modbus node with its checksum.
  \<^item> \<open>Platform\<close>: ingestor, API and worker on one store, in any order; \<open>Responses\<close> (the views of
    \<open>schemas.py\<close>): what the API answers in every state that the platform reaches.
  \<^item> \<open>Migrations\<close> (\<open>services/api/alembic/versions\<close>): the schema migrations as lists of DDL operations
    against the schema that \<open>models.py\<close> declares.
  \<^item> \<open>Licenses\<close> (\<open>scripts/check_dependency_licenses.py\<close>): the gate on locked dependencies.
  \<^item> this theory: a relay command from the operator to the relay and back.

  \<^bold>\<open>How state and operations correspond.\<close> A mapped class is a record whose fields carry the
  column's name behind a prefix (\<open>tel_\<close>, \<open>alm_\<close>, \<open>cmd_\<close>); a dictionary is an association list or a
  map; a raise, a panic or an early return is a branch that yields \<open>Inl\<close>. An operation that
  commits returns the new store, and one that fails leaves it, as a rolled-back session does;
  what is committed twice (a command, the rows of each device of a worker run) is modelled as
  two commits, with what other sessions do in between as a parameter. Clock readings are
  arguments: \<open>clk k\<close> is the \<open>k\<close>-th reading in the operation. A query is a list operation that
  orders ties by insertion, which SQL leaves open.

  \<^bold>\<open>What the groups of lemmas show.\<close> Invariants: every operation, every reachable state of the
  ingestor and every run of the platform keeps the store consistent (keys, references, at most
  one active alarm per device and code), the views valid, the thresholds ordered, commands
  within their life cycle, calibrations in an unbroken chain. Refinement: the threshold engine
  implements a latch with hysteresis (\<open>alarm_latch\<close>, also instantiated for the worker's alarms).
  Ordering: redelivery (\<open>redelivery\<close>) is absorbed; a pass takes the oldest rows; the gateway's
  callbacks interleave with its loop statement by statement, and the theorems separate what
  holds in every interleaving from what needs atomic turns. Totality: the message handler, a
  scoring pass and the demonstration return. Round trips: artifacts, Modbus frames, CSV,
  migrations, the license inventory. Each locale is an interface of the code (\<open>keyed_store\<close>,
  \<open>invariant_rows\<close>, \<open>alarm_latch\<close>, \<open>redelivery\<close>, \<open>request_invariant\<close>) and is interpreted on the model.
  Some theorems show what goes wrong: the findings that the manifest lists.

  \<^bold>\<open>Parameters.\<close> Code outside the repository is an argument: JSON parsing and pydantic's
  conversion (\<open>decoder\<close>, \<open>codec\<close>), rendering of floats and datetimes (\<open>runtime\<close>), argon2 and JWT
  (\<open>crypto\<close>), NumPy, scikit-learn and joblib (\<open>numpy\<close>, the learner's record, \<open>codec\<close>), the sine, the random
  generator and UUIDs of the simulator (\<open>sim_lib\<close>), the broker's client (\<open>env_publish\<close>). Hypotheses
  about them are named predicates that state documented behaviour (\<open>lib_ok\<close>, \<open>learner_ok\<close>,
  \<open>numpy_ok\<close>, \<open>answers\<close>, \<open>reads_back\<close>, \<open>jwt_accepts_until_expiry\<close>), and each has a concrete instance that
  a witness uses.

  \<^bold>\<open>Bounds.\<close> No definition uses fuel: every recursion is structural or has a measure. Integers
  that Python keeps unbounded are \<open>int\<close>; column widths (32 and 64 bit) are checked where a flush
  checks them; Modbus bytes are machine words, while checksums and register values are Python integers shown to stay below \<open>2 ^ 16\<close>. Counts entering floats are
  below \<open>2 ^ 53\<close> where exactness is claimed. A scoring pass handles 500 rows, as the code does.

  \<^bold>\<open>Not modelled.\<close> Transport and process plumbing (the network loops of MQTT, WebSocket and
  HTTP, asyncio scheduling, engine and session construction in \<open>database.py\<close>, logging, argument
  parsing, signals), text outside Latin-1, column defaults in DDL, and the scripts that only
  drive other tools or write documents (\<open>build_reports.py\<close>, \<open>generate_hardware_artifacts.py\<close>,
  \<open>verify_reports.py\<close>, \<open>check_repository_hygiene.py\<close>, \<open>compose_smoke.py\<close>): they compute layouts and
  search patterns for PDF, CAD and repository files. The firmware (C) and the dashboard
  (TypeScript) are separate programs in other languages.
\<close>

section \<open>A relay command from the operator to the relay and back\<close>

lemma gateway_ids: "identifier_ok SITE_ID" "identifier_ok DEVICE_ID" 
  by code_simp+

lemma gateway_acks_topic: "parse_topic (gateway_topic COMMAND_ACKS)
    = Inr \<lparr>pt_site_id = SITE_ID, pt_device_id = DEVICE_ID, pt_kind = COMMAND_ACKS\<rparr>"
  by code_simp

lemma ack_event_small:
  assumes "length (ca_device_id e) \<le> 63" and "length (cmd_command_id c) \<le> 36" and "length (ca_result_code e) \<le> 48"
  shows "\<not> event_too_large rt (ack_event e c)"
proof -
  have "length (json_string (ca_device_id e)) \<le> 380" "length (json_string (cmd_command_id c)) \<le> 218"
    "length (json_string (ca_result_code e)) \<le> 290"
    using json_string_max [of "ca_device_id e"] json_string_max [of "cmd_command_id c"]
      json_string_max [of "ca_result_code e"] assms by linarith+
  moreover have "length (ack_status_str (ca_status e)) \<le> 9" by (cases "ca_status e") simp_all
  then have "length (json_string (ack_status_str (ca_status e))) \<le> 56"
    using json_string_max [of "ack_status_str (ca_status e)"] by linarith
  ultimately show ?thesis
    using json_string_max [of "''type''"] json_string_max [of "''command_ack''"] json_string_max [of "''device_id''"]
      json_string_max [of "''command_id''"] json_string_max [of "''status''"] json_string_max [of "''result_code''"]
      json_string_max [of "''relay_on''"]
    by (simp add: event_too_large_def ack_event_def)
qed

text \<open>The acknowledgement that the gateway publishes, as the ingestor's model reads it.\<close>

definition ack_envelope :: "reading \<Rightarrow> string \<Rightarrow> bool \<Rightarrow> command_ack_envelope" where
  "ack_envelope rd cid on =
     \<lparr>ca_schema_version = 1, ca_message_id = rd_uuid rd, ca_command_id = cid, ca_site_id = SITE_ID, ca_device_id = DEVICE_ID,
      ca_device_time = Some (Aware (rd_sent_at rd)), ca_status = Completed,
      ca_result_code = (if on then ''RELAY_ON'' else ''RELAY_OFF''), ca_detail = None, ca_relay_on = on\<rparr>"

lemma fresh_command_is_switched:
  assumes "ge_json_loads env payload = Inr (command_payload cid v actor r issued expires)"
    and "ge_fromisoformat env (replace_z (isoformat_z expires)) = Inr (Aware expires)"
    and "ge_read_relay env (JObj (relay_parameters r)) = Some r" and "relay_command_create_ok r"
    and "dev_id v = DEVICE_ID" "dev_site_id v = SITE_ID" and "now < expires"
  shows "read_command env now payload = Inr (cid, Switch r)"
  using assms
  by (simp add: read_command_def command_payload_def judge_command_def expired_def item_def lookup_def validated_def)

lemma published_command:
  assumes "issue_relay_command publish (\<lambda>s. s) clk cid v actor r cfg d = Inr (d1, c)"
    and "\<And>p. publish p = None" and "topic (dev_site_id v) (dev_id v) COMMANDS = Inr t"
  shows "get_command cid d1 = Some c \<and> cmd_status c = ''published'' \<and> cmd_command_id c = cid
     \<and> cmd_device_id c = dev_id v \<and> cmd_acknowledged_at c = None"
proof -
  have c: "c = (queued_command cid v actor r (clk 0))\<lparr>cmd_status := ''published''\<rparr>" and g: "get_command cid d1 = Some c"
    using assms
    by (auto simp: issue_relay_command_def queue_command_Inr Let_def command_publication_def commands.get_put get_queued)
  show ?thesis unfolding g by (simp add: c queued_command_def)
qed

lemma ack_is_stored:
  assumes "get_command (ca_command_id e) d = Some c" and "cmd_device_id c = ca_device_id e" and "cmd_acknowledged_at c = None"
    and "\<not> event_too_large rt (ack_event e c)" and "cmd_command_id c = ca_command_id e"
  obtains d' where "persist_command_ack rt clk e d = Inr (d', \<lparr>pr_status = Inserted, pr_message_id = ca_message_id e\<rparr>)"
    "get_command (ca_command_id e) d' = Some (command_after_ack e (Aware (clk 0)) c)"
proof -
  obtain a where r: "persist_command_ack rt clk e d = Inr (with_event rt (ack_event e c)
      (add_audit (ca_device_id e) ''command_acknowledged'' ''device_command'' (cmd_command_id c) a (Aware (clk 1))
        (put_command (ca_command_id e) (command_after_ack e (Aware (clk 0))) d)),
      \<lparr>pr_status = Inserted, pr_message_id = ca_message_id e\<rparr>)"
    using assms by (simp add: persist_command_ack_def notify_eq)
  show thesis
    by (rule that [OF r]) (use assms in \<open>simp add: commands.get_put\<close>)
qed

text \<open>C2: A relay command makes its round trip: issued through the API and handed to the broker, delivered to the gateway before it expires, it switches the relay and is answered by one acknowledgement, and when the ingestor receives that acknowledgement the command ends as completed with the relay's result.\<close>

theorem relay_command_round_trip:
  fixes rd :: reading
  assumes issued: "issue_relay_command publish (\<lambda>s. s) clk cid v actor r cfg d = Inr (d1, c)"
    and broker: "\<And>p. publish p = None" and request: "relay_command_create_ok r" and uuid: "length cid \<le> 36"
    and own: "dev_id v = DEVICE_ID" "dev_site_id v = SITE_ID"
    and json: "ge_json_loads env payload
        = Inr (command_payload cid v actor r (clk 0) (clk 0 + seconds (min (rc_timeout_s r) 10)))"
    and iso: "ge_fromisoformat env (replace_z (isoformat_z (clk 0 + seconds (min (rc_timeout_s r) 10))))
        = Inr (Aware (clk 0 + seconds (min (rc_timeout_s r) 10)))"
    and params: "ge_read_relay env (JObj (relay_parameters r)) = Some r"
    and in_time: "rd_now rd < clk 0 + seconds (min (rc_timeout_s r) 10)"
    and ack: "read_command_ack dec ack_bytes = Some (ack_envelope rd cid (rc_relay_on r))"
    and size: "length ack_bytes \<le> MAX_PAYLOAD_BYTES"
  shows "\<exists>g' d2 c'. gw_on_message env rd payload g = Inr g'
     \<and> gw_relay_on g' = rc_relay_on r
     \<and> gw_published g' = gw_published g @ [acknowledgement env rd cid ''completed''
          (if rc_relay_on r then ''RELAY_ON'' else ''RELAY_OFF'') (rc_relay_on r)]
     \<and> handle_message rt dec clk' (gateway_topic COMMAND_ACKS) ack_bytes d1 = Inr (d2, ''inserted'')
     \<and> get_command cid d2 = Some c' \<and> cmd_status c' = ''completed''
     \<and> cmd_result_code c' = Some (if rc_relay_on r then ''RELAY_ON'' else ''RELAY_OFF'')
     \<and> cmd_acknowledged_at c' = Some (Aware (clk' 0))"
proof -
  let ?e = "ack_envelope rd cid (rc_relay_on r)"
  have read: "read_command env (rd_now rd) payload = Inr (cid, Switch r)"
    using fresh_command_is_switched [OF json iso params request own in_time] .
  have gw: "gw_on_message env rd payload g = Inr (fold (perform env) (verdict_actions rd cid (Switch r)) g)"
    by (simp only: gw_on_message_def message_actions_def read sum.case prod.case bindE_simps)
  have "topic (dev_site_id v) (dev_id v) COMMANDS = Inr (gateway_topic COMMANDS)"
    unfolding own by code_simp
  from published_command [OF issued broker this]
  have c: "get_command cid d1 = Some c" "cmd_command_id c = cid" "cmd_device_id c = DEVICE_ID" "cmd_acknowledged_at c = None"
    using own by simp_all
  have eok: "command_ack_envelope_ok ?e"
    using gateway_ids by (simp add: command_ack_envelope_ok_def ack_envelope_def opt_max_length_def result_code_ok.simps
        upper_ascii_def code_tail_def digit_ascii_def)
  have decoded: "decode_command_ack dec (gateway_topic COMMAND_ACKS) ack_bytes = Inr ?e"
    using ack size eok by (simp add: decode_command_ack_def gateway_acks_topic validated_def same_identity_def ack_envelope_def)
  have small: "\<not> event_too_large rt (ack_event ?e c)"
    using uuid by (intro ack_event_small) (simp_all add: ack_envelope_def c DEVICE_ID_def)
  have known: "get_command (ca_command_id ?e) d1 = Some c" "cmd_device_id c = ca_device_id ?e" "cmd_command_id c = ca_command_id ?e"
    using c(1-3) by (simp_all add: ack_envelope_def)
  obtain d2 where d2: "persist_command_ack rt clk' ?e d1 = Inr (d2, \<lparr>pr_status = Inserted, pr_message_id = rd_uuid rd\<rparr>)"
    and c2: "get_command cid d2 = Some (command_after_ack ?e (Aware (clk' 0)) c)"
    using ack_is_stored [OF known(1,2) c(4) small known(3), of clk'] by (auto simp: ack_envelope_def)
  have "handle_message rt dec clk' (gateway_topic COMMAND_ACKS) ack_bytes d1 = Inr (d2, ''inserted'')"
    by (simp add: handle_message_def persist_message_def gateway_acks_topic decoded d2)
  with gw c2 show ?thesis
    by (intro exI [of _ "fold (perform env) (verdict_actions rd cid (Switch r)) g"] exI [of _ d2]
        exI [of _ "command_after_ack ?e (Aware (clk' 0)) c"]) (simp add: command_after_ack_def ack_envelope_def)
qed

theorem relay_command_round_trip_witness:
  "\<exists>d1 c g' d2. sample_issue (\<lambda>_. None) (\<lambda>s. s) = Inr (d1, c)
     \<and> gw_on_message (demo_env (command_payload ''c1'' sample_device ''admin'' demo_switch 0 10000000)) (demo_reading (Fin 0)) []
         (new_gateway still_lib (Fin 0) 0) = Inr g' \<and> gw_relay_on g'
     \<and> handle_message sample_runtime ((sample_decoder 0)\<lparr>read_command_ack := (\<lambda>_. Some (ack_envelope (demo_reading (Fin 0)) ''c1'' True))\<rparr>)
         (\<lambda>_. 1) (gateway_topic COMMAND_ACKS) [] d1 = Inr (d2, ''inserted'')"
proof -
  obtain d1 c where ok: "sample_issue (\<lambda>_. None) (\<lambda>s. s) = Inr (d1, c)"
    by (simp add: issue_relay_command_def queue_command_def sample_device_id Let_def)
  let ?env = "demo_env (command_payload ''c1'' sample_device ''admin'' demo_switch 0 10000000)"
  let ?dec = "(sample_decoder 0)\<lparr>read_command_ack := (\<lambda>_. Some (ack_envelope (demo_reading (Fin 0)) ''c1'' True))\<rparr>"
  have ten: "(0::int) + seconds (min (rc_timeout_s sample_request) 10) = 10000000" by (simp add: seconds_def)
  have req: "relay_command_create_ok sample_request" by (simp add: relay_command_create_ok_def)
  have ids: "dev_id sample_device = DEVICE_ID" "dev_site_id sample_device = SITE_ID"
    by (simp_all add: sample_device_id DEVICE_ID_def SITE_ID_def)
  have json: "ge_json_loads ?env [] = Inr (command_payload ''c1'' sample_device ''admin'' sample_request 0
      (0 + seconds (min (rc_timeout_s sample_request) 10)))"
    unfolding ten by (simp add: demo_env_def demo_switch_def)
  have iso: "ge_fromisoformat ?env (replace_z (isoformat_z (0 + seconds (min (rc_timeout_s sample_request) 10))))
      = Inr (Aware (0 + seconds (min (rc_timeout_s sample_request) 10)))"
    unfolding ten by (simp add: demo_env_def)
  have params: "ge_read_relay ?env (JObj (relay_parameters sample_request)) = Some sample_request"
    by (simp add: demo_env_def demo_switch_def)
  have time: "rd_now (demo_reading (Fin 0)) < 0 + seconds (min (rc_timeout_s sample_request) 10)"
    unfolding ten by (simp add: demo_reading_def)
  have ack: "read_command_ack ?dec [] = Some (ack_envelope (demo_reading (Fin 0)) ''c1'' (rc_relay_on sample_request))" by simp
  have "length ''c1'' \<le> 36" "length ([] :: bytes) \<le> MAX_PAYLOAD_BYTES" by simp_all
  from relay_command_round_trip [OF ok refl req this(1) ids json iso params time ack this(2),
      of "new_gateway still_lib (Fin 0) 0" sample_runtime "\<lambda>_. 1"]
  show ?thesis using ok by auto
qed

end
